(* ===== verification/Prelude.thy ===== *)
theory Prelude
  imports Main "HOL-Library.Word" "HOL-Library.Char_ord" "HOL-Library.List_Lexorder"
    "HOL-Library.Multiset" "HOL-Library.Finite_Map"
begin

text \<open>
  Shared vocabulary of the development.

  Go values are read as follows.  A \<open>uuid.UUID\<close> (16 bytes, compared bytewise) is a
  128-bit word; a \<open>time.Time\<close> is an instant, an integer number of nanoseconds since
  Go's zero time, so that \<open>IsZero\<close> is comparison with 0 and \<open>UTC\<close> is the
  identity; a \<open>time.Duration\<close> is an integer number of nanoseconds; a Go string is a
  list of bytes.  A function that returns \<open>(T, error)\<close> returns a sum: \<open>Inl\<close> is the
  error, \<open>Inr\<close> the value.  \<open>sbind\<close> is the early return on \<open>err != nil\<close>.

  The theory also holds the parts of Go's standard library that the modelled code
  calls (integer conversions, \<open>strings.TrimSpace\<close>, \<open>strings.ContainsAny\<close>,
  decimal printing, \<open>sort.Slice\<close> by a key) and the generic lemmas on sums, lists and
  sorting that the component theories share.
\<close>

named_theorems go_simps \<open>unfolding rules of the standard-library models\<close>
named_theorems err_elims \<open>inversion rules for operations that may fail\<close>

section \<open>Scalar types\<close>

type_synonym uuid = "128 word"
type_synonym gotime = int
type_synonym duration = int
type_synonym digest = string
type_synonym uint32 = "32 word"
type_synonym uint64 = "64 word"

abbreviation uuid_nil :: uuid where "uuid_nil \<equiv> 0"
abbreviation (input) is_zero_time :: "gotime \<Rightarrow> bool" where "is_zero_time t \<equiv> t = 0"
abbreviation (input) after :: "gotime \<Rightarrow> gotime \<Rightarrow> bool" where "after a b \<equiv> b < a"

abbreviation int64_max :: int where "int64_max \<equiv> 9223372036854775807"
abbreviation int64_min :: int where "int64_min \<equiv> - 9223372036854775808"
abbreviation uint64_max :: int where "uint64_max \<equiv> 18446744073709551615"
abbreviation int32_max :: int where "int32_max \<equiv> 2147483647"
abbreviation int32_min :: int where "int32_min \<equiv> - 2147483648"
abbreviation uint32_max :: int where "uint32_max \<equiv> 4294967295"

text \<open>Go's integer conversions keep the low bits: to an unsigned type of \<open>w\<close> bits the
  value modulo \<open>2 ^ w\<close>, to a signed one its two's complement reading.\<close>

definition to_uint :: "nat \<Rightarrow> int \<Rightarrow> int" where
  "to_uint w x = take_bit w x"

definition to_sint :: "nat \<Rightarrow> int \<Rightarrow> int" where
  "to_sint w x = signed_take_bit (w - 1) x"

lemma to_uint_id: "0 \<le> x \<Longrightarrow> x < 2 ^ w \<Longrightarrow> to_uint w x = x"
  by (simp add: to_uint_def take_bit_int_eq_self)

lemma to_sint_id: "- (2 ^ (w - 1)) \<le> x \<Longrightarrow> x < 2 ^ (w - 1) \<Longrightarrow> to_sint w x = x"
  by (simp add: to_sint_def signed_take_bit_int_eq_self)

section \<open>Results that may be errors\<close>

definition sbind :: "'e + 'a \<Rightarrow> ('a \<Rightarrow> 'e + 'b) \<Rightarrow> 'e + 'b" where
  "sbind r f = (case r of Inl e \<Rightarrow> Inl e | Inr x \<Rightarrow> f x)"

lemma sbind_simps [simp]:
  "sbind (Inl e) f = Inl e"
  "sbind (Inr x) f = f x"
  by (simp_all add: sbind_def)

lemma sbind_Inr_iff: "sbind r f = Inr y \<longleftrightarrow> (\<exists>x. r = Inr x \<and> f x = Inr y)"
  by (cases r) auto

lemma sbind_Inl_iff: "sbind r f = Inl e \<longleftrightarrow> r = Inl e \<or> (\<exists>x. r = Inr x \<and> f x = Inl e)"
  by (cases r) auto

lemma sbind_InrE [err_elims]:
  assumes "sbind r f = Inr y"
  obtains x where "r = Inr x" and "f x = Inr y"
  using assms by (auto simp: sbind_Inr_iff)

lemma sbind_cong [fundef_cong]:
  "r = r' \<Longrightarrow> (\<And>x. r' = Inr x \<Longrightarrow> f x = f' x) \<Longrightarrow> sbind r f = sbind r' f'"
  by (cases r') auto

text \<open>The check \<open>if cond { return err }\<close> as a step of its own.\<close>

definition reject_if :: "bool \<Rightarrow> 'e \<Rightarrow> 'e + unit" where
  "reject_if c e = (if c then Inl e else Inr ())"

lemma reject_if_simps [simp]:
  "reject_if True e = Inl e"
  "reject_if False e = Inr ()"
  "reject_if c e = Inr u \<longleftrightarrow> \<not> c"
  "reject_if c e = Inl e' \<longleftrightarrow> c \<and> e' = e"
  by (auto simp: reject_if_def)

text \<open>A loop over a slice whose body returns at the first error.\<close>

fun for_each :: "('a \<Rightarrow> 's \<Rightarrow> 'e + 's) \<Rightarrow> 'a list \<Rightarrow> 's \<Rightarrow> 'e + 's" where
  "for_each f [] s = Inr s"
| "for_each f (x # xs) s = sbind (f x s) (for_each f xs)"

lemma for_each_append:
  "for_each f (xs @ ys) s = sbind (for_each f xs s) (for_each f ys)"
  by (induction xs arbitrary: s) (auto simp: sbind_def split: sum.splits)

lemma for_each_invariant:
  assumes "for_each f xs s = Inr t" and "P s"
    and "\<And>x s s'. x \<in> set xs \<Longrightarrow> P s \<Longrightarrow> f x s = Inr s' \<Longrightarrow> P s'"
  shows "P t"
  using assms
proof (induction xs arbitrary: s)
  case Nil
  then show ?case by simp
next
  case (Cons x xs)
  from Cons.prems(1) obtain u where u: "f x s = Inr u" and rest: "for_each f xs u = Inr t"
    by (auto simp: sbind_Inr_iff)
  from Cons.prems(2,3) u have "P u" by auto
  with rest Cons.prems(3) show ?case by (intro Cons.IH) auto
qed

lemma for_each_all:
  assumes "for_each (\<lambda>x u. f x) xs () = Inr u" and "x \<in> set xs"
  shows "f x = Inr ()"
  using assms by (induction xs) (auto simp: sbind_Inr_iff)

lemma for_each_unit_iff:
  "for_each (\<lambda>x u. f x) xs () = Inr u \<longleftrightarrow> (\<forall>x \<in> set xs. f x = Inr ())"
  by (induction xs) (auto simp: sbind_Inr_iff)

lemma for_each_collect:
  "for_each (\<lambda>x acc. if P x then Inl e else Inr (acc @ [g x])) xs acc = Inr out \<longleftrightarrow>
     out = acc @ map g xs \<and> (\<forall>x \<in> set xs. \<not> P x)"
proof (induction xs arbitrary: acc)
  case (Cons x xs)
  show ?case by (auto simp: Cons.IH)
qed auto

lemma mset_concat_append_at:
  assumes "k < length ms"
  shows "mset (concat (ms[k := ms ! k @ [c]])) = add_mset c (mset (concat ms))"
proof -
  have "mset (concat ms) = mset (concat (take k ms @ ms ! k # drop (Suc k) ms))"
    using assms by (simp flip: id_take_nth_drop)
  then show ?thesis using assms by (simp add: upd_conv_take_nth_drop)
qed

text \<open>The value of a result, its error forgotten.\<close>

definition result_of :: "'e + 'a \<Rightarrow> 'a option" where
  "result_of r = (case r of Inl _ \<Rightarrow> None | Inr x \<Rightarrow> Some x)"

lemma result_of_simps [simp]:
  "result_of (Inl e) = None"
  "result_of (Inr x) = Some x"
  "result_of r = Some x \<longleftrightarrow> r = Inr x"
  "result_of r = None \<longleftrightarrow> (\<exists>e. r = Inl e)"
  by (cases r; simp add: result_of_def)+

lemma result_of_sbind: "result_of (sbind r f) = Option.bind (result_of r) (\<lambda>x. result_of (f x))"
  by (cases r) simp_all

text \<open>A loop whose steps commute gives the same value for every order of the slice.  Which
  error is reported first may still depend on the order.\<close>

locale commuting_loop =
  fixes step :: "'a \<Rightarrow> 's \<Rightarrow> 'e + 's" and inv :: "'s \<Rightarrow> bool"
  assumes step_inv: "inv s \<Longrightarrow> step a s = Inr t \<Longrightarrow> inv t"
    and step_comm: "inv s \<Longrightarrow>
      result_of (sbind (step a s) (step b)) = result_of (sbind (step b s) (step a))"
begin

lemma loop_rotate:
  "inv s \<Longrightarrow> result_of (for_each step (xs @ [a]) s) = result_of (for_each step (a # xs) s)"
proof (induction xs arbitrary: s)
  case (Cons x xs)
  have "result_of (for_each step ((x # xs) @ [a]) s)
      = Option.bind (result_of (step x s)) (\<lambda>t. result_of (for_each step (xs @ [a]) t))"
    by (simp add: result_of_sbind)
  also have "\<dots> = Option.bind (result_of (step x s)) (\<lambda>t. result_of (for_each step (a # xs) t))"
    using Cons.IH step_inv [OF Cons.prems] by (cases "step x s") auto
  also have "\<dots> = Option.bind (result_of (sbind (step x s) (step a))) (\<lambda>t. result_of (for_each step xs t))"
    by (cases "step x s") (simp_all add: result_of_sbind)
  also have "\<dots> = result_of (for_each step (a # x # xs) s)"
    unfolding step_comm [OF Cons.prems, of x a] by (cases "step a s") (simp_all add: result_of_sbind)
  finally show ?case .
qed simp

lemma loop_order_free:
  "mset xs = mset ys \<Longrightarrow> inv s \<Longrightarrow> result_of (for_each step xs s) = result_of (for_each step ys s)"
proof (induction xs arbitrary: ys s)
  case (Cons x xs)
  from Cons.prems(1) have "x \<in> set ys" by (metis list.set_intros(1) set_mset_mset)
  then obtain us vs where ys: "ys = us @ x # vs" by (meson split_list)
  with Cons.prems(1) have rest: "mset xs = mset (us @ vs)" by simp
  have "result_of (for_each step ys s) = result_of (for_each step ((us @ [x]) @ vs) s)" by (simp add: ys)
  also have "\<dots> = result_of (for_each step (x # us @ vs) s)"
    using loop_rotate [OF Cons.prems(2), of us x]
    unfolding for_each_append [of step "us @ [x]" vs] append_Cons [symmetric] for_each_append [of step "x # us" vs]
    by (simp add: result_of_sbind)
  also have "\<dots> = result_of (for_each step (x # xs) s)"
    using Cons.IH [OF rest] step_inv [OF Cons.prems(2)]
    by (cases "step x s") (simp_all add: result_of_sbind)
  finally show ?case by simp
qed simp

end

section \<open>Strings\<close>

text \<open>Printing a natural number in decimal, as \<open>%d\<close> does.\<close>

fun itoa :: "nat \<Rightarrow> string" where
  "itoa n = (if n < 10 then [char_of (48 + n)] else itoa (n div 10) @ [char_of (48 + n mod 10)])"

declare itoa.simps [simp del]

definition itoa_pad :: "nat \<Rightarrow> nat \<Rightarrow> string" where
  "itoa_pad w n = (let s = itoa n in replicate (w - length s) (CHR ''0'') @ s)"

definition sprint_int :: "int \<Rightarrow> string" where
  "sprint_int i = (if i < 0 then ''-'' @ itoa (nat (- i)) else itoa (nat i))"

lemma itoa_not_Nil [simp]: "itoa n \<noteq> []"
  by (subst itoa.simps) simp

text \<open>
  \<open>strings.TrimSpace\<close>: the runes \<open>unicode.IsSpace\<close> accepts, as their UTF-8 bytes,
  are removed from both ends.
\<close>

definition space_runes :: "string list" where
  "space_runes =
     [[CHR 0x09], [CHR 0x0A], [CHR 0x0B], [CHR 0x0C], [CHR 0x0D], [CHR 0x20],
      [CHR 0xC2, CHR 0x85], [CHR 0xC2, CHR 0xA0], [CHR 0xE1, CHR 0x9A, CHR 0x80],
      [CHR 0xE2, CHR 0x80, CHR 0x80], [CHR 0xE2, CHR 0x80, CHR 0x81],
      [CHR 0xE2, CHR 0x80, CHR 0x82], [CHR 0xE2, CHR 0x80, CHR 0x83],
      [CHR 0xE2, CHR 0x80, CHR 0x84], [CHR 0xE2, CHR 0x80, CHR 0x85],
      [CHR 0xE2, CHR 0x80, CHR 0x86], [CHR 0xE2, CHR 0x80, CHR 0x87],
      [CHR 0xE2, CHR 0x80, CHR 0x88], [CHR 0xE2, CHR 0x80, CHR 0x89],
      [CHR 0xE2, CHR 0x80, CHR 0x8A], [CHR 0xE2, CHR 0x80, CHR 0xA8],
      [CHR 0xE2, CHR 0x80, CHR 0xA9], [CHR 0xE2, CHR 0x80, CHR 0xAF],
      [CHR 0xE2, CHR 0x81, CHR 0x9F], [CHR 0xE3, CHR 0x80, CHR 0x80]]"

definition starts_with :: "string \<Rightarrow> string \<Rightarrow> bool" where
  "starts_with p s \<longleftrightarrow> take (length p) s = p"

definition leading_space :: "string \<Rightarrow> nat option" where
  "leading_space s = map_option length (find (\<lambda>p. starts_with p s) space_runes)"

definition trailing_space :: "string \<Rightarrow> nat option" where
  "trailing_space s = map_option length (find (\<lambda>p. starts_with (rev p) (rev s)) space_runes)"

fun trim_left_upto :: "nat \<Rightarrow> string \<Rightarrow> string" where
  "trim_left_upto 0 s = s"
| "trim_left_upto (Suc k) s =
     (case leading_space s of None \<Rightarrow> s | Some n \<Rightarrow> trim_left_upto k (drop n s))"

fun trim_right_upto :: "nat \<Rightarrow> string \<Rightarrow> string" where
  "trim_right_upto 0 s = s"
| "trim_right_upto (Suc k) s =
     (case trailing_space s of None \<Rightarrow> s
      | Some n \<Rightarrow> trim_right_upto k (take (length s - n) s))"

text \<open>Every removed rune is at least one byte, so as many rounds as bytes are enough.\<close>

definition trim_space :: "string \<Rightarrow> string" where
  "trim_space s = (let l = trim_left_upto (length s) s in trim_right_upto (length l) l)"

lemma trim_space_Nil [simp]: "trim_space [] = []"
  by (simp add: trim_space_def)

lemma space_runes_not_Nil: "p \<in> set space_runes \<Longrightarrow> p \<noteq> []"
  by (auto simp: space_runes_def)

text \<open>A string that neither starts nor ends with a byte of a space rune is left alone.\<close>

lemma trim_space_id:
  assumes "s \<noteq> []" and "hd s \<notin> set (map hd space_runes)" and "last s \<notin> set (map last space_runes)"
  shows "trim_space s = s"
proof -
  have "\<not> starts_with p s" if p: "p \<in> set space_runes" for p
  proof -
    obtain a p' where "p = a # p'" using space_runes_not_Nil [OF p] by (cases p) auto
    then show ?thesis using p assms(1,2) by (cases s) (force simp: starts_with_def)+
  qed
  then have l: "leading_space s = None" by (auto simp: leading_space_def find_None_iff)
  have "\<not> starts_with (rev p) (rev s)" if p: "p \<in> set space_runes" for p
  proof -
    obtain a p' where "p = p' @ [a]" using space_runes_not_Nil [OF p] by (cases p rule: rev_cases) auto
    then show ?thesis using p assms(1,3) by (cases s rule: rev_cases) (force simp: starts_with_def)+
  qed
  then have t: "trailing_space s = None" by (auto simp: trailing_space_def find_None_iff)
  from assms(1) l t show ?thesis by (cases "length s") (simp_all add: trim_space_def)
qed

lemmas trim_simps = trim_space_id space_runes_def

text \<open>\<open>strings.ContainsAny\<close> with an ASCII cut set.\<close>

definition contains_any :: "string \<Rightarrow> string \<Rightarrow> bool" where
  "contains_any s cs \<longleftrightarrow> list_ex (\<lambda>c. c \<in> set cs) s"

text \<open>The cut set \<open>"\r\n\x00"\<close> the code uses for header-safe strings.\<close>

definition line_breakers :: string where
  "line_breakers = [CHR 0x0D, CHR 0x0A, CHR 0x00]"

section \<open>Lists, sorting and association\<close>

definition contains :: "'a list \<Rightarrow> 'a \<Rightarrow> bool" where
  "contains values wanted \<longleftrightarrow> list_ex (\<lambda>v. v = wanted) values"

lemma contains_iff [simp]: "contains xs x \<longleftrightarrow> x \<in> set xs"
  by (auto simp: contains_def list_ex_iff)

text \<open>A Go map is a finite map; ranging over it visits its keys, here in ascending order.\<close>

type_synonym ('k, 'v) gomap = "('k, 'v) fmap"

definition map_keys :: "('k::linorder, 'v) gomap \<Rightarrow> 'k list" where
  "map_keys m = sorted_list_of_fset (fmdom m)"

definition map_len :: "('k, 'v) gomap \<Rightarrow> nat" where
  "map_len m = fcard (fmdom m)"

lemma set_map_keys [simp]: "set (map_keys m) = fmdom' m"
  by (simp add: map_keys_def fmdom'_alt_def)

lemma distinct_map_keys [simp]: "distinct (map_keys m)"
  by (simp add: map_keys_def sorted_list_of_fset.rep_eq)

lemma map_keys_fmempty [simp]: "map_keys fmempty = []"
  by (simp add: map_keys_def sorted_list_of_fset.rep_eq)

lemma map_len_fmempty [simp]: "map_len fmempty = 0"
  by (simp add: map_len_def)

lemma map_len_fmupd [simp]:
  "map_len (fmupd k v m) = (if fmlookup m k = None then Suc (map_len m) else map_len m)"
  by (simp add: map_len_def fcard_finsert_if fmlookup_dom_iff)

lemma find_SomeD: "find P xs = Some x \<Longrightarrow> x \<in> set xs \<and> P x"
  by (auto simp: find_Some_iff in_set_conv_nth)

lemma find_NoneD: "find P xs = None \<Longrightarrow> x \<in> set xs \<Longrightarrow> \<not> P x"
  by (auto simp: find_None_iff)

lemma sort_key_Nil_iff [simp]: "sort_key f xs = [] \<longleftrightarrow> xs = []"
  by (metis length_0_conv length_sort)

lemma distinct_map_sort_key [simp]: "distinct (map g (sort_key f xs)) \<longleftrightarrow> distinct (map g xs)"
proof (rule mset_eq_imp_distinct_iff)
  show "mset (map g (sort_key f xs)) = mset (map g xs)" by simp
qed

lemma sorted_adjacent_distinct:
  fixes ys :: "'a::linorder list"
  shows "sorted ys \<Longrightarrow> successively (\<noteq>) ys \<Longrightarrow> distinct ys"
proof (induction ys)
  case (Cons y ys)
  from Cons.prems have adj: "ys \<noteq> [] \<Longrightarrow> y \<noteq> hd ys" and ys: "successively (\<noteq>) ys" "sorted ys"
    by (auto simp: successively_Cons)
  have "y \<notin> set ys"
  proof
    assume "y \<in> set ys"
    then have ne: "ys \<noteq> []" by auto
    with ys(2) \<open>y \<in> set ys\<close> have "hd ys \<le> y" by (cases ys) auto
    moreover from Cons.prems(1) ne have "y \<le> hd ys" by simp
    ultimately show False using adj ne by simp
  qed
  with Cons.IH ys show ?case by simp
qed simp

lemma sort_key_perm_unique:
  assumes "mset xs = mset ys" and "inj_on f (set xs)"
  shows "sort_key f xs = sort_key f ys"
proof (rule properties_for_sort_key)
  show "mset (sort_key f ys) = mset xs" using assms(1) by simp
  show "sorted (map f (sort_key f ys))" by simp
  fix k
  assume "k \<in> set (sort_key f ys)"
  have "set (sort_key f ys) = set xs"
    using assms(1) by (metis mset_sort set_mset_mset)
  with assms(2) have inj: "inj_on f (set (sort_key f ys))" and "inj_on f (set xs)" by simp_all
  let ?eq = "\<lambda>x. f x = f k"
  have all_k: "set (filter ?eq zs) \<subseteq> {k}" if "set zs = set xs" for zs
    using that assms(2) \<open>k \<in> set (sort_key f ys)\<close> \<open>set (sort_key f ys) = set xs\<close>
    by (auto dest: inj_onD)
  have rep: "filter ?eq zs = replicate (length (filter ?eq zs)) k" if "set zs = set xs" for zs
    using all_k [OF that] by (metis in_mono replicate_length_same singletonD)
  have "length (filter ?eq (sort_key f ys)) = length (filter ?eq xs)"
    using assms(1) by (metis mset_filter mset_sort size_mset)
  then show "filter (\<lambda>x. f k = f x) (sort_key f ys) = filter (\<lambda>x. f k = f x) xs"
    using rep [of "sort_key f ys"] rep [of xs] \<open>set (sort_key f ys) = set xs\<close>
    by (metis (mono_tags, lifting) filter_cong)
qed

end
