(* ===== verification/Delivery_State.thy ===== *)
theory Delivery_State
  imports Prelude
begin

text \<open>
  \<open>internal/delivery/model/enums.gen.go\<close> and \<open>internal/delivery/state/state.go\<close>: the
  closed vocabularies of rollout, rollout-cluster and deployment states, the three
  fenced compare-and-swap machines over them, the fence claim and the counters.

  A Go string enum may hold any string; each datatype therefore has one constructor per
  declared constant and one for everything else, and \<open>Valid\<close> is the generated
  membership test.  The three \<open>Transition...\<close> functions share one contract, the locale
  \<open>fenced_machine\<close>: what is proved there about sequences of attempts is instantiated
  for each of them.
\<close>

section \<open>State vocabularies\<close>

datatype RolloutState =
    RolloutDraft | RolloutResolving | RolloutAwaitingApproval | RolloutQueued
  | RolloutProgressing | RolloutPaused | RolloutRejected | RolloutAborted
  | RolloutSucceeded | RolloutFailed | RolloutRollingBack | RolloutRolledBack
  | RolloutRollbackFailed | RolloutOther string

definition AllRolloutStates :: "RolloutState list" where
  "AllRolloutStates =
     [RolloutDraft, RolloutResolving, RolloutAwaitingApproval, RolloutQueued,
      RolloutProgressing, RolloutPaused, RolloutRejected, RolloutAborted,
      RolloutSucceeded, RolloutFailed, RolloutRollingBack, RolloutRolledBack,
      RolloutRollbackFailed]"

definition rollout_valid :: "RolloutState \<Rightarrow> bool" where
  "rollout_valid s = contains AllRolloutStates s"

datatype RolloutClusterState =
    RolloutClusterPending | RolloutClusterReleased | RolloutClusterAcknowledged
  | RolloutClusterReconciling | RolloutClusterReady | RolloutClusterBlocked
  | RolloutClusterTimedOut | RolloutClusterFailed | RolloutClusterSkipped
  | RolloutClusterRollingBack | RolloutClusterReadyPrevious
  | RolloutClusterRollbackFailed | RolloutClusterAborted | RolloutClusterOther string

definition AllRolloutClusterStates :: "RolloutClusterState list" where
  "AllRolloutClusterStates =
     [RolloutClusterPending, RolloutClusterReleased, RolloutClusterAcknowledged,
      RolloutClusterReconciling, RolloutClusterReady, RolloutClusterBlocked,
      RolloutClusterTimedOut, RolloutClusterFailed, RolloutClusterSkipped,
      RolloutClusterRollingBack, RolloutClusterReadyPrevious,
      RolloutClusterRollbackFailed, RolloutClusterAborted]"

definition cluster_valid :: "RolloutClusterState \<Rightarrow> bool" where
  "cluster_valid s = contains AllRolloutClusterStates s"

datatype DeploymentPhase =
    DeploymentPending | DeploymentBlocked | DeploymentApplying | DeploymentReady
  | DeploymentDegraded | DeploymentFailed | DeploymentSuspended | DeploymentDeleting
  | DeploymentRemoved | DeploymentUnknown | DeploymentOther string

definition AllDeploymentPhases :: "DeploymentPhase list" where
  "AllDeploymentPhases =
     [DeploymentPending, DeploymentBlocked, DeploymentApplying, DeploymentReady,
      DeploymentDegraded, DeploymentFailed, DeploymentSuspended, DeploymentDeleting,
      DeploymentRemoved, DeploymentUnknown]"

definition deployment_valid :: "DeploymentPhase \<Rightarrow> bool" where
  "deployment_valid s = contains AllDeploymentPhases s"

text \<open>The strings stored in the database and put into errors.\<close>

fun rollout_string :: "RolloutState \<Rightarrow> string" where
  "rollout_string RolloutDraft = ''draft''"
| "rollout_string RolloutResolving = ''resolving''"
| "rollout_string RolloutAwaitingApproval = ''awaiting_approval''"
| "rollout_string RolloutQueued = ''queued''"
| "rollout_string RolloutProgressing = ''progressing''"
| "rollout_string RolloutPaused = ''paused''"
| "rollout_string RolloutRejected = ''rejected''"
| "rollout_string RolloutAborted = ''aborted''"
| "rollout_string RolloutSucceeded = ''succeeded''"
| "rollout_string RolloutFailed = ''failed''"
| "rollout_string RolloutRollingBack = ''rolling_back''"
| "rollout_string RolloutRolledBack = ''rolled_back''"
| "rollout_string RolloutRollbackFailed = ''rollback_failed''"
| "rollout_string (RolloutOther s) = s"

fun cluster_string :: "RolloutClusterState \<Rightarrow> string" where
  "cluster_string RolloutClusterPending = ''pending''"
| "cluster_string RolloutClusterReleased = ''released''"
| "cluster_string RolloutClusterAcknowledged = ''acknowledged''"
| "cluster_string RolloutClusterReconciling = ''reconciling''"
| "cluster_string RolloutClusterReady = ''ready''"
| "cluster_string RolloutClusterBlocked = ''blocked''"
| "cluster_string RolloutClusterTimedOut = ''timed_out''"
| "cluster_string RolloutClusterFailed = ''failed''"
| "cluster_string RolloutClusterSkipped = ''skipped''"
| "cluster_string RolloutClusterRollingBack = ''rolling_back''"
| "cluster_string RolloutClusterReadyPrevious = ''ready_previous''"
| "cluster_string RolloutClusterRollbackFailed = ''rollback_failed''"
| "cluster_string RolloutClusterAborted = ''aborted''"
| "cluster_string (RolloutClusterOther s) = s"

fun deployment_string :: "DeploymentPhase \<Rightarrow> string" where
  "deployment_string DeploymentPending = ''pending''"
| "deployment_string DeploymentBlocked = ''blocked''"
| "deployment_string DeploymentApplying = ''applying''"
| "deployment_string DeploymentReady = ''ready''"
| "deployment_string DeploymentDegraded = ''degraded''"
| "deployment_string DeploymentFailed = ''failed''"
| "deployment_string DeploymentSuspended = ''suspended''"
| "deployment_string DeploymentDeleting = ''deleting''"
| "deployment_string DeploymentRemoved = ''removed''"
| "deployment_string DeploymentUnknown = ''unknown''"
| "deployment_string (DeploymentOther s) = s"

text \<open>The conversion \<open>model.RolloutState(row.State)\<close> from a stored string.\<close>

definition rollout_of_string :: "string \<Rightarrow> RolloutState" where
  "rollout_of_string s =
     (case find (\<lambda>v. rollout_string v = s) AllRolloutStates of
        Some v \<Rightarrow> v | None \<Rightarrow> RolloutOther s)"

definition cluster_of_string :: "string \<Rightarrow> RolloutClusterState" where
  "cluster_of_string s =
     (case find (\<lambda>v. cluster_string v = s) AllRolloutClusterStates of
        Some v \<Rightarrow> v | None \<Rightarrow> RolloutClusterOther s)"

lemmas valid_defs =
  rollout_valid_def AllRolloutStates_def cluster_valid_def AllRolloutClusterStates_def
  deployment_valid_def AllDeploymentPhases_def

section \<open>Transition errors\<close>

datatype StateErrorCode = CodeInvalidState | CodeInvalidTransition | CodeStaleFence

record TransitionError =
  te_Code :: StateErrorCode
  te_Machine :: string
  te_From :: string
  te_To :: string
  te_ExpectedFence :: int
  te_ActualFence :: int

definition invalidState :: "string \<Rightarrow> string \<Rightarrow> string \<Rightarrow> TransitionError" where
  "invalidState machine from to =
     \<lparr>te_Code = CodeInvalidState, te_Machine = machine, te_From = from, te_To = to,
      te_ExpectedFence = 0, te_ActualFence = 0\<rparr>"

definition invalidTransition :: "string \<Rightarrow> string \<Rightarrow> string \<Rightarrow> TransitionError" where
  "invalidTransition machine from to =
     \<lparr>te_Code = CodeInvalidTransition, te_Machine = machine, te_From = from, te_To = to,
      te_ExpectedFence = 0, te_ActualFence = 0\<rparr>"

definition staleFence :: "string \<Rightarrow> string \<Rightarrow> string \<Rightarrow> int \<Rightarrow> int \<Rightarrow> TransitionError" where
  "staleFence machine from to expected actual =
     \<lparr>te_Code = CodeStaleFence, te_Machine = machine, te_From = from, te_To = to,
      te_ExpectedFence = expected, te_ActualFence = actual\<rparr>"

section \<open>Transition tables\<close>

definition allows :: "('s \<times> 's list) list \<Rightarrow> 's \<Rightarrow> 's \<Rightarrow> bool" where
  "allows t from to = (case map_of t from of None \<Rightarrow> False | Some succ \<Rightarrow> contains succ to)"

definition rolloutTransitions :: "(RolloutState \<times> RolloutState list) list" where
  "rolloutTransitions =
    [(RolloutDraft, [RolloutResolving, RolloutAborted]),
     (RolloutResolving, [RolloutAwaitingApproval, RolloutQueued, RolloutFailed, RolloutAborted]),
     (RolloutAwaitingApproval, [RolloutQueued, RolloutRejected, RolloutAborted]),
     (RolloutQueued, [RolloutProgressing, RolloutPaused, RolloutSucceeded, RolloutFailed, RolloutAborted]),
     (RolloutProgressing, [RolloutPaused, RolloutSucceeded, RolloutFailed, RolloutAborted]),
     (RolloutPaused, [RolloutQueued, RolloutProgressing, RolloutFailed, RolloutAborted, RolloutRollingBack]),
     (RolloutSucceeded, [RolloutRollingBack]),
     (RolloutFailed, [RolloutRollingBack]),
     (RolloutRollingBack, [RolloutRolledBack, RolloutRollbackFailed]),
     (RolloutRejected, []),
     (RolloutAborted, []),
     (RolloutRolledBack, []),
     (RolloutRollbackFailed, [])]"

definition rolloutClusterTransitions :: "(RolloutClusterState \<times> RolloutClusterState list) list" where
  "rolloutClusterTransitions =
    [(RolloutClusterPending, [RolloutClusterReleased, RolloutClusterBlocked, RolloutClusterSkipped]),
     (RolloutClusterBlocked, [RolloutClusterPending, RolloutClusterSkipped]),
     (RolloutClusterReleased, [RolloutClusterAcknowledged, RolloutClusterReconciling, RolloutClusterReady,
        RolloutClusterTimedOut, RolloutClusterFailed, RolloutClusterRollingBack]),
     (RolloutClusterAcknowledged, [RolloutClusterReconciling, RolloutClusterReady, RolloutClusterTimedOut,
        RolloutClusterFailed, RolloutClusterRollingBack]),
     (RolloutClusterReconciling, [RolloutClusterReady, RolloutClusterTimedOut, RolloutClusterFailed,
        RolloutClusterRollingBack]),
     (RolloutClusterReady, [RolloutClusterReconciling, RolloutClusterFailed, RolloutClusterRollingBack]),
     (RolloutClusterTimedOut, [RolloutClusterPending, RolloutClusterRollingBack]),
     (RolloutClusterFailed, [RolloutClusterPending, RolloutClusterRollingBack]),
     (RolloutClusterRollingBack, [RolloutClusterReadyPrevious, RolloutClusterFailed]),
     (RolloutClusterSkipped, []),
     (RolloutClusterAborted, []),
     (RolloutClusterRollbackFailed, []),
     (RolloutClusterReadyPrevious, [RolloutClusterRollingBack, RolloutClusterFailed])]"

definition deploymentTransitions :: "(DeploymentPhase \<times> DeploymentPhase list) list" where
  "deploymentTransitions =
    [(DeploymentUnknown, [DeploymentPending, DeploymentBlocked, DeploymentApplying, DeploymentReady,
        DeploymentDegraded, DeploymentFailed, DeploymentSuspended, DeploymentDeleting, DeploymentRemoved]),
     (DeploymentPending, [DeploymentBlocked, DeploymentApplying, DeploymentFailed, DeploymentSuspended,
        DeploymentDeleting, DeploymentUnknown]),
     (DeploymentBlocked, [DeploymentPending, DeploymentApplying, DeploymentFailed, DeploymentSuspended,
        DeploymentDeleting, DeploymentUnknown]),
     (DeploymentApplying, [DeploymentReady, DeploymentDegraded, DeploymentFailed, DeploymentSuspended,
        DeploymentDeleting, DeploymentUnknown]),
     (DeploymentReady, [DeploymentApplying, DeploymentDegraded, DeploymentFailed, DeploymentSuspended,
        DeploymentDeleting, DeploymentUnknown]),
     (DeploymentDegraded, [DeploymentApplying, DeploymentReady, DeploymentFailed, DeploymentSuspended,
        DeploymentDeleting, DeploymentUnknown]),
     (DeploymentFailed, [DeploymentPending, DeploymentApplying, DeploymentSuspended, DeploymentDeleting,
        DeploymentUnknown]),
     (DeploymentSuspended, [DeploymentPending, DeploymentApplying, DeploymentDeleting, DeploymentUnknown]),
     (DeploymentDeleting, [DeploymentRemoved, DeploymentFailed, DeploymentUnknown]),
     (DeploymentRemoved, [DeploymentPending])]"

abbreviation rollout_allows :: "RolloutState \<Rightarrow> RolloutState \<Rightarrow> bool" where
  "rollout_allows \<equiv> allows rolloutTransitions"
abbreviation cluster_allows :: "RolloutClusterState \<Rightarrow> RolloutClusterState \<Rightarrow> bool" where
  "cluster_allows \<equiv> allows rolloutClusterTransitions"
abbreviation deployment_allows :: "DeploymentPhase \<Rightarrow> DeploymentPhase \<Rightarrow> bool" where
  "deployment_allows \<equiv> allows deploymentTransitions"

lemma rollout_allows_simps [simp]:
  "rollout_allows RolloutDraft s \<longleftrightarrow> s \<in> {RolloutResolving, RolloutAborted}"
  "rollout_allows RolloutResolving s \<longleftrightarrow>
     s \<in> {RolloutAwaitingApproval, RolloutQueued, RolloutFailed, RolloutAborted}"
  "rollout_allows RolloutAwaitingApproval s \<longleftrightarrow> s \<in> {RolloutQueued, RolloutRejected, RolloutAborted}"
  "rollout_allows RolloutQueued s \<longleftrightarrow>
     s \<in> {RolloutProgressing, RolloutPaused, RolloutSucceeded, RolloutFailed, RolloutAborted}"
  "rollout_allows RolloutProgressing s \<longleftrightarrow>
     s \<in> {RolloutPaused, RolloutSucceeded, RolloutFailed, RolloutAborted}"
  "rollout_allows RolloutPaused s \<longleftrightarrow>
     s \<in> {RolloutQueued, RolloutProgressing, RolloutFailed, RolloutAborted, RolloutRollingBack}"
  "rollout_allows RolloutSucceeded s \<longleftrightarrow> s = RolloutRollingBack"
  "rollout_allows RolloutFailed s \<longleftrightarrow> s = RolloutRollingBack"
  "rollout_allows RolloutRollingBack s \<longleftrightarrow> s \<in> {RolloutRolledBack, RolloutRollbackFailed}"
  "\<not> rollout_allows RolloutRejected s"
  "\<not> rollout_allows RolloutAborted s"
  "\<not> rollout_allows RolloutRolledBack s"
  "\<not> rollout_allows RolloutRollbackFailed s"
  "\<not> rollout_allows (RolloutOther x) s"
  by (simp_all add: allows_def rolloutTransitions_def)


lemma cluster_allows_simps [simp]:
  "cluster_allows RolloutClusterPending s \<longleftrightarrow>
     s \<in> {RolloutClusterReleased, RolloutClusterBlocked, RolloutClusterSkipped}"
  "cluster_allows RolloutClusterBlocked s \<longleftrightarrow> s \<in> {RolloutClusterPending, RolloutClusterSkipped}"
  "cluster_allows RolloutClusterReleased s \<longleftrightarrow>
     s \<in> {RolloutClusterAcknowledged, RolloutClusterReconciling, RolloutClusterReady,
           RolloutClusterTimedOut, RolloutClusterFailed, RolloutClusterRollingBack}"
  "cluster_allows RolloutClusterAcknowledged s \<longleftrightarrow>
     s \<in> {RolloutClusterReconciling, RolloutClusterReady, RolloutClusterTimedOut,
           RolloutClusterFailed, RolloutClusterRollingBack}"
  "cluster_allows RolloutClusterReconciling s \<longleftrightarrow>
     s \<in> {RolloutClusterReady, RolloutClusterTimedOut, RolloutClusterFailed, RolloutClusterRollingBack}"
  "cluster_allows RolloutClusterReady s \<longleftrightarrow>
     s \<in> {RolloutClusterReconciling, RolloutClusterFailed, RolloutClusterRollingBack}"
  "cluster_allows RolloutClusterTimedOut s \<longleftrightarrow> s \<in> {RolloutClusterPending, RolloutClusterRollingBack}"
  "cluster_allows RolloutClusterFailed s \<longleftrightarrow> s \<in> {RolloutClusterPending, RolloutClusterRollingBack}"
  "cluster_allows RolloutClusterRollingBack s \<longleftrightarrow>
     s \<in> {RolloutClusterReadyPrevious, RolloutClusterFailed}"
  "\<not> cluster_allows RolloutClusterSkipped s"
  "\<not> cluster_allows RolloutClusterAborted s"
  "\<not> cluster_allows RolloutClusterRollbackFailed s"
  "cluster_allows RolloutClusterReadyPrevious s \<longleftrightarrow>
     s \<in> {RolloutClusterRollingBack, RolloutClusterFailed}"
  "\<not> cluster_allows (RolloutClusterOther x) s"
  by (simp_all add: allows_def rolloutClusterTransitions_def)

section \<open>The three fenced machines\<close>

record Rollout =
  ro_State :: RolloutState
  ro_Fence :: int

record RolloutCluster =
  rcl_State :: RolloutClusterState
  rcl_Fence :: int

record Deployment =
  dep_Phase :: DeploymentPhase
  dep_Fence :: int

definition TransitionRollout :: "Rollout \<Rightarrow> RolloutState \<Rightarrow> int \<Rightarrow> TransitionError + Rollout" where
  "TransitionRollout current desired expectedFence =
     (if \<not> rollout_valid (ro_State current) \<or> \<not> rollout_valid desired
      then Inl (invalidState ''rollout'' (rollout_string (ro_State current)) (rollout_string desired))
      else if ro_State current = desired then Inr current
      else if ro_Fence current \<noteq> expectedFence
      then Inl (staleFence ''rollout'' (rollout_string (ro_State current)) (rollout_string desired)
                  expectedFence (ro_Fence current))
      else if \<not> rollout_allows (ro_State current) desired
      then Inl (invalidTransition ''rollout'' (rollout_string (ro_State current)) (rollout_string desired))
      else Inr (current\<lparr>ro_State := desired\<rparr>))"

definition TransitionRolloutCluster ::
    "RolloutCluster \<Rightarrow> RolloutClusterState \<Rightarrow> int \<Rightarrow> TransitionError + RolloutCluster" where
  "TransitionRolloutCluster current desired expectedFence =
     (if \<not> cluster_valid (rcl_State current) \<or> \<not> cluster_valid desired
      then Inl (invalidState ''rollout_cluster'' (cluster_string (rcl_State current)) (cluster_string desired))
      else if rcl_State current = desired then Inr current
      else if rcl_Fence current \<noteq> expectedFence
      then Inl (staleFence ''rollout_cluster'' (cluster_string (rcl_State current)) (cluster_string desired)
                  expectedFence (rcl_Fence current))
      else if \<not> cluster_allows (rcl_State current) desired
      then Inl (invalidTransition ''rollout_cluster'' (cluster_string (rcl_State current)) (cluster_string desired))
      else Inr (current\<lparr>rcl_State := desired\<rparr>))"

definition TransitionDeployment :: "Deployment \<Rightarrow> DeploymentPhase \<Rightarrow> int \<Rightarrow> TransitionError + Deployment" where
  "TransitionDeployment current desired expectedFence =
     (if \<not> deployment_valid (dep_Phase current) \<or> \<not> deployment_valid desired
      then Inl (invalidState ''deployment'' (deployment_string (dep_Phase current)) (deployment_string desired))
      else if dep_Phase current = desired then Inr current
      else if dep_Fence current \<noteq> expectedFence
      then Inl (staleFence ''deployment'' (deployment_string (dep_Phase current)) (deployment_string desired)
                  expectedFence (dep_Fence current))
      else if \<not> deployment_allows (dep_Phase current) desired
      then Inl (invalidTransition ''deployment'' (deployment_string (dep_Phase current)) (deployment_string desired))
      else Inr (current\<lparr>dep_Phase := desired\<rparr>))"

definition ClaimFence :: "int \<Rightarrow> int \<Rightarrow> TransitionError + int" where
  "ClaimFence current expected =
     (if current < 0 \<or> expected < 0 \<or> current = int64_max
      then Inl (invalidState ''fence'' (sprint_int current) (sprint_int expected))
      else if current \<noteq> expected
      then Inl (staleFence ''fence'' (sprint_int current) (sprint_int (current + 1)) expected current)
      else Inr (current + 1))"

text \<open>A sequence of attempts on one record: a rejected attempt leaves it as it was.\<close>

fun run_attempts :: "('r \<Rightarrow> 's \<Rightarrow> int \<Rightarrow> 'e + 'r) \<Rightarrow> 'r \<Rightarrow> ('s \<times> int) list \<Rightarrow> 'r" where
  "run_attempts tr r [] = r"
| "run_attempts tr r ((s, f) # as) =
     run_attempts tr (case tr r s f of Inl e \<Rightarrow> r | Inr r' \<Rightarrow> r') as"

locale fenced_machine =
  fixes state :: "'r \<Rightarrow> 's" and fence :: "'r \<Rightarrow> int"
    and valid :: "'s \<Rightarrow> bool" and table :: "('s \<times> 's list) list"
    and transition :: "'r \<Rightarrow> 's \<Rightarrow> int \<Rightarrow> 'e + 'r"
  assumes accepts: "(\<exists>r'. transition r s f = Inr r') \<longleftrightarrow>
      valid (state r) \<and> valid s \<and> (state r = s \<or> fence r = f \<and> allows table (state r) s)"
    and result: "transition r s f = Inr r' \<Longrightarrow> state r' = s \<and> fence r' = fence r"
    and same_record: "transition r s f = Inr r' \<Longrightarrow> state r = s \<Longrightarrow> r' = r"
begin

lemma step_allowed:
  "transition r s f = Inr r' \<Longrightarrow> state r \<noteq> state r' \<Longrightarrow> allows table (state r) (state r')"
  using accepts [of r s f] result by metis

lemma run_fence: "fence (run_attempts transition r as) = fence r"
proof (induction as arbitrary: r)
  case (Cons a as)
  then show ?case
    using result by (cases a) (auto split: sum.splits)
qed simp

lemma run_reachable:
  "(state r, state (run_attempts transition r as)) \<in> {(a, b). allows table a b}\<^sup>*"
proof (induction as arbitrary: r)
  case (Cons a as)
  obtain s f where a: "a = (s, f)" by (cases a)
  let ?r = "case transition r s f of Inl e \<Rightarrow> r | Inr r' \<Rightarrow> r'"
  have "state r = state ?r \<or> allows table (state r) (state ?r)"
    using step_allowed [of r s f] by (auto split: sum.splits)
  then have "(state r, state ?r) \<in> {(a, b). allows table a b}\<^sup>*" by auto
  with Cons.IH [of ?r] show ?case
    unfolding a by (auto intro: rtrancl_trans)
qed simp

lemma run_closed:
  assumes "state r \<in> S" and "\<And>a b. a \<in> S \<Longrightarrow> allows table a b \<Longrightarrow> b \<in> S"
  shows "state (run_attempts transition r as) \<in> S"
proof -
  have "b \<in> S" if "(a, b) \<in> {(a, b). allows table a b}\<^sup>*" "a \<in> S" for a b
    using that by (induction rule: rtrancl_induct) (auto intro: assms(2))
  with run_reachable assms(1) show ?thesis by blast
qed

lemma stale_run_unchanged:
  assumes "\<And>s f. (s, f) \<in> set as \<Longrightarrow> f \<noteq> fence r"
  shows "run_attempts transition r as = r"
  using assms
proof (induction as)
  case (Cons a as)
  obtain s f where a: "a = (s, f)" by (cases a)
  have "f \<noteq> fence r" using Cons.prems a by auto
  then have "(case transition r s f of Inl e \<Rightarrow> r | Inr r' \<Rightarrow> r') = r"
    using accepts [of r s f] same_record by (auto split: sum.splits)
  moreover have "run_attempts transition r as = r" using Cons.prems by (intro Cons.IH) auto
  ultimately show ?case unfolding a by simp
qed simp

lemma retry_accepted:
  assumes "transition r s f = Inr r'"
  shows "transition r' s f' = Inr r'"
proof -
  have st: "state r' = s" and v: "valid s" using assms accepts [of r s f] result by blast+
  then obtain r'' where "transition r' s f' = Inr r''" using accepts [of r' s f'] by auto
  with st same_record show ?thesis by metis
qed

end

lemma ex_Inr_if [simp]:
  "(\<exists>r. (if c then Inl e else x) = Inr r) \<longleftrightarrow> \<not> c \<and> (\<exists>r. x = Inr r)"
  "(\<exists>r. (if c then Inr y else x) = Inr r) \<longleftrightarrow> c \<or> (\<exists>r. x = Inr r)"
  by auto

interpretation rollout_machine:
  fenced_machine ro_State ro_Fence rollout_valid rolloutTransitions TransitionRollout
  by unfold_locales (auto simp: TransitionRollout_def split: if_splits)

interpretation cluster_machine:
  fenced_machine rcl_State rcl_Fence cluster_valid rolloutClusterTransitions TransitionRolloutCluster
  by unfold_locales (auto simp: TransitionRolloutCluster_def split: if_splits)

interpretation deployment_machine:
  fenced_machine dep_Phase dep_Fence deployment_valid deploymentTransitions TransitionDeployment
  by unfold_locales (auto simp: TransitionDeployment_def split: if_splits)


section \<open>Counters\<close>

record RolloutCounters =
  ct_Total :: int
  ct_Pending :: int
  ct_Active :: int
  ct_Ready :: int
  ct_Failed :: int
  ct_Blocked :: int
  ct_Skipped :: int
  ct_RollbackReady :: int
  ct_Terminal :: int
  ct_Unavailable :: int

definition zero_counters :: RolloutCounters where
  "zero_counters = \<lparr>ct_Total = 0, ct_Pending = 0, ct_Active = 0, ct_Ready = 0, ct_Failed = 0,
     ct_Blocked = 0, ct_Skipped = 0, ct_RollbackReady = 0, ct_Terminal = 0, ct_Unavailable = 0\<rparr>"

definition count_state :: "RolloutClusterState \<Rightarrow> RolloutCounters \<Rightarrow> TransitionError + RolloutCounters" where
  "count_state s c =
     (if \<not> cluster_valid s then Inl (invalidState ''rollout_cluster'' (cluster_string s) [])
      else Inr (let c = c\<lparr>ct_Total := ct_Total c + 1\<rparr> in
        case s of
          RolloutClusterPending \<Rightarrow> c\<lparr>ct_Pending := ct_Pending c + 1\<rparr>
        | RolloutClusterReleased \<Rightarrow> c\<lparr>ct_Active := ct_Active c + 1\<rparr>
        | RolloutClusterAcknowledged \<Rightarrow> c\<lparr>ct_Active := ct_Active c + 1\<rparr>
        | RolloutClusterReconciling \<Rightarrow> c\<lparr>ct_Active := ct_Active c + 1\<rparr>
        | RolloutClusterRollingBack \<Rightarrow> c\<lparr>ct_Active := ct_Active c + 1\<rparr>
        | RolloutClusterReady \<Rightarrow> c\<lparr>ct_Ready := ct_Ready c + 1\<rparr>
        | RolloutClusterFailed \<Rightarrow> c\<lparr>ct_Failed := ct_Failed c + 1\<rparr>
        | RolloutClusterTimedOut \<Rightarrow> c\<lparr>ct_Failed := ct_Failed c + 1\<rparr>
        | RolloutClusterRollbackFailed \<Rightarrow> c\<lparr>ct_Failed := ct_Failed c + 1\<rparr>
        | RolloutClusterBlocked \<Rightarrow> c\<lparr>ct_Blocked := ct_Blocked c + 1\<rparr>
        | RolloutClusterSkipped \<Rightarrow> c\<lparr>ct_Skipped := ct_Skipped c + 1\<rparr>
        | RolloutClusterAborted \<Rightarrow> c\<lparr>ct_Skipped := ct_Skipped c + 1\<rparr>
        | RolloutClusterReadyPrevious \<Rightarrow> c\<lparr>ct_RollbackReady := ct_RollbackReady c + 1\<rparr>
        | RolloutClusterOther x \<Rightarrow> c))"

definition DeriveRolloutCounters :: "RolloutClusterState list \<Rightarrow> TransitionError + RolloutCounters" where
  "DeriveRolloutCounters states =
     sbind (for_each count_state states zero_counters) (\<lambda>c.
       Inr (let c = c\<lparr>ct_Terminal := ct_Ready c + ct_Failed c + ct_Skipped c + ct_RollbackReady c\<rparr>
            in c\<lparr>ct_Unavailable := ct_Total c - ct_Ready c - ct_RollbackReady c\<rparr>))"

definition cluster_class :: "RolloutClusterState \<Rightarrow> RolloutClusterState set" where
  "cluster_class s =
     (if s \<in> {RolloutClusterReleased, RolloutClusterAcknowledged, RolloutClusterReconciling, RolloutClusterRollingBack}
      then {RolloutClusterReleased, RolloutClusterAcknowledged, RolloutClusterReconciling, RolloutClusterRollingBack}
      else if s \<in> {RolloutClusterFailed, RolloutClusterTimedOut, RolloutClusterRollbackFailed}
      then {RolloutClusterFailed, RolloutClusterTimedOut, RolloutClusterRollbackFailed}
      else if s \<in> {RolloutClusterSkipped, RolloutClusterAborted}
      then {RolloutClusterSkipped, RolloutClusterAborted} else {s})"

abbreviation count_in :: "RolloutClusterState \<Rightarrow> RolloutClusterState list \<Rightarrow> int" where
  "count_in k states \<equiv> int (length (filter (\<lambda>s. s \<in> cluster_class k) states))"

lemma count_state_ok:
  assumes "cluster_valid s"
  shows "count_state s c = Inr (c\<lparr>ct_Total := ct_Total c + 1,
       ct_Pending := ct_Pending c + of_bool (s \<in> cluster_class RolloutClusterPending),
       ct_Active := ct_Active c + of_bool (s \<in> cluster_class RolloutClusterReleased),
       ct_Ready := ct_Ready c + of_bool (s \<in> cluster_class RolloutClusterReady),
       ct_Failed := ct_Failed c + of_bool (s \<in> cluster_class RolloutClusterFailed),
       ct_Blocked := ct_Blocked c + of_bool (s \<in> cluster_class RolloutClusterBlocked),
       ct_Skipped := ct_Skipped c + of_bool (s \<in> cluster_class RolloutClusterSkipped),
       ct_RollbackReady := ct_RollbackReady c + of_bool (s \<in> cluster_class RolloutClusterReadyPrevious)\<rparr>)"
  using assms
  by (cases s) (simp_all add: count_state_def cluster_class_def valid_defs Let_def)

lemma count_classes_partition:
  assumes "cluster_valid s"
  shows "(1::int) = of_bool (s \<in> cluster_class RolloutClusterPending)
     + of_bool (s \<in> cluster_class RolloutClusterReleased)
     + of_bool (s \<in> cluster_class RolloutClusterReady)
     + of_bool (s \<in> cluster_class RolloutClusterFailed)
     + of_bool (s \<in> cluster_class RolloutClusterBlocked)
     + of_bool (s \<in> cluster_class RolloutClusterSkipped)
     + of_bool (s \<in> cluster_class RolloutClusterReadyPrevious)"
  using assms by (cases s) (simp_all add: cluster_class_def valid_defs)

lemma count_in_Cons: "count_in k (s # states) = of_bool (s \<in> cluster_class k) + count_in k states"
  by simp

lemma count_classes_total:
  "list_all cluster_valid states \<Longrightarrow>
     int (length states) = count_in RolloutClusterPending states + count_in RolloutClusterReleased states
     + count_in RolloutClusterReady states + count_in RolloutClusterFailed states
     + count_in RolloutClusterBlocked states + count_in RolloutClusterSkipped states
     + count_in RolloutClusterReadyPrevious states"
proof (induction states)
  case (Cons s states)
  from Cons.prems have "cluster_valid s" by simp
  from count_classes_partition [OF this] Cons show ?case
    unfolding count_in_Cons by simp
qed simp

lemma counters_loop:
  assumes "list_all cluster_valid states"
  shows "for_each count_state states c = Inr (c\<lparr>ct_Total := ct_Total c + int (length states),
       ct_Pending := ct_Pending c + count_in RolloutClusterPending states,
       ct_Active := ct_Active c + count_in RolloutClusterReleased states,
       ct_Ready := ct_Ready c + count_in RolloutClusterReady states,
       ct_Failed := ct_Failed c + count_in RolloutClusterFailed states,
       ct_Blocked := ct_Blocked c + count_in RolloutClusterBlocked states,
       ct_Skipped := ct_Skipped c + count_in RolloutClusterSkipped states,
       ct_RollbackReady := ct_RollbackReady c + count_in RolloutClusterReadyPrevious states\<rparr>)"
  using assms
proof (induction states arbitrary: c)
  case (Cons s states)
  from Cons.prems have "cluster_valid s" and "list_all cluster_valid states" by simp_all
  then show ?case
    by (simp add: count_state_ok Cons.IH add.assoc)
qed simp

lemma counters_fail_iff:
  "(\<exists>e. DeriveRolloutCounters states = Inl e) \<longleftrightarrow> (\<exists>s \<in> set states. \<not> cluster_valid s)"
proof -
  have "(\<exists>e. for_each count_state states c = Inl e) \<longleftrightarrow> (\<exists>s \<in> set states. \<not> cluster_valid s)" for c
    by (induction states arbitrary: c) (auto simp: sbind_Inl_iff count_state_def)
  then show ?thesis by (simp add: DeriveRolloutCounters_def sbind_Inl_iff)
qed


section \<open>Properties of the state authority\<close>

text \<open>A rollout that was rejected, aborted, rolled back, or whose rollback failed never
  changes again: whatever states, in whatever order and with whatever fences, workers and
  operators attempt, the whole record stays as it is.\<close>

theorem rollout_terminal_absorbing:
  assumes "ro_State r \<in> {RolloutRejected, RolloutAborted, RolloutRolledBack, RolloutRollbackFailed}"
  shows "run_attempts TransitionRollout r as = r"
proof -
  have "ro_State (run_attempts TransitionRollout r as) \<in> {ro_State r}"
    using assms by (intro rollout_machine.run_closed) auto
  then show ?thesis
    using rollout_machine.run_fence [of r as] by (cases r) simp
qed

text \<open>A rollout that finished (succeeded or failed) is never re-run by the state
  authority: every sequence of attempts leaves it where it is or moves it into the rollback
  branch, and the fence is untouched.\<close>

lemma finished_rollout_only_rolls_back:
  assumes "ro_State r \<in> {RolloutSucceeded, RolloutFailed}"
  shows "ro_State (run_attempts TransitionRollout r as)
           \<in> {ro_State r, RolloutRollingBack, RolloutRolledBack, RolloutRollbackFailed}
       \<and> ro_Fence (run_attempts TransitionRollout r as) = ro_Fence r"
  using assms rollout_machine.run_fence [of r as]
  by (auto intro!: rollout_machine.run_closed [of r "{ro_State r, RolloutRollingBack, RolloutRolledBack, RolloutRollbackFailed}", simplified])

text \<open>C15. A worker whose claim was superseded is powerless: a sequence of attempts that all
  carry a fence other than the record's current one changes no rollout, no rollout
  cluster and no deployment.\<close>

theorem stale_fence_powerless:
  assumes "\<And>s f. (s, f) \<in> set as \<Longrightarrow> f \<noteq> ro_Fence r"
    and "\<And>s f. (s, f) \<in> set bs \<Longrightarrow> f \<noteq> rcl_Fence c"
    and "\<And>s f. (s, f) \<in> set ds \<Longrightarrow> f \<noteq> dep_Fence d"
  shows "run_attempts TransitionRollout r as = r
       \<and> run_attempts TransitionRolloutCluster c bs = c
       \<and> run_attempts TransitionDeployment d ds = d"
  using assms by (intro conjI rollout_machine.stale_run_unchanged
      cluster_machine.stale_run_unchanged deployment_machine.stale_run_unchanged) auto

theorem stale_fence_powerless_witness:
  "run_attempts TransitionRollout \<lparr>ro_State = RolloutQueued, ro_Fence = 5\<rparr> [(RolloutProgressing, 4)]
     = \<lparr>ro_State = RolloutQueued, ro_Fence = 5\<rparr>
   \<and> run_attempts TransitionRolloutCluster \<lparr>rcl_State = RolloutClusterPending, rcl_Fence = 2\<rparr>
        [(RolloutClusterReleased, 1)] = \<lparr>rcl_State = RolloutClusterPending, rcl_Fence = 2\<rparr>
   \<and> run_attempts TransitionDeployment \<lparr>dep_Phase = DeploymentReady, dep_Fence = 9\<rparr>
        [(DeploymentDeleting, 8), (DeploymentFailed, 1)] = \<lparr>dep_Phase = DeploymentReady, dep_Fence = 9\<rparr>"
  by (rule stale_fence_powerless) auto

text \<open>No deployment phase is a trap: from every valid phase some sequence of legal
  transitions under the current fence leads back to \<open>ready\<close>.\<close>

theorem deployment_recoverable:
  assumes "deployment_valid (dep_Phase d)"
  shows "\<exists>as. dep_Phase (run_attempts TransitionDeployment d as) = DeploymentReady"
proof -
  obtain p f where d: "d = \<lparr>dep_Phase = p, dep_Fence = f\<rparr>" by (cases d)
  have "dep_Phase (run_attempts TransitionDeployment d
          [(DeploymentUnknown, f), (DeploymentPending, f), (DeploymentApplying, f), (DeploymentReady, f)])
        = DeploymentReady"
    using assms unfolding d
    by (cases p) (simp_all add: TransitionDeployment_def valid_defs allows_def deploymentTransitions_def)
  then show ?thesis by blast
qed

text \<open>A history of fence claims on one row: each element is the fence a worker read before it
  asked; the granted fences are collected in order.\<close>

fun run_claims :: "int \<Rightarrow> int list \<Rightarrow> int list" where
  "run_claims current [] = []"
| "run_claims current (e # es) =
     (case ClaimFence current e of Inl _ \<Rightarrow> run_claims current es
      | Inr granted \<Rightarrow> granted # run_claims granted es)"

lemma ClaimFence_Inr:
  "ClaimFence c e = Inr g \<Longrightarrow> c \<le> int64_max \<Longrightarrow> g = c + 1 \<and> e = c \<and> g \<le> int64_max"
  by (auto simp: ClaimFence_def split: if_splits)

text \<open>Fencing generations are never handed out twice: over any history of claims on a row
  the granted fences strictly increase above the starting fence and stay in the \<open>int64\<close>
  range, so two workers that read the same fence cannot both win.\<close>

theorem granted_fences_strictly_increase:
  assumes "current \<le> int64_max"
  shows "sorted_wrt (<) (current # run_claims current es)
       \<and> (\<forall>g \<in> set (run_claims current es). g \<le> int64_max)"
  using assms
proof (induction es arbitrary: current)
  case (Cons e es)
  show ?case
  proof (cases "ClaimFence current e")
    case (Inl err)
    with Cons show ?thesis by simp
  next
    case (Inr g)
    from ClaimFence_Inr [OF Inr] Cons.prems have g: "g = current + 1" "g \<le> int64_max" by auto
    from Cons.IH [OF g(2)] g Inr show ?thesis by (auto intro: less_trans)
  qed
qed simp

text \<open>C16. The persisted counters are exactly a census of the cluster states: they exist iff
  every state is a known one; then each counter is the number of clusters in its class, the
  classes partition the fleet, and the terminal and unavailable totals are the
  complements they claim to be.\<close>

theorem counters_are_a_census:
  "case DeriveRolloutCounters states of
     Inl e \<Rightarrow> \<not> list_all cluster_valid states \<and> te_Code e = CodeInvalidState
   | Inr c \<Rightarrow> list_all cluster_valid states
       \<and> ct_Total c = int (length states)
       \<and> ct_Pending c = count_in RolloutClusterPending states
       \<and> ct_Active c = count_in RolloutClusterReleased states
       \<and> ct_Ready c = count_in RolloutClusterReady states
       \<and> ct_Failed c = count_in RolloutClusterFailed states
       \<and> ct_Blocked c = count_in RolloutClusterBlocked states
       \<and> ct_Skipped c = count_in RolloutClusterSkipped states
       \<and> ct_RollbackReady c = count_in RolloutClusterReadyPrevious states
       \<and> ct_Total c = ct_Pending c + ct_Active c + ct_Blocked c + ct_Terminal c
       \<and> ct_Unavailable c = ct_Pending c + ct_Active c + ct_Blocked c + ct_Failed c + ct_Skipped c
       \<and> 0 \<le> ct_Unavailable c \<and> ct_Unavailable c \<le> ct_Total c"
proof (cases "list_all cluster_valid states")
  case True
  then show ?thesis
    using count_classes_total [OF True]
    by (simp add: DeriveRolloutCounters_def counters_loop zero_counters_def Let_def)
next
  case False
  then obtain e where e: "DeriveRolloutCounters states = Inl e"
    using counters_fail_iff [of states] by (auto simp: list_all_iff)
  have "for_each count_state states c = Inl e' \<Longrightarrow> te_Code e' = CodeInvalidState" for c e'
    by (induction states arbitrary: c)
       (auto simp: sbind_Inl_iff count_state_def invalidState_def split: if_splits)
  with e False show ?thesis
    by (auto simp: DeriveRolloutCounters_def sbind_Inl_iff)
qed

end
