(* ===== verification/Safeconv.thy ===== *)
theory Safeconv
  imports Prelude
begin

text \<open>
  \<open>pkg/safeconv\<close>: the saturating integer conversions.  A value of any Go integer type is
  an \<open>int\<close> in \<open>go_integer\<close>; the conversions the code performs after clamping are
  written out with their wrap-around (\<open>to_sint\<close>, \<open>to_uint\<close>), and the lemmas show
  that none of them loses a bit.  The \<open>saturating\<close> interface is what the callers rely
  on; each of the six helpers is an interpretation of it.
\<close>

definition go_integer :: "int \<Rightarrow> bool" where
  "go_integer v \<longleftrightarrow> int64_min \<le> v \<and> v \<le> uint64_max"

definition clampSigned :: "int \<Rightarrow> int \<Rightarrow> int \<Rightarrow> int" where
  "clampSigned v lo hi =
     (if v < 0 then let n = to_sint 64 v in if n < lo then lo else n
      else let u = to_uint 64 v in if hi < 0 \<or> u > to_uint 64 hi then hi else to_sint 64 u)"

definition clampUnsigned :: "int \<Rightarrow> int \<Rightarrow> int" where
  "clampUnsigned v hi =
     (if v < 0 then 0 else let u = to_uint 64 v in if u > hi then hi else u)"

definition safe_Int32 :: "int \<Rightarrow> int" where
  "safe_Int32 v = to_sint 32 (clampSigned v int32_min int32_max)"

definition safe_Int64 :: "int \<Rightarrow> int" where
  "safe_Int64 v = clampSigned v int64_min int64_max"

definition safe_Int :: "int \<Rightarrow> int" where
  "safe_Int v = to_sint 64 (clampSigned v int64_min int64_max)"

definition safe_Uint32 :: "int \<Rightarrow> int" where
  "safe_Uint32 v = to_uint 32 (clampUnsigned v uint32_max)"

definition safe_Uint64 :: "int \<Rightarrow> int" where
  "safe_Uint64 v = clampUnsigned v uint64_max"

definition safe_Byte :: "int \<Rightarrow> int" where
  "safe_Byte v = to_uint 8 (clampUnsigned v 255)"

section \<open>The helpers clamp\<close>

lemma clampSigned_eq:
  assumes "go_integer v" and "int64_min \<le> lo" and "lo \<le> 0" and "0 \<le> hi" and "hi \<le> int64_max"
  shows "clampSigned v lo hi = max lo (min hi v)"
  using assms
  by (auto simp: clampSigned_def go_integer_def Let_def to_sint_id to_uint_id)

lemma clampUnsigned_eq:
  assumes "go_integer v" and "0 \<le> hi"
  shows "clampUnsigned v hi = max 0 (min hi v)"
  using assms by (auto simp: clampUnsigned_def go_integer_def Let_def to_uint_id)

section \<open>The saturation contract\<close>

locale saturating =
  fixes conv :: "int \<Rightarrow> int" and lo hi :: int
  assumes range_ok: "lo \<le> 0" "0 \<le> hi"
    and conv_clamps: "go_integer v \<Longrightarrow> conv v = max lo (min hi v)"
begin

lemma conv_range: "go_integer v \<Longrightarrow> lo \<le> conv v \<and> conv v \<le> hi"
  using range_ok by (simp add: conv_clamps)

lemma conv_exact: "go_integer v \<Longrightarrow> lo \<le> v \<Longrightarrow> v \<le> hi \<Longrightarrow> conv v = v"
  by (simp add: conv_clamps)

lemma conv_mono: "go_integer v \<Longrightarrow> go_integer w \<Longrightarrow> v \<le> w \<Longrightarrow> conv v \<le> conv w"
  by (simp add: conv_clamps max_def min_def)

lemma conv_sign: "go_integer v \<Longrightarrow> 0 \<le> v \<Longrightarrow> 0 \<le> conv v"
  using range_ok by (simp add: conv_clamps)

end

interpretation sc_int32: saturating safe_Int32 int32_min int32_max
  by unfold_locales (simp_all add: safe_Int32_def clampSigned_eq to_sint_id)

interpretation sc_int64: saturating safe_Int64 int64_min int64_max
  by unfold_locales (simp_all add: safe_Int64_def clampSigned_eq)

interpretation sc_int: saturating safe_Int int64_min int64_max
  by unfold_locales (simp_all add: safe_Int_def clampSigned_eq to_sint_id)

interpretation sc_uint32: saturating safe_Uint32 0 uint32_max
  by unfold_locales (simp_all add: safe_Uint32_def clampUnsigned_eq to_uint_id)

interpretation sc_uint64: saturating safe_Uint64 0 uint64_max
  by unfold_locales (simp_all add: safe_Uint64_def clampUnsigned_eq)

interpretation sc_byte: saturating safe_Byte 0 255
  by unfold_locales (simp_all add: safe_Byte_def clampUnsigned_eq to_uint_id)

lemma safe_Uint64_exact: "0 \<le> v \<Longrightarrow> v \<le> uint64_max \<Longrightarrow> safe_Uint64 v = v"
  by (rule sc_uint64.conv_exact) (simp_all add: go_integer_def)

lemma safe_Int_exact: "0 \<le> v \<Longrightarrow> v \<le> int64_max \<Longrightarrow> safe_Int v = v"
  by (rule sc_int.conv_exact) (simp_all add: go_integer_def)

end
