(* ===== verification/Sha256.thy ===== *)
theory Sha256
  imports Prelude
begin

text \<open>
  \<open>crypto/sha256\<close> and \<open>encoding/hex\<close> of Go's standard library, as FIPS 180-4 defines the
  hash.  The delivery code names every immutable value by such a digest
  (\<open>internal/delivery/model/digest.go\<close>) and orders clusters by one
  (\<open>internal/delivery/rollout/cohorts.go\<close>), so the function is part of the model: it is
  executable, and the lemmas give the shape of its output.
\<close>

unbundle bit_operations_syntax

type_synonym bytes = string

section \<open>The compression function\<close>

text \<open>The round constants and the initial state, written in decimal.\<close>

definition sha_K :: "uint32 list" where
  "sha_K =
    [1116352408, 1899447441, 3049323471, 3921009573, 961987163, 1508970993, 2453635748,
     2870763221, 3624381080, 310598401, 607225278, 1426881987, 1925078388, 2162078206,
     2614888103, 3248222580, 3835390401, 4022224774, 264347078, 604807628, 770255983,
     1249150122, 1555081692, 1996064986, 2554220882, 2821834349, 2952996808, 3210313671,
     3336571891, 3584528711, 113926993, 338241895, 666307205, 773529912, 1294757372,
     1396182291, 1695183700, 1986661051, 2177026350, 2456956037, 2730485921, 2820302411,
     3259730800, 3345764771, 3516065817, 3600352804, 4094571909, 275423344, 430227734,
     506948616, 659060556, 883997877, 958139571, 1322822218, 1537002063, 1747873779,
     1955562222, 2024104815, 2227730452, 2361852424, 2428436474, 2756734187, 3204031479,
     3329325298]"

definition sha_H0 :: "uint32 list" where
  "sha_H0 = [1779033703, 3144134277, 1013904242, 2773480762, 1359893119, 2600822924, 528734635, 1541459225]"

definition sha_ch :: "uint32 \<Rightarrow> uint32 \<Rightarrow> uint32 \<Rightarrow> uint32" where
  "sha_ch x y z = (x AND y) XOR (NOT x AND z)"

definition sha_maj :: "uint32 \<Rightarrow> uint32 \<Rightarrow> uint32 \<Rightarrow> uint32" where
  "sha_maj x y z = (x AND y) XOR (x AND z) XOR (y AND z)"

definition sha_Sigma0 :: "uint32 \<Rightarrow> uint32" where
  "sha_Sigma0 x = word_rotr 2 x XOR word_rotr 13 x XOR word_rotr 22 x"

definition sha_Sigma1 :: "uint32 \<Rightarrow> uint32" where
  "sha_Sigma1 x = word_rotr 6 x XOR word_rotr 11 x XOR word_rotr 25 x"

definition sha_sigma0 :: "uint32 \<Rightarrow> uint32" where
  "sha_sigma0 x = word_rotr 7 x XOR word_rotr 18 x XOR drop_bit 3 x"

definition sha_sigma1 :: "uint32 \<Rightarrow> uint32" where
  "sha_sigma1 x = word_rotr 17 x XOR word_rotr 19 x XOR drop_bit 10 x"

text \<open>The message schedule, newest word first, extended to 64 words.\<close>

fun sha_schedule :: "nat \<Rightarrow> uint32 list \<Rightarrow> uint32 list" where
  "sha_schedule 0 w = w"
| "sha_schedule (Suc n) w =
     sha_schedule n ((sha_sigma1 (w ! 1) + w ! 6 + sha_sigma0 (w ! 14) + w ! 15) # w)"

fun sha_round :: "uint32 list \<Rightarrow> uint32 \<times> uint32 \<Rightarrow> uint32 list" where
  "sha_round [a, b, c, d, e, f, g, h] (k, w) =
     (let t1 = h + sha_Sigma1 e + sha_ch e f g + k + w;
          t2 = sha_Sigma0 a + sha_maj a b c
      in [t1 + t2, a, b, c, d + t1, e, f, g])"
| "sha_round s _ = s"

definition sha_block :: "uint32 list \<Rightarrow> uint32 list \<Rightarrow> uint32 list" where
  "sha_block s ws =
     map2 (+) s (foldl sha_round s (zip sha_K (rev (sha_schedule 48 (rev ws)))))"

section \<open>Bytes and padding\<close>

definition byte_at :: "int \<Rightarrow> nat \<Rightarrow> char" where
  "byte_at v i = char_of (take_bit 8 (drop_bit (8 * i) v))"

definition big_endian :: "nat \<Rightarrow> int \<Rightarrow> bytes" where
  "big_endian n v = map (byte_at v) (rev [0 ..< n])"

fun words_of :: "bytes \<Rightarrow> uint32 list" where
  "words_of (a # b # c # d # rest) =
     word_of_int (((of_char a * 256 + of_char b) * 256 + of_char c) * 256 + of_char d) # words_of rest"
| "words_of _ = []"

definition sha_pad :: "bytes \<Rightarrow> bytes" where
  "sha_pad m = m @ [CHR 0x80] @ replicate ((119 - length m mod 64) mod 64) (CHR 0x00) @ big_endian 8 (8 * int (length m))"

fun sha_chunks :: "nat \<Rightarrow> uint32 list \<Rightarrow> uint32 list \<Rightarrow> uint32 list" where
  "sha_chunks 0 ws s = s"
| "sha_chunks (Suc n) ws s = sha_chunks n (drop 16 ws) (sha_block s (take 16 ws))"

definition sha256_Sum :: "bytes \<Rightarrow> bytes" where
  "sha256_Sum m =
     (let p = sha_pad m in
      concat (map (\<lambda>w. big_endian 4 (uint w)) (sha_chunks (length p div 64) (words_of p) sha_H0)))"

section \<open>Hexadecimal text\<close>

definition hex_digit :: "nat \<Rightarrow> char" where
  "hex_digit n = ''0123456789abcdef'' ! n"

definition hex_byte :: "char \<Rightarrow> string" where
  "hex_byte c = [hex_digit (of_char c div 16), hex_digit (of_char c mod 16)]"

definition hex_EncodeToString :: "bytes \<Rightarrow> string" where
  "hex_EncodeToString bs = concat (map hex_byte bs)"

section \<open>The shape of a digest\<close>

lemma sha_round_length: "length (sha_round s kw) = length s"
  by (induction s kw rule: sha_round.induct) (simp_all add: Let_def)

lemma foldl_sha_round_length: "length (foldl sha_round s kws) = length s"
  by (induction kws arbitrary: s) (simp_all add: sha_round_length)

lemma sha_chunks_length: "length (sha_chunks n ws s) = length s"
  by (induction n ws s rule: sha_chunks.induct) (simp_all add: sha_block_def foldl_sha_round_length)

lemma sha256_length: "length (sha256_Sum m) = 32"
proof -
  have "length (sha_chunks n ws sha_H0) = 8" for n ws
    unfolding sha_chunks_length by (simp add: sha_H0_def)
  then show ?thesis
    by (simp add: sha256_Sum_def Let_def big_endian_def length_concat comp_def sum_list_triv)
qed

lemma hex_digit_range: "n < 16 \<Longrightarrow> hex_digit n \<in> set ''0123456789abcdef''"
  unfolding hex_digit_def by (rule nth_mem) simp

lemma hex_text:
  "length (hex_EncodeToString bs) = 2 * length bs"
  "set (hex_EncodeToString bs) \<subseteq> set ''0123456789abcdef''"
proof -
  show "length (hex_EncodeToString bs) = 2 * length bs"
    by (induction bs) (simp_all add: hex_EncodeToString_def hex_byte_def)
  have byte: "set (hex_byte c) \<subseteq> set ''0123456789abcdef''" for c
  proof -
    have "of_char c < (256 :: nat)" by simp
    then have "of_char c div 16 < (16 :: nat)" "of_char c mod 16 < (16 :: nat)"
      by (simp_all add: less_mult_imp_div_less)
    then show ?thesis
      unfolding hex_byte_def using hex_digit_range by simp
  qed
  show "set (hex_EncodeToString bs) \<subseteq> set ''0123456789abcdef''"
    unfolding hex_EncodeToString_def using byte by (simp only: set_concat set_map) blast
qed

text \<open>Two test vectors of the standard, computed in the logic.\<close>

lemma sha256_abc:
  "hex_EncodeToString (sha256_Sum ''abc'')
   = ''ba7816bf8f01cfea414140de5dae2223b00361a396177a9cb410ff61f20015ad''"
  by code_simp

lemma sha256_empty:
  "hex_EncodeToString (sha256_Sum [])
   = ''e3b0c44298fc1c149afbf4c8996fb92427ae41e4649b934ca495991b7852b855''"
  by code_simp

end
