(* ===== verification/Model_Core.thy ===== *)
theory Model_Core
  imports Sha256 "HOL-Library.Product_Lexorder"
begin

text \<open>
  \<open>internal/delivery/model\<close>: \<open>errors.go\<close>, \<open>digest.go\<close> and \<open>types.go\<close>.  The validation collector is append-only, so a validator is a
  function to the list of violations it adds, and \<open>collector.err() == nil\<close> is the empty
  list; a violation keeps its field and code (the message text is dropped).

  What the code takes from outside the repository is the record \<open>ext_lib\<close>, an argument
  of every validator that needs it: the UUID printer of \<open>google/uuid\<close>, the name checks of
  \<open>k8s.io/apimachinery\<close>, the semantic versions of \<open>Masterminds/semver\<close>, the YAML
  reader of \<open>sigs.k8s.io/yaml\<close>, and the results of the JSON and URL parsers.  Nothing is
  assumed about them here.
\<close>

section \<open>Violations\<close>

datatype ValidationCode =
  CodeRequired | CodeInvalid | CodeUnsupported | CodeConflict | CodeLimitExceeded
  | CodeNotImmutable | CodeSecretNotAllowed

record Violation =
  vio_Field :: string
  vio_Code :: ValidationCode

type_synonym violations = "Violation list"

definition add :: "string \<Rightarrow> ValidationCode \<Rightarrow> violations" where
  "add field code = [\<lparr>vio_Field = field, vio_Code = code\<rparr>]"

definition add_if :: "bool \<Rightarrow> string \<Rightarrow> ValidationCode \<Rightarrow> violations" where
  "add_if c field code = (if c then add field code else [])"

definition append_under :: "string \<Rightarrow> violations \<Rightarrow> violations" where
  "append_under prefix vs = map (\<lambda>v.
     v\<lparr>vio_Field := (if prefix = [] then vio_Field v
                      else if vio_Field v = [] then prefix
                      else prefix @ ''.'' @ vio_Field v)\<rparr>) vs"

definition HasCode :: "violations \<Rightarrow> ValidationCode \<Rightarrow> bool" where
  "HasCode vs code = list_ex (\<lambda>v. vio_Code v = code) vs"

definition indexed :: "string \<Rightarrow> nat \<Rightarrow> string" where
  "indexed field i = field @ ''['' @ itoa i @ '']''"

lemma add_not_Nil [simp]: "add f c \<noteq> []"
  by (simp add: add_def)

lemma add_if_Nil [simp]: "add_if c f code = [] \<longleftrightarrow> \<not> c"
  by (simp add: add_if_def)

lemma append_under_Nil [simp]: "append_under p vs = [] \<longleftrightarrow> vs = []"
  by (simp add: append_under_def)

text \<open>A loop over a slice that adds violations for each index.\<close>

fun each_index :: "(nat \<Rightarrow> 'a \<Rightarrow> violations) \<Rightarrow> nat \<Rightarrow> 'a list \<Rightarrow> violations" where
  "each_index f i [] = []"
| "each_index f i (x # xs) = f i x @ each_index f (Suc i) xs"

lemma each_index_Nil:
  "each_index f i xs = [] \<longleftrightarrow> (\<forall>j < length xs. f (i + j) (xs ! j) = [])"
proof (induction xs arbitrary: i)
  case (Cons x xs)
  then show ?case by (auto simp: less_Suc_eq_0_disj)
qed simp

text \<open>The same loop with a \<open>seen\<close> set: after the checks of an element, one violation
  when its key was there before.\<close>

fun each_seen :: "(nat \<Rightarrow> 'a \<Rightarrow> violations) \<Rightarrow> ('a \<Rightarrow> 'k) \<Rightarrow> (nat \<Rightarrow> string)
    \<Rightarrow> nat \<Rightarrow> 'k list \<Rightarrow> 'a list \<Rightarrow> violations" where
  "each_seen check key field i seen [] = []"
| "each_seen check key field i seen (x # xs) =
     check i x
     @ add_if (contains seen (key x)) (field i) CodeConflict
     @ each_seen check key field (Suc i) (key x # seen) xs"

lemma each_seen_Nil:
  "each_seen check key field i seen xs = [] \<longleftrightarrow>
     (\<forall>j < length xs. check (i + j) (xs ! j) = [])
     \<and> distinct (map key xs) \<and> set (map key xs) \<inter> set seen = {}"
proof (induction xs arbitrary: i seen)
  case (Cons x xs)
  have all: "(\<forall>j < length (x # xs). check (i + j) ((x # xs) ! j) = []) \<longleftrightarrow>
      check i x = [] \<and> (\<forall>j < length xs. check (Suc i + j) (xs ! j) = [])"
    by (auto simp: less_Suc_eq_0_disj)
  show ?case unfolding all by (auto simp: Cons.IH)
qed simp

section \<open>External library functions\<close>

datatype jvalue =
  JNull | JBool bool | JNum string | JStr string | JArr "jvalue list" | JObj "(string \<times> jvalue) list"

record ParsedURL =
  url_Scheme :: string
  url_Host :: string
  url_Fragment :: string
  url_RawQuery :: string
  url_User :: "(string \<times> string option) option"

record ext_lib =
  lib_uuidString :: "uuid \<Rightarrow> string"
  lib_IsQualifiedName :: "string \<Rightarrow> bool"
  lib_IsValidLabelValue :: "string \<Rightarrow> bool"
  lib_IsDNS1123Subdomain :: "string \<Rightarrow> bool"
  lib_NewVersion :: "string \<Rightarrow> bool"
  lib_NewConstraint :: "string \<Rightarrow> bool"
  lib_ConstraintCheck :: "string \<Rightarrow> string \<Rightarrow> bool"
  lib_urlParse :: "string \<Rightarrow> ParsedURL option"
  lib_jsonUnmarshal :: "string \<Rightarrow> jvalue option"
  lib_jsonDecode :: "string \<Rightarrow> jvalue option"
  lib_jsonMarshal :: "jvalue \<Rightarrow> string"
  lib_yamlUnmarshal :: "string \<Rightarrow> jvalue option"
  lib_overridesJSONLength :: "string \<Rightarrow> string list \<Rightarrow> nat option"

section \<open>Digests\<close>

definition lower_hex :: "char \<Rightarrow> bool" where
  "lower_hex c \<longleftrightarrow> CHR ''a'' \<le> c \<and> c \<le> CHR ''f'' \<or> CHR ''0'' \<le> c \<and> c \<le> CHR ''9''"

definition digestPattern :: "string \<Rightarrow> bool" where
  "digestPattern s \<longleftrightarrow> starts_with ''sha256:'' s \<and> length s = 71 \<and> list_all lower_hex (drop 7 s)"

definition Digest_Validate :: "digest \<Rightarrow> violations" where
  "Digest_Validate d = add_if (\<not> digestPattern d) ''digest'' CodeInvalid"

definition ParseDigest :: "string \<Rightarrow> violations + digest" where
  "ParseDigest value = (if Digest_Validate value = [] then Inr value else Inl (Digest_Validate value))"

definition DigestBytes :: "bytes \<Rightarrow> digest" where
  "DigestBytes value = ''sha256:'' @ hex_EncodeToString (sha256_Sum value)"

text \<open>The RFC 8785 text of a value, \<open>canonicalJSON\<close>, comes from \<open>json.Marshal\<close> and the
  package \<open>gowebpki/jcs\<close>; \<open>None\<close> stands for an encoding error.\<close>

definition CanonicalDigest :: "('a \<Rightarrow> bytes option) \<Rightarrow> 'a \<Rightarrow> digest option" where
  "CanonicalDigest canonicalJSON value =
     (case canonicalJSON value of None \<Rightarrow> None | Some canonical \<Rightarrow> Some (DigestBytes canonical))"

lemma DigestBytes_valid [simp]: "Digest_Validate (DigestBytes value) = []"
proof -
  have "list_all lower_hex ''0123456789abcdef''"
    by (simp add: lower_hex_def less_eq_char_def)
  then have "list_all lower_hex (hex_EncodeToString (sha256_Sum value))"
    using hex_text(2) [of "sha256_Sum value"] unfolding list_all_iff by blast
  then show ?thesis
    by (simp add: Digest_Validate_def digestPattern_def DigestBytes_def starts_with_def hex_text sha256_length)
qed

lemma CanonicalDigest_valid: "CanonicalDigest canonicalJSON value = Some d \<Longrightarrow> Digest_Validate d = []"
  by (auto simp: CanonicalDigest_def split: option.splits)

section \<open>Names and other scalar checks\<close>

abbreviation MaxNameLength :: nat where "MaxNameLength \<equiv> 253"
abbreviation MaxDescriptionLength :: nat where "MaxDescriptionLength \<equiv> 4096"
abbreviation MaxURLLength :: nat where "MaxURLLength \<equiv> 4096"
abbreviation MaxRequestedRevisionLength :: nat where "MaxRequestedRevisionLength \<equiv> 1024"
abbreviation MaxValuesBytes :: nat where "MaxValuesBytes \<equiv> 1048576"
abbreviation MaxPatchBytes :: nat where "MaxPatchBytes \<equiv> 262144"
abbreviation MaxCapabilities :: nat where "MaxCapabilities \<equiv> 128"

definition containsControl :: "string \<Rightarrow> bool" where
  "containsControl value \<longleftrightarrow> list_ex (\<lambda>c. c < CHR 0x20 \<or> c = CHR 0x7F) value"

definition validateUUID :: "string \<Rightarrow> uuid \<Rightarrow> violations" where
  "validateUUID field value = add_if (value = uuid_nil) field CodeRequired"

definition validateName :: "string \<Rightarrow> string \<Rightarrow> violations" where
  "validateName field value =
     (if value = [] then add field CodeRequired
      else if value \<noteq> trim_space value \<or> containsControl value then add field CodeInvalid
      else add_if (length value > MaxNameLength) field CodeLimitExceeded)"

definition dns_char :: "char \<Rightarrow> bool" where
  "dns_char c \<longleftrightarrow> CHR ''a'' \<le> c \<and> c \<le> CHR ''z'' \<or> CHR ''0'' \<le> c \<and> c \<le> CHR ''9''"

definition dnsLabelPattern :: "string \<Rightarrow> bool" where
  "dnsLabelPattern s \<longleftrightarrow> s \<noteq> [] \<and> dns_char (hd s) \<and> dns_char (last s)
     \<and> list_all (\<lambda>c. dns_char c \<or> c = CHR ''-'') s"

definition validateDNSLabel :: "string \<Rightarrow> string \<Rightarrow> violations" where
  "validateDNSLabel field value =
     add_if (value = [] \<or> length value > 63 \<or> \<not> dnsLabelPattern value) field CodeInvalid"

definition validatePositiveDuration :: "string \<Rightarrow> duration \<Rightarrow> violations" where
  "validatePositiveDuration field value = add_if (value \<le> 0) field CodeInvalid"

definition SafeCode :: "string \<Rightarrow> bool" where
  "SafeCode value \<longleftrightarrow>
     (if value = [] \<or> length value > 128 then False
      else if list_ex (\<lambda>r. (r < CHR ''a'' \<or> r > CHR ''z'') \<and> (r < CHR ''0'' \<or> r > CHR ''9'')
                        \<and> r \<noteq> CHR ''_'' \<and> r \<noteq> CHR ''-'') value then False
      else \<not> list_ex (\<lambda>i. take 2 (drop i value) = ''--'') [0 ..< length value])"

section \<open>Sources and trust\<close>

datatype SourceType =
  SourceGit | SourceOCIArtifact | SourceHelmHTTP | SourceHelmOCI | SourceOther string
datatype AuthMode =
  AuthNone | AuthBasic | AuthBearer | AuthSSH | AuthWorkloadIdentity | AuthOther string
datatype SignatureProvider =
  SignatureNone | SignatureCosignKey | SignatureCosignKeyless | SignatureGit | SignatureOther string

record TrustPolicy =
  tp_AllowUnsigned :: bool
  tp_Provider :: SignatureProvider
  tp_Identity :: string
  tp_Issuer :: string
  tp_KeyRef :: string

definition TrustPolicy_Validate :: "ext_lib \<Rightarrow> TrustPolicy \<Rightarrow> violations" where
  "TrustPolicy_Validate E p =
     add_if (length (tp_Identity p) > 2048 \<or> containsControl (tp_Identity p)) ''identity'' CodeInvalid
   @ add_if (length (tp_Issuer p) > 2048 \<or> containsControl (tp_Issuer p)) ''issuer'' CodeInvalid
   @ add_if (tp_KeyRef p \<noteq> [] \<and> \<not> lib_IsDNS1123Subdomain E (tp_KeyRef p)) ''key_ref'' CodeInvalid
   @ (if tp_AllowUnsigned p
      then add_if (tp_Provider p \<noteq> SignatureNone \<or> tp_Identity p \<noteq> [] \<or> tp_Issuer p \<noteq> [] \<or> tp_KeyRef p \<noteq> [])
             ''allow_unsigned'' CodeConflict
      else case tp_Provider p of
          SignatureCosignKey \<Rightarrow>
            add_if (trim_space (tp_KeyRef p) = []) ''key_ref'' CodeRequired
          @ add_if (tp_Identity p \<noteq> [] \<or> tp_Issuer p \<noteq> []) ''identity'' CodeConflict
        | SignatureCosignKeyless \<Rightarrow>
            add_if (trim_space (tp_Identity p) = []) ''identity'' CodeRequired
          @ add_if (trim_space (tp_Issuer p) = []) ''issuer'' CodeRequired
          @ add_if (tp_KeyRef p \<noteq> []) ''key_ref'' CodeConflict
        | SignatureGit \<Rightarrow>
            add_if (trim_space (tp_KeyRef p) = []) ''key_ref'' CodeRequired
          @ add_if (tp_Issuer p \<noteq> []) ''issuer'' CodeConflict
        | SignatureNone \<Rightarrow> add ''provider'' CodeRequired
        | SignatureOther _ \<Rightarrow> add ''provider'' CodeUnsupported)"

definition known_source :: "SourceType \<Rightarrow> bool" where
  "known_source t \<longleftrightarrow> t \<in> {SourceGit, SourceOCIArtifact, SourceHelmHTTP, SourceHelmOCI}"

definition url_scheme_allowed :: "SourceType \<Rightarrow> string \<Rightarrow> bool" where
  "url_scheme_allowed t scheme =
     (case t of
        SourceGit \<Rightarrow> scheme = ''https'' \<or> scheme = ''ssh''
      | SourceOCIArtifact \<Rightarrow> scheme = ''oci''
      | SourceHelmOCI \<Rightarrow> scheme = ''oci''
      | SourceHelmHTTP \<Rightarrow> scheme = ''https''
      | SourceOther _ \<Rightarrow> False)"

definition validateSourceURL :: "ext_lib \<Rightarrow> SourceType \<Rightarrow> string \<Rightarrow> violations \<times> ParsedURL option" where
  "validateSourceURL E t value =
     (if value = [] then (add ''url'' CodeRequired, None)
      else if length value > MaxURLLength then (add ''url'' CodeLimitExceeded, None)
      else case lib_urlParse E value of
          None \<Rightarrow> (add ''url'' CodeInvalid, None)
        | Some parsed \<Rightarrow>
            if url_Host parsed = [] \<or> url_Fragment parsed \<noteq> [] \<or> url_RawQuery parsed \<noteq> []
            then (add ''url'' CodeInvalid, None)
            else ((case url_User parsed of None \<Rightarrow> []
                   | Some (username, password) \<Rightarrow>
                       add_if (url_Scheme parsed \<noteq> ''ssh'' \<or> username = [] \<or> password \<noteq> None)
                         ''url'' CodeSecretNotAllowed)
                  @ add_if (\<not> url_scheme_allowed t (url_Scheme parsed)) ''url'' CodeInvalid,
                  Some parsed))"

definition validateSourceConnection ::
    "ext_lib \<Rightarrow> SourceType \<Rightarrow> string \<Rightarrow> AuthMode \<Rightarrow> TrustPolicy \<Rightarrow> violations" where
  "validateSourceConnection E t sourceURL authMode trust =
     (let (urlViolations, parsed) = validateSourceURL E t sourceURL in
      add_if (\<not> known_source t) ''type'' CodeUnsupported
    @ urlViolations
    @ (if tp_AllowUnsigned trust then []
       else case t of
           SourceGit \<Rightarrow> add_if (tp_Provider trust \<noteq> SignatureGit) ''trust_policy.provider'' CodeConflict
         | SourceOther _ \<Rightarrow> []
         | _ \<Rightarrow> add_if (tp_Provider trust \<noteq> SignatureCosignKey \<and> tp_Provider trust \<noteq> SignatureCosignKeyless)
                  ''trust_policy.provider'' CodeConflict)
    @ (case authMode of
         AuthSSH \<Rightarrow>
           add_if (t \<noteq> SourceGit) ''auth_mode'' CodeConflict
         @ (case parsed of None \<Rightarrow> [] | Some u \<Rightarrow> add_if (url_Scheme u \<noteq> ''ssh'') ''auth_mode'' CodeConflict)
       | AuthOther _ \<Rightarrow> add ''auth_mode'' CodeUnsupported
       | _ \<Rightarrow> [])
    @ append_under ''trust_policy'' (TrustPolicy_Validate E trust))"

record DeliverySource =
  src_ID :: uuid
  src_ProjectID :: uuid
  src_Name :: string
  src_Description :: string
  src_Type :: SourceType
  src_URL :: string
  src_AuthMode :: AuthMode
  src_Trust :: TrustPolicy

definition Source_Validate :: "ext_lib \<Rightarrow> DeliverySource \<Rightarrow> violations" where
  "Source_Validate E s =
     validateUUID ''id'' (src_ID s)
   @ validateUUID ''project_id'' (src_ProjectID s)
   @ validateName ''name'' (src_Name s)
   @ add_if (length (src_Description s) > MaxDescriptionLength) ''description'' CodeLimitExceeded
   @ validateSourceConnection E (src_Type s) (src_URL s) (src_AuthMode s) (src_Trust s)"


section \<open>Immutable revisions\<close>

datatype RevisionKind = RevisionGitCommit | RevisionOCIDigest | RevisionHelmChart | RevisionOther string

record ImmutableRevision =
  rev_Kind :: RevisionKind
  rev_Value :: string
  rev_ArtifactDigest :: digest

definition gitCommitPattern :: "string \<Rightarrow> bool" where
  "gitCommitPattern s \<longleftrightarrow> (length s = 40 \<or> length s = 64) \<and> list_all lower_hex s"

definition ImmutableRevision_Validate :: "ext_lib \<Rightarrow> ImmutableRevision \<Rightarrow> violations" where
  "ImmutableRevision_Validate E r =
     (case rev_Kind r of
        RevisionGitCommit \<Rightarrow> add_if (\<not> gitCommitPattern (rev_Value r)) ''value'' CodeNotImmutable
      | RevisionOCIDigest \<Rightarrow>
          add_if (case ParseDigest (rev_Value r) of Inl _ \<Rightarrow> True | Inr d \<Rightarrow> d = []) ''value'' CodeNotImmutable
      | RevisionHelmChart \<Rightarrow>
          (if trim_space (rev_Value r) = [] \<or> length (rev_Value r) > MaxRequestedRevisionLength
           then add ''value'' CodeNotImmutable
           else add_if (\<not> lib_NewVersion E (rev_Value r)) ''value'' CodeNotImmutable)
      | RevisionOther _ \<Rightarrow> add ''kind'' CodeUnsupported)
   @ add_if (Digest_Validate (rev_ArtifactDigest r) \<noteq> []) ''artifact_digest'' CodeInvalid"

record ResolvedSourceSpec =
  rss_SourceID :: uuid
  rss_Type :: SourceType
  rss_URL :: string
  rss_AuthMode :: AuthMode
  rss_Trust :: TrustPolicy
  rss_Revision :: ImmutableRevision

definition ResolvedSourceSpec_Validate :: "ext_lib \<Rightarrow> ResolvedSourceSpec \<Rightarrow> violations" where
  "ResolvedSourceSpec_Validate E s =
     validateUUID ''source_id'' (rss_SourceID s)
   @ validateSourceConnection E (rss_Type s) (rss_URL s) (rss_AuthMode s) (rss_Trust s)
   @ append_under ''revision'' (ImmutableRevision_Validate E (rss_Revision s))"

section \<open>Capability requirements\<close>

record CapabilityRequirement =
  cap_Name :: string
  cap_Constraint :: string

definition CapabilityRequirement_Validate :: "ext_lib \<Rightarrow> CapabilityRequirement \<Rightarrow> violations" where
  "CapabilityRequirement_Validate E r =
     add_if (\<not> lib_IsQualifiedName E (cap_Name r)) ''name'' CodeInvalid
   @ (if length (cap_Constraint r) > 128 then add ''constraint'' CodeLimitExceeded
      else if cap_Constraint r \<noteq> [] then
        add_if (\<not> lib_NewConstraint E (cap_Constraint r)) ''constraint'' CodeInvalid
      else [])"

fun capability_violations ::
    "ext_lib \<Rightarrow> nat \<Rightarrow> string option \<Rightarrow> CapabilityRequirement list \<Rightarrow> violations" where
  "capability_violations E i prev [] = []"
| "capability_violations E i prev (r # rs) =
     append_under (indexed ''capabilities'' i) (CapabilityRequirement_Validate E r)
   @ add_if (prev = Some (cap_Name r)) (indexed ''capabilities'' i @ ''.name'') CodeConflict
   @ capability_violations E (Suc i) (Some (cap_Name r)) rs"

definition CapabilityRequirementsCanonical ::
    "ext_lib \<Rightarrow> CapabilityRequirement list \<Rightarrow> violations + CapabilityRequirement list" where
  "CapabilityRequirementsCanonical E input =
     (if length input > MaxCapabilities then Inl (add ''capabilities'' CodeLimitExceeded)
      else let result = sort_key (\<lambda>r. (cap_Name r, cap_Constraint r)) input;
               vs = capability_violations E 0 None result
           in if vs = [] then Inr result else Inl vs)"

section \<open>Renderers\<close>

datatype RendererKind = RendererKustomize | RendererHelm | RendererOther string

record KustomizeSpec =
  ks_Path :: string
  ks_TargetNamespace :: string
  ks_Patches :: "string list"

record HelmValueSecretRef =
  hvr_Name :: string
  hvr_Key :: string
  hvr_TargetPath :: string

record HelmSpec =
  hs_Chart :: string
  hs_ChartVersion :: string
  hs_ReleaseName :: string
  hs_TargetNamespace :: string
  hs_Values :: string
  hs_ValueSecretRefs :: "HelmValueSecretRef list"
  hs_InstallRetries :: "8 word"
  hs_UpgradeRetries :: "8 word"
  hs_Test :: bool

record RendererSpec =
  rn_Kind :: RendererKind
  rn_Kustomize :: "KustomizeSpec option"
  rn_Helm :: "HelmSpec option"

text \<open>\<open>path.Clean\<close>: the elements between slashes, with \<open>.\<close> dropped and \<open>..\<close>
  removing the element before it; a leading \<open>..\<close> survives only in a relative path.\<close>

fun split_on :: "char \<Rightarrow> string \<Rightarrow> string \<Rightarrow> string list" where
  "split_on sep cur [] = [rev cur]"
| "split_on sep cur (c # cs) =
     (if c = sep then rev cur # split_on sep [] cs else split_on sep (c # cur) cs)"

fun clean_elems :: "bool \<Rightarrow> string list \<Rightarrow> string list \<Rightarrow> string list" where
  "clean_elems rooted stack [] = rev stack"
| "clean_elems rooted stack (e # es) =
     (if e = [] \<or> e = ''.'' then clean_elems rooted stack es
      else if e = ''..'' then
        (case stack of
           [] \<Rightarrow> clean_elems rooted (if rooted then [] else [''..'']) es
         | t # rest \<Rightarrow> if t = ''..'' then clean_elems rooted (''..'' # stack) es
                       else clean_elems rooted rest es)
      else clean_elems rooted (e # stack) es)"

fun join_slash :: "string list \<Rightarrow> string" where
  "join_slash [] = []"
| "join_slash [e] = e"
| "join_slash (e # es) = e @ ''/'' @ join_slash es"

definition path_Clean :: "string \<Rightarrow> string" where
  "path_Clean p =
     (if p = [] then ''.''
      else let rooted = (hd p = CHR ''/'');
               body = join_slash (clean_elems rooted [] (split_on (CHR ''/'') [] p))
           in if rooted then ''/'' @ body else if body = [] then ''.'' else body)"

definition KustomizeSpec_validate :: "KustomizeSpec \<Rightarrow> violations" where
  "KustomizeSpec_validate s =
     (let clean = path_Clean (ks_Path s) in
      add_if (ks_Path s = [] \<or> \<not> starts_with ''./'' (ks_Path s) \<or> clean = ''.'' \<or> clean = ''..''
              \<or> starts_with ''../'' clean) ''path'' CodeInvalid
    @ validateDNSLabel ''target_namespace'' (ks_TargetNamespace s)
    @ add_if (sum_list (map length (ks_Patches s)) > MaxPatchBytes) ''patches'' CodeLimitExceeded)"

definition secret_ref_violations :: "nat \<Rightarrow> HelmValueSecretRef \<Rightarrow> violations" where
  "secret_ref_violations i ref =
     (let field = indexed ''value_secret_refs'' i in
      validateDNSLabel (field @ ''.name'') (hvr_Name ref)
    @ add_if (hvr_Key ref = [] \<or> length (hvr_Key ref) > 253 \<or> containsControl (hvr_Key ref))
        (field @ ''.key'') CodeInvalid
    @ add_if (trim_space (hvr_TargetPath ref) = [] \<or> length (hvr_TargetPath ref) > 1024
              \<or> containsControl (hvr_TargetPath ref)) (field @ ''.target_path'') CodeInvalid)"

definition HelmSpec_validate :: "ext_lib \<Rightarrow> HelmSpec \<Rightarrow> violations" where
  "HelmSpec_validate E s =
     add_if (trim_space (hs_Chart s) = [] \<or> length (hs_Chart s) > MaxNameLength) ''chart'' CodeInvalid
   @ add_if (\<not> lib_NewVersion E (hs_ChartVersion s)) ''chart_version'' CodeNotImmutable
   @ validateDNSLabel ''release_name'' (hs_ReleaseName s)
   @ validateDNSLabel ''target_namespace'' (hs_TargetNamespace s)
   @ (if length (hs_Values s) > MaxValuesBytes then add ''values'' CodeLimitExceeded
      else add_if (hs_Values s \<noteq> [] \<and> lib_jsonUnmarshal E (hs_Values s) = None) ''values'' CodeInvalid)
   @ add_if (length (hs_ValueSecretRefs s) > 64) ''value_secret_refs'' CodeLimitExceeded
   @ each_index secret_ref_violations 0 (hs_ValueSecretRefs s)"

definition RendererSpec_Validate :: "ext_lib \<Rightarrow> RendererSpec \<Rightarrow> violations" where
  "RendererSpec_Validate E s =
     (case rn_Kind s of
        RendererKustomize \<Rightarrow>
          (case rn_Kustomize s of None \<Rightarrow> add ''kustomize'' CodeRequired
           | Some k \<Rightarrow> append_under ''kustomize'' (KustomizeSpec_validate k))
        @ add_if (rn_Helm s \<noteq> None) ''helm'' CodeConflict
      | RendererHelm \<Rightarrow>
          (case rn_Helm s of None \<Rightarrow> add ''helm'' CodeRequired
           | Some h \<Rightarrow> append_under ''helm'' (HelmSpec_validate E h))
        @ add_if (rn_Kustomize s \<noteq> None) ''kustomize'' CodeConflict
      | RendererOther _ \<Rightarrow> add ''kind'' CodeUnsupported)"

section \<open>Bundle versions\<close>

datatype DriftPolicy = DriftIgnore | DriftDetect | DriftRepair | DriftOther string
datatype BundleScope = ScopeNamespace | ScopePlatform | ScopeOther string

record ReconciliationPolicy =
  rp_Interval :: duration
  rp_RetryInterval :: duration
  rp_Timeout :: duration
  rp_Prune :: bool
  rp_Wait :: bool
  rp_Drift :: DriftPolicy

definition ReconciliationPolicy_Validate :: "ReconciliationPolicy \<Rightarrow> violations" where
  "ReconciliationPolicy_Validate p =
     validatePositiveDuration ''interval'' (rp_Interval p)
   @ validatePositiveDuration ''retry_interval'' (rp_RetryInterval p)
   @ validatePositiveDuration ''timeout'' (rp_Timeout p)
   @ (case rp_Drift p of DriftOther _ \<Rightarrow> add ''drift'' CodeUnsupported | _ \<Rightarrow> [])"

record BundleVersionDraft =
  bv_SourceID :: uuid
  bv_RequestedRevision :: string
  bv_Renderer :: RendererSpec
  bv_Scope :: BundleScope
  bv_Reconciliation :: ReconciliationPolicy
  bv_RequiredCapabilities :: "CapabilityRequirement list"

record BundleVersionSpec = BundleVersionDraft +
  bv_Revision :: ImmutableRevision

definition requested_revision_violations :: "string \<Rightarrow> violations" where
  "requested_revision_violations value =
     (if trim_space value = [] then add ''requested_revision'' CodeRequired
      else add_if (length value > MaxRequestedRevisionLength) ''requested_revision'' CodeLimitExceeded)"

definition bundle_tail_violations :: "ext_lib \<Rightarrow> 'a BundleVersionDraft_scheme \<Rightarrow> violations" where
  "bundle_tail_violations E s =
     (case bv_Scope s of ScopeOther _ \<Rightarrow> add ''scope'' CodeUnsupported | _ \<Rightarrow> [])
   @ append_under ''renderer'' (RendererSpec_Validate E (bv_Renderer s))
   @ append_under ''reconciliation_policy'' (ReconciliationPolicy_Validate (bv_Reconciliation s))
   @ append_under ''required_capabilities''
       (case CapabilityRequirementsCanonical E (bv_RequiredCapabilities s) of Inl vs \<Rightarrow> vs | Inr _ \<Rightarrow> [])"

definition BundleVersionDraft_Validate :: "ext_lib \<Rightarrow> BundleVersionDraft \<Rightarrow> violations" where
  "BundleVersionDraft_Validate E s =
     validateUUID ''source_id'' (bv_SourceID s)
   @ requested_revision_violations (bv_RequestedRevision s)
   @ bundle_tail_violations E s"

definition BundleVersionSpec_Validate :: "ext_lib \<Rightarrow> BundleVersionSpec \<Rightarrow> violations" where
  "BundleVersionSpec_Validate E s =
     validateUUID ''source_id'' (bv_SourceID s)
   @ requested_revision_violations (bv_RequestedRevision s)
   @ append_under ''revision'' (ImmutableRevision_Validate E (bv_Revision s))
   @ bundle_tail_violations E s"

definition BundleVersionDraft_Resolve ::
    "ext_lib \<Rightarrow> BundleVersionDraft \<Rightarrow> ImmutableRevision \<Rightarrow> violations + BundleVersionSpec" where
  "BundleVersionDraft_Resolve E s revision =
     (if BundleVersionDraft_Validate E s \<noteq> [] then Inl (BundleVersionDraft_Validate E s)
      else let resolved = BundleVersionDraft.extend s \<lparr>bv_Revision = revision\<rparr> in
        if BundleVersionSpec_Validate E resolved \<noteq> [] then Inl (BundleVersionSpec_Validate E resolved)
        else Inr resolved)"

section \<open>A concrete library\<close>

text \<open>The canonical text of a UUID, and one instance of the external functions.  The
  theorems hold for every \<open>ext_lib\<close>; the instance is where their hypotheses are shown to
  be satisfiable.\<close>

definition nibble :: "uuid \<Rightarrow> nat \<Rightarrow> nat" where
  "nibble u i = unat (take_bit 4 (drop_bit (4 * i) u))"

definition uuid_text :: "uuid \<Rightarrow> string" where
  "uuid_text u =
     (let hex = (\<lambda>is. map (\<lambda>i. hex_digit (nibble u i)) is) in
      hex (rev [24..<32]) @ ''-'' @ hex (rev [20..<24]) @ ''-'' @ hex (rev [16..<20]) @ ''-''
      @ hex (rev [12..<16]) @ ''-'' @ hex (rev [0..<12]))"

lemma nibble_less: "nibble u i < 16"
  by (simp add: nibble_def take_bit_eq_mod unat_mod_distrib)

lemma hex_digit_inj: "m < 16 \<Longrightarrow> n < 16 \<Longrightarrow> hex_digit m = hex_digit n \<Longrightarrow> m = n"
proof -
  have "distinct ''0123456789abcdef''" by simp
  moreover assume "m < 16" "n < 16" "hex_digit m = hex_digit n"
  ultimately show ?thesis unfolding hex_digit_def by (subst (asm) nth_eq_iff_index_eq) simp_all
qed

lemma nibbles_determine:
  assumes "\<And>i. i < 32 \<Longrightarrow> nibble u i = nibble v i"
  shows "u = v"
proof (rule bit_word_eqI)
  fix n assume "n < LENGTH(128)"
  then have i: "n div 4 < 32" by simp
  have "take_bit 4 (drop_bit (4 * (n div 4)) u) = take_bit 4 (drop_bit (4 * (n div 4)) v)"
    using assms [OF i] by (simp add: nibble_def word_unat_eq_iff)
  then have "bit (take_bit 4 (drop_bit (4 * (n div 4)) u)) (n mod 4)
           = bit (take_bit 4 (drop_bit (4 * (n div 4)) v)) (n mod 4)" by simp
  then show "bit u n = bit v n"
    by (simp add: bit_take_bit_iff bit_drop_bit_eq)
qed

lemma uuid_text_inj: "inj uuid_text"
proof (rule injI)
  fix u v assume "uuid_text u = uuid_text v"
  then have eq: "\<forall>i \<in> {0..<12} \<union> {12..<16} \<union> {16..<20} \<union> {20..<24} \<union> {24..<32}.
      hex_digit (nibble u i) = hex_digit (nibble v i)"
    by (simp add: uuid_text_def Let_def rev_map [symmetric] ball_Un del: upt_rec_numeral)
  show "u = v"
  proof (rule nibbles_determine)
    fix i :: nat assume "i < 32"
    then have "i \<in> {0..<12} \<union> {12..<16} \<union> {16..<20} \<union> {20..<24} \<union> {24..<32}" by auto
    with eq have "hex_digit (nibble u i) = hex_digit (nibble v i)" by blast
    then show "nibble u i = nibble v i" by (intro hex_digit_inj nibble_less)
  qed
qed

definition sample_lib :: ext_lib where
  "sample_lib =
     \<lparr>lib_uuidString = uuid_text, lib_IsQualifiedName = (\<lambda>s. s \<noteq> []), lib_IsValidLabelValue = (\<lambda>_. True),
      lib_IsDNS1123Subdomain = (\<lambda>s. s \<noteq> []), lib_NewVersion = (\<lambda>s. s \<noteq> []), lib_NewConstraint = (\<lambda>s. s \<noteq> []),
      lib_ConstraintCheck = (\<lambda>c v. c = v), lib_urlParse = (\<lambda>_. Some
        \<lparr>url_Scheme = ''https'', url_Host = ''h'', url_Fragment = [], url_RawQuery = [], url_User = None\<rparr>),
      lib_jsonUnmarshal = (\<lambda>_. Some (JObj [])),
      lib_jsonDecode = (\<lambda>_. Some (JObj [(''a'', JObj [(''b'', JNull)])])), lib_jsonMarshal = (\<lambda>_. ''{}''),
      lib_yamlUnmarshal = (\<lambda>_. Some (JObj [(''a'', JNull)])),
      lib_overridesJSONLength = (\<lambda>v ps. Some (length v + sum_list (map length ps) + 32))\<rparr>"

lemma sample_lib_uuidString [simp]: "lib_uuidString sample_lib = uuid_text"
  by (simp add: sample_lib_def)

end
