(* ===== verification/Model_Overrides.thy ===== *)
theory Model_Overrides
  imports Model_Core "HOL-Library.AList"
begin

text \<open>
  \<open>internal/delivery/model/target_overrides.go\<close> and the path rule of the Kustomize
  renderer: the overrides frozen with an assignment, the bound on their nesting and size,
  the deep merge of Helm values, and the proof that an accepted Kustomize path cannot
  leave the source tree.  A JSON object is an association list; Go's map has distinct keys
  and no order, which the merge lemma takes as a hypothesis.
\<close>

section \<open>Target overrides\<close>

abbreviation MaxTargetOverridesBytes :: nat where "MaxTargetOverridesBytes \<equiv> 65536"
abbreviation MaxTargetPatches :: nat where "MaxTargetPatches \<equiv> 16"
abbreviation MaxTargetPatchBytes :: nat where "MaxTargetPatchBytes \<equiv> 16384"
abbreviation MaxTargetValuesDepth :: nat where "MaxTargetValuesDepth \<equiv> 12"

record TargetOverrides =
  to_HelmValues :: string
  to_Patches :: "string list"

datatype TargetValueError = NestingExceeds | ObjectExceeds | InvalidKey | ArrayExceeds | InvalidString

datatype OverrideError =
    OverridesTooLarge | TooManyPatches | PatchEmptyOrLarge nat | PatchInvalidYAML nat
  | PatchNotObject nat | HelmValuesNotJSON | HelmValuesNotObject | HelmValuesError TargetValueError

definition nul_char :: char where "nul_char = CHR 0x00"

fun validateTargetValue :: "jvalue \<Rightarrow> nat \<Rightarrow> TargetValueError + unit"
  and validateTargetItems :: "jvalue list \<Rightarrow> nat \<Rightarrow> TargetValueError + unit"
  and validateTargetMembers :: "(string \<times> jvalue) list \<Rightarrow> nat \<Rightarrow> TargetValueError + unit" where
  "validateTargetValue value depth =
     (if depth > MaxTargetValuesDepth then Inl NestingExceeds
      else case value of
          JObj typed \<Rightarrow> if length typed > 256 then Inl ObjectExceeds
                        else validateTargetMembers typed depth
        | JArr typed \<Rightarrow> if length typed > 256 then Inl ArrayExceeds
                        else validateTargetItems typed depth
        | JStr typed \<Rightarrow> if length typed > 8192 \<or> nul_char \<in> set typed then Inl InvalidString
                        else Inr ()
        | JNum _ \<Rightarrow> Inr () | JBool _ \<Rightarrow> Inr () | JNull \<Rightarrow> Inr ())"
| "validateTargetItems [] depth = Inr ()"
| "validateTargetItems (child # rest) depth =
     sbind (validateTargetValue child (depth + 1)) (\<lambda>_. validateTargetItems rest depth)"
| "validateTargetMembers [] depth = Inr ()"
| "validateTargetMembers ((key, child) # rest) depth =
     (if key = [] \<or> length key > 253 \<or> contains_any key line_breakers then Inl InvalidKey
      else sbind (validateTargetValue child (depth + 1)) (\<lambda>_. validateTargetMembers rest depth))"

declare validateTargetValue.simps(1) [simp del]

fun patch_checks :: "ext_lib \<Rightarrow> nat \<Rightarrow> string list \<Rightarrow> OverrideError + unit" where
  "patch_checks E i [] = Inr ()"
| "patch_checks E i (patch # rest) =
     (if trim_space patch = [] \<or> length patch > MaxTargetPatchBytes \<or> nul_char \<in> set patch
      then Inl (PatchEmptyOrLarge i)
      else case lib_yamlUnmarshal E patch of
          None \<Rightarrow> Inl (PatchInvalidYAML i)
        | Some (JObj (_ # _)) \<Rightarrow> patch_checks E (Suc i) rest
        | Some _ \<Rightarrow> Inl (PatchNotObject i))"

definition TargetOverrides_Validate :: "ext_lib \<Rightarrow> TargetOverrides \<Rightarrow> OverrideError + unit" where
  "TargetOverrides_Validate E ov =
     (case lib_overridesJSONLength E (to_HelmValues ov) (to_Patches ov) of
        None \<Rightarrow> Inl OverridesTooLarge
      | Some encoded \<Rightarrow>
          if encoded > MaxTargetOverridesBytes then Inl OverridesTooLarge
          else if length (to_Patches ov) > MaxTargetPatches then Inl TooManyPatches
          else sbind (patch_checks E 0 (to_Patches ov)) (\<lambda>_.
            if length (to_HelmValues ov) > 0 then
              (case lib_jsonDecode E (to_HelmValues ov) of
                 None \<Rightarrow> Inl HelmValuesNotJSON
               | Some (JObj members) \<Rightarrow>
                   (case validateTargetValue (JObj members) 0 of
                      Inl e \<Rightarrow> Inl (HelmValuesError e) | Inr _ \<Rightarrow> Inr ())
               | Some _ \<Rightarrow> Inl HelmValuesNotObject)
            else Inr ()))"

definition TargetOverrides_Canonical :: "ext_lib \<Rightarrow> TargetOverrides \<Rightarrow> OverrideError + TargetOverrides" where
  "TargetOverrides_Canonical E ov =
     sbind (TargetOverrides_Validate E ov) (\<lambda>_.
       Inr \<lparr>to_HelmValues =
              (if length (to_HelmValues ov) > 0
               then lib_jsonMarshal E (case lib_jsonDecode E (to_HelmValues ov) of None \<Rightarrow> JNull | Some v \<Rightarrow> v)
               else []),
            to_Patches = to_Patches ov\<rparr>)"

section \<open>The nesting bound\<close>

fun jdepth :: "jvalue \<Rightarrow> nat" where
  "jdepth (JArr []) = 0"
| "jdepth (JArr (v # vs)) = Suc (Max (set (map jdepth (v # vs))))"
| "jdepth (JObj []) = 0"
| "jdepth (JObj (m # ms)) = Suc (Max (set (map (\<lambda>(k, v). jdepth v) (m # ms))))"
| "jdepth _ = 0"

lemma jdepth_children:
  "jdepth (JArr vs) \<le> n \<longleftrightarrow> vs = [] \<or> (0 < n \<and> (\<forall>v \<in> set vs. jdepth v \<le> n - 1))"
  "jdepth (JObj ms) \<le> n \<longleftrightarrow> ms = [] \<or> (0 < n \<and> (\<forall>(k, v) \<in> set ms. jdepth v \<le> n - 1))"
  by (cases vs; cases n; force) (cases ms; cases n; force)

lemma validateTargetValue_deep:
  "validateTargetValue value depth = Inr () \<Longrightarrow> depth \<le> MaxTargetValuesDepth"
  by (auto simp: validateTargetValue.simps split: if_splits)

lemma nesting_bound:
  shows "validateTargetValue val depth = Inr () \<Longrightarrow> jdepth val \<le> MaxTargetValuesDepth - depth"
    and "validateTargetItems vs depth = Inr () \<Longrightarrow> \<forall>v \<in> set vs.
           depth < MaxTargetValuesDepth \<and> jdepth v \<le> MaxTargetValuesDepth - depth - 1"
    and "validateTargetMembers ms depth = Inr () \<Longrightarrow> \<forall>(k, v) \<in> set ms.
           depth < MaxTargetValuesDepth \<and> jdepth v \<le> MaxTargetValuesDepth - depth - 1"
proof (induction val depth and vs depth and ms depth
       rule: validateTargetValue_validateTargetItems_validateTargetMembers.induct)
  case (1 val depth)
  from "1.prems" have d: "\<not> depth > MaxTargetValuesDepth"
    using validateTargetValue_deep by fastforce
  show ?case
  proof (cases val)
    case (JArr vs)
    with "1.prems" d have "\<not> length vs > 256" and "validateTargetItems vs depth = Inr ()"
      by (auto simp: validateTargetValue.simps split: if_splits)
    with "1.IH"(1) [OF d JArr] show ?thesis
      unfolding JArr jdepth_children by (cases vs) auto
  next
    case (JObj ms)
    with "1.prems" d have "\<not> length ms > 256" and "validateTargetMembers ms depth = Inr ()"
      by (auto simp: validateTargetValue.simps split: if_splits)
    with "1.IH"(2) [OF d JObj] show ?thesis
      unfolding JObj jdepth_children by (cases ms) auto
  qed simp_all
next
  case (3 child rest depth)
  then show ?case
    using validateTargetValue_deep [of child "depth + 1"] by (auto simp: sbind_Inr_iff)
next
  case (5 key child rest depth)
  then show ?case
    using validateTargetValue_deep [of child "depth + 1"] by (auto simp: sbind_Inr_iff split: if_splits)
qed simp_all


section \<open>Deep merge of Helm values\<close>

definition as_object :: "jvalue option \<Rightarrow> (string \<times> jvalue) list" where
  "as_object v = (case v of Some (JObj ms) \<Rightarrow> ms | _ \<Rightarrow> [])"

fun mergeTargetMaps :: "(string \<times> jvalue) list \<Rightarrow> (string \<times> jvalue) list \<Rightarrow> (string \<times> jvalue) list" where
  "mergeTargetMaps destination [] = destination"
| "mergeTargetMaps destination ((key, JObj nested) # rest) =
     mergeTargetMaps
       (AList.update key (JObj (mergeTargetMaps (as_object (map_of destination key)) nested)) destination) rest"
| "mergeTargetMaps destination ((key, v) # rest) = mergeTargetMaps (AList.update key v destination) rest"

text \<open>\<open>json.Unmarshal\<close> into a \<open>map[string]any\<close> accepts an object, and leaves the map nil
  for the literal null.\<close>

definition unmarshal_map :: "ext_lib \<Rightarrow> string \<Rightarrow> OverrideError + (string \<times> jvalue) list" where
  "unmarshal_map E raw =
     (if length raw > 0 then
        (case lib_jsonUnmarshal E raw of
           Some (JObj ms) \<Rightarrow> Inr ms | Some JNull \<Rightarrow> Inr [] | _ \<Rightarrow> Inl HelmValuesNotJSON)
      else Inr [])"

definition MergeHelmValues :: "ext_lib \<Rightarrow> string \<Rightarrow> string \<Rightarrow> OverrideError + string" where
  "MergeHelmValues E base override =
     sbind (unmarshal_map E base) (\<lambda>left.
     sbind (unmarshal_map E override) (\<lambda>right.
       Inr (lib_jsonMarshal E (JObj (mergeTargetMaps left right)))))"

lemma merge_untouched: "k \<notin> fst ` set ov \<Longrightarrow> map_of (mergeTargetMaps d ov) k = map_of d k"
  by (induction d ov rule: mergeTargetMaps.induct) (auto simp: AList.update_conv')

definition merge_value :: "jvalue option \<Rightarrow> jvalue \<Rightarrow> jvalue" where
  "merge_value old v = (case v of JObj nested \<Rightarrow> JObj (mergeTargetMaps (as_object old) nested) | _ \<Rightarrow> v)"

lemma merge_Cons:
  "mergeTargetMaps d ((key, v) # ov) = mergeTargetMaps (AList.update key (merge_value (map_of d key) v) d) ov"
  by (cases v) (simp_all add: merge_value_def)

lemma merge_lookup:
  assumes "distinct (map fst ov)"
  shows "map_of (mergeTargetMaps d ov) k =
    (case map_of ov k of None \<Rightarrow> map_of d k | Some v \<Rightarrow> Some (merge_value (map_of d k) v))"
  using assms
proof (induction ov arbitrary: d k)
  case (Cons m ov)
  obtain key v where m: "m = (key, v)" by (cases m)
  from Cons.prems m have none: "map_of ov key = None" and dist: "distinct (map fst ov)"
    by (auto simp: map_of_eq_None_iff)
  show ?case
    unfolding m merge_Cons
    by (cases "k = key"; cases "map_of ov k") (simp_all add: Cons.IH [OF dist] none AList.update_conv')
qed simp

section \<open>Kustomize paths stay inside the source\<close>

lemma split_on_elems: "CHR ''/'' \<notin> set cur \<Longrightarrow> \<forall>e \<in> set (split_on (CHR ''/'') cur s). CHR ''/'' \<notin> set e"
proof (induction s arbitrary: cur)
  case (Cons c s)
  show ?case
  proof (cases "c = CHR ''/''")
    case True
    with Cons.IH [of "[]"] Cons.prems show ?thesis by simp
  next
    case False
    with Cons.IH [of "c # cur"] Cons.prems show ?thesis by simp
  qed
qed simp

lemma split_on_append:
  "CHR ''/'' \<notin> set e \<Longrightarrow> split_on (CHR ''/'') cur (e @ s) = split_on (CHR ''/'') (rev e @ cur) s"
  by (induction e arbitrary: cur) auto

lemma split_join_slash:
  "es \<noteq> [] \<Longrightarrow> \<forall>e \<in> set es. CHR ''/'' \<notin> set e \<Longrightarrow> split_on (CHR ''/'') [] (join_slash es) = es"
proof (induction es rule: join_slash.induct)
  case (2 e)
  then show ?case using split_on_append [of e "[]" "[]"] by simp
next
  case (3 e e' es)
  then show ?case using split_on_append [of e "[]" "''/'' @ join_slash (e' # es)"] by simp
qed simp

lemma clean_elems_set: "set (clean_elems r st es) \<subseteq> set st \<union> set es \<union> {''..''}"
proof (induction r st es rule: clean_elems.induct)
  case (2 rooted stack e es)
  then show ?case by (cases stack) (auto split: if_splits)
qed auto

text \<open>What is on the stack: names above a bottom of \<open>..\<close> elements.\<close>

fun dotdot_bottom :: "string list \<Rightarrow> bool" where
  "dotdot_bottom [] = True"
| "dotdot_bottom (e # st) = (if e = ''..'' then list_all (\<lambda>x. x = ''..'') st else dotdot_bottom st)"

lemma dotdot_bottom_last: "dotdot_bottom st \<Longrightarrow> ''..'' \<in> set st \<Longrightarrow> last st = ''..''"
proof (induction st)
  case (Cons e st)
  show ?case
  proof (cases "st = []")
    case True
    with Cons.prems show ?thesis by auto
  next
    case False
    then have mem: "last st \<in> set st" by simp
    show ?thesis
    proof (cases "e = ''..''")
      case True
      with Cons.prems(1) mem False show ?thesis by (simp add: list_all_iff)
    next
      case other: False
      with Cons.prems Cons.IH False show ?thesis by simp
    qed
  qed
qed simp

lemma clean_elems_bottom: "dotdot_bottom st \<Longrightarrow> dotdot_bottom (rev (clean_elems r st es))"
proof (induction r st es rule: clean_elems.induct)
  case (2 rooted stack e es)
  then show ?case by (cases stack) (simp_all split: if_splits)
qed simp

lemma clean_dotdot_first:
  assumes "''..'' \<in> set (clean_elems r [] es)"
  shows "hd (clean_elems r [] es) = ''..''"
proof -
  have "last (rev (clean_elems r [] es)) = ''..''"
    using assms by (intro dotdot_bottom_last clean_elems_bottom) auto
  with assms show ?thesis by (cases "clean_elems r [] es") auto
qed


text \<open>C17. A Kustomize renderer that passes validation cannot read outside its source tree:
  its path is relative, and no element of the cleaned path is \<open>..\<close>.\<close>

theorem kustomize_path_confined:
  assumes "KustomizeSpec_validate k = []"
  shows "starts_with ''./'' (ks_Path k)
       \<and> ''..'' \<notin> set (split_on (CHR ''/'') [] (path_Clean (ks_Path k)))"
proof -
  let ?p = "ks_Path k"
  let ?es = "clean_elems False [] (split_on (CHR ''/'') [] ?p)"
  from assms have ne: "?p \<noteq> []" and rel: "starts_with ''./'' ?p"
    and esc: "path_Clean ?p \<noteq> ''..''" "\<not> starts_with ''../'' (path_Clean ?p)" "path_Clean ?p \<noteq> ''.''"
    by (auto simp: KustomizeSpec_validate_def Let_def)
  from rel ne have "hd ?p = CHR ''.''" by (cases ?p) (auto simp: starts_with_def)
  with ne esc(3) have clean: "path_Clean ?p = join_slash ?es" and nonempty: "join_slash ?es \<noteq> []"
    by (auto simp: path_Clean_def Let_def split: if_splits)
  from nonempty have es: "?es \<noteq> []" by auto
  have noslash: "\<forall>e \<in> set ?es. CHR ''/'' \<notin> set e"
    using clean_elems_set [of False "[]" "split_on (CHR ''/'') [] ?p"] split_on_elems [of "[]" ?p] by auto
  have "''..'' \<notin> set ?es"
  proof
    assume "''..'' \<in> set ?es"
    then have "hd ?es = ''..''" by (rule clean_dotdot_first)
    with es obtain rest where r: "?es = ''..'' # rest" by (cases ?es) simp_all
    show False
    proof (cases rest)
      case Nil
      with r clean esc(1) show ?thesis by simp
    next
      case (Cons e es')
      with r clean esc(2) show ?thesis by (simp add: starts_with_def)
    qed
  qed
  with rel clean split_join_slash [OF es noslash] show ?thesis by simp
qed

theorem kustomize_path_confined_witness:
  "''..'' \<notin> set (split_on (CHR ''/'') [] (path_Clean ''./a/../b''))"
  using kustomize_path_confined [of "\<lparr>ks_Path = ''./a/../b'', ks_TargetNamespace = ''ns'', ks_Patches = []\<rparr>"]
  by (simp add: KustomizeSpec_validate_def path_Clean_def starts_with_def Let_def validateDNSLabel_def
      dnsLabelPattern_def dns_char_def less_eq_char_def)

text \<open>Helm values accepted as target overrides are bounded: nothing is nested deeper than
  twelve levels, at every level.\<close>

theorem accepted_overrides_bounded:
  assumes "TargetOverrides_Validate E ov = Inr ()" and "to_HelmValues ov \<noteq> []"
  shows "\<exists>ms. lib_jsonDecode E (to_HelmValues ov) = Some (JObj ms) \<and> jdepth (JObj ms) \<le> 12
       \<and> length (to_Patches ov) \<le> 16"
proof -
  from assms obtain ms where ms: "lib_jsonDecode E (to_HelmValues ov) = Some (JObj ms)"
    and ok: "validateTargetValue (JObj ms) 0 = Inr ()" and len: "length (to_Patches ov) \<le> 16"
    by (auto simp: TargetOverrides_Validate_def sbind_Inr_iff
        split: option.splits if_splits jvalue.splits sum.splits)
  from nesting_bound(1) [OF ok] ms len show ?thesis by simp
qed

text \<open>The deep merge of Helm values gives each key what an operator expects: a key the
  override does not mention keeps its value, a nested object is merged into the object below
  it, and any other override value replaces what was there.\<close>

theorem merge_gives_override_precedence:
  assumes "distinct (map fst ov)"
  shows "map_of (mergeTargetMaps base ov) k =
    (case map_of ov k of
       None \<Rightarrow> map_of base k
     | Some (JObj nested) \<Rightarrow> Some (JObj (mergeTargetMaps (as_object (map_of base k)) nested))
     | Some v \<Rightarrow> Some v)"
  using merge_lookup [OF assms, of base k]
  by (cases "map_of ov k") (auto simp: merge_value_def split: jvalue.splits)

end
