(* ===== verification/Model_Rollout.thy ===== *)
theory Model_Rollout
  imports Model_Core
begin

text \<open>
  \<open>internal/delivery/model/placement.go\<close> and \<open>rollout.go\<close>: placements and label
  expressions, amounts, rollout strategies with their canary and partition parts,
  conditions and events.  A Go map of labels is a finite map.
  The RFC 8785 text of a canonical value is a parameter of the operation that takes its
  digest.
\<close>

section \<open>Placements\<close>

abbreviation MaxPlacementIDs :: nat where "MaxPlacementIDs \<equiv> 10000"
abbreviation MaxMatchLabels :: nat where "MaxMatchLabels \<equiv> 256"
abbreviation MaxMatchExpressions :: nat where "MaxMatchExpressions \<equiv> 256"
abbreviation MaxExpressionValues :: nat where "MaxExpressionValues \<equiv> 256"

datatype LabelOperator = OperatorIn | OperatorNotIn | OperatorExists | OperatorDoesNotExist
  | OperatorOther string

fun operator_string :: "LabelOperator \<Rightarrow> string" where
  "operator_string OperatorIn = ''In''"
| "operator_string OperatorNotIn = ''NotIn''"
| "operator_string OperatorExists = ''Exists''"
| "operator_string OperatorDoesNotExist = ''DoesNotExist''"
| "operator_string (OperatorOther s) = s"

record LabelExpression =
  le_Key :: string
  le_Operator :: LabelOperator
  le_Values :: "string list"

definition LabelExpression_Validate :: "ext_lib \<Rightarrow> LabelExpression \<Rightarrow> violations" where
  "LabelExpression_Validate E e =
     add_if (\<not> lib_IsQualifiedName E (le_Key e)) ''key'' CodeInvalid
   @ (case le_Operator e of
        OperatorOther _ \<Rightarrow> add ''operator'' CodeUnsupported
      | OperatorIn \<Rightarrow> add_if (le_Values e = []) ''values'' CodeRequired
      | OperatorNotIn \<Rightarrow> add_if (le_Values e = []) ''values'' CodeRequired
      | OperatorExists \<Rightarrow> add_if (le_Values e \<noteq> []) ''values'' CodeConflict
      | OperatorDoesNotExist \<Rightarrow> add_if (le_Values e \<noteq> []) ''values'' CodeConflict)
   @ add_if (length (le_Values e) > MaxExpressionValues) ''values'' CodeLimitExceeded
   @ each_seen (\<lambda>i v. add_if (\<not> lib_IsValidLabelValue E v) (indexed ''values'' i) CodeInvalid)
       id (indexed ''values'') 0 [] (le_Values e)"

record Placement =
  pl_ProjectIDs :: "uuid list"
  pl_ClusterIDs :: "uuid list"
  pl_ClusterGroupIDs :: "uuid list"
  pl_MatchLabels :: "(string, string) gomap"
  pl_MatchExpressions :: "LabelExpression list"
  pl_ExcludeClusterIDs :: "uuid list"
  pl_AllClusters :: bool

definition Placement_IsEmpty :: "Placement \<Rightarrow> bool" where
  "Placement_IsEmpty p \<longleftrightarrow>
     \<not> pl_AllClusters p \<and> pl_ClusterIDs p = [] \<and> pl_ClusterGroupIDs p = []
     \<and> pl_MatchLabels p = fmempty \<and> pl_MatchExpressions p = []"

definition validateUUIDSet :: "string \<Rightarrow> uuid list \<Rightarrow> violations" where
  "validateUUIDSet field values =
     add_if (length values > MaxPlacementIDs) field CodeLimitExceeded
   @ each_seen (\<lambda>i v. add_if (v = uuid_nil) (indexed field i) CodeRequired)
       id (indexed field) 0 [] values"

definition sortedStringMapKeys :: "(string, 'v) gomap \<Rightarrow> string list" where
  "sortedStringMapKeys input = sort (map_keys input)"

definition match_label_violations :: "ext_lib \<Rightarrow> (string, string) gomap \<Rightarrow> violations" where
  "match_label_violations E labels =
     concat (map (\<lambda>key.
       add_if (\<not> lib_IsQualifiedName E key) ''match_labels'' CodeInvalid
     @ add_if (\<not> lib_IsValidLabelValue E (the (fmlookup labels key))) ''match_labels'' CodeInvalid)
       (sortedStringMapKeys labels))"

definition expression_key :: "LabelExpression \<Rightarrow> string" where
  "expression_key e = operator_string (le_Operator e) @ [CHR 0x00] @ le_Key e"

definition Placement_Validate :: "ext_lib \<Rightarrow> Placement \<Rightarrow> violations" where
  "Placement_Validate E p =
     validateUUIDSet ''project_ids'' (pl_ProjectIDs p)
   @ validateUUIDSet ''cluster_ids'' (pl_ClusterIDs p)
   @ validateUUIDSet ''cluster_group_ids'' (pl_ClusterGroupIDs p)
   @ validateUUIDSet ''exclude_cluster_ids'' (pl_ExcludeClusterIDs p)
   @ add_if (pl_AllClusters p \<and> (pl_ClusterIDs p \<noteq> [] \<or> pl_ClusterGroupIDs p \<noteq> []
       \<or> pl_MatchLabels p \<noteq> fmempty \<or> pl_MatchExpressions p \<noteq> [])) ''all_clusters'' CodeConflict
   @ add_if (map_len (pl_MatchLabels p) > MaxMatchLabels) ''match_labels'' CodeLimitExceeded
   @ match_label_violations E (pl_MatchLabels p)
   @ add_if (length (pl_MatchExpressions p) > MaxMatchExpressions) ''match_expressions'' CodeLimitExceeded
   @ each_seen (\<lambda>i e. append_under (indexed ''match_expressions'' i) (LabelExpression_Validate E e))
       expression_key (indexed ''match_expressions'') 0 [] (pl_MatchExpressions p)
   @ each_index (\<lambda>i cid. add_if (contains (pl_ExcludeClusterIDs p) cid) (indexed ''cluster_ids'' i) CodeConflict)
       0 (pl_ClusterIDs p)"

definition sortedUUIDs :: "ext_lib \<Rightarrow> uuid list \<Rightarrow> uuid list" where
  "sortedUUIDs E values = sort_key (lib_uuidString E) values"

definition expression_sorted :: "LabelExpression \<Rightarrow> LabelExpression" where
  "expression_sorted e = e\<lparr>le_Values := sort (le_Values e)\<rparr>"

text \<open>The canonical copy of a placement that validates.\<close>

definition placement_normal :: "ext_lib \<Rightarrow> Placement \<Rightarrow> Placement" where
  "placement_normal E p =
     \<lparr>pl_ProjectIDs = sortedUUIDs E (pl_ProjectIDs p),
      pl_ClusterIDs = sortedUUIDs E (pl_ClusterIDs p),
      pl_ClusterGroupIDs = sortedUUIDs E (pl_ClusterGroupIDs p),
      pl_MatchLabels = pl_MatchLabels p,
      pl_MatchExpressions = sort_key (\<lambda>e. (le_Key e, operator_string (le_Operator e)))
        (map expression_sorted (pl_MatchExpressions p)),
      pl_ExcludeClusterIDs = sortedUUIDs E (pl_ExcludeClusterIDs p),
      pl_AllClusters = pl_AllClusters p\<rparr>"

definition Placement_Canonical :: "ext_lib \<Rightarrow> Placement \<Rightarrow> violations + Placement" where
  "Placement_Canonical E p =
     (if Placement_Validate E p \<noteq> [] then Inl (Placement_Validate E p)
      else Inr (placement_normal E p))"

datatype digest_error = DigestInvalid violations | DigestEncoding

definition Placement_CanonicalDigest ::
    "ext_lib \<Rightarrow> (Placement \<Rightarrow> bytes option) \<Rightarrow> Placement \<Rightarrow> digest_error + digest" where
  "Placement_CanonicalDigest E canonicalJSON p =
     (case Placement_Canonical E p of
        Inl vs \<Rightarrow> Inl (DigestInvalid vs)
      | Inr c \<Rightarrow> (case CanonicalDigest canonicalJSON c of None \<Rightarrow> Inl DigestEncoding | Some d \<Rightarrow> Inr d))"

section \<open>Amounts and strategies\<close>

datatype AmountType = AmountCount | AmountPercent | AmountOther string

record Amount =
  am_Type :: AmountType
  am_Value :: uint32

definition Amount_validate :: "Amount \<Rightarrow> string \<Rightarrow> bool \<Rightarrow> violations" where
  "Amount_validate a field requirePositive =
     (case am_Type a of
        AmountCount \<Rightarrow> []
      | AmountPercent \<Rightarrow> add_if (am_Value a > 100) (field @ ''.value'') CodeInvalid
      | AmountOther _ \<Rightarrow> add (field @ ''.type'') CodeUnsupported)
   @ add_if (requirePositive \<and> am_Value a = 0) (field @ ''.value'') CodeInvalid"

datatype StrategyType = StrategyAllAtOnce | StrategyRolling | StrategyCanary | StrategyPartitioned
  | StrategyOther string
datatype FailureAction = FailurePause | FailureAbort | FailureRollback | FailureOther string

record CanarySpec =
  cn_Size :: Amount
  cn_ClusterIDs :: "uuid list"
  cn_ApprovalAfterCanary :: bool
  cn_Soak :: duration

record Partition =
  pt_Name :: string
  pt_Selector :: Placement
  pt_ApprovalRequired :: bool
  pt_Soak :: duration

record RolloutStrategy =
  st_Type :: StrategyType
  st_MaxConcurrent :: uint32
  st_MaxUnavailable :: Amount
  st_MinReady :: duration
  st_ProgressDeadline :: duration
  st_FailureThreshold :: Amount
  st_OnFailure :: FailureAction
  st_RespectMaintenanceWindows :: bool
  st_ShuffleSeed :: string
  st_Canary :: "CanarySpec option"
  st_Partitions :: "Partition list"

definition CanarySpec_validate :: "CanarySpec \<Rightarrow> violations" where
  "CanarySpec_validate s =
     (if cn_ClusterIDs s = [] then append_under [] (Amount_validate (cn_Size s) ''size'' True)
      else validateUUIDSet ''cluster_ids'' (cn_ClusterIDs s)
         @ add_if (am_Type (cn_Size s) \<noteq> AmountOther [] \<or> am_Value (cn_Size s) \<noteq> 0) ''size'' CodeConflict)
   @ add_if (cn_Soak s < 0) ''soak'' CodeInvalid"

definition Partition_validate :: "ext_lib \<Rightarrow> Partition \<Rightarrow> violations" where
  "Partition_validate E p =
     (let s = pt_Selector p in
      validateName ''name'' (pt_Name p)
    @ append_under ''selector'' (Placement_Validate E s)
    @ add_if (Placement_IsEmpty s) ''selector'' CodeRequired
    @ add_if (pl_AllClusters s \<or> pl_ClusterIDs s \<noteq> [] \<or> pl_ProjectIDs s \<noteq> []
              \<or> pl_ExcludeClusterIDs s \<noteq> []) ''selector'' CodeConflict
    @ add_if (pt_Soak p < 0) ''soak'' CodeInvalid)"

definition RolloutStrategy_Validate :: "ext_lib \<Rightarrow> RolloutStrategy \<Rightarrow> violations" where
  "RolloutStrategy_Validate E s =
     add_if (st_MaxConcurrent s = 0) ''max_concurrent'' CodeInvalid
   @ append_under [] (Amount_validate (st_MaxUnavailable s) ''max_unavailable'' False)
   @ append_under [] (Amount_validate (st_FailureThreshold s) ''failure_threshold'' True)
   @ validatePositiveDuration ''progress_deadline'' (st_ProgressDeadline s)
   @ add_if (st_MinReady s < 0) ''min_ready'' CodeInvalid
   @ (case st_OnFailure s of FailureOther _ \<Rightarrow> add ''on_failure'' CodeUnsupported | _ \<Rightarrow> [])
   @ add_if (length (st_ShuffleSeed s) > 128) ''shuffle_seed'' CodeLimitExceeded
   @ (let no_canary = add_if (st_Canary s \<noteq> None) ''canary'' CodeConflict;
          no_partitions = add_if (st_Partitions s \<noteq> []) ''partitions'' CodeConflict
      in case st_Type s of
        StrategyAllAtOnce \<Rightarrow> no_canary @ no_partitions
      | StrategyRolling \<Rightarrow> no_canary @ no_partitions
      | StrategyCanary \<Rightarrow>
          (case st_Canary s of None \<Rightarrow> add ''canary'' CodeRequired
           | Some c \<Rightarrow> append_under ''canary'' (CanarySpec_validate c)) @ no_partitions
      | StrategyPartitioned \<Rightarrow>
          no_canary
        @ add_if (st_Partitions s = []) ''partitions'' CodeRequired
        @ each_seen (\<lambda>i p. append_under (indexed ''partitions'' i) (Partition_validate E p))
            pt_Name (\<lambda>i. indexed ''partitions'' i @ ''.name'') 0 [] (st_Partitions s)
      | StrategyOther _ \<Rightarrow> add ''type'' CodeUnsupported)"

definition strategy_normal :: "ext_lib \<Rightarrow> RolloutStrategy \<Rightarrow> RolloutStrategy" where
  "strategy_normal E s =
     s\<lparr>st_Canary := map_option (\<lambda>c. c\<lparr>cn_ClusterIDs := sortedUUIDs E (cn_ClusterIDs c)\<rparr>) (st_Canary s),
       st_Partitions := map (\<lambda>p. p\<lparr>pt_Selector := placement_normal E (pt_Selector p)\<rparr>) (st_Partitions s)\<rparr>"

definition RolloutStrategy_CanonicalDigest ::
    "ext_lib \<Rightarrow> (RolloutStrategy \<Rightarrow> bytes option) \<Rightarrow> RolloutStrategy \<Rightarrow> digest_error + digest" where
  "RolloutStrategy_CanonicalDigest E canonicalJSON s =
     (if RolloutStrategy_Validate E s \<noteq> [] then Inl (DigestInvalid (RolloutStrategy_Validate E s))
      else case CanonicalDigest canonicalJSON (strategy_normal E s) of None \<Rightarrow> Inl DigestEncoding | Some d \<Rightarrow> Inr d)"

section \<open>Conditions and events\<close>

datatype ConditionType = ConditionReady | ConditionReconciling | ConditionStalled | ConditionDrifted
  | ConditionTypeOther string
datatype ConditionStatus = ConditionTrue | ConditionFalse | ConditionUnknown | ConditionStatusOther string

fun condition_string :: "ConditionType \<Rightarrow> string" where
  "condition_string ConditionReady = ''Ready''"
| "condition_string ConditionReconciling = ''Reconciling''"
| "condition_string ConditionStalled = ''Stalled''"
| "condition_string ConditionDrifted = ''Drifted''"
| "condition_string (ConditionTypeOther s) = s"

record Condition =
  cd_Type :: ConditionType
  cd_Status :: ConditionStatus
  cd_Reason :: string
  cd_Message :: string
  cd_ObservedGeneration :: int
  cd_LastTransitionTime :: gotime

definition Condition_Validate :: "Condition \<Rightarrow> violations" where
  "Condition_Validate c =
     (case cd_Type c of ConditionTypeOther _ \<Rightarrow> add ''type'' CodeUnsupported | _ \<Rightarrow> [])
   @ (case cd_Status c of ConditionStatusOther _ \<Rightarrow> add ''status'' CodeUnsupported | _ \<Rightarrow> [])
   @ add_if (length (cd_Reason c) > 128) ''reason'' CodeLimitExceeded
   @ add_if (length (cd_Message c) > 2048) ''message'' CodeLimitExceeded
   @ add_if (cd_ObservedGeneration c < 0) ''observed_generation'' CodeInvalid
   @ add_if (is_zero_time (cd_LastTransitionTime c)) ''last_transition_time'' CodeRequired"

fun condition_violations :: "nat \<Rightarrow> ConditionType option \<Rightarrow> Condition list \<Rightarrow> violations" where
  "condition_violations i prev [] = []"
| "condition_violations i prev (c # cs) =
     append_under (indexed ''conditions'' i) (Condition_Validate c)
   @ add_if (prev = Some (cd_Type c)) (indexed ''conditions'' i @ ''.type'') CodeConflict
   @ condition_violations (Suc i) (Some (cd_Type c)) cs"

definition CanonicalConditions :: "Condition list \<Rightarrow> Condition list \<times> violations" where
  "CanonicalConditions input =
     (let result = sort_key (\<lambda>c. condition_string (cd_Type c)) input in
      (result, condition_violations 0 None result))"

datatype EventKind = EventStateTransition | EventWarning | EventOperatorAction | EventRevisionChange
  | EventOther string

record Event =
  ev_ID :: uuid
  ev_AggregateID :: uuid
  ev_Kind :: EventKind
  ev_From :: string
  ev_To :: string
  ev_Code :: string
  ev_Detail :: string
  ev_Fence :: int
  ev_OccurredAt :: gotime

definition Event_Validate :: "Event \<Rightarrow> violations" where
  "Event_Validate e =
     validateUUID ''id'' (ev_ID e)
   @ validateUUID ''aggregate_id'' (ev_AggregateID e)
   @ (case ev_Kind e of EventOther _ \<Rightarrow> add ''kind'' CodeUnsupported | _ \<Rightarrow> [])
   @ add_if (ev_Kind e = EventStateTransition \<and> (ev_From e = [] \<or> ev_To e = [])) ''from'' CodeRequired
   @ add_if (ev_Code e \<noteq> [] \<and> \<not> SafeCode (ev_Code e)) ''code'' CodeInvalid
   @ add_if (length (ev_Detail e) > 2048) ''detail'' CodeLimitExceeded
   @ add_if (ev_Fence e < 0) ''fence'' CodeInvalid
   @ add_if (is_zero_time (ev_OccurredAt e)) ''occurred_at'' CodeRequired"

definition CanonicalStrings :: "string list \<Rightarrow> string list" where
  "CanonicalStrings input = sort input"

section \<open>What an accepted value satisfies\<close>

lemma validateUUIDSet_Nil:
  "validateUUIDSet field values = [] \<longleftrightarrow>
     length values \<le> MaxPlacementIDs \<and> uuid_nil \<notin> set values \<and> distinct values"
proof -
  have "(\<forall>j < length values. values ! j \<noteq> uuid_nil) \<longleftrightarrow> uuid_nil \<notin> set values"
    by (metis in_set_conv_nth)
  then show ?thesis by (simp add: validateUUIDSet_def each_seen_Nil not_less)
qed

lemma Placement_Validate_ids:
  assumes "Placement_Validate E p = []"
  shows "distinct (pl_ProjectIDs p)" and "distinct (pl_ClusterIDs p)"
    and "distinct (pl_ClusterGroupIDs p)" and "distinct (pl_ExcludeClusterIDs p)"
    and "distinct (map expression_key (pl_MatchExpressions p))"
    and "set (pl_ClusterIDs p) \<inter> set (pl_ExcludeClusterIDs p) = {}"
    and "\<forall>e \<in> set (pl_MatchExpressions p). distinct (le_Values e)"
proof -
  from assms show "distinct (pl_ProjectIDs p)" and "distinct (pl_ClusterIDs p)"
    and "distinct (pl_ClusterGroupIDs p)" and "distinct (pl_ExcludeClusterIDs p)"
    and "distinct (map expression_key (pl_MatchExpressions p))"
    by (simp_all add: Placement_Validate_def validateUUIDSet_Nil each_seen_Nil)
  from assms show "set (pl_ClusterIDs p) \<inter> set (pl_ExcludeClusterIDs p) = {}"
    by (auto simp: Placement_Validate_def each_index_Nil in_set_conv_nth)
  from assms have "\<forall>j < length (pl_MatchExpressions p). LabelExpression_Validate E (pl_MatchExpressions p ! j) = []"
    by (simp add: Placement_Validate_def each_seen_Nil)
  then show "\<forall>e \<in> set (pl_MatchExpressions p). distinct (le_Values e)"
    by (auto simp: LabelExpression_Validate_def each_seen_Nil in_set_conv_nth)
qed

lemma strategy_accepted:
  assumes "RolloutStrategy_Validate E s = []"
  shows "0 < st_MaxConcurrent s" and "0 < st_ProgressDeadline s" and "0 \<le> st_MinReady s"
    and "0 < am_Value (st_FailureThreshold s)"
    and "\<not> (\<exists>a. st_OnFailure s = FailureOther a)"
    and "\<not> (\<exists>a. st_Type s = StrategyOther a)"
    and "am_Type (st_MaxUnavailable s) = AmountPercent \<Longrightarrow> am_Value (st_MaxUnavailable s) \<le> 100"
    and "am_Type (st_FailureThreshold s) = AmountPercent \<Longrightarrow> am_Value (st_FailureThreshold s) \<le> 100"
  using assms
  by (auto simp: RolloutStrategy_Validate_def Amount_validate_def validatePositiveDuration_def
      word_gt_0 not_less Let_def split: AmountType.splits)

lemma partition_accepted:
  assumes "Partition_validate E p = []"
  shows "pl_ClusterIDs (pt_Selector p) = []" and "pl_ProjectIDs (pt_Selector p) = []"
    and "pl_ExcludeClusterIDs (pt_Selector p) = []" and "\<not> pl_AllClusters (pt_Selector p)"
    and "\<not> Placement_IsEmpty (pt_Selector p)" and "Placement_Validate E (pt_Selector p) = []"
    and "0 \<le> pt_Soak p" and "pt_Name p \<noteq> []"
  using assms by (auto simp: Partition_validate_def validateName_def Let_def)

section \<open>Canonical forms\<close>

lemma sortedUUIDs_set_unique:
  assumes "inj (lib_uuidString E)" and "distinct xs" and "distinct ys" and "set xs = set ys"
  shows "sortedUUIDs E xs = sortedUUIDs E ys"
  unfolding sortedUUIDs_def
  using assms by (intro sort_key_perm_unique) (auto simp: set_eq_iff_mset_eq_distinct intro: inj_on_subset)

text \<open>Canonical placements do not depend on the order in which identifiers, expressions
  and expression values were written: two accepted placements with the same labels, the same
  sets of identifiers and the same expressions have the same canonical form, hence the same
  digest.\<close>

theorem placement_canonical_order_free:
  assumes inj: "inj (lib_uuidString E)"
    and p: "Placement_Canonical E p = Inr c" and q: "Placement_Canonical E q = Inr d"
    and ids: "set (pl_ProjectIDs p) = set (pl_ProjectIDs q)" "set (pl_ClusterIDs p) = set (pl_ClusterIDs q)"
      "set (pl_ClusterGroupIDs p) = set (pl_ClusterGroupIDs q)"
      "set (pl_ExcludeClusterIDs p) = set (pl_ExcludeClusterIDs q)"
    and exprs: "set (map expression_sorted (pl_MatchExpressions p)) = set (map expression_sorted (pl_MatchExpressions q))"
    and rest: "pl_MatchLabels p = pl_MatchLabels q" "pl_AllClusters p = pl_AllClusters q"
  shows "c = d"
proof -
  from p q have vp: "Placement_Validate E p = []" and vq: "Placement_Validate E q = []"
    and c: "c = placement_normal E p" and d: "d = placement_normal E q"
    by (auto simp: Placement_Canonical_def split: if_splits)
  have key: "expression_key (expression_sorted e) = expression_key e" for e
    by (simp add: expression_key_def expression_sorted_def)
  have dist: "distinct (map expression_sorted (pl_MatchExpressions r))"
    and keys: "inj_on (\<lambda>e. (le_Key e, operator_string (le_Operator e))) (set (map expression_sorted (pl_MatchExpressions r)))"
    if "Placement_Validate E r = []" for r
  proof -
    have "distinct (map expression_key (map expression_sorted (pl_MatchExpressions r)))"
      using Placement_Validate_ids(5) [OF that] by (simp add: comp_def key)
    then have "distinct (map expression_sorted (pl_MatchExpressions r))"
      and "inj_on expression_key (set (map expression_sorted (pl_MatchExpressions r)))"
      by (simp_all only: distinct_map [of expression_key])
    then show "distinct (map expression_sorted (pl_MatchExpressions r))"
      and "inj_on (\<lambda>e. (le_Key e, operator_string (le_Operator e))) (set (map expression_sorted (pl_MatchExpressions r)))"
      by (auto simp: inj_on_def expression_key_def)
  qed
  have "sort_key (\<lambda>e. (le_Key e, operator_string (le_Operator e))) (map expression_sorted (pl_MatchExpressions p))
      = sort_key (\<lambda>e. (le_Key e, operator_string (le_Operator e))) (map expression_sorted (pl_MatchExpressions q))"
  proof (rule sort_key_perm_unique [OF _ keys [OF vp]])
    show "mset (map expression_sorted (pl_MatchExpressions p)) = mset (map expression_sorted (pl_MatchExpressions q))"
      using exprs by (simp only: set_eq_iff_mset_eq_distinct [OF dist [OF vp] dist [OF vq]])
  qed
  moreover note
    sortedUUIDs_set_unique [OF inj Placement_Validate_ids(1) [OF vp] Placement_Validate_ids(1) [OF vq] ids(1)]
    sortedUUIDs_set_unique [OF inj Placement_Validate_ids(2) [OF vp] Placement_Validate_ids(2) [OF vq] ids(2)]
    sortedUUIDs_set_unique [OF inj Placement_Validate_ids(3) [OF vp] Placement_Validate_ids(3) [OF vq] ids(3)]
    sortedUUIDs_set_unique [OF inj Placement_Validate_ids(4) [OF vp] Placement_Validate_ids(4) [OF vq] ids(4)]
  ultimately show ?thesis
    unfolding c d placement_normal_def using rest by simp
qed

section \<open>Unique names after sorting\<close>

lemma condition_violations_Nil:
  "condition_violations i prev cs = [] \<longleftrightarrow>
     (\<forall>c \<in> set cs. Condition_Validate c = []) \<and> successively (\<noteq>) (map cd_Type cs)
     \<and> (cs \<noteq> [] \<longrightarrow> prev \<noteq> Some (cd_Type (hd cs)))"
proof (induction i prev cs rule: condition_violations.induct)
  case (2 i prev c cs)
  have "condition_violations i prev (c # cs) = [] \<longleftrightarrow> Condition_Validate c = []
      \<and> prev \<noteq> Some (cd_Type c) \<and> condition_violations (Suc i) (Some (cd_Type c)) cs = []"
    by simp
  then show ?case unfolding "2.IH" by (cases cs) auto
qed simp

lemma condition_string_inj:
  assumes "Condition_Validate c = []" and "Condition_Validate d = []"
    and "condition_string (cd_Type c) = condition_string (cd_Type d)"
  shows "cd_Type c = cd_Type d"
  using assms by (cases "cd_Type c"; cases "cd_Type d") (simp_all add: Condition_Validate_def)

lemma successively_image:
  "(\<And>x y. x \<in> set xs \<Longrightarrow> y \<in> set xs \<Longrightarrow> f x = f y \<Longrightarrow> g x = g y)
   \<Longrightarrow> successively (\<noteq>) (map g xs) \<Longrightarrow> successively (\<noteq>) (map f xs)"
  by (induction xs rule: induct_list012) auto

text \<open>Normalised conditions carry each condition type at most once: when the canonical
  list is accepted it is a reordering of the input, sorted by type, with no type repeated.\<close>

lemma canonical_conditions_unique:
  assumes "CanonicalConditions input = (result, [])"
  shows "mset result = mset input \<and> sorted (map (\<lambda>c. condition_string (cd_Type c)) result)
       \<and> distinct (map cd_Type result)"
proof -
  let ?f = "\<lambda>c. condition_string (cd_Type c)"
  from assms have r: "result = sort_key ?f input" and ok: "condition_violations 0 None result = []"
    by (auto simp: CanonicalConditions_def Let_def)
  then have sorted: "sorted (map ?f result)" by simp
  have "successively (\<noteq>) (map ?f result)"
  proof (rule successively_image)
    show "successively (\<noteq>) (map cd_Type result)" using ok by (simp add: condition_violations_Nil)
    show "cd_Type c = cd_Type d" if "c \<in> set result" "d \<in> set result" "?f c = ?f d" for c d
      using that ok by (intro condition_string_inj) (simp_all add: condition_violations_Nil)
  qed
  with sorted have "distinct (map ?f result)" by (rule sorted_adjacent_distinct)
  then have "distinct (map condition_string (map cd_Type result))" by (simp add: comp_def)
  then have "distinct (map cd_Type result)" by (simp only: distinct_map [of condition_string])
  with r sorted show ?thesis by simp
qed

end
