(* ===== verification/Placement_Eval.thy ===== *)
theory Placement_Eval
  imports Model_Rollout
begin

text \<open>
  \<open>internal/delivery/placement/placement.go\<close>: which clusters a placement selects.
  \<open>Evaluate\<close> is the whole function but for its metrics: the request is validated, the
  candidates are made canonical and their duplicate projections merged, every candidate gets
  one disposition, requested identifiers that were not seen are reported as unauthorized, and
  the decisions are sorted and hashed.  The RFC 8785 text of the preview is the parameter
  \<open>canonicalJSON\<close>.

  The lemmas show what is selected, that the result does not depend on the order of the
  candidates, and that clusters of projects the caller may not see have no influence on the
  result.
\<close>

section \<open>Types\<close>

datatype PlacementErrorCode = PlacementInvalidInput | PlacementDuplicateClusterConflict
  | PlacementPreviewStale | PlacementAllConfirmationRequired

datatype PlacementError = PlacementError PlacementErrorCode uuid | PlacementDigestError

fun Placement_HasCode :: "PlacementError \<Rightarrow> PlacementErrorCode \<Rightarrow> bool" where
  "Placement_HasCode (PlacementError c _) code = (c = code)"
| "Placement_HasCode PlacementDigestError code = False"

definition invalidInput :: PlacementError where
  "invalidInput = PlacementError PlacementInvalidInput uuid_nil"

datatype CompatibilityStatus = CompatibilityCompatible | CompatibilityIncompatible
  | CompatibilityUnknown | CompatibilityOther string

record Candidate =
  ca_ID :: uuid
  ca_ProjectID :: uuid
  ca_Name :: string
  ca_Labels :: "(string, string) gomap"
  ca_GroupIDs :: "uuid list"
  ca_Capabilities :: "(string, string) gomap"
  ca_Connected :: bool
  ca_Compatibility :: CompatibilityStatus
  ca_CompatibilityReason :: string
  ca_Decommissioning :: bool

record SnapshotIdentity =
  si_TargetGeneration :: uint64
  si_BundleVersionID :: uuid
  si_BundleSpecDigest :: digest
  si_ResolvedRevision :: ImmutableRevision

record PlacementRequest =
  rq_Placement :: Placement
  rq_AllowedProjectIDs :: "uuid list"
  rq_Candidates :: "Candidate list"
  rq_RequiredCapabilities :: "CapabilityRequirement list"
  rq_Identity :: SnapshotIdentity

datatype DecisionReason = ReasonSelected | ReasonExcludedSelector | ReasonExcludedExplicitly
  | ReasonUnauthorized | ReasonDisconnected | ReasonIncompatible | ReasonMissingCapability
  | ReasonDecommissioning

datatype MatchReason = MatchExplicitCluster | MatchAllClusters | MatchClusterGroup | MatchLabels
  | MatchExpressions

record PlacementDecision =
  pd_ClusterID :: uuid
  pd_ProjectID :: uuid
  pd_ClusterName :: string
  pd_Reason :: DecisionReason
  pd_MatchReasons :: "MatchReason list"
  pd_MatchedGroupIDs :: "uuid list"
  pd_MissingCapabilities :: "string list"
  pd_CompatibilityReason :: string

record PlacementResult =
  pr_Decisions :: "PlacementDecision list"
  pr_Selected :: "Candidate list"
  pr_SelectedCount :: nat
  pr_ExcludedCount :: nat
  pr_RequiresAllConfirmation :: bool
  pr_PreviewDigest :: digest

section \<open>Matching\<close>

definition ValidateLaunch :: "PlacementResult \<Rightarrow> digest \<Rightarrow> bool \<Rightarrow> PlacementError + unit" where
  "ValidateLaunch r expected confirmAllClusters =
     (if Digest_Validate expected \<noteq> [] then Inl invalidInput
      else if pr_PreviewDigest r \<noteq> expected then Inl (PlacementError PlacementPreviewStale uuid_nil)
      else if pr_RequiresAllConfirmation r \<and> \<not> confirmAllClusters
      then Inl (PlacementError PlacementAllConfirmationRequired uuid_nil)
      else Inr ())"

definition placementMetricResult :: "PlacementError option \<Rightarrow> string" where
  "placementMetricResult err =
     (case err of None \<Rightarrow> ''success''
      | Some e \<Rightarrow>
          (case find (\<lambda>(code, result). Placement_HasCode e code)
                  [(PlacementInvalidInput, ''invalid''), (PlacementDuplicateClusterConflict, ''conflict''),
                   (PlacementPreviewStale, ''stale''), (PlacementAllConfirmationRequired, ''confirmation_required'')] of
             None \<Rightarrow> ''invalid'' | Some (_, result) \<Rightarrow> result))"

definition SnapshotIdentity_validate :: "ext_lib \<Rightarrow> SnapshotIdentity \<Rightarrow> bool" where
  "SnapshotIdentity_validate E i \<longleftrightarrow>
     si_TargetGeneration i \<noteq> 0 \<and> si_BundleVersionID i \<noteq> uuid_nil
     \<and> Digest_Validate (si_BundleSpecDigest i) = []
     \<and> ImmutableRevision_Validate E (si_ResolvedRevision i) = []"

fun matchesExpression :: "LabelExpression \<Rightarrow> string option \<Rightarrow> bool" where
  "matchesExpression e value =
     (case le_Operator e of
        OperatorIn \<Rightarrow> (case value of None \<Rightarrow> False | Some v \<Rightarrow> contains (le_Values e) v)
      | OperatorNotIn \<Rightarrow> (case value of None \<Rightarrow> True | Some v \<Rightarrow> \<not> contains (le_Values e) v)
      | OperatorExists \<Rightarrow> value \<noteq> None
      | OperatorDoesNotExist \<Rightarrow> value = None
      | OperatorOther _ \<Rightarrow> False)"

definition matches :: "Placement \<Rightarrow> Candidate \<Rightarrow> bool \<times> MatchReason list \<times> uuid list" where
  "matches selector candidate =
     (let groupScope = pl_ClusterGroupIDs selector;
          labels = pl_MatchLabels selector;
          expressions = pl_MatchExpressions selector;
          matchedGroups = (if groupScope \<noteq> [] then filter (contains groupScope) (ca_GroupIDs candidate) else [])
      in if pl_ProjectIDs selector \<noteq> [] \<and> \<not> contains (pl_ProjectIDs selector) (ca_ProjectID candidate)
         then (False, [], [])
         else if pl_AllClusters selector then (True, [MatchAllClusters], [])
         else if contains (pl_ClusterIDs selector) (ca_ID candidate) then (True, [MatchExplicitCluster], [])
         else if \<not> (groupScope \<noteq> [] \<or> labels \<noteq> fmempty \<or> expressions \<noteq> []) then (False, [], [])
         else if groupScope \<noteq> [] \<and> matchedGroups = [] then (False, [], [])
         else if list_ex (\<lambda>key. fmlookup (ca_Labels candidate) key \<noteq> fmlookup labels key) (map_keys labels)
         then (False, [], [])
         else if list_ex (\<lambda>e. \<not> matchesExpression e (fmlookup (ca_Labels candidate) (le_Key e))) expressions
         then (False, [], [])
         else (True,
               (if groupScope \<noteq> [] then [MatchClusterGroup] else [])
               @ (if labels \<noteq> fmempty then [MatchLabels] else [])
               @ (if expressions \<noteq> [] then [MatchExpressions] else []),
               matchedGroups))"

definition capability_missing :: "ext_lib \<Rightarrow> (string, string) gomap \<Rightarrow> CapabilityRequirement \<Rightarrow> string option" where
  "capability_missing E actual r =
     (case fmlookup actual (cap_Name r) of
        None \<Rightarrow> Some (cap_Name r)
      | Some version \<Rightarrow>
          if cap_Constraint r = [] then None
          else if \<not> lib_NewVersion E version \<or> \<not> lib_ConstraintCheck E (cap_Constraint r) version
          then Some (cap_Name r @ ''@'' @ cap_Constraint r)
          else None)"

definition missingCapabilities ::
    "ext_lib \<Rightarrow> CapabilityRequirement list \<Rightarrow> (string, string) gomap \<Rightarrow> string list" where
  "missingCapabilities E required actual = List.map_filter (capability_missing E actual) required"

section \<open>Canonical candidates\<close>

definition canonicalUUIDSet :: "uuid list \<Rightarrow> PlacementError + uuid list" where
  "canonicalUUIDSet input =
     (if length input > MaxPlacementIDs then Inl invalidInput
      else for_each (\<lambda>x result.
             if x = uuid_nil then Inl invalidInput
             else if contains result x then Inl invalidInput
             else Inr (result @ [x])) input [])"

text \<open>A Go set of identifiers, ranged over and then sorted by its text.\<close>

definition setUUIDs :: "ext_lib \<Rightarrow> uuid list \<Rightarrow> uuid list" where
  "setUUIDs E input = sort_key (lib_uuidString E) (sort (remdups input))"

definition labels_placement :: "(string, string) gomap \<Rightarrow> Placement" where
  "labels_placement labels =
     \<lparr>pl_ProjectIDs = [], pl_ClusterIDs = [], pl_ClusterGroupIDs = [], pl_MatchLabels = labels,
      pl_MatchExpressions = [], pl_ExcludeClusterIDs = [], pl_AllClusters = False\<rparr>"

definition capability_ok :: "ext_lib \<Rightarrow> (string, string) gomap \<Rightarrow> string \<Rightarrow> bool" where
  "capability_ok E caps name \<longleftrightarrow>
     CapabilityRequirement_Validate E \<lparr>cap_Name = name, cap_Constraint = []\<rparr> = []
     \<and> (let version = the (fmlookup caps name) in version = [] \<or> lib_NewVersion E version)"

definition canonicalCandidate :: "ext_lib \<Rightarrow> Candidate \<Rightarrow> PlacementError + Candidate" where
  "canonicalCandidate E c =
     (if ca_ID c = uuid_nil \<or> ca_ProjectID c = uuid_nil then Inl invalidInput
      else if trim_space (ca_Name c) = [] \<or> length (ca_Name c) > MaxNameLength then Inl invalidInput
      else if Placement_Validate E (labels_placement (ca_Labels c)) \<noteq> [] then Inl invalidInput
      else sbind (canonicalUUIDSet (ca_GroupIDs c)) (\<lambda>groups.
        if map_len (ca_Capabilities c) > MaxCapabilities then Inl invalidInput
        else if \<not> list_all (capability_ok E (ca_Capabilities c)) (map_keys (ca_Capabilities c))
        then Inl invalidInput
        else if (case ca_Compatibility c of CompatibilityOther _ \<Rightarrow> True | _ \<Rightarrow> False) then Inl invalidInput
        else if ca_CompatibilityReason c \<noteq> [] \<and> \<not> SafeCode (ca_CompatibilityReason c) then Inl invalidInput
        else Inr (c\<lparr>ca_GroupIDs := setUUIDs E groups\<rparr>)))"

definition unionUUIDs :: "ext_lib \<Rightarrow> uuid list \<Rightarrow> uuid list \<Rightarrow> uuid list" where
  "unionUUIDs E left right = setUUIDs E (left @ right)"

definition merge_capability ::
    "(string, string) gomap \<Rightarrow> string \<Rightarrow> (string, string) gomap \<Rightarrow> unit + (string, string) gomap" where
  "merge_capability right name left =
     (let version = the (fmlookup right name) in
      case fmlookup left name of
        Some old \<Rightarrow> if old \<noteq> version then Inl () else Inr (fmupd name version left)
      | None \<Rightarrow> Inr (fmupd name version left))"

definition mergeCandidates :: "ext_lib \<Rightarrow> Candidate \<Rightarrow> Candidate \<Rightarrow> unit + Candidate" where
  "mergeCandidates E left right =
     (if left\<lparr>ca_GroupIDs := [], ca_Capabilities := fmempty\<rparr>
         \<noteq> right\<lparr>ca_GroupIDs := [], ca_Capabilities := fmempty\<rparr> then Inl ()
      else sbind (for_each (merge_capability (ca_Capabilities right)) (map_keys (ca_Capabilities right))
                    (ca_Capabilities left)) (\<lambda>caps.
        Inr (left\<lparr>ca_GroupIDs := unionUUIDs E (ca_GroupIDs left) (ca_GroupIDs right),
                  ca_Capabilities := caps\<rparr>)))"

definition candidate_step ::
    "ext_lib \<Rightarrow> Candidate \<Rightarrow> (uuid, Candidate) gomap \<Rightarrow> PlacementError + (uuid, Candidate) gomap" where
  "candidate_step E raw byID =
     sbind (canonicalCandidate E raw) (\<lambda>c.
       case fmlookup byID (ca_ID c) of
         Some existing \<Rightarrow>
           (case mergeCandidates E existing c of
              Inl _ \<Rightarrow> Inl (PlacementError PlacementDuplicateClusterConflict (ca_ID c))
            | Inr merged \<Rightarrow> Inr (fmupd (ca_ID c) merged byID))
       | None \<Rightarrow> Inr (fmupd (ca_ID c) c byID))"

definition canonicalCandidates :: "ext_lib \<Rightarrow> Candidate list \<Rightarrow> PlacementError + Candidate list" where
  "canonicalCandidates E input =
     sbind (for_each (candidate_step E) (sort_key (\<lambda>c. lib_uuidString E (ca_ID c)) input) fmempty) (\<lambda>byID.
       Inr (sort_key (\<lambda>c. lib_uuidString E (ca_ID c)) (map (\<lambda>k. the (fmlookup byID k)) (map_keys byID))))"

section \<open>Evaluation\<close>

definition unauthorized :: "uuid \<Rightarrow> PlacementDecision" where
  "unauthorized cid =
     \<lparr>pd_ClusterID = cid, pd_ProjectID = uuid_nil, pd_ClusterName = [], pd_Reason = ReasonUnauthorized,
      pd_MatchReasons = [], pd_MatchedGroupIDs = [], pd_MissingCapabilities = [], pd_CompatibilityReason = []\<rparr>"

definition candidate_decision ::
    "ext_lib \<Rightarrow> Placement \<Rightarrow> CapabilityRequirement list \<Rightarrow> uuid list \<Rightarrow> Candidate \<Rightarrow> PlacementDecision option" where
  "candidate_decision E placement capabilities allowed c =
     (if \<not> contains allowed (ca_ProjectID c) then
        (if contains (pl_ClusterIDs placement) (ca_ID c) then Some (unauthorized (ca_ID c)) else None)
      else
        let decision = (unauthorized (ca_ID c))\<lparr>pd_ProjectID := ca_ProjectID c, pd_ClusterName := ca_Name c\<rparr> in
        if contains (pl_ExcludeClusterIDs placement) (ca_ID c)
        then Some (decision\<lparr>pd_Reason := ReasonExcludedExplicitly\<rparr>)
        else case matches placement c of (matched, reasons, groups) \<Rightarrow>
          let decision = decision\<lparr>pd_MatchReasons := reasons, pd_MatchedGroupIDs := groups\<rparr> in
          if \<not> matched then Some (decision\<lparr>pd_Reason := ReasonExcludedSelector\<rparr>)
          else if ca_Decommissioning c then Some (decision\<lparr>pd_Reason := ReasonDecommissioning\<rparr>)
          else if \<not> ca_Connected c then Some (decision\<lparr>pd_Reason := ReasonDisconnected\<rparr>)
          else if ca_Compatibility c \<noteq> CompatibilityCompatible
          then Some (decision\<lparr>pd_Reason := ReasonIncompatible,
                 pd_CompatibilityReason := (if ca_CompatibilityReason c = [] then ''compatibility_unknown''
                                            else ca_CompatibilityReason c)\<rparr>)
          else let missing = missingCapabilities E capabilities (ca_Capabilities c) in
            if missing \<noteq> [] then Some (decision\<lparr>pd_Reason := ReasonMissingCapability,
                                       pd_MissingCapabilities := missing\<rparr>)
            else Some (decision\<lparr>pd_Reason := ReasonSelected\<rparr>))"

type_synonym evaluation = "PlacementDecision list \<times> Candidate list \<times> uuid list"

definition evaluate_step ::
    "ext_lib \<Rightarrow> Placement \<Rightarrow> CapabilityRequirement list \<Rightarrow> uuid list \<Rightarrow> Candidate \<Rightarrow> evaluation \<Rightarrow> evaluation" where
  "evaluate_step E placement capabilities allowed c acc =
     (case acc of (decisions, selected, seenExplicit) \<Rightarrow>
        let seen = (if contains (pl_ClusterIDs placement) (ca_ID c) then ca_ID c # seenExplicit else seenExplicit) in
        case candidate_decision E placement capabilities allowed c of
          None \<Rightarrow> (decisions, selected, seen)
        | Some d \<Rightarrow> (decisions @ [d], if pd_Reason d = ReasonSelected then selected @ [c] else selected, seen))"

definition unseen_decisions :: "Placement \<Rightarrow> uuid list \<Rightarrow> PlacementDecision list" where
  "unseen_decisions placement seen =
     map unauthorized (filter (\<lambda>cid. \<not> contains seen cid) (pl_ClusterIDs placement))"

type_synonym preview_input =
  "Placement \<times> CapabilityRequirement list \<times> SnapshotIdentity \<times> PlacementDecision list"

definition Evaluate_candidates ::
    "ext_lib \<Rightarrow> (preview_input \<Rightarrow> bytes option) \<Rightarrow> Placement \<Rightarrow> CapabilityRequirement list
     \<Rightarrow> SnapshotIdentity \<Rightarrow> uuid list \<Rightarrow> Candidate list \<Rightarrow> PlacementError + PlacementResult" where
  "Evaluate_candidates E canonicalJSON placement capabilities identity allowed candidates =
     (case fold (evaluate_step E placement capabilities allowed) candidates ([], [], []) of
        (decisions, selected, seen) \<Rightarrow>
          let sorted = sort_key (\<lambda>d. lib_uuidString E (pd_ClusterID d))
                         (decisions @ unseen_decisions placement seen)
          in case CanonicalDigest canonicalJSON (placement, capabilities, identity, sorted) of
               None \<Rightarrow> Inl PlacementDigestError
             | Some digest \<Rightarrow>
                 Inr \<lparr>pr_Decisions = sorted, pr_Selected = selected, pr_SelectedCount = length selected,
                      pr_ExcludedCount = length sorted - length selected,
                      pr_RequiresAllConfirmation = pl_AllClusters placement, pr_PreviewDigest = digest\<rparr>)"

definition Evaluate ::
    "ext_lib \<Rightarrow> (preview_input \<Rightarrow> bytes option) \<Rightarrow> PlacementRequest \<Rightarrow> PlacementError + PlacementResult" where
  "Evaluate E canonicalJSON request =
     (case Placement_Canonical E (rq_Placement request) of
        Inl _ \<Rightarrow> Inl invalidInput
      | Inr canonicalPlacement \<Rightarrow>
      case CapabilityRequirementsCanonical E (rq_RequiredCapabilities request) of
        Inl _ \<Rightarrow> Inl invalidInput
      | Inr capabilities \<Rightarrow>
      if \<not> SnapshotIdentity_validate E (rq_Identity request) then Inl invalidInput
      else sbind (canonicalUUIDSet (rq_AllowedProjectIDs request)) (\<lambda>allowedProjects.
           sbind (canonicalCandidates E (rq_Candidates request)) (\<lambda>candidates.
             Evaluate_candidates E canonicalJSON canonicalPlacement capabilities (rq_Identity request)
               allowedProjects candidates)))"

section \<open>The order of the candidates\<close>

definition compatible_maps :: "('k, 'v) gomap \<Rightarrow> ('k, 'v) gomap \<Rightarrow> bool" where
  "compatible_maps l r \<longleftrightarrow> (\<forall>k. fmlookup l k = None \<or> fmlookup r k = None \<or> fmlookup l k = fmlookup r k)"

lemma merge_capability_loop:
  assumes "set ks \<subseteq> fmdom' r" and "distinct ks"
  shows "for_each (merge_capability r) ks l = Inr m \<longleftrightarrow>
    (\<forall>k \<in> set ks. fmlookup l k = None \<or> fmlookup l k = fmlookup r k)
    \<and> (\<forall>k. fmlookup m k = (if k \<in> set ks then fmlookup r k else fmlookup l k))"
  using assms
proof (induction ks arbitrary: l)
  case Nil
  show ?case by (auto intro: fmap_ext)
next
  case (Cons k ks)
  from Cons.prems obtain v where v: "fmlookup r k = Some v" by (auto simp: fmlookup_dom'_iff)
  from Cons.prems have ks: "set ks \<subseteq> fmdom' r" "distinct ks" "k \<notin> set ks" by auto
  have step: "merge_capability r k l =
      (if fmlookup l k = None \<or> fmlookup l k = Some v then Inr (fmupd k v l) else Inl ())"
    by (auto simp: merge_capability_def v split: option.splits)
  show ?case
    using Cons.IH [OF ks(1,2), of "fmupd k v l"] ks(3) by (auto simp: step v)
qed

lemma merge_capabilities:
  "for_each (merge_capability r) (map_keys r) l = Inr m \<longleftrightarrow> compatible_maps l r \<and> m = l ++\<^sub>f r"
proof -
  have add: "fmlookup (l ++\<^sub>f r) k = (if k \<in> fmdom' r then fmlookup r k else fmlookup l k)" for k
    by (simp add: fmdom'_alt_def)
  have compat: "(\<forall>k \<in> fmdom' r. fmlookup l k = None \<or> fmlookup l k = fmlookup r k) \<longleftrightarrow> compatible_maps l r"
    by (simp only: Ball_def fmlookup_dom'_iff compatible_maps_def) (metis option.exhaust option.distinct(1))
  have "for_each (merge_capability r) (map_keys r) l = Inr m \<longleftrightarrow>
      (\<forall>k \<in> fmdom' r. fmlookup l k = None \<or> fmlookup l k = fmlookup r k)
      \<and> (\<forall>k. fmlookup m k = fmlookup (l ++\<^sub>f r) k)"
    by (subst merge_capability_loop) (simp_all only: set_map_keys distinct_map_keys subset_refl add)
  then show ?thesis
    unfolding compat by (metis fmap_ext)
qed

abbreviation attributes :: "Candidate \<Rightarrow> Candidate" where
  "attributes c \<equiv> c\<lparr>ca_GroupIDs := [], ca_Capabilities := fmempty\<rparr>"

definition joined :: "ext_lib \<Rightarrow> Candidate \<Rightarrow> Candidate \<Rightarrow> Candidate" where
  "joined E l r = l\<lparr>ca_GroupIDs := unionUUIDs E (ca_GroupIDs l) (ca_GroupIDs r),
                   ca_Capabilities := ca_Capabilities l ++\<^sub>f ca_Capabilities r\<rparr>"

lemma merge_result:
  "result_of (mergeCandidates E l r) =
     (if attributes l = attributes r \<and> compatible_maps (ca_Capabilities l) (ca_Capabilities r)
      then Some (joined E l r) else None)"
proof (cases "for_each (merge_capability (ca_Capabilities r)) (map_keys (ca_Capabilities r)) (ca_Capabilities l)")
  case (Inl e)
  then have "\<not> compatible_maps (ca_Capabilities l) (ca_Capabilities r)"
    using merge_capabilities [of "ca_Capabilities r" "ca_Capabilities l" "ca_Capabilities l ++\<^sub>f ca_Capabilities r"]
    by simp
  with Inl show ?thesis by (simp add: mergeCandidates_def)
next
  case (Inr m)
  then have "compatible_maps (ca_Capabilities l) (ca_Capabilities r)" "m = ca_Capabilities l ++\<^sub>f ca_Capabilities r"
    by (simp_all add: merge_capabilities)
  with Inr show ?thesis by (simp add: mergeCandidates_def joined_def)
qed

lemma compatible_maps_sym: "compatible_maps l r \<longleftrightarrow> compatible_maps r l"
  by (auto simp: compatible_maps_def)

lemma fmlookup_add: "fmlookup (l ++\<^sub>f r) k = (case fmlookup r k of None \<Rightarrow> fmlookup l k | Some v \<Rightarrow> Some v)"
  by (auto simp: fmlookup_dom_iff split: option.splits)

lemma fmadd_commute: "compatible_maps l r \<Longrightarrow> l ++\<^sub>f r = r ++\<^sub>f l"
proof (rule fmap_ext)
  fix k
  assume "compatible_maps l r"
  then have "fmlookup l k = None \<or> fmlookup r k = None \<or> fmlookup l k = fmlookup r k"
    by (simp add: compatible_maps_def)
  then show "fmlookup (l ++\<^sub>f r) k = fmlookup (r ++\<^sub>f l) k"
    unfolding fmlookup_add by (auto split: option.splits)
qed

lemma compatible_maps_add:
  "compatible_maps l a \<Longrightarrow> compatible_maps (l ++\<^sub>f a) b \<longleftrightarrow> compatible_maps l b \<and> compatible_maps a b"
proof -
  assume la: "compatible_maps l a"
  have "(fmlookup (l ++\<^sub>f a) k = None \<or> fmlookup b k = None \<or> fmlookup (l ++\<^sub>f a) k = fmlookup b k) \<longleftrightarrow>
      (fmlookup l k = None \<or> fmlookup b k = None \<or> fmlookup l k = fmlookup b k)
      \<and> (fmlookup a k = None \<or> fmlookup b k = None \<or> fmlookup a k = fmlookup b k)" for k
    using la [unfolded compatible_maps_def, rule_format, of k]
    unfolding fmlookup_add by (auto split: option.splits)
  then show ?thesis unfolding compatible_maps_def by blast
qed

lemma setUUIDs_set: "set xs = set ys \<Longrightarrow> setUUIDs E xs = setUUIDs E ys"
  by (simp add: setUUIDs_def sorted_list_of_set_sort_remdups [symmetric])

lemma set_setUUIDs [simp]: "set (setUUIDs E xs) = set xs"
  by (simp add: setUUIDs_def)

lemma joined_commute:
  assumes "attributes l = attributes r" and "compatible_maps (ca_Capabilities l) (ca_Capabilities r)"
  shows "joined E l r = joined E r l"
proof -
  have "unionUUIDs E (ca_GroupIDs l) (ca_GroupIDs r) = unionUUIDs E (ca_GroupIDs r) (ca_GroupIDs l)"
    unfolding unionUUIDs_def by (rule setUUIDs_set) auto
  with assms fmadd_commute [OF assms(2)] show ?thesis
    by (cases l; cases r) (simp add: joined_def)
qed

lemma joined_swap:
  assumes "attributes l = attributes a" and "attributes l = attributes b"
    and "compatible_maps (ca_Capabilities a) (ca_Capabilities b)"
  shows "joined E (joined E l a) b = joined E (joined E l b) a"
proof -
  have "unionUUIDs E (unionUUIDs E gl ga) gb = unionUUIDs E (unionUUIDs E gl gb) ga" for gl ga gb
    unfolding unionUUIDs_def by (rule setUUIDs_set) auto
  moreover have "(cl ++\<^sub>f ca_Capabilities a) ++\<^sub>f ca_Capabilities b = (cl ++\<^sub>f ca_Capabilities b) ++\<^sub>f ca_Capabilities a" for cl
    using fmadd_commute [OF assms(3)] by (simp flip: fmadd_assoc)
  ultimately show ?thesis by (simp add: joined_def)
qed

lemma candidate_step_result:
  "result_of (candidate_step E raw m) =
     (case canonicalCandidate E raw of
        Inl _ \<Rightarrow> None
      | Inr c \<Rightarrow>
          (case fmlookup m (ca_ID c) of
             None \<Rightarrow> Some (fmupd (ca_ID c) c m)
           | Some ex \<Rightarrow>
               if attributes ex = attributes c \<and> compatible_maps (ca_Capabilities ex) (ca_Capabilities c)
               then Some (fmupd (ca_ID c) (joined E ex c) m) else None))"
proof (cases "canonicalCandidate E raw")
  case (Inr c)
  show ?thesis
  proof (cases "fmlookup m (ca_ID c)")
    case (Some ex)
    show ?thesis
      using merge_result [of E ex c]
      by (cases "mergeCandidates E ex c") (auto simp: candidate_step_def Inr Some split: if_splits)
  qed (simp add: candidate_step_def Inr)
qed (simp add: candidate_step_def)

lemma joined_simps [simp]:
  "attributes (joined E l r) = attributes l"
  "ca_ID (joined E l r) = ca_ID l"
  "ca_ProjectID (joined E l r) = ca_ProjectID l"
  "ca_Capabilities (joined E l r) = ca_Capabilities l ++\<^sub>f ca_Capabilities r"
  by (simp_all add: joined_def)

lemma attributes_same:
  "attributes l = attributes r \<Longrightarrow> ca_ID l = ca_ID r \<and> ca_ProjectID l = ca_ProjectID r"
  by (cases l; cases r) simp

lemma candidate_steps_commute:
  "result_of (sbind (candidate_step E a m) (candidate_step E b))
 = result_of (sbind (candidate_step E b m) (candidate_step E a))"
proof (cases "canonicalCandidate E a")
  case (Inl e)
  then show ?thesis by (auto simp: result_of_sbind candidate_step_result split: option.splits sum.splits)
next
  case (Inr a')
  note a = this
  show ?thesis
  proof (cases "canonicalCandidate E b")
    case (Inl e)
    with a show ?thesis by (auto simp: result_of_sbind candidate_step_result split: option.splits)
  next
    case (Inr b')
    show ?thesis
    proof (cases "ca_ID a' = ca_ID b'")
      case False
      then show ?thesis
        by (auto simp: result_of_sbind candidate_step_result a Inr fmupd_reorder_neq split: option.splits)
    next
      case True
      show ?thesis
      proof (cases "fmlookup m (ca_ID b')")
        case None
        then show ?thesis
          using joined_commute [of a' b' E] compatible_maps_sym [of "ca_Capabilities a'" "ca_Capabilities b'"]
          by (auto simp: result_of_sbind candidate_step_result a Inr True)
      next
        case (Some ex)
        then show ?thesis
          using joined_swap [of ex a' b' E]
            compatible_maps_add [of "ca_Capabilities ex" "ca_Capabilities a'" "ca_Capabilities b'"]
            compatible_maps_add [of "ca_Capabilities ex" "ca_Capabilities b'" "ca_Capabilities a'"]
            compatible_maps_sym [of "ca_Capabilities a'" "ca_Capabilities b'"]
          by (auto simp: result_of_sbind candidate_step_result a Inr True)
      qed
    qed
  qed
qed

interpretation candidate_loop: commuting_loop "candidate_step E" "\<lambda>_. True" for E
  by unfold_locales (simp_all add: candidate_steps_commute)

lemma canonicalCandidates_order_free:
  assumes "mset cs = mset ds"
  shows "result_of (canonicalCandidates E cs) = result_of (canonicalCandidates E ds)"
  unfolding canonicalCandidates_def result_of_sbind
  using candidate_loop.loop_order_free [of "sort_key (\<lambda>c. lib_uuidString E (ca_ID c)) cs"
      "sort_key (\<lambda>c. lib_uuidString E (ca_ID c)) ds" E] assms
  by simp

section \<open>One pass over the candidates\<close>

lemma evaluate_fold:
  "fold (evaluate_step E p caps allowed) cs (ds, sel, seen) =
     (ds @ List.map_filter (candidate_decision E p caps allowed) cs,
      sel @ filter (\<lambda>c. map_option pd_Reason (candidate_decision E p caps allowed c) = Some ReasonSelected) cs,
      rev (filter (contains (pl_ClusterIDs p)) (map ca_ID cs)) @ seen)"
proof (induction cs arbitrary: ds sel seen)
  case (Cons c cs)
  then show ?case
    by (cases "candidate_decision E p caps allowed c") (auto simp: evaluate_step_def map_filter_simps Let_def)
qed (simp add: map_filter_simps)

text \<open>The decisions before they are sorted.\<close>

definition all_decisions ::
    "ext_lib \<Rightarrow> Placement \<Rightarrow> CapabilityRequirement list \<Rightarrow> uuid list \<Rightarrow> Candidate list \<Rightarrow> PlacementDecision list" where
  "all_decisions E p caps allowed cs =
     List.map_filter (candidate_decision E p caps allowed) cs
     @ unseen_decisions p (rev (filter (contains (pl_ClusterIDs p)) (map ca_ID cs)))"

definition chosen ::
    "ext_lib \<Rightarrow> Placement \<Rightarrow> CapabilityRequirement list \<Rightarrow> uuid list \<Rightarrow> Candidate list \<Rightarrow> Candidate list" where
  "chosen E p caps allowed cs =
     filter (\<lambda>c. map_option pd_Reason (candidate_decision E p caps allowed c) = Some ReasonSelected) cs"

lemma Evaluate_candidates_eq:
  "Evaluate_candidates E canonicalJSON p caps ident allowed cs =
     (let sorted = sort_key (\<lambda>d. lib_uuidString E (pd_ClusterID d)) (all_decisions E p caps allowed cs);
          selected = chosen E p caps allowed cs
      in case CanonicalDigest canonicalJSON (p, caps, ident, sorted) of
           None \<Rightarrow> Inl PlacementDigestError
         | Some digest \<Rightarrow>
             Inr \<lparr>pr_Decisions = sorted, pr_Selected = selected, pr_SelectedCount = length selected,
                  pr_ExcludedCount = length sorted - length selected,
                  pr_RequiresAllConfirmation = pl_AllClusters p, pr_PreviewDigest = digest\<rparr>)"
  by (simp add: Evaluate_candidates_def evaluate_fold all_decisions_def chosen_def Let_def)

lemma Evaluate_candidates_fields:
  assumes "Evaluate_candidates E canonicalJSON p caps ident allowed cs = Inr r"
  shows "pr_Decisions r = sort_key (\<lambda>d. lib_uuidString E (pd_ClusterID d)) (all_decisions E p caps allowed cs)"
    and "pr_Selected r = chosen E p caps allowed cs"
    and "pr_RequiresAllConfirmation r = pl_AllClusters p"
    and "pr_SelectedCount r = length (pr_Selected r)"
    and "pr_ExcludedCount r = length (pr_Decisions r) - length (pr_Selected r)"
  using assms by (auto simp: Evaluate_candidates_eq Let_def split: option.splits)

lemma decision_id: "candidate_decision E p caps allowed c = Some d \<Longrightarrow> pd_ClusterID d = ca_ID c"
  by (auto simp: candidate_decision_def unauthorized_def Let_def split: if_splits prod.splits)

text \<open>What a selector asks of a cluster.\<close>

definition selector_accepts :: "Placement \<Rightarrow> Candidate \<Rightarrow> bool" where
  "selector_accepts p c \<longleftrightarrow>
     (pl_ProjectIDs p = [] \<or> ca_ProjectID c \<in> set (pl_ProjectIDs p))
   \<and> (pl_AllClusters p \<or> ca_ID c \<in> set (pl_ClusterIDs p)
      \<or> (pl_ClusterGroupIDs p \<noteq> [] \<or> pl_MatchLabels p \<noteq> fmempty \<or> pl_MatchExpressions p \<noteq> [])
        \<and> (pl_ClusterGroupIDs p = [] \<or> set (pl_ClusterGroupIDs p) \<inter> set (ca_GroupIDs c) \<noteq> {})
        \<and> (\<forall>k v. fmlookup (pl_MatchLabels p) k = Some v \<longrightarrow> fmlookup (ca_Labels c) k = Some v)
        \<and> (\<forall>e \<in> set (pl_MatchExpressions p). matchesExpression e (fmlookup (ca_Labels c) (le_Key e))))"

definition eligible :: "ext_lib \<Rightarrow> CapabilityRequirement list \<Rightarrow> Candidate \<Rightarrow> bool" where
  "eligible E caps c \<longleftrightarrow> \<not> ca_Decommissioning c \<and> ca_Connected c
     \<and> ca_Compatibility c = CompatibilityCompatible
     \<and> (\<forall>r \<in> set caps. capability_missing E (ca_Capabilities c) r = None)"

lemma matches_iff: "fst (matches p c) \<longleftrightarrow> selector_accepts p c"
proof -
  have labels: "list_ex (\<lambda>key. fmlookup (ca_Labels c) key \<noteq> fmlookup (pl_MatchLabels p) key) (map_keys (pl_MatchLabels p))
      \<longleftrightarrow> \<not> (\<forall>k v. fmlookup (pl_MatchLabels p) k = Some v \<longrightarrow> fmlookup (ca_Labels c) k = Some v)"
    unfolding list_ex_iff set_map_keys Bex_def fmlookup_dom'_iff by (metis option.inject)
  have groups: "filter (contains (pl_ClusterGroupIDs p)) (ca_GroupIDs c) = []
      \<longleftrightarrow> set (pl_ClusterGroupIDs p) \<inter> set (ca_GroupIDs c) = {}"
    by (auto simp: filter_empty_conv)
  show ?thesis
    unfolding matches_def selector_accepts_def Let_def labels
    by (auto simp: groups list_ex_iff simp del: matchesExpression.simps)
qed

lemma missing_none:
  "missingCapabilities E caps actual = [] \<longleftrightarrow> (\<forall>r \<in> set caps. capability_missing E actual r = None)"
  by (induction caps) (auto simp: missingCapabilities_def map_filter_simps split: option.splits)

lemma decision_selected:
  "map_option pd_Reason (candidate_decision E p caps allowed c) = Some ReasonSelected \<longleftrightarrow>
     ca_ProjectID c \<in> set allowed \<and> ca_ID c \<notin> set (pl_ExcludeClusterIDs p)
     \<and> selector_accepts p c \<and> eligible E caps c"
proof (cases "matches p c")
  case (fields matched reasons groups)
  then have m: "matched \<longleftrightarrow> selector_accepts p c" using matches_iff [of p c] by simp
  show ?thesis
    by (auto simp: candidate_decision_def fields m unauthorized_def Let_def eligible_def missing_none)
qed

lemma selector_accepts_normal: "selector_accepts (placement_normal E p) c \<longleftrightarrow> selector_accepts p c"
proof -
  have "matchesExpression (expression_sorted e) v = matchesExpression e v" for e v
    by (auto simp: expression_sorted_def split: LabelOperator.splits option.splits)
  moreover have "le_Key (expression_sorted e) = le_Key e" for e
    by (simp add: expression_sorted_def)
  ultimately show ?thesis
    by (simp add: selector_accepts_def placement_normal_def sortedUUIDs_def del: matchesExpression.simps)
qed

lemma CapabilityRequirementsCanonical_set:
  "CapabilityRequirementsCanonical E caps = Inr cs \<Longrightarrow> set cs = set caps"
  by (auto simp: CapabilityRequirementsCanonical_def Let_def split: if_splits)

lemma canonicalUUIDSet_Inr: "canonicalUUIDSet xs = Inr ys \<Longrightarrow> ys = xs \<and> distinct xs \<and> uuid_nil \<notin> set xs"
proof -
  let ?f = "\<lambda>x result. if x = uuid_nil then Inl invalidInput
             else if contains result x then Inl invalidInput else Inr (result @ [x])"
  have "for_each ?f xs acc = Inr ys \<Longrightarrow> ys = acc @ xs \<and> distinct xs \<and> uuid_nil \<notin> set xs \<and> set acc \<inter> set xs = {}" for acc
  proof (induction xs arbitrary: acc)
    case (Cons x xs)
    from Cons.prems have "x \<noteq> uuid_nil" "x \<notin> set acc" "for_each ?f xs (acc @ [x]) = Inr ys"
      by (auto split: if_splits)
    with Cons.IH [of "acc @ [x]"] show ?case by auto
  qed simp
  from this [of "[]"] show "canonicalUUIDSet xs = Inr ys \<Longrightarrow> ?thesis"
    by (auto simp: canonicalUUIDSet_def split: if_splits)
qed

lemma Evaluate_Inr:
  assumes "Evaluate E canonicalJSON rq = Inr r"
  obtains caps cs where "Placement_Validate E (rq_Placement rq) = []"
    and "CapabilityRequirementsCanonical E (rq_RequiredCapabilities rq) = Inr caps"
    and "canonicalUUIDSet (rq_AllowedProjectIDs rq) = Inr (rq_AllowedProjectIDs rq)"
    and "canonicalCandidates E (rq_Candidates rq) = Inr cs"
    and "Evaluate_candidates E canonicalJSON (placement_normal E (rq_Placement rq)) caps (rq_Identity rq)
           (rq_AllowedProjectIDs rq) cs = Inr r"
  using assms canonicalUUIDSet_Inr
  by (fastforce simp: Evaluate_def Placement_Canonical_def sbind_Inr_iff split: sum.splits if_splits)

text \<open>A small request on which the hypotheses of the theorems hold: cluster 1 belongs to the
  caller's project, cluster 2 does not, and both were asked for.\<close>

definition sample_candidate :: "uuid \<Rightarrow> uuid \<Rightarrow> Candidate" where
  "sample_candidate cid project =
     \<lparr>ca_ID = cid, ca_ProjectID = project, ca_Name = ''c'', ca_Labels = fmempty, ca_GroupIDs = [],
      ca_Capabilities = fmempty, ca_Connected = True, ca_Compatibility = CompatibilityCompatible,
      ca_CompatibilityReason = [], ca_Decommissioning = False\<rparr>"

definition sample_digest :: digest where
  "sample_digest = ''sha256:'' @ replicate 64 (CHR ''a'')"

definition sample_request :: PlacementRequest where
  "sample_request =
     \<lparr>rq_Placement = (labels_placement fmempty)\<lparr>pl_ClusterIDs := [1, 2]\<rparr>,
      rq_AllowedProjectIDs = [10], rq_Candidates = [sample_candidate 2 20, sample_candidate 1 10],
      rq_RequiredCapabilities = [],
      rq_Identity = \<lparr>si_TargetGeneration = 1, si_BundleVersionID = 5, si_BundleSpecDigest = sample_digest,
        si_ResolvedRevision = \<lparr>rev_Kind = RevisionGitCommit, rev_Value = replicate 40 (CHR ''a''),
          rev_ArtifactDigest = sample_digest\<rparr>\<rparr>\<rparr>"

lemma uuid_text_small:
  "uuid_text 1 = ''00000000-0000-0000-0000-000000000001''"
  "uuid_text 2 = ''00000000-0000-0000-0000-000000000002''"
  by code_simp+

lemma sample_candidates:
  "canonicalCandidates sample_lib (rq_Candidates sample_request) = Inr [sample_candidate 1 10, sample_candidate 2 20]"
  by (simp add: canonicalCandidates_def sample_request_def sample_candidate_def candidate_step_def
      canonicalCandidate_def trim_simps labels_placement_def Placement_Validate_def validateUUIDSet_def
      match_label_violations_def sortedStringMapKeys_def canonicalUUIDSet_def setUUIDs_def
      uuid_text_small less_char_def less_eq_char_def map_keys_def sorted_list_of_fset.rep_eq)

lemma sample_checks:
  "Placement_Validate sample_lib (rq_Placement sample_request) = []"
  "CapabilityRequirementsCanonical sample_lib (rq_RequiredCapabilities sample_request) = Inr []"
  "SnapshotIdentity_validate sample_lib (rq_Identity sample_request)"
  "canonicalUUIDSet (rq_AllowedProjectIDs sample_request) = Inr [10]"
  by (simp_all add: sample_request_def labels_placement_def Placement_Validate_def validateUUIDSet_Nil
      each_index_Nil match_label_violations_def sortedStringMapKeys_def CapabilityRequirementsCanonical_def Let_def
      SnapshotIdentity_validate_def Digest_Validate_def digestPattern_def sample_digest_def starts_with_def
      ImmutableRevision_Validate_def gitCommitPattern_def lower_hex_def less_eq_char_def canonicalUUIDSet_def
      list_all_iff)

lemma sample_evaluates: "\<exists>r. Evaluate sample_lib (\<lambda>_. Some ''{}'') sample_request = Inr r"
  by (simp add: Evaluate_def Placement_Canonical_def sample_candidates sample_checks Evaluate_candidates_eq
      CanonicalDigest_def Let_def)

text \<open>C18. What a preview selects: among the canonical candidates, exactly the clusters in a
  project the caller may use, not excluded by name, accepted by the selector, and fit to
  receive the bundle (not decommissioning, connected, compatible, every required capability
  present at an accepted version).\<close>

theorem selected_exactly:
  assumes "Evaluate E canonicalJSON rq = Inr r" and "canonicalCandidates E (rq_Candidates rq) = Inr cs"
  shows "set (pr_Selected r) = {c \<in> set cs.
      ca_ProjectID c \<in> set (rq_AllowedProjectIDs rq)
    \<and> ca_ID c \<notin> set (pl_ExcludeClusterIDs (rq_Placement rq))
    \<and> selector_accepts (rq_Placement rq) c \<and> eligible E (rq_RequiredCapabilities rq) c}"
proof -
  let ?p = "placement_normal E (rq_Placement rq)"
  from assms obtain caps where caps: "CapabilityRequirementsCanonical E (rq_RequiredCapabilities rq) = Inr caps"
    and ev: "Evaluate_candidates E canonicalJSON ?p caps (rq_Identity rq) (rq_AllowedProjectIDs rq) cs = Inr r"
    by (elim Evaluate_Inr) simp
  from Evaluate_candidates_fields(2) [OF ev] show ?thesis
    using CapabilityRequirementsCanonical_set [OF caps]
    unfolding chosen_def decision_selected selector_accepts_normal
    by (auto simp: eligible_def placement_normal_def sortedUUIDs_def)
qed

theorem selected_exactly_witness:
  "\<exists>r. Evaluate sample_lib (\<lambda>_. Some ''{}'') sample_request = Inr r
     \<and> sample_candidate 1 10 \<in> set (pr_Selected r) \<and> sample_candidate 2 20 \<notin> set (pr_Selected r)"
proof -
  obtain r where r: "Evaluate sample_lib (\<lambda>_. Some ''{}'') sample_request = Inr r"
    using sample_evaluates by blast
  then show ?thesis
    using selected_exactly [OF r sample_candidates]
    by (simp add: sample_request_def sample_candidate_def labels_placement_def selector_accepts_def eligible_def)
qed

text \<open>C19. A preview does not depend on the order in which the clusters were read: for every
  permutation of the candidates the evaluation succeeds with the same result, digest
  included, or fails.\<close>

theorem preview_order_free:
  assumes "mset cs = mset (rq_Candidates rq)"
  shows "result_of (Evaluate E canonicalJSON (rq\<lparr>rq_Candidates := cs\<rparr>)) = result_of (Evaluate E canonicalJSON rq)"
  using canonicalCandidates_order_free [OF assms, of E]
  by (auto simp: Evaluate_def result_of_sbind split: sum.splits)

theorem preview_order_free_witness:
  "result_of (Evaluate sample_lib (\<lambda>_. Some ''{}'')
     (sample_request\<lparr>rq_Candidates := [sample_candidate 1 10, sample_candidate 2 20]\<rparr>))
   = result_of (Evaluate sample_lib (\<lambda>_. Some ''{}'') sample_request)"
  by (rule preview_order_free) (simp add: sample_request_def)

section \<open>Clusters the caller may not see\<close>

lemma canonicalCandidate_ids:
  "canonicalCandidate E raw = Inr c \<Longrightarrow> ca_ID c = ca_ID raw \<and> ca_ProjectID c = ca_ProjectID raw"
  by (auto simp: canonicalCandidate_def sbind_Inr_iff split: if_splits)

text \<open>The part of the table of candidates that belongs to the given projects.\<close>

definition visible_part :: "uuid list \<Rightarrow> (uuid, Candidate) gomap \<Rightarrow> (uuid, Candidate) gomap \<Rightarrow> bool" where
  "visible_part allowed m m' \<longleftrightarrow> (\<forall>k. fmlookup m' k =
     (case fmlookup m k of Some c \<Rightarrow> if ca_ProjectID c \<in> set allowed then Some c else None | None \<Rightarrow> None))"

definition keyed :: "(uuid, Candidate) gomap \<Rightarrow> bool" where
  "keyed m \<longleftrightarrow> (\<forall>k c. fmlookup m k = Some c \<longrightarrow> ca_ID c = k)"

lemma candidate_step_Inr:
  assumes "candidate_step E raw m = Inr m1"
  obtains c c1 where "canonicalCandidate E raw = Inr c" and "m1 = fmupd (ca_ID c) c1 m"
    and "ca_ID c1 = ca_ID c" and "ca_ProjectID c1 = ca_ProjectID c"
    and "\<And>ex. fmlookup m (ca_ID c) = Some ex \<Longrightarrow> ca_ProjectID ex = ca_ProjectID c"
    and "\<And>m'. fmlookup m' (ca_ID c) = fmlookup m (ca_ID c) \<Longrightarrow> candidate_step E raw m' = Inr (fmupd (ca_ID c) c1 m')"
proof -
  from assms have res: "result_of (candidate_step E raw m) = Some m1" by simp
  then obtain c where c: "canonicalCandidate E raw = Inr c"
    by (auto simp: candidate_step_result split: sum.splits)
  show thesis
  proof (cases "fmlookup m (ca_ID c)")
    case None
    from res have m1: "m1 = fmupd (ca_ID c) c m" by (simp add: candidate_step_result c None)
    show thesis
    proof (rule that [OF c m1])
      show "candidate_step E raw m' = Inr (fmupd (ca_ID c) c m')"
        if "fmlookup m' (ca_ID c) = fmlookup m (ca_ID c)" for m'
        using that by (simp add: candidate_step_def c None)
    qed (simp_all add: None)
  next
    case (Some ex)
    from res have same: "attributes ex = attributes c" "compatible_maps (ca_Capabilities ex) (ca_Capabilities c)"
      and m1: "m1 = fmupd (ca_ID c) (joined E ex c) m"
      by (auto simp: candidate_step_result c Some split: if_splits)
    have merged: "mergeCandidates E ex c = Inr (joined E ex c)"
      using merge_result [of E ex c] same by simp
    note ids = attributes_same [OF same(1)]
    show thesis
    proof (rule that [OF c m1])
      show "candidate_step E raw m' = Inr (fmupd (ca_ID c) (joined E ex c) m')"
        if "fmlookup m' (ca_ID c) = fmlookup m (ca_ID c)" for m'
        using that by (simp add: candidate_step_def c Some merged)
    qed (use ids in \<open>simp_all add: Some\<close>)
  qed
qed

lemma candidate_step_keyed: "keyed m \<Longrightarrow> candidate_step E raw m = Inr m1 \<Longrightarrow> keyed m1"
  by (erule candidate_step_Inr) (auto simp: keyed_def)

lemma candidate_step_visible:
  assumes step: "candidate_step E raw m = Inr m1" and vis: "visible_part allowed m m'"
  shows "if ca_ProjectID raw \<in> set allowed
         then \<exists>m1'. candidate_step E raw m' = Inr m1' \<and> visible_part allowed m1 m1'
         else visible_part allowed m1 m'"
proof -
  from step obtain c c1 where c: "canonicalCandidate E raw = Inr c" and m1: "m1 = fmupd (ca_ID c) c1 m"
    and "ca_ID c1 = ca_ID c" and c1: "ca_ProjectID c1 = ca_ProjectID c"
    and ex: "\<And>ex. fmlookup m (ca_ID c) = Some ex \<Longrightarrow> ca_ProjectID ex = ca_ProjectID c"
    and same: "\<And>m'. fmlookup m' (ca_ID c) = fmlookup m (ca_ID c) \<Longrightarrow>
        candidate_step E raw m' = Inr (fmupd (ca_ID c) c1 m')"
    by (rule candidate_step_Inr) (rule that)
  note raw = canonicalCandidate_ids [OF c]
  show ?thesis
  proof (cases "ca_ProjectID raw \<in> set allowed")
    case True
    then have "fmlookup m' (ca_ID c) = fmlookup m (ca_ID c)"
      using vis ex raw by (simp add: visible_part_def split: option.splits)
    with same True vis c1 raw m1 show ?thesis by (auto simp: visible_part_def)
  next
    case False
    then show ?thesis
      using vis ex c1 raw m1 by (auto simp: visible_part_def split: option.splits)
  qed
qed

lemma candidate_loop_visible:
  "for_each (candidate_step E) raws m = Inr m1 \<Longrightarrow> visible_part allowed m m' \<Longrightarrow>
   \<exists>m1'. for_each (candidate_step E) (filter (\<lambda>c. ca_ProjectID c \<in> set allowed) raws) m' = Inr m1'
         \<and> visible_part allowed m1 m1'"
proof (induction raws arbitrary: m m')
  case (Cons raw raws)
  from Cons.prems(1) obtain m2 where step: "candidate_step E raw m = Inr m2"
    and rest: "for_each (candidate_step E) raws m2 = Inr m1"
    by (auto simp: sbind_Inr_iff)
  show ?case
    using candidate_step_visible [OF step Cons.prems(2)] Cons.IH [OF rest]
    by (auto split: if_splits)
qed auto

lemma canonicalCandidates_visible:
  assumes "canonicalCandidates E raws = Inr cs"
  shows "canonicalCandidates E (filter (\<lambda>c. ca_ProjectID c \<in> set allowed) raws)
       = Inr (filter (\<lambda>c. ca_ProjectID c \<in> set allowed) cs)"
    and "distinct (map ca_ID cs)"
proof -
  let ?key = "\<lambda>c. lib_uuidString E (ca_ID c)" and ?ok = "\<lambda>c. ca_ProjectID c \<in> set allowed"
  let ?list = "\<lambda>m. map (\<lambda>k. the (fmlookup m k)) (map_keys m)"
  from assms obtain m where loop: "for_each (candidate_step E) (sort_key ?key raws) fmempty = Inr m"
    and cs: "cs = sort_key ?key (?list m)"
    by (auto simp: canonicalCandidates_def sbind_Inr_iff)
  have "keyed fmempty" by (simp add: keyed_def)
  then have keyed: "keyed m"
    by (rule for_each_invariant [OF loop]) (rule candidate_step_keyed)
  have "map (ca_ID \<circ> (\<lambda>k. the (fmlookup m k))) (map_keys m) = map_keys m"
    by (rule map_idI) (use keyed in \<open>auto simp: keyed_def fmlookup_dom'_iff\<close>)
  then have ids: "map ca_ID (?list m) = map_keys m" by simp
  have "mset (map ca_ID cs) = mset (map ca_ID (?list m))"
    by (simp only: cs mset_map mset_sort)
  then have "mset (map ca_ID cs) = mset (map_keys m)" by (simp only: ids)
  then show "distinct (map ca_ID cs)"
    by (metis distinct_map_keys mset_eq_imp_distinct_iff)
  have "visible_part allowed fmempty fmempty" by (simp add: visible_part_def)
  then obtain m' where loop': "for_each (candidate_step E) (filter ?ok (sort_key ?key raws)) fmempty = Inr m'"
    and vis: "visible_part allowed m m'"
    using candidate_loop_visible [OF loop] by blast
  have look: "fmlookup m' k = (case fmlookup m k of Some c \<Rightarrow> if ?ok c then Some c else None | None \<Rightarrow> None)" for k
    using vis by (simp add: visible_part_def)
  have keys: "map_keys m' = filter (\<lambda>k. ?ok (the (fmlookup m k))) (map_keys m)"
  proof (rule sorted_distinct_set_unique)
    show "set (map_keys m') = set (filter (\<lambda>k. ?ok (the (fmlookup m k))) (map_keys m))"
      by (auto simp: fmlookup_dom'_iff look split: option.splits if_splits)
  qed (simp_all add: map_keys_def sorted_list_of_fset.rep_eq sorted_wrt_filter)
  have "?list m' = map (\<lambda>k. the (fmlookup m k)) (map_keys m')"
    by (auto simp: keys look fmlookup_dom'_iff split: option.splits)
  also have "\<dots> = filter ?ok (?list m)"
    by (simp add: keys filter_map comp_def)
  finally show "canonicalCandidates E (filter ?ok raws) = Inr (filter ?ok cs)"
    using loop' by (simp add: canonicalCandidates_def cs filter_sort)
qed

lemma map_filter_ids:
  assumes "\<And>c d. f c = Some d \<Longrightarrow> pd_ClusterID d = ca_ID c"
  shows "map pd_ClusterID (List.map_filter f cs) = map ca_ID (filter (\<lambda>c. f c \<noteq> None) cs)"
  using assms by (induction cs) (auto simp: map_filter_simps split: option.splits)

lemma set_map_filter: "set (List.map_filter f xs) = {y. \<exists>x \<in> set xs. f x = Some y}"
  by (induction xs) (auto simp: map_filter_simps split: option.splits)

lemma unauthorized_id [simp]: "pd_ClusterID (unauthorized cid) = cid"
  by (simp add: unauthorized_def)

lemma distinct_decisions:
  assumes "distinct (map ca_ID cs)" and "distinct (pl_ClusterIDs p)"
  shows "distinct (map pd_ClusterID (all_decisions E p caps allowed cs))"
proof -
  let ?f = "candidate_decision E p caps allowed"
  have ids: "map pd_ClusterID (List.map_filter ?f cs) = map ca_ID (filter (\<lambda>c. ?f c \<noteq> None) cs)"
    by (rule map_filter_ids) (rule decision_id)
  have "distinct (map ca_ID (filter (\<lambda>c. ?f c \<noteq> None) cs))"
    using assms(1) by (rule distinct_map_filter)
  then show ?thesis
    using assms(2) by (auto simp: all_decisions_def unseen_decisions_def ids comp_def)
qed

lemma decision_exists: "ca_ID c \<in> set (pl_ClusterIDs p) \<Longrightarrow> candidate_decision E p caps allowed c \<noteq> None"
  by (cases "matches p c") (simp add: candidate_decision_def Let_def)

lemma decisions_cover_requested:
  assumes "x \<in> set (pl_ClusterIDs p)"
  shows "x \<in> pd_ClusterID ` set (all_decisions E p caps allowed cs)"
proof (cases "x \<in> ca_ID ` set cs")
  case True
  then obtain c where c: "c \<in> set cs" "ca_ID c = x" by auto
  then obtain d where d: "candidate_decision E p caps allowed c = Some d"
    using assms decision_exists [of c p E caps allowed] by auto
  with c decision_id [OF d] show ?thesis by (force simp: all_decisions_def set_map_filter)
next
  case False
  with assms show ?thesis by (force simp: all_decisions_def unseen_decisions_def)
qed

lemma decisions_visible_only:
  fixes allowed :: "uuid list"
  assumes ids: "distinct (map ca_ID cs)"
  defines "vis \<equiv> filter (\<lambda>c. ca_ProjectID c \<in> set allowed) cs"
  shows "set (all_decisions E p caps allowed cs) = set (all_decisions E p caps allowed vis)"
proof -
  let ?f = "candidate_decision E p caps allowed" and ?X = "set (pl_ClusterIDs p)"
  define hidden where "hidden = filter (\<lambda>c. ca_ProjectID c \<notin> set allowed) cs"
  have hid: "?f c = (if ca_ID c \<in> ?X then Some (unauthorized (ca_ID c)) else None)"
    if "ca_ProjectID c \<notin> set allowed" for c
    using that by (simp add: candidate_decision_def)
  have split: "set cs = set vis \<union> set hidden" by (auto simp: vis_def hidden_def)
  have "{y. \<exists>c \<in> set hidden. ?f c = Some y} = unauthorized ` (ca_ID ` set hidden \<inter> ?X)"
    using hid by (auto simp: hidden_def)
  then have seen: "{y. \<exists>c \<in> set cs. ?f c = Some y}
      = {y. \<exists>c \<in> set vis. ?f c = Some y} \<union> unauthorized ` (ca_ID ` set hidden \<inter> ?X)"
    unfolding split by (simp only: bex_Un Collect_disj_eq)
  have "ca_ID ` set vis \<inter> ca_ID ` set hidden = {}"
    using ids unfolding vis_def hidden_def distinct_map by (auto dest: inj_onD)
  then have "unauthorized ` (ca_ID ` set hidden \<inter> ?X) \<union> unauthorized ` (?X - ca_ID ` set cs)
      = unauthorized ` (?X - ca_ID ` set vis)"
    unfolding split image_Un [symmetric] by (intro arg_cong [where f = "image unauthorized"]) blast
  moreover have "set (all_decisions E p caps allowed zs)
      = {y. \<exists>c \<in> set zs. ?f c = Some y} \<union> unauthorized ` (?X - ca_ID ` set zs)" for zs
  proof -
    have "set (filter (\<lambda>cid. \<not> contains (rev (filter (contains (pl_ClusterIDs p)) (map ca_ID zs))) cid) (pl_ClusterIDs p))
        = ?X - ca_ID ` set zs" by auto
    then show ?thesis
      by (simp only: all_decisions_def unseen_decisions_def set_append set_map set_map_filter)
  qed
  ultimately show ?thesis by (simp only: seen Un_assoc)
qed

text \<open>C20. Clusters of projects the caller may not use leave no trace in a preview.  Removing
  every one of them from the candidates gives the same decisions, the same selection, the same
  counts and the same digest; a cluster the caller named without access to it is reported like
  one that does not exist.\<close>

theorem hidden_clusters_leave_no_trace:
  assumes inj: "inj (lib_uuidString E)" and ok: "Evaluate E canonicalJSON rq = Inr r"
  shows "Evaluate E canonicalJSON (rq\<lparr>rq_Candidates :=
           filter (\<lambda>c. ca_ProjectID c \<in> set (rq_AllowedProjectIDs rq)) (rq_Candidates rq)\<rparr>) = Inr r"
proof -
  let ?p = "placement_normal E (rq_Placement rq)" and ?allowed = "rq_AllowedProjectIDs rq"
  let ?vis = "filter (\<lambda>c. ca_ProjectID c \<in> set ?allowed)"
  from ok obtain caps cs where valid: "Placement_Validate E (rq_Placement rq) = []"
    and caps: "CapabilityRequirementsCanonical E (rq_RequiredCapabilities rq) = Inr caps"
    and allowed: "canonicalUUIDSet ?allowed = Inr ?allowed"
    and cs: "canonicalCandidates E (rq_Candidates rq) = Inr cs"
    and ev: "Evaluate_candidates E canonicalJSON ?p caps (rq_Identity rq) ?allowed cs = Inr r"
    by (rule Evaluate_Inr)
  note vis = canonicalCandidates_visible(1) [OF cs, of ?allowed] canonicalCandidates_visible(2) [OF cs]
  have dist: "distinct (pl_ClusterIDs ?p)"
    using Placement_Validate_ids(2) [OF valid] by (simp add: placement_normal_def sortedUUIDs_def)
  let ?D = "all_decisions E ?p caps ?allowed"
  have dvis: "distinct (map ca_ID (?vis cs))" using vis(2) by (rule distinct_map_filter)
  have "sort_key (\<lambda>d. lib_uuidString E (pd_ClusterID d)) (?D cs)
      = sort_key (\<lambda>d. lib_uuidString E (pd_ClusterID d)) (?D (?vis cs))"
  proof (rule sort_key_perm_unique)
    have sets: "set (?D cs) = set (?D (?vis cs))" by (rule decisions_visible_only [OF vis(2)])
    have "distinct (?D cs)" "distinct (?D (?vis cs))"
      using distinct_decisions [OF vis(2) dist] distinct_decisions [OF dvis dist] by (simp_all add: distinct_map)
    then show "mset (?D cs) = mset (?D (?vis cs))"
      using sets by (rule set_eq_iff_mset_eq_distinct [THEN iffD1])
    show "inj_on (\<lambda>d. lib_uuidString E (pd_ClusterID d)) (set (?D cs))"
      using distinct_decisions [OF vis(2) dist, of E caps ?allowed] inj by (auto simp: distinct_map inj_on_def)
  qed
  moreover have "chosen E ?p caps ?allowed cs = chosen E ?p caps ?allowed (?vis cs)"
    unfolding chosen_def decision_selected by (simp add: conj_commute cong: conj_cong)
  ultimately have "Evaluate_candidates E canonicalJSON ?p caps (rq_Identity rq) ?allowed (?vis cs) = Inr r"
    using ev by (simp add: Evaluate_candidates_eq)
  with ok valid caps allowed vis(1) show ?thesis
    by (simp add: Evaluate_def Placement_Canonical_def split: if_splits)
qed

theorem hidden_clusters_leave_no_trace_witness:
  "Evaluate sample_lib (\<lambda>_. Some ''{}'') (sample_request\<lparr>rq_Candidates := [sample_candidate 1 10]\<rparr>)
   = Evaluate sample_lib (\<lambda>_. Some ''{}'') sample_request"
proof -
  obtain r where r: "Evaluate sample_lib (\<lambda>_. Some ''{}'') sample_request = Inr r"
    using sample_evaluates by blast
  have "filter (\<lambda>c. ca_ProjectID c \<in> set (rq_AllowedProjectIDs sample_request)) (rq_Candidates sample_request)
      = [sample_candidate 1 10]"
    by (simp add: sample_request_def sample_candidate_def)
  then show ?thesis
    using hidden_clusters_leave_no_trace [OF _ r] r uuid_text_inj by simp
qed

text \<open>Every preview gives each cluster one disposition: no cluster has two decisions,
  every requested identifier has one, and the two counters account for all of them.\<close>

theorem one_decision_per_cluster:
  assumes "Evaluate E canonicalJSON rq = Inr r"
  shows "distinct (map pd_ClusterID (pr_Decisions r))
    \<and> set (pl_ClusterIDs (rq_Placement rq)) \<subseteq> pd_ClusterID ` set (pr_Decisions r)
    \<and> pr_SelectedCount r + pr_ExcludedCount r = length (pr_Decisions r)"
proof -
  let ?p = "placement_normal E (rq_Placement rq)" and ?allowed = "rq_AllowedProjectIDs rq"
  from assms obtain caps cs where valid: "Placement_Validate E (rq_Placement rq) = []"
    and "CapabilityRequirementsCanonical E (rq_RequiredCapabilities rq) = Inr caps"
    and "canonicalUUIDSet ?allowed = Inr ?allowed"
    and cs: "canonicalCandidates E (rq_Candidates rq) = Inr cs"
    and ev: "Evaluate_candidates E canonicalJSON ?p caps (rq_Identity rq) ?allowed cs = Inr r"
    by (rule Evaluate_Inr)
  have ids: "set (pl_ClusterIDs ?p) = set (pl_ClusterIDs (rq_Placement rq))" "distinct (pl_ClusterIDs ?p)"
    using Placement_Validate_ids(2) [OF valid] by (simp_all add: placement_normal_def sortedUUIDs_def)
  let ?D = "all_decisions E ?p caps ?allowed cs"
  have msets: "mset (map pd_ClusterID (pr_Decisions r)) = mset (map pd_ClusterID ?D)"
    by (simp only: Evaluate_candidates_fields(1) [OF ev] mset_map mset_sort)
  have "distinct (map pd_ClusterID (pr_Decisions r))"
    using distinct_decisions [OF canonicalCandidates_visible(2) [OF cs] ids(2)] msets
    by (metis mset_eq_imp_distinct_iff)
  moreover have "set (pl_ClusterIDs (rq_Placement rq)) \<subseteq> pd_ClusterID ` set (pr_Decisions r)"
    using decisions_cover_requested [of _ ?p E caps ?allowed cs]
    by (auto simp: ids(1) Evaluate_candidates_fields(1) [OF ev])
  moreover have "length (chosen E ?p caps ?allowed cs) \<le> length (List.map_filter (candidate_decision E ?p caps ?allowed) cs)"
    unfolding chosen_def by (induction cs) (auto simp: map_filter_simps split: option.splits)
  then have "length (pr_Selected r) \<le> length (pr_Decisions r)"
    by (simp add: Evaluate_candidates_fields(1,2) [OF ev] all_decisions_def)
  ultimately show ?thesis
    using Evaluate_candidates_fields(4,5) [OF ev] by simp
qed

end
