(* ===== verification/Rollout_Types.thy ===== *)
theory Rollout_Types
  imports Delivery_State Safeconv Model_Overrides Placement_Eval
begin

text \<open>
  \<open>internal/delivery/rollout/types.go\<close> and \<open>errors.go\<close>: the frozen plan of a rollout
  and the values a scheduler works on, with their own checks.  Positions in slices
  (\<open>Index\<close>, \<open>Cohort\<close>, \<open>Order\<close>) are natural numbers, optional pointers are options,
  and the text of an error is reduced to its code and field.
\<close>

section \<open>Errors\<close>

datatype RolloutErrorCode = RErrInvalidInput | RErrIdempotencyConflict | RErrPreviewStale
  | RErrTargetChanged | RErrNoClusters | RErrInvalidCohorts | RErrLeaseLost | RErrStaleFence
  | RErrInvariant

datatype RolloutError =
    RolloutErr RolloutErrorCode string
  | RolloutModelErr violations
  | RolloutPlacementErr PlacementError
  | RolloutStateErr TransitionError
  | RolloutDigestErr
  | RolloutAuditUnavailable
  | RolloutStoreErr

fun Rollout_HasCode :: "RolloutError \<Rightarrow> RolloutErrorCode \<Rightarrow> bool" where
  "Rollout_HasCode (RolloutErr c _) code = (c = code)"
| "Rollout_HasCode _ code = False"

abbreviation MaxActorLength :: nat where "MaxActorLength \<equiv> 512"
abbreviation MaxIdempotencyKeyLength :: nat where "MaxIdempotencyKeyLength \<equiv> 128"
abbreviation MaxLeaseOwnerLength :: nat where "MaxLeaseOwnerLength \<equiv> 253"

section \<open>Versions\<close>

record VersionIdentity =
  vi_BundleVersionID :: uuid
  vi_SpecDigest :: digest
  vi_Source :: ResolvedSourceSpec
  vi_Overrides :: TargetOverrides
  vi_Renderer :: "RendererSpec option"
  vi_ConfigurationDigest :: digest

definition VersionIdentity_Validate :: "ext_lib \<Rightarrow> VersionIdentity \<Rightarrow> RolloutError + unit" where
  "VersionIdentity_Validate E v =
     (if vi_BundleVersionID v = uuid_nil then Inl (RolloutErr RErrInvalidInput ''bundle_version_id'')
      else if Digest_Validate (vi_SpecDigest v) \<noteq> [] then Inl (RolloutErr RErrInvalidInput ''spec_digest'')
      else if ResolvedSourceSpec_Validate E (vi_Source v) \<noteq> [] then Inl (RolloutErr RErrInvalidInput ''source'')
      else if TargetOverrides_Validate E (vi_Overrides v) \<noteq> Inr () then Inl (RolloutErr RErrInvalidInput ''overrides'')
      else case vi_Renderer v of
          Some renderer \<Rightarrow>
            if RendererSpec_Validate E renderer \<noteq> [] then Inl (RolloutErr RErrInvalidInput ''renderer'')
            else if Digest_Validate (vi_ConfigurationDigest v) \<noteq> []
            then Inl (RolloutErr RErrInvalidInput ''configuration_digest'')
            else Inr ()
        | None \<Rightarrow>
            if vi_ConfigurationDigest v \<noteq> [] then Inl (RolloutErr RErrInvalidInput ''configuration_digest'')
            else Inr ())"

record PreviousDeployment =
  pv_Version :: VersionIdentity
  pv_Generation :: int

definition PreviousDeployment_Validate :: "ext_lib \<Rightarrow> PreviousDeployment \<Rightarrow> RolloutError + unit" where
  "PreviousDeployment_Validate E p =
     (if pv_Generation p < 1 then Inl (RolloutErr RErrInvalidInput ''previous.generation'')
      else VersionIdentity_Validate E (pv_Version p))"

section \<open>The frozen plan\<close>

record ApprovalBinding =
  ab_Required :: bool
  ab_Digest :: digest

record Cohort =
  co_Index :: nat
  co_Name :: string
  co_ClusterIDs :: "uuid list"
  co_ApprovalRequired :: bool
  co_ApprovalDigest :: digest
  co_SoakAfter :: duration

record PlannedCluster =
  pc_ClusterID :: uuid
  pc_Cohort :: nat
  pc_Order :: nat
  pc_Desired :: "VersionIdentity option"
  pc_Previous :: "PreviousDeployment option"

record FrozenRollout =
  fr_ID :: uuid
  fr_TargetID :: uuid
  fr_ProjectID :: uuid
  fr_TargetGeneration :: uint64
  fr_Desired :: VersionIdentity
  fr_PlacementDigest :: digest
  fr_Strategy :: RolloutStrategy
  fr_StrategyDigest :: digest
  fr_Approval :: ApprovalBinding
  fr_Actor :: string
  fr_IdempotencyKey :: string
  fr_RequestDigest :: digest
  fr_CreatedAt :: gotime
  fr_Deadline :: gotime
  fr_Cohorts :: "Cohort list"
  fr_Clusters :: "PlannedCluster list"
  fr_PlanDigest :: digest

section \<open>Approvals, maintenance and leases\<close>

record ApprovalDecision =
  ad_ID :: uuid
  ad_BindingDigest :: digest
  ad_Approved :: bool
  ad_DecidedAt :: gotime
  ad_ExpiresAt :: gotime

definition validFor :: "ApprovalDecision \<Rightarrow> digest \<Rightarrow> gotime \<Rightarrow> bool" where
  "validFor d binding now \<longleftrightarrow>
     ad_ID d \<noteq> uuid_nil \<and> ad_BindingDigest d = binding
     \<and> \<not> is_zero_time (ad_DecidedAt d) \<and> \<not> after (ad_DecidedAt d) now \<and> after (ad_ExpiresAt d) now"

record MaintenanceGate =
  mg_Open :: bool
  mg_OverrideAuthorized :: bool
  mg_OverrideReason :: string

definition allowsRelease :: "MaintenanceGate \<Rightarrow> bool" where
  "allowsRelease g \<longleftrightarrow> mg_Open g \<or> (mg_OverrideAuthorized g \<and> trim_space (mg_OverrideReason g) \<noteq> [])"

record Lease =
  ls_Owner :: string
  ls_Fence :: int
  ls_ExpiresAt :: gotime

definition Lease_validate :: "Lease \<Rightarrow> gotime \<Rightarrow> int \<Rightarrow> RolloutError + unit" where
  "Lease_validate l now fence =
     (if ls_Owner l = [] \<or> length (ls_Owner l) > MaxLeaseOwnerLength \<or> contains_any (ls_Owner l) line_breakers
      then Inl (RolloutErr RErrLeaseLost ''lease.owner'')
      else if ls_Fence l \<noteq> fence then Inl (RolloutErr RErrStaleFence ''lease.fence'')
      else if \<not> after (ls_ExpiresAt l) now then Inl (RolloutErr RErrLeaseLost ''lease.expires_at'')
      else Inr ())"

lemma Lease_validate_Inr:
  "Lease_validate l now fence = Inr u \<longleftrightarrow>
     ls_Owner l \<noteq> [] \<and> length (ls_Owner l) \<le> MaxLeaseOwnerLength \<and> \<not> contains_any (ls_Owner l) line_breakers
     \<and> ls_Fence l = fence \<and> now < ls_ExpiresAt l"
  by (auto simp: Lease_validate_def)

section \<open>Creation requests\<close>

record CreateRequest =
  cr_TargetID :: uuid
  cr_ExpectedTargetGeneration :: uint64
  cr_PreviewDigest :: digest
  cr_ConfirmAllClusters :: bool
  cr_Strategy :: RolloutStrategy
  cr_Actor :: string
  cr_IdempotencyKey :: string
  cr_AuditIsZero :: bool

definition safe_text :: "nat \<Rightarrow> string \<Rightarrow> bool" where
  "safe_text limit s \<longleftrightarrow> trim_space s \<noteq> [] \<and> length s \<le> limit \<and> \<not> contains_any s line_breakers"

definition validateCreateRequest :: "ext_lib \<Rightarrow> CreateRequest \<Rightarrow> RolloutError + unit" where
  "validateCreateRequest E r =
     (if cr_TargetID r = uuid_nil then Inl (RolloutErr RErrInvalidInput ''target_id'')
      else if cr_ExpectedTargetGeneration r = 0 then Inl (RolloutErr RErrInvalidInput ''expected_target_generation'')
      else if Digest_Validate (cr_PreviewDigest r) \<noteq> [] then Inl (RolloutErr RErrInvalidInput ''preview_digest'')
      else if RolloutStrategy_Validate E (cr_Strategy r) \<noteq> [] then Inl (RolloutErr RErrInvalidInput ''strategy'')
      else if \<not> safe_text MaxActorLength (cr_Actor r) then Inl (RolloutErr RErrInvalidInput ''actor'')
      else if \<not> safe_text MaxIdempotencyKeyLength (cr_IdempotencyKey r)
      then Inl (RolloutErr RErrInvalidInput ''idempotency_key'')
      else Inr ())"

end
