(* ===== verification/Cohorts.thy ===== *)
theory Cohorts
  imports Rollout_Types
begin

text \<open>
  \<open>internal/delivery/rollout/cohorts.go\<close>: the order of the selected clusters and their
  division into cohorts, for the four strategies.  A UUID compares bytewise, which is the
  order of its 128-bit value; with a shuffle seed the SHA-256 of seed and identifier comes
  first.  \<open>batchCohorts\<close> is called after the strategy was validated, so its batch size is
  positive; for size 0 the loop of the source would not advance, and the model stops.

  The lemmas show that the cohorts partition the selection, that they do not depend on the
  order of the input, that rows and cohorts agree, and how large cohorts are.
\<close>

section \<open>The order of candidates\<close>

definition uuid_bytes :: "uuid \<Rightarrow> bytes" where
  "uuid_bytes u = big_endian 16 (uint u)"

definition stableHash :: "string \<Rightarrow> uuid \<Rightarrow> bytes" where
  "stableHash seed cid = sha256_Sum (seed @ [CHR 0x00] @ uuid_bytes cid)"

definition candidate_key :: "string \<Rightarrow> uuid \<Rightarrow> bytes \<times> uuid" where
  "candidate_key seed cid = (if seed = [] then [] else stableHash seed cid, cid)"

definition lessCandidate :: "string \<Rightarrow> uuid \<Rightarrow> uuid \<Rightarrow> bool" where
  "lessCandidate seed left right \<longleftrightarrow>
     (if seed = [] then left < right
      else if stableHash seed left \<noteq> stableHash seed right then stableHash seed left < stableHash seed right
      else left < right)"

lemma lessCandidate_key: "lessCandidate seed a b \<longleftrightarrow> candidate_key seed a < candidate_key seed b"
  by (auto simp: lessCandidate_def candidate_key_def less_prod_def')

definition cohort_candidates :: "Candidate list \<Rightarrow> string \<Rightarrow> RolloutError + Candidate list" where
  "cohort_candidates input seed =
     sbind (for_each (\<lambda>c seen.
         if ca_ID c = uuid_nil then Inl (RolloutErr RErrInvalidInput ''clusters'')
         else if contains seen (ca_ID c) then Inl (RolloutErr RErrInvalidInput ''clusters'')
         else Inr (ca_ID c # seen)) input []) (\<lambda>_.
       Inr (sort_key (\<lambda>c. candidate_key seed (ca_ID c)) input))"

section \<open>Sizes\<close>

definition amountSize :: "Amount \<Rightarrow> int \<Rightarrow> bool \<Rightarrow> int" where
  "amountSize amount n roundUp =
     (if am_Type amount = AmountCount then uint (am_Value amount)
      else let val = to_uint 64 (safe_Uint64 n * uint (am_Value amount));
               val = (if roundUp \<and> val mod 100 \<noteq> 0 then to_uint 64 (val + 100) else val)
           in safe_Int (val div 100))"

section \<open>Cohorts of each strategy\<close>

definition newCohort :: "nat \<Rightarrow> string \<Rightarrow> uuid list \<Rightarrow> bool \<Rightarrow> duration \<Rightarrow> Cohort" where
  "newCohort index name clusterIDs approval soak =
     \<lparr>co_Index = index, co_Name = name, co_ClusterIDs = clusterIDs, co_ApprovalRequired = approval,
      co_ApprovalDigest = [], co_SoakAfter = soak\<rparr>"

fun batch_from :: "nat \<Rightarrow> nat \<Rightarrow> string \<Rightarrow> uuid list \<Rightarrow> Cohort list" where
  "batch_from limit index prefix ids =
     (if ids = [] \<or> limit = 0 then []
      else newCohort index (prefix @ ''-'' @ itoa_pad 4 index) (take limit ids) False 0
           # batch_from limit (Suc index) prefix (drop limit ids))"

declare batch_from.simps [simp del]

definition batchCohorts :: "Candidate list \<Rightarrow> nat \<Rightarrow> nat \<Rightarrow> string \<Rightarrow> Cohort list" where
  "batchCohorts candidates limit offset prefix = batch_from limit offset prefix (map ca_ID candidates)"

definition canary_seed :: "string \<Rightarrow> string" where
  "canary_seed seed =
     (if seed = [] then ''astronomer-canary-v1'' else ''astronomer-canary-v1'' @ [CHR 0x00] @ seed)"

definition canary_set :: "CanarySpec \<Rightarrow> Candidate list \<Rightarrow> string \<Rightarrow> RolloutError + uuid list" where
  "canary_set spec ordered seed =
     (if cn_ClusterIDs spec \<noteq> [] then
        (if list_all (contains (map ca_ID ordered)) (cn_ClusterIDs spec) then Inr (cn_ClusterIDs spec)
         else Inl (RolloutErr RErrInvalidCohorts ''canary.cluster_ids''))
      else let count = amountSize (cn_Size spec) (int (length ordered)) True in
        if count > int (length ordered) then Inl (RolloutErr RErrInvalidCohorts ''canary.size'')
        else Inr (map ca_ID (take (nat count)
               (sort_key (\<lambda>c. candidate_key (canary_seed seed) (ca_ID c)) ordered))))"

definition splitCanary ::
    "CanarySpec \<Rightarrow> Candidate list \<Rightarrow> string \<Rightarrow> RolloutError + Candidate list \<times> Candidate list" where
  "splitCanary spec ordered seed =
     sbind (canary_set spec ordered seed) (\<lambda>chosen.
       Inr (filter (\<lambda>c. contains chosen (ca_ID c)) ordered,
            filter (\<lambda>c. \<not> contains chosen (ca_ID c)) ordered))"

fun expression_rejects :: "LabelExpression \<Rightarrow> string option \<Rightarrow> bool" where
  "expression_rejects e value =
     (let present = value \<noteq> None;
          held = contains (le_Values e) (case value of None \<Rightarrow> [] | Some v \<Rightarrow> v)
      in case le_Operator e of
           OperatorIn \<Rightarrow> \<not> present \<or> \<not> held
         | OperatorNotIn \<Rightarrow> present \<and> held
         | OperatorExists \<Rightarrow> \<not> present
         | OperatorDoesNotExist \<Rightarrow> present
         | OperatorOther _ \<Rightarrow> False)"

text \<open>Reading an absent key of a Go map gives the empty string.\<close>

definition label_value :: "(string, string) gomap \<Rightarrow> string \<Rightarrow> string" where
  "label_value labels key = (case fmlookup labels key of None \<Rightarrow> [] | Some v \<Rightarrow> v)"

definition partitionMatches :: "Placement \<Rightarrow> Candidate \<Rightarrow> bool" where
  "partitionMatches selector c \<longleftrightarrow>
     \<not> (pl_ClusterGroupIDs selector \<noteq> []
        \<and> \<not> list_ex (\<lambda>g. contains (ca_GroupIDs c) g) (pl_ClusterGroupIDs selector))
   \<and> \<not> list_ex (\<lambda>key. label_value (ca_Labels c) key \<noteq> the (fmlookup (pl_MatchLabels selector) key))
        (map_keys (pl_MatchLabels selector))
   \<and> \<not> list_ex (\<lambda>e. expression_rejects e (fmlookup (ca_Labels c) (le_Key e))) (pl_MatchExpressions selector)"

definition partition_of :: "Partition list \<Rightarrow> Candidate \<Rightarrow> RolloutError + nat" where
  "partition_of partitions c =
     sbind (for_each (\<lambda>index matched.
         if partitionMatches (pt_Selector (partitions ! index)) c then
           (if matched \<noteq> None then Inl (RolloutErr RErrInvalidCohorts ''partitions'') else Inr (Some index))
         else Inr matched) [0 ..< length partitions] None) (\<lambda>matched.
       case matched of None \<Rightarrow> Inl (RolloutErr RErrInvalidCohorts ''partitions'') | Some index \<Rightarrow> Inr index)"

definition partition_members ::
    "Partition list \<Rightarrow> Candidate list \<Rightarrow> RolloutError + Candidate list list" where
  "partition_members partitions ordered =
     for_each (\<lambda>c members. sbind (partition_of partitions c) (\<lambda>matched.
         Inr (members[matched := members ! matched @ [c]]))) ordered (replicate (length partitions) [])"

definition partition_cohorts ::
    "Partition list \<Rightarrow> Candidate list list \<Rightarrow> RolloutError + Cohort list" where
  "partition_cohorts partitions members =
     for_each (\<lambda>index cohorts.
         if members ! index = [] then Inl (RolloutErr RErrInvalidCohorts ''partitions'')
         else let p = partitions ! index in
           Inr (cohorts @ [newCohort index (pt_Name p) (map ca_ID (members ! index)) (pt_ApprovalRequired p) (pt_Soak p)]))
       [0 ..< length partitions] []"

definition require_first_approval :: "Cohort list \<Rightarrow> Cohort list" where
  "require_first_approval cohorts =
     (case cohorts of [] \<Rightarrow> [] | c # cs \<Rightarrow> c\<lparr>co_ApprovalRequired := True\<rparr> # cs)"

definition strategy_cohorts :: "RolloutStrategy \<Rightarrow> Candidate list \<Rightarrow> RolloutError + Cohort list" where
  "strategy_cohorts strategy ordered =
     (case st_Type strategy of
        StrategyAllAtOnce \<Rightarrow> Inr [newCohort 0 ''all'' (map ca_ID ordered) False 0]
      | StrategyRolling \<Rightarrow> Inr (batchCohorts ordered (unat (st_MaxConcurrent strategy)) 0 ''rolling'')
      | StrategyCanary \<Rightarrow>
          (case st_Canary strategy of
             None \<Rightarrow> Inl (RolloutErr RErrInvalidInput ''strategy'')
           | Some spec \<Rightarrow>
               sbind (splitCanary spec ordered (st_ShuffleSeed strategy)) (\<lambda>(canary, rest).
                 let remaining = batchCohorts rest (unat (st_MaxConcurrent strategy)) 1 ''rolling'' in
                 Inr (newCohort 0 ''canary'' (map ca_ID canary) False (cn_Soak spec)
                      # (if remaining \<noteq> [] \<and> cn_ApprovalAfterCanary spec then require_first_approval remaining
                         else remaining))))
      | StrategyPartitioned \<Rightarrow>
          sbind (partition_members (st_Partitions strategy) ordered) (partition_cohorts (st_Partitions strategy))
      | StrategyOther _ \<Rightarrow> Inl (RolloutErr RErrInvalidInput ''strategy.type''))"

text \<open>The planned rows: the members of the cohorts, one after the other, numbered in order.\<close>

fun cohort_rows :: "nat \<Rightarrow> nat \<Rightarrow> uuid list \<Rightarrow> PlannedCluster list" where
  "cohort_rows cohort order [] = []"
| "cohort_rows cohort order (cid # rest) =
     \<lparr>pc_ClusterID = cid, pc_Cohort = cohort, pc_Order = order, pc_Desired = None, pc_Previous = None\<rparr>
     # cohort_rows cohort (Suc order) rest"

fun planned_rows :: "nat \<Rightarrow> Cohort list \<Rightarrow> PlannedCluster list" where
  "planned_rows order [] = []"
| "planned_rows order (c # cs) =
     cohort_rows (co_Index c) order (co_ClusterIDs c)
     @ planned_rows (order + length (co_ClusterIDs c)) cs"

definition BuildCohorts ::
    "ext_lib \<Rightarrow> RolloutStrategy \<Rightarrow> Candidate list \<Rightarrow> RolloutError + Cohort list \<times> PlannedCluster list" where
  "BuildCohorts E strategy candidates =
     (if RolloutStrategy_Validate E strategy \<noteq> [] then Inl (RolloutErr RErrInvalidInput ''strategy'')
      else sbind (cohort_candidates candidates (st_ShuffleSeed strategy)) (\<lambda>ordered.
        if ordered = [] then Inl (RolloutErr RErrNoClusters ''clusters'')
        else sbind (strategy_cohorts strategy ordered) (\<lambda>cohorts.
          Inr (cohorts, planned_rows 0 cohorts))))"

section \<open>Ordering and sizes\<close>

lemma candidate_key_inj: "candidate_key seed a = candidate_key seed b \<longleftrightarrow> a = b"
  by (auto simp: candidate_key_def)

lemma cohort_ids_loop:
  "for_each (\<lambda>c seen.
       if ca_ID c = uuid_nil then Inl e
       else if contains seen (ca_ID c) then Inl e' else Inr (ca_ID c # seen)) cs seen = Inr out
   \<longleftrightarrow> out = rev (map ca_ID cs) @ seen \<and> distinct (map ca_ID cs) \<and> uuid_nil \<notin> set (map ca_ID cs)
       \<and> set (map ca_ID cs) \<inter> set seen = {}"
proof (induction cs arbitrary: seen)
  case (Cons c cs)
  show ?case by (auto simp: Cons.IH)
qed auto

lemma cohort_candidates_Inr:
  "cohort_candidates cs seed = Inr ordered \<longleftrightarrow>
     distinct (map ca_ID cs) \<and> uuid_nil \<notin> set (map ca_ID cs)
     \<and> ordered = sort_key (\<lambda>c. candidate_key seed (ca_ID c)) cs"
  by (auto simp: cohort_candidates_def sbind_Inr_iff cohort_ids_loop)

lemma cohort_candidates_order_free:
  assumes "mset cs = mset ds"
  shows "result_of (cohort_candidates cs seed) = result_of (cohort_candidates ds seed)"
proof -
  have ids: "distinct (map ca_ID cs) = distinct (map ca_ID ds)" "set (map ca_ID cs) = set (map ca_ID ds)"
    using assms by (metis mset_eq_imp_distinct_iff mset_map) (metis assms mset_eq_setD mset_map)
  have sort: "sort_key (\<lambda>c. candidate_key seed (ca_ID c)) cs = sort_key (\<lambda>c. candidate_key seed (ca_ID c)) ds"
    if "distinct (map ca_ID cs)"
    using assms that
    by (intro sort_key_perm_unique) (auto simp: candidate_key_inj distinct_map inj_on_def)
  show ?thesis
  proof (cases "distinct (map ca_ID cs) \<and> uuid_nil \<notin> set (map ca_ID cs)")
    case True
    then have "cohort_candidates cs seed = Inr (sort_key (\<lambda>c. candidate_key seed (ca_ID c)) cs)"
      "cohort_candidates ds seed = Inr (sort_key (\<lambda>c. candidate_key seed (ca_ID c)) ds)"
      using ids by (simp_all add: cohort_candidates_Inr)
    with sort True show ?thesis by simp
  next
    case False
    then have "\<nexists>x. cohort_candidates cs seed = Inr x" "\<nexists>x. cohort_candidates ds seed = Inr x"
      using ids by (auto simp: cohort_candidates_Inr)
    then show ?thesis by (metis option.exhaust result_of_simps(3))
  qed
qed

lemma ceil_hundredth:
  fixes v :: int
  shows "(if v mod 100 \<noteq> 0 then (v + 100) div 100 else v div 100) = (v + 99) div 100"
proof -
  have v: "v = 100 * (v div 100) + v mod 100" "0 \<le> v mod 100" "v mod 100 < 100" by simp_all
  show ?thesis
  proof (cases "v mod 100 = 0")
    case True
    with v have "(v + 99) div 100 = v div 100" by (intro int_div_pos_eq [where r = 99]) simp_all
    with True show ?thesis by simp
  next
    case False
    with v have "(v + 99) div 100 = v div 100 + 1"
      by (intro int_div_pos_eq [where r = "v mod 100 - 1"]) simp_all
    with False show ?thesis by simp
  qed
qed

lemma amountSize_percent:
  assumes "am_Type a \<noteq> AmountCount" and "am_Value a \<le> 100" and "0 \<le> n" and "n * 100 < 2 ^ 63"
  shows "amountSize a n False = n * uint (am_Value a) div 100"
    and "amountSize a n True = (n * uint (am_Value a) + 99) div 100"
proof -
  let ?v = "n * uint (am_Value a)"
  have "uint (am_Value a) \<le> 100" using assms(2) by (simp add: word_le_def)
  then have small: "0 \<le> ?v" "?v \<le> n * 100" using assms(3) by (auto intro: mult_left_mono)
  have n: "safe_Uint64 n = n" using assms(3,4) by (intro safe_Uint64_exact) auto
  have id: "to_uint 64 x = x" if "0 \<le> x" "x \<le> ?v + 100" for x
    using that small assms(4) by (intro to_uint_id) auto
  have exact: "safe_Int (x div 100) = x div 100" if "0 \<le> x" "x \<le> ?v + 100" for x
    using that small assms(4) by (intro safe_Int_exact) auto
  from small show "amountSize a n False = ?v div 100"
    by (simp add: amountSize_def assms(1) n id exact Let_def)
  show "amountSize a n True = (?v + 99) div 100"
    using small by (simp add: amountSize_def assms(1) n id exact Let_def flip: ceil_hundredth)
qed

section \<open>Batches\<close>

lemma batch_from_concat: "0 < n \<Longrightarrow> concat (map co_ClusterIDs (batch_from n i pre ids)) = ids"
proof (induction n i pre ids rule: batch_from.induct)
  case (1 n i pre ids)
  show ?case
    by (subst batch_from.simps) (use 1 in \<open>auto simp: newCohort_def\<close>)
qed

lemma batch_from_nth:
  "k < length (batch_from n i pre ids) \<Longrightarrow>
     co_Index (batch_from n i pre ids ! k) = i + k \<and> co_ClusterIDs (batch_from n i pre ids ! k) \<noteq> []
     \<and> length (co_ClusterIDs (batch_from n i pre ids ! k)) \<le> n
     \<and> co_Name (batch_from n i pre ids ! k) \<noteq> [] \<and> co_SoakAfter (batch_from n i pre ids ! k) = 0
     \<and> co_ApprovalDigest (batch_from n i pre ids ! k) = []"
proof (induction n i pre ids arbitrary: k rule: batch_from.induct)
  case (1 n i pre ids)
  show ?case
  proof (cases "ids = [] \<or> n = 0")
    case True
    with "1.prems" show ?thesis by (simp add: batch_from.simps)
  next
    case False
    then have eq: "batch_from n i pre ids =
        newCohort i (pre @ ''-'' @ itoa_pad 4 i) (take n ids) False 0 # batch_from n (Suc i) pre (drop n ids)"
      by (subst batch_from.simps) simp
    show ?thesis
    proof (cases k)
      case 0
      with False show ?thesis by (simp add: eq newCohort_def)
    next
      case (Suc j)
      with "1.prems" eq have "j < length (batch_from n (Suc i) pre (drop n ids))" by simp
      from "1.IH" [OF False this] Suc show ?thesis by (simp add: eq)
    qed
  qed
qed

lemma batch_sizes: "c \<in> set (batch_from n i pre ids) \<Longrightarrow> length (co_ClusterIDs c) \<le> n"
  using batch_from_nth by (metis in_set_conv_nth)

lemma batch_from_empty: "0 < n \<Longrightarrow> batch_from n i pre ids = [] \<longleftrightarrow> ids = []"
  by (subst batch_from.simps) simp

section \<open>Canaries\<close>

lemma canary_set_Inr:
  assumes set: "canary_set spec ordered seed = Inr ids" and ok: "CanarySpec_validate spec = []"
    and ne: "ordered \<noteq> []" and small: "int (length ordered) * 100 < 2 ^ 63"
  shows "ids \<noteq> []" and "set ids \<subseteq> set (map ca_ID ordered)"
    and "cn_ClusterIDs spec = [] \<Longrightarrow> int (length ids) = amountSize (cn_Size spec) (int (length ordered)) True"
    and "cn_ClusterIDs spec \<noteq> [] \<Longrightarrow> ids = cn_ClusterIDs spec"
proof -
  let ?n = "int (length ordered)" and ?a = "cn_Size spec"
  let ?count = "amountSize ?a ?n True"
  let ?ranked = "sort_key (\<lambda>c. candidate_key (canary_seed seed) (ca_ID c)) ordered"
  have n: "1 \<le> ?n" using ne by (cases ordered) simp_all
  have pos: "1 \<le> ?count" if "cn_ClusterIDs spec = []"
  proof -
    from ok that have v: "am_Value ?a \<noteq> 0" "am_Type ?a = AmountPercent \<Longrightarrow> am_Value ?a \<le> 100"
      and ty: "am_Type ?a = AmountCount \<or> am_Type ?a = AmountPercent"
      by (auto simp: CanarySpec_validate_def Amount_validate_def not_less split: AmountType.splits)
    from v(1) have "uint (am_Value ?a) \<noteq> 0" by (simp add: uint_0_iff)
    then have "1 \<le> uint (am_Value ?a)" using uint_ge_0 [of "am_Value ?a"] by linarith
    show ?thesis
    proof (cases "am_Type ?a = AmountCount")
      case True
      then show ?thesis using \<open>1 \<le> uint (am_Value ?a)\<close> by (simp add: amountSize_def)
    next
      case False
      with ty v(2) have eq: "?count = (?n * uint (am_Value ?a) + 99) div 100"
        using small by (intro amountSize_percent) simp_all
      have "1 * 1 \<le> ?n * uint (am_Value ?a)"
        using n \<open>1 \<le> uint (am_Value ?a)\<close> by (intro mult_mono) simp_all
      then have "1 * 100 \<le> ?n * uint (am_Value ?a) + 99" by simp
      then show ?thesis unfolding eq by (metis zdiv_mono1 nonzero_mult_div_cancel_right zero_less_numeral zero_neq_numeral)
    qed
  qed
  have counted: "ids = map ca_ID (take (nat ?count) ?ranked)" "?count \<le> ?n" if "cn_ClusterIDs spec = []"
    using set that by (auto simp: canary_set_def Let_def split: if_splits)
  have explicit: "ids = cn_ClusterIDs spec" "set (cn_ClusterIDs spec) \<subseteq> set (map ca_ID ordered)"
    if "cn_ClusterIDs spec \<noteq> []"
    using set that by (auto simp: canary_set_def list_all_iff split: if_splits)
  show "ids \<noteq> []"
  proof (cases "cn_ClusterIDs spec = []")
    case True
    have "0 < nat ?count" using pos [OF True] by simp
    with counted(1) [OF True] ne show ?thesis by (simp add: take_eq_Nil)
  qed (use explicit in simp)
  show "set ids \<subseteq> set (map ca_ID ordered)"
  proof (cases "cn_ClusterIDs spec = []")
    case True
    have "set (take (nat ?count) ?ranked) \<subseteq> set ordered" using set_take_subset [of _ ?ranked] by simp
    with counted(1) [OF True] show ?thesis by auto
  qed (use explicit in simp)
  show "int (length ids) = ?count" if "cn_ClusterIDs spec = []"
    using counted [OF that] pos [OF that] by simp
  show "ids = cn_ClusterIDs spec" if "cn_ClusterIDs spec \<noteq> []" by (rule explicit(1) [OF that])
qed

lemma splitCanary_Inr:
  assumes split: "splitCanary spec ordered seed = Inr (canary, rest)" and ok: "CanarySpec_validate spec = []"
    and ne: "ordered \<noteq> []" and small: "int (length ordered) * 100 < 2 ^ 63"
  shows "mset canary + mset rest = mset ordered" and "canary \<noteq> []"
proof -
  from split obtain ids where ids: "canary_set spec ordered seed = Inr ids"
    and canary: "canary = filter (\<lambda>c. ca_ID c \<in> set ids) ordered"
    and rest: "rest = filter (\<lambda>c. ca_ID c \<notin> set ids) ordered"
    by (auto simp: splitCanary_def sbind_Inr_iff)
  show "mset canary + mset rest = mset ordered"
    unfolding canary rest by (simp add: union_filter_mset_complement)
  from canary_set_Inr(1,2) [OF ids ok ne small] show "canary \<noteq> []"
    unfolding canary by (cases ids) (auto simp: filter_empty_conv)
qed

lemma length_filter_members:
  assumes "distinct (map f xs)" and "distinct ys" and "set ys \<subseteq> f ` set xs"
  shows "length (filter (\<lambda>x. f x \<in> set ys) xs) = length ys"
proof -
  let ?zs = "map f (filter (\<lambda>x. f x \<in> set ys) xs)"
  have "distinct ?zs" using assms(1) by (rule distinct_map_filter)
  moreover have "set ?zs = set ys" using assms(3) by auto
  ultimately have "length ?zs = length ys" using assms(2) by (metis distinct_card)
  then show ?thesis by simp
qed

lemma splitCanary_size:
  assumes split: "splitCanary spec ordered seed = Inr (canary, rest)" and ids: "distinct (map ca_ID ordered)"
    and none: "cn_ClusterIDs spec = []" and ok: "CanarySpec_validate spec = []"
    and ne: "ordered \<noteq> []" and small: "int (length ordered) * 100 < 2 ^ 63"
  shows "int (length canary) = amountSize (cn_Size spec) (int (length ordered)) True"
proof -
  let ?ranked = "sort_key (\<lambda>c. candidate_key (canary_seed seed) (ca_ID c)) ordered"
  from split obtain chosen where c: "canary_set spec ordered seed = Inr chosen"
    and canary: "canary = filter (\<lambda>c. ca_ID c \<in> set chosen) ordered"
    by (auto simp: splitCanary_def sbind_Inr_iff)
  from c none obtain n where chosen: "chosen = take n (map ca_ID ?ranked)"
    by (auto simp: canary_set_def Let_def take_map split: if_splits)
  have "distinct (map ca_ID ?ranked)"
    using ids by simp
  then have "distinct chosen" by (simp add: chosen)
  moreover have "set chosen \<subseteq> ca_ID ` set ordered"
    using canary_set_Inr(2) [OF c ok ne small] by simp
  ultimately have "length canary = length chosen"
    unfolding canary using ids by (intro length_filter_members)
  with canary_set_Inr(3) [OF c ok ne small none] show ?thesis by simp
qed

section \<open>Partitions\<close>

lemma partition_loop:
  assumes "distinct is"
  shows "for_each (\<lambda>i matched. if P i then (if matched \<noteq> None then Inl e else Inr (Some i)) else Inr matched) is m0 = Inr m
    \<Longrightarrow> (case m0 of
          None \<Rightarrow> (m = None \<and> (\<forall>i \<in> set is. \<not> P i)) \<or> (\<exists>i \<in> set is. m = Some i \<and> P i \<and> (\<forall>j \<in> set is. P j \<longrightarrow> j = i))
        | Some i \<Rightarrow> m = m0 \<and> (\<forall>i \<in> set is. \<not> P i))"
  using assms
proof (induction "is" arbitrary: m0)
  case (Cons i rest)
  show ?case
  proof (cases "P i")
    case True
    with Cons.prems(1) have m0: "m0 = None" by (auto split: if_splits)
    with True Cons.prems Cons.IH [of "Some i"] show ?thesis by auto
  next
    case False
    with Cons.prems Cons.IH [of m0] show ?thesis by (auto split: option.splits)
  qed
qed (auto split: option.splits)

lemma partition_of_Inr:
  assumes "partition_of partitions c = Inr k"
  shows "k < length partitions" and "partitionMatches (pt_Selector (partitions ! k)) c"
    and "\<And>j. j < length partitions \<Longrightarrow> partitionMatches (pt_Selector (partitions ! j)) c \<Longrightarrow> j = k"
proof -
  from assms have "for_each (\<lambda>i matched. if partitionMatches (pt_Selector (partitions ! i)) c
      then (if matched \<noteq> None then Inl (RolloutErr RErrInvalidCohorts ''partitions'') else Inr (Some i))
      else Inr matched) [0 ..< length partitions] None = Inr (Some k)"
    by (auto simp: partition_of_def sbind_Inr_iff split: option.splits)
  from partition_loop [OF _ this]
  show "k < length partitions" and "partitionMatches (pt_Selector (partitions ! k)) c"
    and "\<And>j. j < length partitions \<Longrightarrow> partitionMatches (pt_Selector (partitions ! j)) c \<Longrightarrow> j = k"
    by auto
qed

lemma partition_members_loop:
  "for_each (\<lambda>c members. sbind (partition_of partitions c) (\<lambda>k. Inr (members[k := members ! k @ [c]]))) cs ms = Inr out
   \<Longrightarrow> length ms = length partitions
   \<Longrightarrow> length out = length partitions \<and> mset (concat out) = mset (concat ms) + mset cs
     \<and> (\<forall>k < length partitions. set (out ! k) = set (ms ! k) \<union> {c \<in> set cs. partition_of partitions c = Inr k})"
proof (induction cs arbitrary: ms)
  case (Cons c cs)
  from Cons.prems(1) obtain k where k: "partition_of partitions c = Inr k"
    and rest: "for_each (\<lambda>c members. sbind (partition_of partitions c) (\<lambda>k. Inr (members[k := members ! k @ [c]])))
      cs (ms[k := ms ! k @ [c]]) = Inr out"
    by (auto simp: sbind_Inr_iff)
  note less = partition_of_Inr(1) [OF k]
  from Cons.IH [OF rest] Cons.prems(2) less k show ?case
    by (auto simp: mset_concat_append_at nth_list_update)
qed simp

lemma partition_members_Inr:
  assumes "partition_members partitions ordered = Inr ms"
  shows "length ms = length partitions" and "mset (concat ms) = mset ordered"
    and "k < length partitions \<Longrightarrow> set (ms ! k) = {c \<in> set ordered. partition_of partitions c = Inr k}"
  using partition_members_loop [OF assms [unfolded partition_members_def]] by simp_all

lemma partition_cohorts_Inr:
  "partition_cohorts partitions ms = Inr cohorts \<longleftrightarrow>
     cohorts = map (\<lambda>i. newCohort i (pt_Name (partitions ! i)) (map ca_ID (ms ! i))
         (pt_ApprovalRequired (partitions ! i)) (pt_Soak (partitions ! i))) [0 ..< length partitions]
     \<and> (\<forall>i < length partitions. ms ! i \<noteq> [])"
  unfolding partition_cohorts_def Let_def for_each_collect by auto

section \<open>All strategies\<close>

definition cohort_ok :: "nat \<Rightarrow> Cohort \<Rightarrow> bool" where
  "cohort_ok k c \<longleftrightarrow> co_Index c = k \<and> co_ClusterIDs c \<noteq> [] \<and> co_Name c \<noteq> [] \<and> 0 \<le> co_SoakAfter c
     \<and> co_ApprovalDigest c = []"

definition cohorts_ok :: "nat \<Rightarrow> Cohort list \<Rightarrow> bool" where
  "cohorts_ok i cs \<longleftrightarrow> (\<forall>k < length cs. cohort_ok (i + k) (cs ! k))"

lemma cohorts_ok_Cons: "cohorts_ok i (c # cs) \<longleftrightarrow> cohort_ok i c \<and> cohorts_ok (Suc i) cs"
  by (auto simp: cohorts_ok_def less_Suc_eq_0_disj)

lemma batch_cohorts_ok: "cohorts_ok i (batch_from n i pre ids)"
  using batch_from_nth by (simp add: cohorts_ok_def cohort_ok_def)

lemma require_first_approval_same:
  "cohorts_ok i (require_first_approval cs) \<longleftrightarrow> cohorts_ok i cs"
  "map co_ClusterIDs (require_first_approval cs) = map co_ClusterIDs cs"
  by (cases cs; simp add: require_first_approval_def cohorts_ok_Cons cohort_ok_def)+

lemma partitions_accepted:
  assumes "RolloutStrategy_Validate E s = []" and "st_Type s = StrategyPartitioned"
  shows "st_Partitions s \<noteq> []" and "k < length (st_Partitions s) \<Longrightarrow> Partition_validate E (st_Partitions s ! k) = []"
  using assms by (simp_all add: RolloutStrategy_Validate_def Let_def each_seen_Nil)

lemma canary_accepted:
  assumes "RolloutStrategy_Validate E s = []" and "st_Type s = StrategyCanary"
  obtains spec where "st_Canary s = Some spec" and "CanarySpec_validate spec = []" and "0 \<le> cn_Soak spec"
  using assms
  by (auto simp: RolloutStrategy_Validate_def Let_def CanarySpec_validate_def split: option.splits)

lemma max_concurrent_pos: "RolloutStrategy_Validate E s = [] \<Longrightarrow> 0 < unat (st_MaxConcurrent s)"
  using strategy_accepted(1) [of E s] by (simp add: unat_gt_0 word_gt_0)

definition cluster_ids :: "Cohort list \<Rightarrow> uuid list" where
  "cluster_ids cohorts = concat (map co_ClusterIDs cohorts)"

lemma canary_cohorts:
  assumes "strategy_cohorts s ordered = Inr cohorts" and "st_Type s = StrategyCanary" and "st_Canary s = Some spec"
  obtains canary rest cs where "splitCanary spec ordered (st_ShuffleSeed s) = Inr (canary, rest)"
    and "cohorts = newCohort 0 ''canary'' (map ca_ID canary) False (cn_Soak spec) # cs"
    and "map co_ClusterIDs cs = map co_ClusterIDs (batch_from (unat (st_MaxConcurrent s)) 1 ''rolling'' (map ca_ID rest))"
    and "cohorts_ok 1 cs"
proof -
  let ?batch = "\<lambda>rest. batch_from (unat (st_MaxConcurrent s)) 1 ''rolling'' (map ca_ID rest)"
  from assms obtain canary rest cs where
    split: "splitCanary spec ordered (st_ShuffleSeed s) = Inr (canary, rest)"
    and cs: "cohorts = newCohort 0 ''canary'' (map ca_ID canary) False (cn_Soak spec) # cs"
      "cs = ?batch rest \<or> cs = require_first_approval (?batch rest)"
    by (auto simp: strategy_cohorts_def batchCohorts_def sbind_Inr_iff Let_def split: if_splits)
  have "map co_ClusterIDs cs = map co_ClusterIDs (?batch rest)" and "cohorts_ok 1 cs"
    using cs(2) batch_cohorts_ok [of 1] by (auto simp: require_first_approval_same)
  with split cs(1) show thesis by (rule that)
qed

lemma strategy_cohorts_partition:
  assumes valid: "RolloutStrategy_Validate E s = []" and ne: "ordered \<noteq> []"
    and small: "int (length ordered) * 100 < 2 ^ 63" and cohorts: "strategy_cohorts s ordered = Inr cohorts"
  shows "mset (cluster_ids cohorts) = mset (map ca_ID ordered) \<and> cohorts_ok 0 cohorts"
proof (cases "st_Type s")
  case StrategyAllAtOnce
  with cohorts ne show ?thesis
    by (auto simp: strategy_cohorts_def cluster_ids_def cohorts_ok_def cohort_ok_def newCohort_def)
next
  case StrategyRolling
  with cohorts have "cohorts = batch_from (unat (st_MaxConcurrent s)) 0 ''rolling'' (map ca_ID ordered)"
    by (simp add: strategy_cohorts_def batchCohorts_def)
  then show ?thesis
    by (simp add: cluster_ids_def batch_from_concat [OF max_concurrent_pos [OF valid]] batch_cohorts_ok del: mset_map)
next
  case StrategyCanary
  obtain spec where spec: "st_Canary s = Some spec" "CanarySpec_validate spec = []" "0 \<le> cn_Soak spec"
    using canary_accepted [OF valid StrategyCanary] .
  obtain canary rest cs where split: "splitCanary spec ordered (st_ShuffleSeed s) = Inr (canary, rest)"
    and cs: "cohorts = newCohort 0 ''canary'' (map ca_ID canary) False (cn_Soak spec) # cs"
      "map co_ClusterIDs cs = map co_ClusterIDs (batch_from (unat (st_MaxConcurrent s)) 1 ''rolling'' (map ca_ID rest))"
    and ok: "cohorts_ok 1 cs"
    using canary_cohorts [OF cohorts StrategyCanary spec(1)] .
  note parts = splitCanary_Inr [OF split spec(2) ne small]
  from cs(2) have "cluster_ids cohorts = map ca_ID canary @ map ca_ID rest"
    using batch_from_concat [OF max_concurrent_pos [OF valid], of 1 "''rolling''" "map ca_ID rest"]
    by (simp add: cluster_ids_def cs(1) newCohort_def)
  then have "mset (cluster_ids cohorts) = mset (map ca_ID ordered)"
    using parts(1) by (simp flip: image_mset_union)
  moreover have "cohorts_ok 0 cohorts"
    using ok parts(2) spec(3) by (simp add: cs(1) cohorts_ok_Cons) (simp add: cohort_ok_def newCohort_def)
  ultimately show ?thesis by simp
next
  case StrategyPartitioned
  from cohorts StrategyPartitioned obtain ms where ms: "partition_members (st_Partitions s) ordered = Inr ms"
    and cs: "partition_cohorts (st_Partitions s) ms = Inr cohorts"
    by (auto simp: strategy_cohorts_def sbind_Inr_iff)
  note members = partition_members_Inr(1,2) [OF ms]
  from cs have c: "cohorts = map (\<lambda>i. newCohort i (pt_Name (st_Partitions s ! i)) (map ca_ID (ms ! i))
      (pt_ApprovalRequired (st_Partitions s ! i)) (pt_Soak (st_Partitions s ! i))) [0 ..< length ms]"
    and nonempty: "\<forall>i < length ms. ms ! i \<noteq> []"
    by (simp_all add: partition_cohorts_Inr members(1))
  have "map co_ClusterIDs cohorts = map (\<lambda>i. map ca_ID (ms ! i)) [0 ..< length ms]"
    by (simp add: c newCohort_def)
  also have "\<dots> = map (map ca_ID) ms" by (rule nth_equalityI) simp_all
  finally have "cluster_ids cohorts = map ca_ID (concat ms)"
    by (simp add: cluster_ids_def map_concat)
  moreover have "cohorts_ok 0 cohorts"
    using nonempty partition_accepted(7,8) [OF partitions_accepted(2) [OF valid StrategyPartitioned]]
    by (simp add: c cohorts_ok_def cohort_ok_def newCohort_def members(1))
  ultimately show ?thesis using members(2) by simp
next
  case (StrategyOther x)
  with cohorts show ?thesis by (simp add: strategy_cohorts_def)
qed

section \<open>Rows\<close>

lemma cohort_rows_ids [simp]: "map pc_ClusterID (cohort_rows k n ids) = ids"
  by (induction ids arbitrary: n) simp_all

lemma cohort_rows_length [simp]: "length (cohort_rows k n ids) = length ids"
  by (induction ids arbitrary: n) simp_all

lemma cohort_rows_nth:
  "j < length ids \<Longrightarrow> cohort_rows k n ids ! j =
     \<lparr>pc_ClusterID = ids ! j, pc_Cohort = k, pc_Order = n + j, pc_Desired = None, pc_Previous = None\<rparr>"
  by (induction ids arbitrary: n j) (auto simp: nth_Cons split: nat.splits)

lemma planned_rows_ids: "map pc_ClusterID (planned_rows n cs) = cluster_ids cs"
  by (induction cs arbitrary: n) (simp_all add: cluster_ids_def)

lemma planned_rows_length: "length (planned_rows n cs) = length (cluster_ids cs)"
  using planned_rows_ids [of n cs] by (metis length_map)

lemma planned_rows_order: "j < length (planned_rows n cs) \<Longrightarrow> pc_Order (planned_rows n cs ! j) = n + j"
proof (induction cs arbitrary: n j)
  case (Cons c cs)
  show ?case
  proof (cases "j < length (co_ClusterIDs c)")
    case True
    then show ?thesis by (simp add: nth_append cohort_rows_nth)
  next
    case False
    with Cons.prems Cons.IH [of "j - length (co_ClusterIDs c)" "n + length (co_ClusterIDs c)"]
    show ?thesis by (simp add: nth_append)
  qed
qed simp

lemma planned_rows_cohort:
  "r \<in> set (planned_rows n cs) \<Longrightarrow> \<exists>c \<in> set cs. pc_Cohort r = co_Index c \<and> pc_ClusterID r \<in> set (co_ClusterIDs c)"
proof (induction cs arbitrary: n)
  case (Cons c cs)
  show ?case
  proof (cases "r \<in> set (cohort_rows (co_Index c) n (co_ClusterIDs c))")
    case True
    then show ?thesis by (auto simp: in_set_conv_nth cohort_rows_nth)
  next
    case False
    with Cons.prems Cons.IH show ?thesis by auto
  qed
qed simp

lemma BuildCohorts_Inr:
  assumes "BuildCohorts E s cs = Inr (cohorts, rows)"
  shows "RolloutStrategy_Validate E s = []" and "distinct (map ca_ID cs)" and "uuid_nil \<notin> set (map ca_ID cs)"
    and "cs \<noteq> []" and "rows = planned_rows 0 cohorts"
    and "strategy_cohorts s (sort_key (\<lambda>c. candidate_key (st_ShuffleSeed s) (ca_ID c)) cs) = Inr cohorts"
  using assms
  by (auto simp: BuildCohorts_def sbind_Inr_iff cohort_candidates_Inr split: if_splits)

text \<open>Strategies on which the theorems are evaluated: batches of one, and half of the clusters
  as a canary.\<close>

definition sample_strategy :: RolloutStrategy where
  "sample_strategy =
     \<lparr>st_Type = StrategyRolling, st_MaxConcurrent = 1, st_MaxUnavailable = \<lparr>am_Type = AmountCount, am_Value = 1\<rparr>,
      st_MinReady = 0, st_ProgressDeadline = 100, st_FailureThreshold = \<lparr>am_Type = AmountCount, am_Value = 1\<rparr>,
      st_OnFailure = FailureRollback, st_RespectMaintenanceWindows = True, st_ShuffleSeed = [],
      st_Canary = None, st_Partitions = []\<rparr>"

definition sample_canary :: RolloutStrategy where
  "sample_canary = sample_strategy\<lparr>st_Type := StrategyCanary, st_Canary := Some
     \<lparr>cn_Size = \<lparr>am_Type = AmountPercent, am_Value = 34\<rparr>, cn_ClusterIDs = [], cn_ApprovalAfterCanary = True, cn_Soak = 5\<rparr>\<rparr>"

lemma sample_strategies_valid:
  "RolloutStrategy_Validate E sample_strategy = []" "RolloutStrategy_Validate E sample_canary = []"
  by (simp_all add: sample_strategy_def sample_canary_def RolloutStrategy_Validate_def Amount_validate_def
      validatePositiveDuration_def CanarySpec_validate_def Let_def)

lemma batch_numbers: "itoa_pad 4 0 = ''0000''" "itoa_pad 4 1 = ''0001''"
  by code_simp+

lemma sample_cohorts:
  "BuildCohorts E sample_strategy [sample_candidate 2 10, sample_candidate 1 10] =
     Inr ([newCohort 0 ''rolling-0000'' [1] False 0, newCohort 1 ''rolling-0001'' [2] False 0],
          cohort_rows 0 0 [1] @ cohort_rows 1 1 [2])"
  by (simp add: BuildCohorts_def sample_strategies_valid)
    (simp add: cohort_candidates_def sample_strategy_def sample_candidate_def candidate_key_def strategy_cohorts_def
      batchCohorts_def batch_from.simps batch_numbers [simplified] newCohort_def word_le_def)

text \<open>C21. The cohorts of a rollout partition its selection: every selected cluster is in
  exactly one cohort and no other cluster is in any, cohorts are numbered in order and none is
  empty, and the planned rows list the members cohort by cohort with consecutive order
  numbers.  The bound excludes only slices too long for the machine to hold.\<close>

theorem cohorts_partition_selection:
  assumes "BuildCohorts E s cs = Inr (cohorts, rows)" and "int (length cs) * 100 < 2 ^ 63"
  shows "mset (cluster_ids cohorts) = mset (map ca_ID cs) \<and> distinct (cluster_ids cohorts)
    \<and> (\<forall>k < length cohorts. co_Index (cohorts ! k) = k \<and> co_ClusterIDs (cohorts ! k) \<noteq> [])
    \<and> map pc_ClusterID rows = cluster_ids cohorts
    \<and> (\<forall>j < length rows. pc_Order (rows ! j) = j
         \<and> pc_ClusterID (rows ! j) \<in> set (co_ClusterIDs (cohorts ! pc_Cohort (rows ! j))))"
proof -
  note b = BuildCohorts_Inr [OF assms(1)]
  let ?ordered = "sort_key (\<lambda>c. candidate_key (st_ShuffleSeed s) (ca_ID c)) cs"
  have part: "mset (cluster_ids cohorts) = mset (map ca_ID ?ordered)" and ok: "cohorts_ok 0 cohorts"
    using strategy_cohorts_partition [OF b(1) _ _ b(6)] b(4) assms(2) by simp_all
  then have ids: "mset (cluster_ids cohorts) = mset (map ca_ID cs)" by simp
  then have dist: "distinct (cluster_ids cohorts)" using b(2) by (metis mset_eq_imp_distinct_iff)
  have index: "co_Index (cohorts ! k) = k \<and> co_ClusterIDs (cohorts ! k) \<noteq> []" if "k < length cohorts" for k
    using ok that by (auto simp: cohorts_ok_def cohort_ok_def)
  have rows: "pc_Order (rows ! j) = j \<and> pc_ClusterID (rows ! j) \<in> set (co_ClusterIDs (cohorts ! pc_Cohort (rows ! j)))"
    if "j < length rows" for j
  proof -
    from that b(5) have "rows ! j \<in> set (planned_rows 0 cohorts)" by simp
    from planned_rows_cohort [OF this] obtain c where c: "c \<in> set cohorts" "pc_Cohort (rows ! j) = co_Index c"
      "pc_ClusterID (rows ! j) \<in> set (co_ClusterIDs c)" by auto
    from c(1) obtain k where "k < length cohorts" "c = cohorts ! k" by (auto simp: in_set_conv_nth)
    with c index planned_rows_order [of j 0 cohorts] b(5) that show ?thesis by simp
  qed
  from ids dist index rows planned_rows_ids [of 0 cohorts] b(5) show ?thesis by simp
qed

theorem cohorts_partition_selection_witness:
  "mset (cluster_ids [newCohort 0 ''rolling-0000'' [1] False 0, newCohort 1 ''rolling-0001'' [2] False 0])
   = mset (map ca_ID [sample_candidate 2 10, sample_candidate 1 10])"
  using cohorts_partition_selection [OF sample_cohorts] by simp

text \<open>C22. Cohorts do not depend on the order in which the selected clusters were listed.\<close>

theorem cohorts_order_free:
  assumes "mset cs = mset ds"
  shows "result_of (BuildCohorts E s cs) = result_of (BuildCohorts E s ds)"
  using cohort_candidates_order_free [OF assms, of "st_ShuffleSeed s"]
  by (auto simp: BuildCohorts_def result_of_sbind)

theorem cohorts_order_free_witness:
  "result_of (BuildCohorts sample_lib sample_strategy [sample_candidate 1 10, sample_candidate 2 10])
   = Some ([newCohort 0 ''rolling-0000'' [1] False 0, newCohort 1 ''rolling-0001'' [2] False 0],
          cohort_rows 0 0 [1] @ cohort_rows 1 1 [2])"
  using cohorts_order_free [of "[sample_candidate 1 10, sample_candidate 2 10]"
      "[sample_candidate 2 10, sample_candidate 1 10]" sample_lib sample_strategy]
  by (simp add: sample_cohorts add_mset_commute)

text \<open>No wave is larger than the strategy allows: every rolling batch holds at most
  \<open>max_concurrent\<close> clusters, and a canary cohort sized by a percentage holds exactly that
  percentage of the selection, rounded up.\<close>

theorem cohort_sizes:
  assumes "BuildCohorts E s cs = Inr (cohorts, rows)" and "int (length cs) * 100 < 2 ^ 63"
  shows "(st_Type s = StrategyRolling \<longrightarrow>
       (\<forall>c \<in> set cohorts. length (co_ClusterIDs c) \<le> unat (st_MaxConcurrent s)))
    \<and> (st_Type s = StrategyCanary \<longrightarrow>
       (\<forall>c \<in> set (tl cohorts). length (co_ClusterIDs c) \<le> unat (st_MaxConcurrent s))
     \<and> (\<forall>spec. st_Canary s = Some spec \<and> cn_ClusterIDs spec = [] \<and> am_Type (cn_Size spec) = AmountPercent \<longrightarrow>
         int (length (co_ClusterIDs (hd cohorts)))
         = (int (length cs) * uint (am_Value (cn_Size spec)) + 99) div 100))"
proof -
  note b = BuildCohorts_Inr [OF assms(1)]
  let ?ordered = "sort_key (\<lambda>c. candidate_key (st_ShuffleSeed s) (ca_ID c)) cs"
  have dist: "distinct (map ca_ID ?ordered)"
    using b(2) by simp
  show ?thesis
  proof (cases "st_Type s")
    case StrategyRolling
    with b(6) show ?thesis
      by (auto simp: strategy_cohorts_def batchCohorts_def intro: batch_sizes)
  next
    case StrategyCanary
    obtain spec where spec: "st_Canary s = Some spec" "CanarySpec_validate spec = []" "0 \<le> cn_Soak spec"
      using canary_accepted [OF b(1) StrategyCanary] .
    obtain canary rest cs' where split: "splitCanary spec ?ordered (st_ShuffleSeed s) = Inr (canary, rest)"
      and cs': "cohorts = newCohort 0 ''canary'' (map ca_ID canary) False (cn_Soak spec) # cs'"
        "map co_ClusterIDs cs' = map co_ClusterIDs (batch_from (unat (st_MaxConcurrent s)) 1 ''rolling'' (map ca_ID rest))"
      and "cohorts_ok 1 cs'"
      using canary_cohorts [OF b(6) StrategyCanary spec(1)] .
    have "length (co_ClusterIDs c) \<le> unat (st_MaxConcurrent s)" if "c \<in> set cs'" for c
    proof -
      from that have "co_ClusterIDs c \<in> set (map co_ClusterIDs cs')" by simp
      then obtain c' where "c' \<in> set (batch_from (unat (st_MaxConcurrent s)) 1 ''rolling'' (map ca_ID rest))"
        "co_ClusterIDs c = co_ClusterIDs c'" unfolding cs'(2) by auto
      then show ?thesis by (simp add: batch_sizes)
    qed
    moreover have "int (length canary) = (int (length cs) * uint (am_Value (cn_Size spec)) + 99) div 100"
      if "cn_ClusterIDs spec = []" "am_Type (cn_Size spec) = AmountPercent"
    proof -
      have "am_Value (cn_Size spec) \<le> 100"
        using spec(2) that by (simp add: CanarySpec_validate_def Amount_validate_def not_less)
      moreover have "int (length canary) = amountSize (cn_Size spec) (int (length cs)) True"
        using splitCanary_size [OF split dist that(1) spec(2)] b(4) assms(2) by simp
      moreover have "am_Type (cn_Size spec) \<noteq> AmountCount" using that(2) by simp
      ultimately show ?thesis using assms(2) amountSize_percent(2) [of "cn_Size spec" "int (length cs)"] by simp
    qed
    ultimately show ?thesis using StrategyCanary spec(1) by (simp add: cs'(1) newCohort_def)
  qed simp_all
qed

lemma sample_canary_cohorts:
  "\<exists>cohorts rows. BuildCohorts sample_lib sample_canary [sample_candidate 1 10] = Inr (cohorts, rows)"
  by (simp add: BuildCohorts_def sample_strategies_valid)
    (simp add: cohort_candidates_def sample_strategy_def sample_canary_def sample_candidate_def strategy_cohorts_def
      splitCanary_def canary_set_def amountSize_def safe_Uint64_exact safe_Int_exact to_uint_def Let_def
      batchCohorts_def batch_from.simps)

section \<open>Partition selectors\<close>

text \<open>C23. Partitions read label selectors as placements do.  For an accepted partition whose
  required labels are not the empty string, a cluster falls into the partition exactly when the
  placement rules accept it for the same selector.  (For an empty required value they differ:
  a cluster without the label falls into the partition and is not selected by the placement.)\<close>

theorem partition_selector_agrees:
  assumes valid: "Partition_validate E p = []"
    and nonempty: "\<forall>k. fmlookup (pl_MatchLabels (pt_Selector p)) k \<noteq> Some []"
  shows "partitionMatches (pt_Selector p) c \<longleftrightarrow> selector_accepts (pt_Selector p) c"
proof -
  let ?s = "pt_Selector p"
  note ok = partition_accepted(1-6) [OF valid]
  have some: "pl_ClusterGroupIDs ?s \<noteq> [] \<or> pl_MatchLabels ?s \<noteq> fmempty \<or> pl_MatchExpressions ?s \<noteq> []"
    using ok by (simp add: Placement_IsEmpty_def)
  have labels: "list_ex (\<lambda>key. label_value (ca_Labels c) key \<noteq> the (fmlookup (pl_MatchLabels ?s) key)) (map_keys (pl_MatchLabels ?s))
      \<longleftrightarrow> \<not> (\<forall>k v. fmlookup (pl_MatchLabels ?s) k = Some v \<longrightarrow> fmlookup (ca_Labels c) k = Some v)"
  proof -
    have "label_value (ca_Labels c) k \<noteq> v \<longleftrightarrow> fmlookup (ca_Labels c) k \<noteq> Some v"
      if "fmlookup (pl_MatchLabels ?s) k = Some v" for k v
      using nonempty that by (auto simp: label_value_def split: option.splits)
    then show ?thesis unfolding list_ex_iff set_map_keys Bex_def fmlookup_dom'_iff by force
  qed
  have exprs: "expression_rejects e v \<longleftrightarrow> \<not> matchesExpression e v" if "e \<in> set (pl_MatchExpressions ?s)" for e v
  proof -
    have "LabelExpression_Validate E e = []"
      using ok(6) that by (auto simp: Placement_Validate_def each_seen_Nil in_set_conv_nth)
    then have "\<nexists>x. le_Operator e = OperatorOther x" by (auto simp: LabelExpression_Validate_def)
    then show ?thesis by (cases "le_Operator e") (auto simp: Let_def split: option.splits)
  qed
  show ?thesis
    unfolding partitionMatches_def selector_accepts_def labels
    using ok some exprs by (auto simp: list_ex_iff simp del: expression_rejects.simps matchesExpression.simps)
qed

theorem partition_selector_agrees_witness:
  fixes s :: Placement
  defines "s \<equiv> (labels_placement (fmupd ''env'' ''prod'' fmempty))"
  shows "partitionMatches s (sample_candidate 1 10) \<longleftrightarrow> selector_accepts s (sample_candidate 1 10)"
proof -
  let ?p = "\<lparr>pt_Name = ''p'', pt_Selector = s, pt_ApprovalRequired = False, pt_Soak = 0\<rparr>"
  have "Partition_validate sample_lib ?p = []"
    by (simp add: Partition_validate_def s_def labels_placement_def Placement_Validate_def Placement_IsEmpty_def
        validateUUIDSet_def match_label_violations_def sortedStringMapKeys_def map_keys_def sorted_list_of_fset.rep_eq
        validateName_def containsControl_def less_char_def trim_simps sample_lib_def Let_def)
  then show ?thesis
    using partition_selector_agrees [of sample_lib ?p] by (simp add: s_def labels_placement_def)
qed

text \<open>The exception is real: the selector \<open>env=""\<close> is accepted, a cluster without the label
  \<open>env\<close> matches the partition, and the placement rules reject it.\<close>

lemma partition_absent_label:
  fixes s :: Placement
  defines "s \<equiv> (labels_placement (fmupd ''env'' [] fmempty))"
  shows "partitionMatches s (sample_candidate 1 10)" and "\<not> selector_accepts s (sample_candidate 1 10)"
  by (simp_all add: s_def partitionMatches_def selector_accepts_def labels_placement_def sample_candidate_def
      label_value_def map_keys_def sorted_list_of_fset.rep_eq)

end
