(* ===== verification/Rollout_Plan.thy ===== *)
theory Rollout_Plan
  imports Cohorts "HOL-Library.Sublist"
begin

text \<open>
  \<open>internal/delivery/rollout/planner.go\<close>: the immutable plan of a rollout, its digests,
  its validation, and \<open>Planner.Create\<close>.

  The RFC 8785 text of each hashed structure is a field of \<open>json_lib\<close>.  The storage
  transaction is explicit: the store is a record of the tables \<open>Create\<close> touches, the body
  of the transaction returns the changed store or an error, and the store is kept on an error.
  \<open>fails\<close> says which calls to the database fail.  The first look-up for the idempotency key
  may see an older store than the one that holds once the target is locked, so \<open>Create\<close>
  takes both.  Recording the audit intent keeps the plan it is about.
\<close>

section \<open>Digests of a plan\<close>

type_synonym request_input = "uuid \<times> uint64 \<times> digest \<times> bool \<times> digest \<times> string"

record approval_input =
  ai_RolloutID :: uuid
  ai_TargetID :: uuid
  ai_TargetGeneration :: uint64
  ai_PlacementDigest :: digest
  ai_BundleVersionID :: uuid
  ai_SpecDigest :: digest
  ai_StrategyDigest :: digest
  ai_Actor :: string
  ai_Cohort :: int
  ai_ClusterIDs :: "uuid list"
  ai_Configurations :: "(uuid \<times> digest) list"

record json_lib =
  js_strategy :: "RolloutStrategy \<Rightarrow> bytes option"
  js_preview :: "preview_input \<Rightarrow> bytes option"
  js_request :: "request_input \<Rightarrow> bytes option"
  js_approval :: "approval_input \<Rightarrow> bytes option"
  js_plan :: "FrozenRollout \<Rightarrow> bytes option"

definition row_digest :: "FrozenRollout \<Rightarrow> PlannedCluster \<Rightarrow> digest" where
  "row_digest plan c = (case pc_Desired c of None \<Rightarrow> vi_SpecDigest (fr_Desired plan) | Some d \<Rightarrow> vi_SpecDigest d)"

definition approval_value :: "FrozenRollout \<Rightarrow> int \<Rightarrow> approval_input" where
  "approval_value plan cohort =
     \<lparr>ai_RolloutID = fr_ID plan, ai_TargetID = fr_TargetID plan, ai_TargetGeneration = fr_TargetGeneration plan,
      ai_PlacementDigest = fr_PlacementDigest plan, ai_BundleVersionID = vi_BundleVersionID (fr_Desired plan),
      ai_SpecDigest = vi_SpecDigest (fr_Desired plan), ai_StrategyDigest = fr_StrategyDigest plan,
      ai_Actor = fr_Actor plan, ai_Cohort = cohort,
      ai_ClusterIDs = (if cohort \<ge> 0 then co_ClusterIDs (fr_Cohorts plan ! nat cohort) else []),
      ai_Configurations = map (\<lambda>c. (pc_ClusterID c, row_digest plan c))
        (filter (\<lambda>c. \<not> (cohort \<ge> 0 \<and> int (pc_Cohort c) \<noteq> cohort)) (fr_Clusters plan))\<rparr>"

definition approvalDigest :: "json_lib \<Rightarrow> FrozenRollout \<Rightarrow> int \<Rightarrow> RolloutError + digest" where
  "approvalDigest J plan cohort =
     (if cohort \<ge> 0 \<and> (nat cohort \<ge> length (fr_Cohorts plan) \<or> int (co_Index (fr_Cohorts plan ! nat cohort)) \<noteq> cohort)
      then Inl (RolloutErr RErrInvariant ''cohort'')
      else case CanonicalDigest (js_approval J) (approval_value plan cohort) of
             None \<Rightarrow> Inl RolloutDigestErr | Some d \<Rightarrow> Inr d)"

definition frozenDigest :: "json_lib \<Rightarrow> FrozenRollout \<Rightarrow> RolloutError + digest" where
  "frozenDigest J plan =
     (case CanonicalDigest (js_plan J) (plan\<lparr>fr_PlanDigest := []\<rparr>) of
        None \<Rightarrow> Inl RolloutDigestErr | Some d \<Rightarrow> Inr d)"

section \<open>Validation of a plan\<close>

definition check_row :: "ext_lib \<Rightarrow> FrozenRollout \<Rightarrow> PlannedCluster \<Rightarrow> RolloutError + unit" where
  "check_row E plan c =
     sbind (case pc_Desired c of
              None \<Rightarrow> Inr ()
            | Some d \<Rightarrow> sbind (VersionIdentity_Validate E d) (\<lambda>_.
                reject_if (vi_BundleVersionID d \<noteq> vi_BundleVersionID (fr_Desired plan))
                  (RolloutErr RErrInvariant ''clusters.desired''))) (\<lambda>_.
       case pc_Previous c of None \<Rightarrow> Inr () | Some p \<Rightarrow> PreviousDeployment_Validate E p)"

definition check_member ::
    "ext_lib \<Rightarrow> FrozenRollout \<Rightarrow> nat \<Rightarrow> uuid \<Rightarrow> uuid list \<times> nat \<Rightarrow> RolloutError + uuid list \<times> nat" where
  "check_member E plan index clusterID acc =
     (case acc of (seen, expectedOrder) \<Rightarrow>
        if expectedOrder \<ge> length (fr_Clusters plan) then Inl (RolloutErr RErrInvariant ''clusters'')
        else let cluster = fr_Clusters plan ! expectedOrder in
          if pc_ClusterID cluster \<noteq> clusterID \<or> pc_Cohort cluster \<noteq> index \<or> pc_Order cluster \<noteq> expectedOrder
          then Inl (RolloutErr RErrInvariant ''clusters'')
          else if contains seen clusterID then Inl (RolloutErr RErrInvariant ''clusters'')
          else sbind (check_row E plan cluster) (\<lambda>_. Inr (clusterID # seen, expectedOrder + 1)))"

definition check_cohort ::
    "ext_lib \<Rightarrow> json_lib \<Rightarrow> FrozenRollout \<Rightarrow> nat \<Rightarrow> uuid list \<times> nat \<Rightarrow> RolloutError + uuid list \<times> nat" where
  "check_cohort E J plan index acc =
     (let cohort = fr_Cohorts plan ! index in
      if co_Index cohort \<noteq> index \<or> co_Name cohort = [] \<or> co_ClusterIDs cohort = [] \<or> co_SoakAfter cohort < 0
      then Inl (RolloutErr RErrInvariant ''cohorts'')
      else if co_ApprovalRequired cohort \<and> approvalDigest J plan (int index) \<noteq> Inr (co_ApprovalDigest cohort)
      then Inl (RolloutErr RErrInvariant ''cohort.approval_digest'')
      else if \<not> co_ApprovalRequired cohort \<and> co_ApprovalDigest cohort \<noteq> []
      then Inl (RolloutErr RErrInvariant ''cohort.approval_digest'')
      else for_each (check_member E plan index) (co_ClusterIDs cohort) acc)"

definition FrozenRollout_Validate :: "ext_lib \<Rightarrow> json_lib \<Rightarrow> FrozenRollout \<Rightarrow> RolloutError + unit" where
  "FrozenRollout_Validate E J plan =
     sbind (reject_if (fr_ID plan = uuid_nil \<or> fr_TargetID plan = uuid_nil \<or> fr_ProjectID plan = uuid_nil
              \<or> fr_TargetGeneration plan = 0) (RolloutErr RErrInvalidInput ''identity'')) (\<lambda>_.
     sbind (VersionIdentity_Validate E (fr_Desired plan)) (\<lambda>_.
     sbind (for_each (\<lambda>(field, digest) _. reject_if (Digest_Validate digest \<noteq> []) (RolloutErr RErrInvalidInput field))
              [(''placement_digest'', fr_PlacementDigest plan), (''strategy_digest'', fr_StrategyDigest plan),
               (''request_digest'', fr_RequestDigest plan), (''approval.digest'', ab_Digest (fr_Approval plan)),
               (''plan_digest'', fr_PlanDigest plan)] ()) (\<lambda>_.
     sbind (reject_if (RolloutStrategy_Validate E (fr_Strategy plan) \<noteq> [])
              (RolloutModelErr (RolloutStrategy_Validate E (fr_Strategy plan)))) (\<lambda>_.
     sbind (reject_if (RolloutStrategy_CanonicalDigest E (js_strategy J) (fr_Strategy plan) \<noteq> Inr (fr_StrategyDigest plan))
              (RolloutErr RErrInvariant ''strategy_digest'')) (\<lambda>_.
     sbind (reject_if (is_zero_time (fr_CreatedAt plan) \<or> \<not> after (fr_Deadline plan) (fr_CreatedAt plan)
              \<or> fr_Deadline plan \<noteq> fr_CreatedAt plan + st_ProgressDeadline (fr_Strategy plan))
              (RolloutErr RErrInvalidInput ''deadline'')) (\<lambda>_.
     sbind (reject_if (fr_Cohorts plan = [] \<or> fr_Clusters plan = []) (RolloutErr RErrInvalidInput ''cohorts'')) (\<lambda>_.
     sbind (for_each (check_cohort E J plan) [0 ..< length (fr_Cohorts plan)] ([], 0)) (\<lambda>(seen, expectedOrder).
     sbind (reject_if (expectedOrder \<noteq> length (fr_Clusters plan)) (RolloutErr RErrInvariant ''clusters'')) (\<lambda>_.
     sbind (reject_if (approvalDigest J plan (- 1) \<noteq> Inr (ab_Digest (fr_Approval plan)))
              (RolloutErr RErrInvariant ''approval.digest'')) (\<lambda>_.
     sbind (frozenDigest J plan) (\<lambda>digest.
     reject_if (digest \<noteq> fr_PlanDigest plan) (RolloutErr RErrInvariant ''plan_digest''))))))))))))"

section \<open>The planning snapshot\<close>

record PlanningSnapshot =
  ps_TargetID :: uuid
  ps_ProjectID :: uuid
  ps_TargetGeneration :: uint64
  ps_Desired :: VersionIdentity
  ps_DesiredByCluster :: "(uuid, VersionIdentity) gomap"
  ps_ConfigurationSetDigest :: digest
  ps_PlacementRequest :: PlacementRequest
  ps_InitialApproval :: bool
  ps_PreviousByCluster :: "(uuid, PreviousDeployment) gomap"

definition as_invariant :: "string \<Rightarrow> RolloutError + unit \<Rightarrow> RolloutError + unit" where
  "as_invariant field r = (case r of Inl _ \<Rightarrow> Inl (RolloutErr RErrInvariant field) | Inr u \<Rightarrow> Inr u)"

definition validateSnapshot :: "ext_lib \<Rightarrow> PlanningSnapshot \<Rightarrow> RolloutError + unit" where
  "validateSnapshot E s =
     sbind (reject_if (ps_ProjectID s = uuid_nil) (RolloutErr RErrInvariant ''snapshot.project_id'')) (\<lambda>_.
     sbind (as_invariant ''snapshot.desired'' (VersionIdentity_Validate E (ps_Desired s))) (\<lambda>_.
     sbind (reject_if (ps_ConfigurationSetDigest s \<noteq> [] \<and> Digest_Validate (ps_ConfigurationSetDigest s) \<noteq> [])
              (RolloutErr RErrInvariant ''snapshot.configuration_set_digest'')) (\<lambda>_.
     let expected = (if ps_ConfigurationSetDigest s \<noteq> [] then ps_ConfigurationSetDigest s
                     else vi_SpecDigest (ps_Desired s));
         identity = rq_Identity (ps_PlacementRequest s) in
     sbind (reject_if (si_TargetGeneration identity \<noteq> ps_TargetGeneration s
              \<or> si_BundleVersionID identity \<noteq> vi_BundleVersionID (ps_Desired s)
              \<or> si_BundleSpecDigest identity \<noteq> expected
              \<or> si_ResolvedRevision identity \<noteq> rss_Revision (vi_Source (ps_Desired s)))
              (RolloutErr RErrInvariant ''snapshot.placement_identity'')) (\<lambda>_.
     sbind (for_each (\<lambda>k _. let d = the (fmlookup (ps_DesiredByCluster s) k) in
              sbind (reject_if (k = uuid_nil \<or> vi_BundleVersionID d \<noteq> vi_BundleVersionID (ps_Desired s))
                       (RolloutErr RErrInvariant ''snapshot.desired_by_cluster'')) (\<lambda>_.
              as_invariant ''snapshot.desired_by_cluster'' (VersionIdentity_Validate E d)))
              (map_keys (ps_DesiredByCluster s)) ()) (\<lambda>_.
     for_each (\<lambda>k _. sbind (reject_if (k = uuid_nil) (RolloutErr RErrInvariant ''snapshot.previous'')) (\<lambda>_.
              as_invariant ''snapshot.previous'' (PreviousDeployment_Validate E (the (fmlookup (ps_PreviousByCluster s) k)))))
              (map_keys (ps_PreviousByCluster s)) ())))))"

section \<open>Building the plan\<close>

definition attach_versions :: "PlanningSnapshot \<Rightarrow> PlannedCluster \<Rightarrow> PlannedCluster" where
  "attach_versions s c =
     c\<lparr>pc_Desired := fmlookup (ps_DesiredByCluster s) (pc_ClusterID c),
       pc_Previous := fmlookup (ps_PreviousByCluster s) (pc_ClusterID c)\<rparr>"

definition set_cohort_approval :: "json_lib \<Rightarrow> nat \<Rightarrow> FrozenRollout \<Rightarrow> RolloutError + FrozenRollout" where
  "set_cohort_approval J index plan =
     (let cohort = fr_Cohorts plan ! index in
      if co_ApprovalRequired cohort then
        sbind (approvalDigest J plan (int (co_Index cohort))) (\<lambda>d.
          Inr (plan\<lparr>fr_Cohorts := (fr_Cohorts plan)[index := cohort\<lparr>co_ApprovalDigest := d\<rparr>]\<rparr>))
      else Inr plan)"

definition seal_plan :: "json_lib \<Rightarrow> bool \<Rightarrow> FrozenRollout \<Rightarrow> RolloutError + FrozenRollout" where
  "seal_plan J required plan =
     (let plan = plan\<lparr>fr_Approval := (fr_Approval plan)\<lparr>ab_Required := required\<rparr>\<rparr> in
      sbind (approvalDigest J plan (- 1)) (\<lambda>d.
      let plan = plan\<lparr>fr_Approval := (fr_Approval plan)\<lparr>ab_Digest := d\<rparr>\<rparr> in
      sbind (for_each (set_cohort_approval J) [0 ..< length (fr_Cohorts plan)] plan) (\<lambda>plan.
      sbind (frozenDigest J plan) (\<lambda>digest. Inr (plan\<lparr>fr_PlanDigest := digest\<rparr>)))))"

definition open_plan ::
    "CreateRequest \<Rightarrow> PlanningSnapshot \<Rightarrow> digest \<Rightarrow> digest \<Rightarrow> digest \<Rightarrow> gotime \<Rightarrow> uuid
     \<Rightarrow> Cohort list \<Rightarrow> PlannedCluster list \<Rightarrow> FrozenRollout" where
  "open_plan request s strategyDigest requestDigest preview createdAt rolloutID cohorts rows =
     \<lparr>fr_ID = rolloutID, fr_TargetID = ps_TargetID s, fr_ProjectID = ps_ProjectID s,
      fr_TargetGeneration = ps_TargetGeneration s, fr_Desired = ps_Desired s, fr_PlacementDigest = preview,
      fr_Strategy = cr_Strategy request, fr_StrategyDigest = strategyDigest,
      fr_Approval = \<lparr>ab_Required = False, ab_Digest = []\<rparr>, fr_Actor = cr_Actor request,
      fr_IdempotencyKey = cr_IdempotencyKey request, fr_RequestDigest = requestDigest,
      fr_CreatedAt = createdAt, fr_Deadline = createdAt + st_ProgressDeadline (cr_Strategy request),
      fr_Cohorts = cohorts, fr_Clusters = map (attach_versions s) rows, fr_PlanDigest = []\<rparr>"

definition launch_error :: "PlacementError \<Rightarrow> RolloutError" where
  "launch_error e =
     (if Placement_HasCode e PlacementPreviewStale then RolloutErr RErrPreviewStale ''preview_digest''
      else RolloutPlacementErr e)"

definition plan_from_snapshot ::
    "ext_lib \<Rightarrow> json_lib \<Rightarrow> gotime \<Rightarrow> uuid \<Rightarrow> CreateRequest \<Rightarrow> digest \<Rightarrow> digest \<Rightarrow> PlanningSnapshot
     \<Rightarrow> RolloutError + FrozenRollout" where
  "plan_from_snapshot E J now newID request strategyDigest requestDigest s =
     sbind (reject_if (ps_TargetID s \<noteq> cr_TargetID request \<or> ps_TargetGeneration s = 0)
              (RolloutErr RErrInvariant ''snapshot'')) (\<lambda>_.
     sbind (reject_if (ps_TargetGeneration s \<noteq> cr_ExpectedTargetGeneration request)
              (RolloutErr RErrTargetChanged ''target_generation'')) (\<lambda>_.
     sbind (validateSnapshot E s) (\<lambda>_.
     case Evaluate E (js_preview J) (ps_PlacementRequest s) of
       Inl e \<Rightarrow> Inl (RolloutPlacementErr e)
     | Inr result \<Rightarrow>
     (case ValidateLaunch result (cr_PreviewDigest request) (cr_ConfirmAllClusters request) of
       Inl e \<Rightarrow> Inl (launch_error e)
     | Inr _ \<Rightarrow>
     sbind (reject_if (pr_SelectedCount result = 0) (RolloutErr RErrNoClusters ''placement'')) (\<lambda>_.
     sbind (BuildCohorts E (cr_Strategy request) (pr_Selected result)) (\<lambda>(cohorts, rows).
     sbind (reject_if (is_zero_time now) (RolloutErr RErrInvariant ''clock'')) (\<lambda>_.
     sbind (reject_if (newID = uuid_nil) (RolloutErr RErrInvariant ''id_generator'')) (\<lambda>_.
     seal_plan J (ps_InitialApproval s)
       (open_plan request s strategyDigest requestDigest (pr_PreviewDigest result) now newID cohorts rows)))))))))"

section \<open>The transaction\<close>

record PlannerStore =
  sto_Rollouts :: "FrozenRollout list"
  sto_Snapshots :: "uuid \<Rightarrow> RolloutError + PlanningSnapshot"
  sto_Events :: "FrozenRollout list"
  sto_Queue :: "uuid list"
  sto_Audit :: "FrozenRollout list"

datatype tx_call = TxFind | TxLoad | TxRefind | TxInsert | TxAppend | TxEnqueue | TxAudit | TxCommit

definition FindByIdempotency :: "PlannerStore \<Rightarrow> uuid \<Rightarrow> string \<Rightarrow> FrozenRollout option" where
  "FindByIdempotency st target key =
     find (\<lambda>r. fr_TargetID r = target \<and> fr_IdempotencyKey r = key) (sto_Rollouts st)"

definition call :: "(tx_call \<Rightarrow> bool) \<Rightarrow> tx_call \<Rightarrow> RolloutError + unit" where
  "call fails c = reject_if (fails c) RolloutStoreErr"

definition recordIntent ::
    "(tx_call \<Rightarrow> bool) \<Rightarrow> FrozenRollout \<Rightarrow> PlannerStore \<Rightarrow> RolloutError + FrozenRollout \<times> PlannerStore" where
  "recordIntent fails plan st =
     sbind (call fails TxAudit) (\<lambda>_. Inr (plan, st\<lparr>sto_Audit := sto_Audit st @ [plan]\<rparr>))"

definition replay ::
    "ext_lib \<Rightarrow> json_lib \<Rightarrow> (tx_call \<Rightarrow> bool) \<Rightarrow> digest \<Rightarrow> FrozenRollout \<Rightarrow> PlannerStore
     \<Rightarrow> RolloutError + FrozenRollout \<times> PlannerStore" where
  "replay E J fails requestDigest existing st =
     (if fr_RequestDigest existing \<noteq> requestDigest then Inl (RolloutErr RErrIdempotencyConflict ''idempotency_key'')
      else case FrozenRollout_Validate E J existing of
             Inl _ \<Rightarrow> Inl (RolloutErr RErrInvariant ''existing_rollout'')
           | Inr _ \<Rightarrow> recordIntent fails existing st)"

definition store_plan ::
    "ext_lib \<Rightarrow> json_lib \<Rightarrow> (tx_call \<Rightarrow> bool) \<Rightarrow> FrozenRollout \<Rightarrow> PlannerStore
     \<Rightarrow> RolloutError + FrozenRollout \<times> PlannerStore" where
  "store_plan E J fails plan st =
     (case FrozenRollout_Validate E J plan of
        Inl _ \<Rightarrow> Inl (RolloutErr RErrInvariant ''plan'')
      | Inr _ \<Rightarrow>
          sbind (call fails TxInsert) (\<lambda>_.
          sbind (call fails TxAppend) (\<lambda>_.
          sbind (call fails TxEnqueue) (\<lambda>_.
          recordIntent fails plan
            (st\<lparr>sto_Rollouts := sto_Rollouts st @ [plan], sto_Events := sto_Events st @ [plan],
                sto_Queue := sto_Queue st @ [fr_ID plan]\<rparr>)))))"

definition create_body ::
    "ext_lib \<Rightarrow> json_lib \<Rightarrow> gotime \<Rightarrow> uuid \<Rightarrow> (tx_call \<Rightarrow> bool) \<Rightarrow> CreateRequest \<Rightarrow> digest \<Rightarrow> digest
     \<Rightarrow> PlannerStore \<Rightarrow> PlannerStore \<Rightarrow> RolloutError + FrozenRollout \<times> PlannerStore" where
  "create_body E J now newID fails request strategyDigest requestDigest early st =
     sbind (call fails TxFind) (\<lambda>_.
     case FindByIdempotency early (cr_TargetID request) (cr_IdempotencyKey request) of
       Some existing \<Rightarrow> replay E J fails requestDigest existing st
     | None \<Rightarrow>
         sbind (call fails TxLoad) (\<lambda>_.
         sbind (sto_Snapshots st (cr_TargetID request)) (\<lambda>snapshot.
         sbind (call fails TxRefind) (\<lambda>_.
         case FindByIdempotency st (cr_TargetID request) (cr_IdempotencyKey request) of
           Some existing \<Rightarrow> replay E J fails requestDigest existing st
         | None \<Rightarrow>
             sbind (plan_from_snapshot E J now newID request strategyDigest requestDigest snapshot) (\<lambda>plan.
             store_plan E J fails plan st)))))"

definition request_digest :: "json_lib \<Rightarrow> CreateRequest \<Rightarrow> digest \<Rightarrow> digest option" where
  "request_digest J r strategyDigest =
     CanonicalDigest (js_request J)
       (cr_TargetID r, cr_ExpectedTargetGeneration r, cr_PreviewDigest r, cr_ConfirmAllClusters r,
        strategyDigest, cr_Actor r)"

definition InTransaction ::
    "(tx_call \<Rightarrow> bool) \<Rightarrow> RolloutError + 'a \<times> PlannerStore \<Rightarrow> PlannerStore \<Rightarrow> (RolloutError + 'a) \<times> PlannerStore" where
  "InTransaction fails body st =
     (case body of
        Inl e \<Rightarrow> (Inl e, st)
      | Inr (x, st') \<Rightarrow> if fails TxCommit then (Inl RolloutStoreErr, st) else (Inr x, st'))"

definition Planner_Create ::
    "ext_lib \<Rightarrow> json_lib \<Rightarrow> gotime \<Rightarrow> uuid \<Rightarrow> (tx_call \<Rightarrow> bool) \<Rightarrow> CreateRequest
     \<Rightarrow> PlannerStore \<Rightarrow> PlannerStore \<Rightarrow> (RolloutError + FrozenRollout) \<times> PlannerStore" where
  "Planner_Create E J now newID fails request early st =
     (case validateCreateRequest E request of
        Inl e \<Rightarrow> (Inl e, st)
      | Inr _ \<Rightarrow>
          if cr_AuditIsZero request then (Inl RolloutAuditUnavailable, st)
          else case RolloutStrategy_CanonicalDigest E (js_strategy J) (cr_Strategy request) of
            Inl _ \<Rightarrow> (Inl (RolloutErr RErrInvalidInput ''strategy''), st)
          | Inr strategyDigest \<Rightarrow>
              (case request_digest J request strategyDigest of
                 None \<Rightarrow> (Inl (RolloutErr RErrInvalidInput ''request''), st)
               | Some requestDigest \<Rightarrow>
                   InTransaction fails
                     (create_body E J now newID fails request strategyDigest requestDigest early st) st))"

section \<open>Validated plans\<close>

definition bare :: "PlannedCluster \<Rightarrow> PlannedCluster" where
  "bare c = c\<lparr>pc_Desired := None, pc_Previous := None\<rparr>"

lemma bare_fields [simp]:
  "pc_ClusterID (bare c) = pc_ClusterID c" "pc_Cohort (bare c) = pc_Cohort c" "pc_Order (bare c) = pc_Order c"
  by (simp_all add: bare_def)

lemma bare_eq:
  "bare c = \<lparr>pc_ClusterID = i, pc_Cohort = k, pc_Order = n, pc_Desired = None, pc_Previous = None\<rparr> \<longleftrightarrow>
     pc_ClusterID c = i \<and> pc_Cohort c = k \<and> pc_Order c = n"
  by (cases c) (simp add: bare_def)

lemma bare_attach [simp]: "bare (attach_versions s c) = bare c"
  by (simp add: bare_def attach_versions_def)

text \<open>The loop over the members of one cohort accepts exactly the rows the cohort stands for.\<close>

lemma check_member_Inr:
  "check_member E plan k i (seen, n) = Inr acc \<longleftrightarrow>
     acc = (i # seen, n + 1) \<and> n < length (fr_Clusters plan) \<and> i \<notin> set seen
     \<and> bare (fr_Clusters plan ! n) = \<lparr>pc_ClusterID = i, pc_Cohort = k, pc_Order = n, pc_Desired = None, pc_Previous = None\<rparr>
     \<and> check_row E plan (fr_Clusters plan ! n) = Inr ()"
  unfolding bare_eq by (auto simp: check_member_def Let_def sbind_Inr_iff)

lemma members_loop:
  "for_each (check_member E plan k) ids (seen, n) = Inr acc \<longleftrightarrow>
     acc = (rev ids @ seen, n + length ids) \<and> distinct ids \<and> set ids \<inter> set seen = {}
     \<and> map bare (take (length ids) (drop n (fr_Clusters plan))) = cohort_rows k n ids
     \<and> (\<forall>c \<in> set (take (length ids) (drop n (fr_Clusters plan))). check_row E plan c = Inr ())"
proof (induction ids arbitrary: seen n)
  case (Cons i ids)
  show ?case
  proof (cases "n < length (fr_Clusters plan)")
    case True
    then have "drop n (fr_Clusters plan) = fr_Clusters plan ! n # drop (Suc n) (fr_Clusters plan)"
      by (simp add: Cons_nth_drop_Suc)
    then show ?thesis by (auto simp: sbind_Inr_iff check_member_Inr Cons.IH True)
  next
    case False
    then show ?thesis by (simp add: sbind_Inr_iff check_member_Inr)
  qed
qed auto

definition cohort_header_ok :: "json_lib \<Rightarrow> FrozenRollout \<Rightarrow> nat \<Rightarrow> bool" where
  "cohort_header_ok J plan k \<longleftrightarrow>
     (let c = fr_Cohorts plan ! k in
      co_Index c = k \<and> co_Name c \<noteq> [] \<and> co_ClusterIDs c \<noteq> [] \<and> 0 \<le> co_SoakAfter c
      \<and> (if co_ApprovalRequired c then approvalDigest J plan (int k) = Inr (co_ApprovalDigest c)
         else co_ApprovalDigest c = []))"

lemma check_cohort_Inr:
  "check_cohort E J plan k acc = Inr acc' \<longleftrightarrow>
     cohort_header_ok J plan k
     \<and> for_each (check_member E plan k) (co_ClusterIDs (fr_Cohorts plan ! k)) acc = Inr acc'"
  by (auto simp: check_cohort_def cohort_header_ok_def Let_def)

lemma cluster_ids_simps [simp]:
  "cluster_ids [] = []" "cluster_ids (c # cs) = co_ClusterIDs c @ cluster_ids cs"
  "cluster_ids (cs @ ds) = cluster_ids cs @ cluster_ids ds"
  by (simp_all add: cluster_ids_def)

lemma planned_rows_append:
  "planned_rows n (cs @ ds) = planned_rows n cs @ planned_rows (n + length (cluster_ids cs)) ds"
  by (induction cs arbitrary: n) (simp_all add: add.assoc)

lemma cohorts_loop:
  "m \<le> length (fr_Cohorts plan) \<Longrightarrow>
   for_each (check_cohort E J plan) [0 ..< m] ([], 0) = Inr acc \<longleftrightarrow>
     (let ids = cluster_ids (take m (fr_Cohorts plan)); rows = take (length ids) (fr_Clusters plan) in
      acc = (rev ids, length ids) \<and> distinct ids \<and> (\<forall>k < m. cohort_header_ok J plan k)
      \<and> map bare rows = planned_rows 0 (take m (fr_Cohorts plan)) \<and> (\<forall>c \<in> set rows. check_row E plan c = Inr ()))"
proof (induction m arbitrary: acc)
  case (Suc m)
  let ?c = "fr_Cohorts plan ! m" and ?ids = "cluster_ids (take m (fr_Cohorts plan))"
  let ?new = "take (length (co_ClusterIDs ?c)) (drop (length ?ids) (fr_Clusters plan))"
  have take: "take (Suc m) (fr_Cohorts plan) = take m (fr_Cohorts plan) @ [?c]"
    using Suc.prems by (simp add: take_Suc_conv_app_nth)
  have rows: "take (length ?ids + length (co_ClusterIDs ?c)) (fr_Clusters plan)
      = take (length ?ids) (fr_Clusters plan) @ ?new" by (simp add: take_add)
  have split: "map bare (take (length ?ids) (fr_Clusters plan)) @ map bare ?new
      = planned_rows 0 (take m (fr_Cohorts plan)) @ cohort_rows (co_Index ?c) (length ?ids) (co_ClusterIDs ?c) \<longleftrightarrow>
      map bare (take (length ?ids) (fr_Clusters plan)) = planned_rows 0 (take m (fr_Cohorts plan))
      \<and> map bare ?new = cohort_rows (co_Index ?c) (length ?ids) (co_ClusterIDs ?c)" (is "?l @ ?ln = ?r @ ?rn \<longleftrightarrow> _")
  proof
    assume eq: "?l @ ?ln = ?r @ ?rn"
    then have "length ?l + length ?ln = length ?r + length ?rn" by (metis length_append)
    then have "length ?l = length ?r" by (auto simp: planned_rows_length)
    with eq show "?l = ?r \<and> ?ln = ?rn" by simp
  qed simp
  have "for_each (check_cohort E J plan) [0 ..< Suc m] ([], 0) = Inr acc \<longleftrightarrow>
    (\<exists>a. for_each (check_cohort E J plan) [0 ..< m] ([], 0) = Inr a \<and> check_cohort E J plan m a = Inr acc)"
    by (cases acc) (simp add: for_each_append sbind_Inr_iff)
  also have "\<dots> \<longleftrightarrow> (distinct ?ids \<and> (\<forall>k < m. cohort_header_ok J plan k)
      \<and> map bare (take (length ?ids) (fr_Clusters plan)) = planned_rows 0 (take m (fr_Cohorts plan))
      \<and> (\<forall>c \<in> set (take (length ?ids) (fr_Clusters plan)). check_row E plan c = Inr ()))
      \<and> check_cohort E J plan m (rev ?ids, length ?ids) = Inr acc"
    using Suc by (simp add: Let_def)
  also have "\<dots> \<longleftrightarrow> (let ids = cluster_ids (take (Suc m) (fr_Cohorts plan)); rows = take (length ids) (fr_Clusters plan) in
      acc = (rev ids, length ids) \<and> distinct ids \<and> (\<forall>k < Suc m. cohort_header_ok J plan k)
      \<and> map bare rows = planned_rows 0 (take (Suc m) (fr_Cohorts plan)) \<and> (\<forall>c \<in> set rows. check_row E plan c = Inr ()))"
    unfolding take check_cohort_Inr members_loop Let_def
    by (auto simp: rows split planned_rows_append less_Suc_eq cohort_header_ok_def Let_def)
  finally show ?case .
qed auto


lemma Validate_iff:
  "FrozenRollout_Validate E J plan = Inr () \<longleftrightarrow>
     fr_ID plan \<noteq> uuid_nil \<and> fr_TargetID plan \<noteq> uuid_nil \<and> fr_ProjectID plan \<noteq> uuid_nil \<and> fr_TargetGeneration plan \<noteq> 0
   \<and> VersionIdentity_Validate E (fr_Desired plan) = Inr ()
   \<and> Digest_Validate (fr_PlacementDigest plan) = [] \<and> Digest_Validate (fr_StrategyDigest plan) = []
   \<and> Digest_Validate (fr_RequestDigest plan) = [] \<and> Digest_Validate (ab_Digest (fr_Approval plan)) = []
   \<and> Digest_Validate (fr_PlanDigest plan) = []
   \<and> RolloutStrategy_CanonicalDigest E (js_strategy J) (fr_Strategy plan) = Inr (fr_StrategyDigest plan)
   \<and> fr_CreatedAt plan \<noteq> 0 \<and> fr_Deadline plan = fr_CreatedAt plan + st_ProgressDeadline (fr_Strategy plan)
   \<and> fr_Cohorts plan \<noteq> [] \<and> (\<forall>k < length (fr_Cohorts plan). cohort_header_ok J plan k)
   \<and> distinct (cluster_ids (fr_Cohorts plan))
   \<and> map bare (fr_Clusters plan) = planned_rows 0 (fr_Cohorts plan)
   \<and> (\<forall>c \<in> set (fr_Clusters plan). check_row E plan c = Inr ())
   \<and> approvalDigest J plan (- 1) = Inr (ab_Digest (fr_Approval plan))
   \<and> frozenDigest J plan = Inr (fr_PlanDigest plan)"
  (is "_ \<longleftrightarrow> ?rhs")
proof -
  let ?cs = "fr_Cohorts plan" and ?rows = "fr_Clusters plan"
  have pos: "0 < st_ProgressDeadline (fr_Strategy plan)"
    and valid: "RolloutStrategy_Validate E (fr_Strategy plan) = []"
    if "RolloutStrategy_CanonicalDigest E (js_strategy J) (fr_Strategy plan) = Inr d" for d
    using that strategy_accepted(2) [of E "fr_Strategy plan"]
    by (auto simp: RolloutStrategy_CanonicalDigest_def split: if_splits)
  have len: "length (cluster_ids ?cs) = length ?rows" if "map bare ?rows = planned_rows 0 ?cs"
    using arg_cong [OF that, of length] by (simp add: planned_rows_length)
  have rows: "(?rows \<noteq> [] \<and> (\<exists>seen n. for_each (check_cohort E J plan) [0 ..< length ?cs] ([], 0) = Inr (seen, n)
        \<and> n = length ?rows)) \<longleftrightarrow>
      ?rows \<noteq> [] \<and> (\<forall>k < length ?cs. cohort_header_ok J plan k) \<and> distinct (cluster_ids ?cs)
      \<and> map bare ?rows = planned_rows 0 ?cs \<and> (\<forall>c \<in> set ?rows. check_row E plan c = Inr ())"
    by (auto simp: cohorts_loop Let_def len)
  have "?cs = [] \<or> ?rows \<noteq> []" if "\<forall>k < length ?cs. cohort_header_ok J plan k" "map bare ?rows = planned_rows 0 ?cs"
    using that(1) [rule_format, of 0] arg_cong [OF that(2), of length]
    by (cases ?cs) (auto simp: planned_rows_length cohort_header_ok_def Let_def)
  then show ?thesis
    using rows pos valid
    by (auto simp: FrozenRollout_Validate_def sbind_Inr_iff)
qed


section \<open>A fresh plan is a valid plan\<close>

text \<open>Approval digests do not cover the digests themselves, so setting them one after the other
  leaves the earlier ones right.\<close>

lemma approvalDigest_cong:
  assumes "map (\<lambda>c. (co_Index c, co_ClusterIDs c)) cs = map (\<lambda>c. (co_Index c, co_ClusterIDs c)) (fr_Cohorts plan)"
  shows "approvalDigest J (plan\<lparr>fr_Approval := a, fr_Cohorts := cs, fr_PlanDigest := d\<rparr>) k = approvalDigest J plan k"
proof -
  have len: "length cs = length (fr_Cohorts plan)" using arg_cong [OF assms, of length] by simp
  have "(co_Index (cs ! i), co_ClusterIDs (cs ! i)) = (co_Index (fr_Cohorts plan ! i), co_ClusterIDs (fr_Cohorts plan ! i))"
    if "i < length (fr_Cohorts plan)" for i
    using arg_cong [OF assms, of "\<lambda>l. l ! i"] that len by simp
  then have nth: "co_Index (cs ! i) = co_Index (fr_Cohorts plan ! i)"
      "co_ClusterIDs (cs ! i) = co_ClusterIDs (fr_Cohorts plan ! i)"
    if "i < length (fr_Cohorts plan)" for i
    using that by simp_all
  let ?new = "plan\<lparr>fr_Approval := a, fr_Cohorts := cs, fr_PlanDigest := d\<rparr>"
  have bound: "(0 \<le> k \<and> (length (fr_Cohorts ?new) \<le> nat k \<or> int (co_Index (fr_Cohorts ?new ! nat k)) \<noteq> k)) \<longleftrightarrow>
      (0 \<le> k \<and> (length (fr_Cohorts plan) \<le> nat k \<or> int (co_Index (fr_Cohorts plan ! nat k)) \<noteq> k))"
    by (cases "nat k < length (fr_Cohorts plan)") (simp_all add: len nth)
  have digest: "row_digest ?new = row_digest plan" by (simp add: row_digest_def fun_eq_iff split: option.split)
  have val: "approval_value ?new k = approval_value plan k" if "k < 0 \<or> nat k < length (fr_Cohorts plan)"
    unfolding approval_value_def digest using that by (cases "k < 0") (simp_all add: nth)
  show ?thesis
  proof (cases "0 \<le> k \<and> (length (fr_Cohorts plan) \<le> nat k \<or> int (co_Index (fr_Cohorts plan ! nat k)) \<noteq> k)")
    case True
    then show ?thesis unfolding approvalDigest_def bound by simp
  next
    case False
    then have "approval_value ?new k = approval_value plan k" by (intro val) linarith
    then show ?thesis unfolding approvalDigest_def bound by (simp only:)
  qed
qed

definition approved_cohort :: "json_lib \<Rightarrow> FrozenRollout \<Rightarrow> Cohort \<Rightarrow> Cohort" where
  "approved_cohort J plan c =
     (if co_ApprovalRequired c then c\<lparr>co_ApprovalDigest := projr (approvalDigest J plan (int (co_Index c)))\<rparr> else c)"

lemma approved_cohort_same [simp]:
  "co_Index (approved_cohort J plan c) = co_Index c" "co_ClusterIDs (approved_cohort J plan c) = co_ClusterIDs c"
  "co_Name (approved_cohort J plan c) = co_Name c" "co_SoakAfter (approved_cohort J plan c) = co_SoakAfter c"
  "co_ApprovalRequired (approved_cohort J plan c) = co_ApprovalRequired c"
  by (simp_all add: approved_cohort_def)

lemma cohort_approval_loop:
  assumes "m \<le> length (fr_Cohorts plan)"
    and "for_each (set_cohort_approval J) [0 ..< m] plan = Inr sealed"
  shows "sealed = plan\<lparr>fr_Cohorts := map (approved_cohort J plan) (take m (fr_Cohorts plan)) @ drop m (fr_Cohorts plan)\<rparr>
    \<and> (\<forall>k < m. co_ApprovalRequired (fr_Cohorts plan ! k) \<longrightarrow>
         (\<exists>d. approvalDigest J plan (int (co_Index (fr_Cohorts plan ! k))) = Inr d))"
  using assms
proof (induction m arbitrary: sealed)
  case (Suc m)
  let ?cs = "fr_Cohorts plan"
  let ?part = "map (approved_cohort J plan) (take m ?cs) @ drop m ?cs"
  from Suc.prems(2) obtain p where p: "for_each (set_cohort_approval J) [0 ..< m] plan = Inr p"
    and step: "set_cohort_approval J m p = Inr sealed"
    by (auto simp: for_each_append sbind_Inr_iff)
  from Suc.IH [OF _ p] Suc.prems(1) have eq: "p = plan\<lparr>fr_Cohorts := ?part\<rparr>"
    and earlier: "\<forall>k < m. co_ApprovalRequired (?cs ! k) \<longrightarrow> (\<exists>d. approvalDigest J plan (int (co_Index (?cs ! k))) = Inr d)"
    by auto
  have nth: "?part ! m = ?cs ! m" using Suc.prems(1) by (simp add: nth_append)
  have upd: "?part[m := approved_cohort J plan (?cs ! m)]
      = map (approved_cohort J plan) (take (Suc m) ?cs) @ drop (Suc m) ?cs"
    using Suc.prems(1) by (simp add: list_update_append take_Suc_conv_app_nth flip: Cons_nth_drop_Suc)
  have "map (\<lambda>c. (co_Index c, co_ClusterIDs c)) ?part
      = map (\<lambda>c. (co_Index c, co_ClusterIDs c)) (take m ?cs) @ map (\<lambda>c. (co_Index c, co_ClusterIDs c)) (drop m ?cs)"
    by (simp add: comp_def)
  then have keep: "map (\<lambda>c. (co_Index c, co_ClusterIDs c)) ?part = map (\<lambda>c. (co_Index c, co_ClusterIDs c)) ?cs"
    by (simp only: map_append [symmetric] append_take_drop_id)
  have same: "approvalDigest J p k = approvalDigest J plan k" for k
    using approvalDigest_cong [of ?part plan J "fr_PlanDigest plan" "fr_Approval plan" k] keep by (simp add: eq)
  show ?case
  proof (cases "co_ApprovalRequired (?cs ! m)")
    case True
    with step obtain d where d: "approvalDigest J plan (int (co_Index (?cs ! m))) = Inr d"
      and s: "sealed = p\<lparr>fr_Cohorts := (fr_Cohorts p)[m := (fr_Cohorts p ! m)\<lparr>co_ApprovalDigest := d\<rparr>]\<rparr>"
      by (auto simp: set_cohort_approval_def Let_def sbind_Inr_iff same [unfolded eq] eq nth)
    have "sealed = plan\<lparr>fr_Cohorts := ?part[m := approved_cohort J plan (?cs ! m)]\<rparr>"
      using True d by (simp add: s eq nth approved_cohort_def)
    with d earlier show ?thesis by (simp add: upd less_Suc_eq)
  next
    case False
    then have "?part = ?part[m := approved_cohort J plan (?cs ! m)]"
      by (simp add: approved_cohort_def list_update_same_conv Suc.prems(1) [THEN Suc_le_lessD] flip: nth)
    with False step earlier show ?thesis
      by (simp add: set_cohort_approval_def Let_def eq nth upd less_Suc_eq)
  qed
qed simp

lemma approvalDigest_valid: "approvalDigest J plan k = Inr d \<Longrightarrow> Digest_Validate d = []"
  by (auto simp: approvalDigest_def dest: CanonicalDigest_valid split: if_splits option.splits)

lemma frozenDigest_valid: "frozenDigest J plan = Inr d \<Longrightarrow> Digest_Validate d = []"
  by (auto simp: frozenDigest_def dest: CanonicalDigest_valid split: option.splits)

lemma seal_plan_Inr:
  assumes "seal_plan J required plan = Inr sealed" and "cohorts_ok 0 (fr_Cohorts plan)"
  shows "\<exists>a d. sealed = plan\<lparr>fr_Approval := \<lparr>ab_Required = required, ab_Digest = a\<rparr>,
      fr_Cohorts := map (approved_cohort J plan) (fr_Cohorts plan), fr_PlanDigest := d\<rparr>"
    and "approvalDigest J sealed (- 1) = Inr (ab_Digest (fr_Approval sealed))"
    and "frozenDigest J sealed = Inr (fr_PlanDigest sealed)"
    and "\<forall>k < length (fr_Cohorts sealed). cohort_header_ok J sealed k"
proof -
  let ?a = "\<lambda>d. plan\<lparr>fr_Approval := \<lparr>ab_Required = required, ab_Digest = d\<rparr>\<rparr>"
  have binding: "(fr_Approval plan)\<lparr>ab_Required := required, ab_Digest := x\<rparr> = \<lparr>ab_Required = required, ab_Digest = x\<rparr>" for x
    by (cases "fr_Approval plan") simp
  have approval: "approvalDigest J (plan\<lparr>fr_Approval := b\<rparr>) k = approvalDigest J plan k" for b k
    using approvalDigest_cong [of "fr_Cohorts plan" plan J "fr_PlanDigest plan" _ k] by simp
  from assms(1) obtain a p d where
    a: "approvalDigest J plan (- 1) = Inr a"
    and p: "for_each (set_cohort_approval J) [0 ..< length (fr_Cohorts plan)] (?a a) = Inr p"
    and d: "frozenDigest J p = Inr d" and sealed: "sealed = p\<lparr>fr_PlanDigest := d\<rparr>"
    by (auto simp: seal_plan_def Let_def sbind_Inr_iff approval binding)
  have loop: "p = (?a a)\<lparr>fr_Cohorts := map (approved_cohort J plan) (fr_Cohorts plan)\<rparr>"
    and digests: "\<And>k. k < length (fr_Cohorts plan) \<Longrightarrow> co_ApprovalRequired (fr_Cohorts plan ! k) \<Longrightarrow>
         \<exists>d. approvalDigest J plan (int (co_Index (fr_Cohorts plan ! k))) = Inr d"
    using cohort_approval_loop [OF _ p] approval by (auto simp: approved_cohort_def fun_eq_iff)
  have eq: "sealed = plan\<lparr>fr_Approval := \<lparr>ab_Required = required, ab_Digest = a\<rparr>,
      fr_Cohorts := map (approved_cohort J plan) (fr_Cohorts plan), fr_PlanDigest := d\<rparr>"
    by (simp add: sealed loop)
  then show "\<exists>a d. sealed = plan\<lparr>fr_Approval := \<lparr>ab_Required = required, ab_Digest = a\<rparr>,
      fr_Cohorts := map (approved_cohort J plan) (fr_Cohorts plan), fr_PlanDigest := d\<rparr>" by blast
  have final: "approvalDigest J sealed k = approvalDigest J plan k" for k
    unfolding eq by (rule approvalDigest_cong) simp
  show "approvalDigest J sealed (- 1) = Inr (ab_Digest (fr_Approval sealed))"
    using a by (simp add: final) (simp add: eq)
  show "frozenDigest J sealed = Inr (fr_PlanDigest sealed)"
    using d by (simp add: frozenDigest_def sealed)
  show "\<forall>k < length (fr_Cohorts sealed). cohort_header_ok J sealed k"
  proof (intro allI impI)
    fix k assume "k < length (fr_Cohorts sealed)"
    then have k: "k < length (fr_Cohorts plan)" by (simp add: eq)
    with assms(2) have ok: "cohort_ok k (fr_Cohorts plan ! k)" by (simp add: cohorts_ok_def)
    have nth: "fr_Cohorts sealed ! k = approved_cohort J plan (fr_Cohorts plan ! k)" using k by (simp add: eq)
    show "cohort_header_ok J sealed k"
      using ok digests [OF k] by (auto simp: cohort_header_ok_def nth final cohort_ok_def approved_cohort_def)
  qed
qed


lemma candidate_table_size:
  "for_each (candidate_step E) cs m = Inr m' \<Longrightarrow> fcard (fmdom m') \<le> fcard (fmdom m) + length cs"
proof (induction cs arbitrary: m)
  case (Cons c cs)
  then obtain m1 where m1: "candidate_step E c m = Inr m1" and rest: "for_each (candidate_step E) cs m1 = Inr m'"
    by (auto simp: sbind_Inr_iff)
  obtain c0 c1 where "canonicalCandidate E c = Inr c0" and "m1 = fmupd (ca_ID c0) c1 m"
    and "ca_ID c1 = ca_ID c0" and "ca_ProjectID c1 = ca_ProjectID c0"
    using m1 by (rule candidate_step_Inr)
  then have "fcard (fmdom m1) \<le> fcard (fmdom m) + 1" by (simp add: fcard_finsert_if)
  with Cons.IH [OF rest] show ?case by simp
qed simp

lemma selected_at_most:
  assumes "Evaluate E canonicalJSON rq = Inr r"
  shows "length (pr_Selected r) \<le> length (rq_Candidates rq)"
proof -
  obtain caps cs where cs: "canonicalCandidates E (rq_Candidates rq) = Inr cs"
    and ev: "Evaluate_candidates E canonicalJSON (placement_normal E (rq_Placement rq)) caps (rq_Identity rq)
           (rq_AllowedProjectIDs rq) cs = Inr r"
    using assms by (rule Evaluate_Inr)
  from cs obtain m where m: "for_each (candidate_step E) (sort_key (\<lambda>c. lib_uuidString E (ca_ID c)) (rq_Candidates rq)) fmempty = Inr m"
    and len: "length cs = length (map_keys m)"
    by (auto simp: canonicalCandidates_def sbind_Inr_iff)
  have "length (map_keys m) = fcard (fmdom m)"
    by (metis distinct_card distinct_map_keys fcard.rep_eq fmdom'_alt_def set_map_keys)
  with candidate_table_size [OF m] len have "length cs \<le> length (rq_Candidates rq)" by (simp add: fcard.rep_eq)
  moreover have "length (pr_Selected r) \<le> length cs"
    by (simp add: Evaluate_candidates_fields(2) [OF ev] chosen_def)
  ultimately show ?thesis by simp
qed

lemma preview_digest_valid: "Evaluate E canonicalJSON rq = Inr r \<Longrightarrow> Digest_Validate (pr_PreviewDigest r) = []"
  by (elim Evaluate_Inr)
    (auto simp: Evaluate_candidates_eq Let_def dest: CanonicalDigest_valid split: option.splits)

lemma as_invariant_Inr [simp]: "as_invariant f r = Inr u \<longleftrightarrow> r = Inr u"
  by (auto simp: as_invariant_def split: sum.splits)

lemma validateSnapshot_Inr:
  assumes "validateSnapshot E s = Inr ()"
  shows "ps_ProjectID s \<noteq> uuid_nil" and "VersionIdentity_Validate E (ps_Desired s) = Inr ()"
    and "fmlookup (ps_DesiredByCluster s) k = Some d \<Longrightarrow>
           vi_BundleVersionID d = vi_BundleVersionID (ps_Desired s) \<and> VersionIdentity_Validate E d = Inr ()"
    and "fmlookup (ps_PreviousByCluster s) k = Some p \<Longrightarrow> PreviousDeployment_Validate E p = Inr ()"
proof -
  note checks = assms [unfolded validateSnapshot_def Let_def sbind_Inr_iff for_each_unit_iff]
  from checks show "ps_ProjectID s \<noteq> uuid_nil" and "VersionIdentity_Validate E (ps_Desired s) = Inr ()" by auto
  from checks have desired: "\<forall>k \<in> fmdom' (ps_DesiredByCluster s). let d = the (fmlookup (ps_DesiredByCluster s) k) in
      vi_BundleVersionID d = vi_BundleVersionID (ps_Desired s) \<and> VersionIdentity_Validate E d = Inr ()"
    and previous: "\<forall>k \<in> fmdom' (ps_PreviousByCluster s).
      PreviousDeployment_Validate E (the (fmlookup (ps_PreviousByCluster s) k)) = Inr ()"
    by (simp_all add: Let_def)
  show "vi_BundleVersionID d = vi_BundleVersionID (ps_Desired s) \<and> VersionIdentity_Validate E d = Inr ()"
    if "fmlookup (ps_DesiredByCluster s) k = Some d"
    using bspec [OF desired fmdom'I [OF that]] that by (simp add: Let_def)
  show "PreviousDeployment_Validate E p = Inr ()" if "fmlookup (ps_PreviousByCluster s) k = Some p"
    using bspec [OF previous fmdom'I [OF that]] that by simp
qed

lemma plan_from_snapshot_Inr:
  assumes "plan_from_snapshot E J now newID request sd rd s = Inr plan"
  obtains result cohorts where "validateSnapshot E s = Inr ()"
    and "Evaluate E (js_preview J) (ps_PlacementRequest s) = Inr result"
    and "BuildCohorts E (cr_Strategy request) (pr_Selected result) = Inr (cohorts, planned_rows 0 cohorts)"
    and "now \<noteq> 0" and "newID \<noteq> uuid_nil" and "ps_TargetID s = cr_TargetID request"
    and "ps_TargetGeneration s = cr_ExpectedTargetGeneration request" and "ps_TargetGeneration s \<noteq> 0"
    and "pr_PreviewDigest result = cr_PreviewDigest request"
    and "seal_plan J (ps_InitialApproval s)
           (open_plan request s sd rd (pr_PreviewDigest result) now newID cohorts (planned_rows 0 cohorts)) = Inr plan"
proof -
  note body = assms [unfolded plan_from_snapshot_def sbind_Inr_iff reject_if_simps]
  from body have head: "ps_TargetID s = cr_TargetID request" "ps_TargetGeneration s = cr_ExpectedTargetGeneration request"
    "ps_TargetGeneration s \<noteq> 0" "validateSnapshot E s = Inr ()"
    by auto
  from body obtain result where ev: "Evaluate E (js_preview J) (ps_PlacementRequest s) = Inr result"
    by (cases "Evaluate E (js_preview J) (ps_PlacementRequest s)") simp_all
  from body ev have launch: "ValidateLaunch result (cr_PreviewDigest request) (cr_ConfirmAllClusters request) = Inr ()"
    by (cases "ValidateLaunch result (cr_PreviewDigest request) (cr_ConfirmAllClusters request)") simp_all
  from body ev launch obtain cohorts rows where
    build: "BuildCohorts E (cr_Strategy request) (pr_Selected result) = Inr (cohorts, rows)"
    and seal: "seal_plan J (ps_InitialApproval s)
           (open_plan request s sd rd (pr_PreviewDigest result) now newID cohorts rows) = Inr plan"
    and rest: "now \<noteq> 0" "newID \<noteq> uuid_nil"
    by (auto simp: sbind_Inr_iff)
  from launch have "pr_PreviewDigest result = cr_PreviewDigest request"
    by (simp add: ValidateLaunch_def split: if_splits)
  moreover have "rows = planned_rows 0 cohorts" by (rule BuildCohorts_Inr(5) [OF build])
  ultimately show thesis using head ev build seal rest by (intro that [of result cohorts]) simp_all
qed

lemma snapshot_rows_ok:
  assumes "validateSnapshot E s = Inr ()" and "fr_Desired plan = ps_Desired s"
  shows "check_row E plan (attach_versions s c) = Inr ()"
  using validateSnapshot_Inr(3,4) [OF assms(1)] assms(2)
  by (auto simp: check_row_def attach_versions_def sbind_Inr_iff split: option.splits)

lemma planned_rows_approved [simp]:
  "planned_rows n (map (approved_cohort J p) cs) = planned_rows n cs"
  by (induction cs arbitrary: n) simp_all

lemma cluster_ids_approved [simp]: "cluster_ids (map (approved_cohort J p) cs) = cluster_ids cs"
  by (simp add: cluster_ids_def comp_def)

lemma bare_planned_rows: "map bare (planned_rows n cs) = planned_rows n cs"
proof -
  have "map bare (cohort_rows k n ids) = cohort_rows k n ids" for k n ids
    by (induction ids arbitrary: n) (simp_all add: bare_def)
  then show ?thesis by (induction cs arbitrary: n) simp_all
qed

lemma sealed_plan_validates:
  assumes build: "BuildCohorts E (cr_Strategy request) selected = Inr (cohorts, planned_rows 0 cohorts)"
    and small: "int (length selected) * 100 < 2 ^ 63"
    and seal: "seal_plan J required (open_plan request s sd rd preview now newID cohorts (planned_rows 0 cohorts)) = Inr plan"
    and snap: "validateSnapshot E s = Inr ()" and now: "now \<noteq> 0" and newID: "newID \<noteq> uuid_nil"
    and target: "ps_TargetID s \<noteq> uuid_nil" and gen: "ps_TargetGeneration s \<noteq> 0"
    and strategy: "RolloutStrategy_CanonicalDigest E (js_strategy J) (cr_Strategy request) = Inr sd"
    and rd: "Digest_Validate rd = []" and preview: "Digest_Validate preview = []"
  shows "FrozenRollout_Validate E J plan = Inr ()"
proof -
  let ?open = "open_plan request s sd rd preview now newID cohorts (planned_rows 0 cohorts)"
  note b = BuildCohorts_Inr [OF build]
  have part: "mset (cluster_ids cohorts) = mset (map ca_ID selected)" and ok: "cohorts_ok 0 cohorts"
    using strategy_cohorts_partition [OF b(1) _ _ b(6)] b(4) small by simp_all
  have dist: "distinct (cluster_ids cohorts)" using part b(2) mset_eq_imp_distinct_iff by metis
  have nonempty: "cohorts \<noteq> []" using part b(4) by auto
  have open_cohorts: "fr_Cohorts ?open = cohorts" by (simp add: open_plan_def)
  note sealed = seal_plan_Inr [OF seal, unfolded open_cohorts, OF ok]
  obtain a d where plan: "plan = ?open\<lparr>fr_Approval := \<lparr>ab_Required = required, ab_Digest = a\<rparr>,
      fr_Cohorts := map (approved_cohort J ?open) cohorts, fr_PlanDigest := d\<rparr>"
    using sealed(1) by blast
  have sd: "Digest_Validate sd = []"
    using strategy by (auto simp: RolloutStrategy_CanonicalDigest_def dest: CanonicalDigest_valid split: if_splits option.splits)
  have fields: "fr_ID plan = newID" "fr_TargetID plan = ps_TargetID s" "fr_ProjectID plan = ps_ProjectID s"
    "fr_TargetGeneration plan = ps_TargetGeneration s" "fr_Desired plan = ps_Desired s"
    "fr_PlacementDigest plan = preview" "fr_StrategyDigest plan = sd" "fr_RequestDigest plan = rd"
    "fr_Strategy plan = cr_Strategy request" "fr_CreatedAt plan = now"
    "fr_Deadline plan = now + st_ProgressDeadline (cr_Strategy request)"
    "fr_Cohorts plan = map (approved_cohort J ?open) cohorts"
    "fr_Clusters plan = map (attach_versions s) (planned_rows 0 cohorts)"
    by (simp_all add: plan) (simp_all add: open_plan_def)
  have rows: "map bare (fr_Clusters plan) = planned_rows 0 (fr_Cohorts plan)"
    by (simp add: fields planned_rows_approved comp_def bare_planned_rows)
  have row_ok: "\<forall>c \<in> set (fr_Clusters plan). check_row E plan c = Inr ()"
    using snapshot_rows_ok [OF snap fields(5)] by (auto simp: fields(13))
  note digests = approvalDigest_valid [OF sealed(2)] frozenDigest_valid [OF sealed(3)] preview
  show ?thesis
    unfolding Validate_iff
    using sealed(2,3,4) rows row_ok validateSnapshot_Inr(1,2) [OF snap] digests
    by (simp add: fields(1-12) newID target gen sd rd strategy now nonempty dist cluster_ids_approved)
qed


section \<open>The store over time\<close>

lemma FindByIdempotency_later:
  assumes "prefix (sto_Rollouts early) (sto_Rollouts st)" and "FindByIdempotency early t k = Some r"
  shows "FindByIdempotency st t k = Some r"
  using assms by (auto simp: FindByIdempotency_def prefix_def find_Some_iff nth_append)

lemma find_append: "find P (xs @ ys) = (case find P xs of None \<Rightarrow> find P ys | Some x \<Rightarrow> Some x)"
  by (induction xs) simp_all

lemma seal_plan_keeps:
  assumes "seal_plan J required p = Inr q"
  obtains a c d where "q = p\<lparr>fr_Approval := a, fr_Cohorts := c, fr_PlanDigest := d\<rparr>"
proof -
  from assms obtain a r d where
    loop: "for_each (set_cohort_approval J) [0 ..< length (fr_Cohorts p)] (p\<lparr>fr_Approval := a\<rparr>) = Inr r"
    and q: "q = r\<lparr>fr_PlanDigest := d\<rparr>"
    by (auto simp: seal_plan_def Let_def sbind_Inr_iff)
  have "\<exists>c. r = p\<lparr>fr_Approval := a, fr_Cohorts := c\<rparr>"
  proof (rule for_each_invariant [OF loop])
    show "\<exists>c. p\<lparr>fr_Approval := a\<rparr> = p\<lparr>fr_Approval := a, fr_Cohorts := c\<rparr>"
      by (rule exI [of _ "fr_Cohorts p"]) simp
  qed (auto simp: set_cohort_approval_def Let_def sbind_Inr_iff split: if_splits)
  with q show thesis by (auto intro: that)
qed

lemma plan_identity:
  assumes "plan_from_snapshot E J now newID request sd rd s = Inr plan"
  shows "fr_TargetID plan = cr_TargetID request" and "fr_IdempotencyKey plan = cr_IdempotencyKey request"
    and "fr_RequestDigest plan = rd" and "fr_ID plan = newID"
proof -
  obtain result :: PlacementResult and cohorts where tgt: "ps_TargetID s = cr_TargetID request"
    and seal: "seal_plan J (ps_InitialApproval s)
           (open_plan request s sd rd (pr_PreviewDigest result) now newID cohorts (planned_rows 0 cohorts)) = Inr plan"
    by (rule plan_from_snapshot_Inr [OF assms]) blast
  obtain a c d where "plan = (open_plan request s sd rd (pr_PreviewDigest result) now newID cohorts (planned_rows 0 cohorts))
      \<lparr>fr_Approval := a, fr_Cohorts := c, fr_PlanDigest := d\<rparr>"
    using seal by (rule seal_plan_keeps)
  with tgt show "fr_TargetID plan = cr_TargetID request" and "fr_IdempotencyKey plan = cr_IdempotencyKey request"
    and "fr_RequestDigest plan = rd" and "fr_ID plan = newID"
    by (auto simp: open_plan_def)
qed

text \<open>The digest that stands for the content of a request.\<close>

definition request_identity :: "ext_lib \<Rightarrow> json_lib \<Rightarrow> CreateRequest \<Rightarrow> digest option" where
  "request_identity E J r =
     (case RolloutStrategy_CanonicalDigest E (js_strategy J) (cr_Strategy r) of
        Inl _ \<Rightarrow> None | Inr sd \<Rightarrow> request_digest J r sd)"

definition with_intent :: "FrozenRollout \<Rightarrow> PlannerStore \<Rightarrow> PlannerStore" where
  "with_intent plan st = st\<lparr>sto_Audit := sto_Audit st @ [plan]\<rparr>"

definition with_rollout :: "FrozenRollout \<Rightarrow> PlannerStore \<Rightarrow> PlannerStore" where
  "with_rollout plan st =
     st\<lparr>sto_Rollouts := sto_Rollouts st @ [plan], sto_Events := sto_Events st @ [plan],
        sto_Queue := sto_Queue st @ [fr_ID plan]\<rparr>"

lemma call_Inr [simp]: "call fails c = Inr u \<longleftrightarrow> \<not> fails c"
  by (simp add: call_def)

lemma recordIntent_Inr: "recordIntent fails plan st = Inr (p, st') \<longleftrightarrow> p = plan \<and> st' = with_intent plan st \<and> \<not> fails TxAudit"
  by (auto simp: recordIntent_def with_intent_def sbind_Inr_iff)

lemma replay_Inr:
  "replay E J fails rd existing st = Inr (p, st') \<longleftrightarrow>
     p = existing \<and> st' = with_intent existing st \<and> fr_RequestDigest existing = rd
     \<and> FrozenRollout_Validate E J existing = Inr () \<and> \<not> fails TxAudit"
  by (auto simp: replay_def recordIntent_Inr split: sum.splits)

lemma store_plan_Inr:
  "store_plan E J fails plan st = Inr (p, st') \<longleftrightarrow>
     p = plan \<and> st' = with_intent plan (with_rollout plan st) \<and> FrozenRollout_Validate E J plan = Inr ()
     \<and> \<not> fails TxInsert \<and> \<not> fails TxAppend \<and> \<not> fails TxEnqueue \<and> \<not> fails TxAudit"
  by (auto simp: store_plan_def recordIntent_Inr sbind_Inr_iff with_rollout_def split: sum.splits)

lemma create_body_cases:
  assumes "create_body E J now newID fails request sd rd early st = Inr (plan, st')"
    and "prefix (sto_Rollouts early) (sto_Rollouts st)"
  shows "FrozenRollout_Validate E J plan = Inr () \<and> fr_RequestDigest plan = rd
    \<and> fr_TargetID plan = cr_TargetID request \<and> fr_IdempotencyKey plan = cr_IdempotencyKey request
    \<and> (FindByIdempotency st (cr_TargetID request) (cr_IdempotencyKey request) = Some plan \<and> st' = with_intent plan st
       \<or> FindByIdempotency st (cr_TargetID request) (cr_IdempotencyKey request) = None
         \<and> fr_ID plan = newID \<and> st' = with_intent plan (with_rollout plan st))"
proof (cases "FindByIdempotency st (cr_TargetID request) (cr_IdempotencyKey request)")
  case None
  with FindByIdempotency_later [OF assms(2)] have "FindByIdempotency early (cr_TargetID request) (cr_IdempotencyKey request) = None"
    by (metis not_None_eq)
  with assms(1) None obtain s where "plan_from_snapshot E J now newID request sd rd s = Inr plan"
    and "st' = with_intent plan (with_rollout plan st)" "FrozenRollout_Validate E J plan = Inr ()"
    by (auto simp: create_body_def sbind_Inr_iff store_plan_Inr)
  with plan_identity show ?thesis using None by metis
next
  case (Some r)
  have "fr_TargetID r = cr_TargetID request \<and> fr_IdempotencyKey r = cr_IdempotencyKey request"
    using Some by (auto simp: FindByIdempotency_def dest: find_SomeD)
  moreover from assms(1) Some FindByIdempotency_later [OF assms(2)] have "replay E J fails rd r st = Inr (plan, st')"
    by (auto simp: create_body_def sbind_Inr_iff split: option.splits)
  ultimately show ?thesis using Some by (auto simp: replay_Inr)
qed

lemma Planner_Create_Inr:
  "Planner_Create E J now newID fails request early st = (Inr plan, st') \<longleftrightarrow>
     validateCreateRequest E request = Inr () \<and> \<not> cr_AuditIsZero request \<and> \<not> fails TxCommit
     \<and> (\<exists>sd rd. RolloutStrategy_CanonicalDigest E (js_strategy J) (cr_Strategy request) = Inr sd
          \<and> request_digest J request sd = Some rd
          \<and> create_body E J now newID fails request sd rd early st = Inr (plan, st'))"
  by (auto simp: Planner_Create_def InTransaction_def split: sum.splits option.splits if_splits)

lemma Planner_Create_Inl: "Planner_Create E J now newID fails request early st = (Inl e, st') \<Longrightarrow> st' = st"
  by (auto simp: Planner_Create_def InTransaction_def split: sum.splits option.splits if_splits)


lemma create_cases:
  assumes "Planner_Create E J now newID fails request early st = (r, st')"
    and "prefix (sto_Rollouts early) (sto_Rollouts st)"
  obtains (error) e where "r = Inl e" and "st' = st"
  | (replayed) plan where "r = Inr plan" and "FrozenRollout_Validate E J plan = Inr ()"
      and "FindByIdempotency st (cr_TargetID request) (cr_IdempotencyKey request) = Some plan"
      and "request_identity E J request = Some (fr_RequestDigest plan)" and "st' = with_intent plan st"
  | (created) plan where "r = Inr plan" and "FrozenRollout_Validate E J plan = Inr ()" and "fr_ID plan = newID"
      and "fr_TargetID plan = cr_TargetID request" and "fr_IdempotencyKey plan = cr_IdempotencyKey request"
      and "FindByIdempotency st (cr_TargetID request) (cr_IdempotencyKey request) = None"
      and "request_identity E J request = Some (fr_RequestDigest plan)"
      and "st' = with_intent plan (with_rollout plan st)"
proof (cases r)
  case (Inl e)
  with assms(1) show thesis by (intro error) (auto dest: Planner_Create_Inl)
next
  case (Inr plan)
  with assms(1) obtain sd rd where
    digests: "RolloutStrategy_CanonicalDigest E (js_strategy J) (cr_Strategy request) = Inr sd"
      "request_digest J request sd = Some rd"
    and body: "create_body E J now newID fails request sd rd early st = Inr (plan, st')"
    by (auto simp: Planner_Create_Inr)
  note outcome = create_body_cases [OF body assms(2)]
  then have "request_identity E J request = Some (fr_RequestDigest plan)"
    by (simp add: request_identity_def digests)
  with outcome Inr show thesis by (auto intro: replayed created)
qed

inductive planner_step :: "ext_lib \<Rightarrow> json_lib \<Rightarrow> PlannerStore \<Rightarrow> PlannerStore \<Rightarrow> bool" for E J where
  create: "prefix (sto_Rollouts early) (sto_Rollouts st) \<Longrightarrow>
    planner_step E J st (snd (Planner_Create E J now newID fails request early st))"
| edit: "planner_step E J st (st\<lparr>sto_Snapshots := snapshots\<rparr>)"

inductive_cases planner_stepE: "planner_step E J st st'"

definition store_ok :: "ext_lib \<Rightarrow> json_lib \<Rightarrow> PlannerStore \<Rightarrow> bool" where
  "store_ok E J st \<longleftrightarrow>
     (\<forall>r \<in> set (sto_Rollouts st). FrozenRollout_Validate E J r = Inr ())
   \<and> distinct (map (\<lambda>r. (fr_TargetID r, fr_IdempotencyKey r)) (sto_Rollouts st))
   \<and> sto_Events st = sto_Rollouts st \<and> sto_Queue st = map fr_ID (sto_Rollouts st)
   \<and> set (sto_Audit st) = set (sto_Rollouts st)"

lemma planner_step_ok: "planner_step E J st st' \<Longrightarrow> store_ok E J st \<Longrightarrow> store_ok E J st'"
proof (induction rule: planner_step.induct)
  case (create early st now newID fails request)
  obtain r st' where c: "Planner_Create E J now newID fails request early st = (r, st')" by fastforce
  from c create.hyps show ?case
  proof (cases rule: create_cases)
    case (error e)
    with c create.prems show ?thesis by simp
  next
    case (replayed plan)
    with c create.prems show ?thesis
      by (auto simp: store_ok_def with_intent_def FindByIdempotency_def dest: find_SomeD)
  next
    case (created plan)
    with c create.prems show ?thesis
      by (auto simp: store_ok_def with_intent_def with_rollout_def FindByIdempotency_def dest: find_NoneD)
  qed
next
  case (edit st snapshots)
  then show ?case by (simp add: store_ok_def)
qed

lemma planner_step_appends: "planner_step E J st st' \<Longrightarrow> prefix (sto_Rollouts st) (sto_Rollouts st')"
proof (induction rule: planner_step.induct)
  case (create early st now newID fails request)
  obtain r st' where c: "Planner_Create E J now newID fails request early st = (r, st')" by fastforce
  from c create.hyps show ?case
    by (cases rule: create_cases) (simp_all add: c with_intent_def with_rollout_def)
qed simp

lemma planner_steps_append: "(planner_step E J)\<^sup>*\<^sup>* st st' \<Longrightarrow> prefix (sto_Rollouts st) (sto_Rollouts st')"
  by (induction rule: rtranclp_induct) (auto dest: planner_step_appends intro: prefix_order.order_trans)

lemma created_found:
  assumes "Planner_Create E J now newID fails request early st = (Inr plan, st')"
    and "prefix (sto_Rollouts early) (sto_Rollouts st)"
  shows "FindByIdempotency st' (cr_TargetID request) (cr_IdempotencyKey request) = Some plan"
    and "FrozenRollout_Validate E J plan = Inr ()"
    and "request_identity E J request = Some (fr_RequestDigest plan)"
proof -
  have "FindByIdempotency st' (cr_TargetID request) (cr_IdempotencyKey request) = Some plan
    \<and> FrozenRollout_Validate E J plan = Inr () \<and> request_identity E J request = Some (fr_RequestDigest plan)"
    using assms
    by (cases rule: create_cases) (auto simp: with_intent_def with_rollout_def FindByIdempotency_def find_append)
  then show "FindByIdempotency st' (cr_TargetID request) (cr_IdempotencyKey request) = Some plan"
    and "FrozenRollout_Validate E J plan = Inr ()"
    and "request_identity E J request = Some (fr_RequestDigest plan)" by auto
qed

lemma retry_body:
  assumes "FindByIdempotency st (cr_TargetID request) (cr_IdempotencyKey request) = Some plan"
    and "prefix (sto_Rollouts early) (sto_Rollouts st)" and "sto_Snapshots st (cr_TargetID request) = Inr snapshot"
  shows "create_body E J now newID (\<lambda>_. False) request sd rd early st = replay E J (\<lambda>_. False) rd plan st"
  using assms FindByIdempotency_later [OF assms(2)]
  by (cases "FindByIdempotency early (cr_TargetID request) (cr_IdempotencyKey request)")
    (auto simp: create_body_def call_def)


section \<open>A sample rollout\<close>

definition sample_json :: json_lib where
  "sample_json = \<lparr>js_strategy = \<lambda>_. Some ''{}'', js_preview = \<lambda>_. Some ''{}'', 
     js_request = \<lambda>(_, _, _, _, _, actor). Some (if actor = ''a'' then ''abc'' else []),
     js_approval = \<lambda>_. Some ''{}'', js_plan = \<lambda>_. Some ''{}''\<rparr>"

definition sample_version :: VersionIdentity where
  "sample_version =
     \<lparr>vi_BundleVersionID = 5, vi_SpecDigest = sample_digest,
      vi_Source = \<lparr>rss_SourceID = 6, rss_Type = SourceGit, rss_URL = ''u'', rss_AuthMode = AuthNone,
        rss_Trust = \<lparr>tp_AllowUnsigned = True, tp_Provider = SignatureNone, tp_Identity = [], tp_Issuer = [], tp_KeyRef = []\<rparr>,
        rss_Revision = si_ResolvedRevision (rq_Identity sample_request)\<rparr>,
      vi_Overrides = \<lparr>to_HelmValues = [], to_Patches = []\<rparr>, vi_Renderer = None, vi_ConfigurationDigest = []\<rparr>"

definition sample_snapshot :: PlanningSnapshot where
  "sample_snapshot =
     \<lparr>ps_TargetID = 7, ps_ProjectID = 10, ps_TargetGeneration = 1, ps_Desired = sample_version,
      ps_DesiredByCluster = fmempty, ps_ConfigurationSetDigest = [], ps_PlacementRequest = sample_request,
      ps_InitialApproval = True, ps_PreviousByCluster = fmempty\<rparr>"

definition sample_create :: CreateRequest where
  "sample_create =
     \<lparr>cr_TargetID = 7, cr_ExpectedTargetGeneration = 1, cr_PreviewDigest = DigestBytes ''{}'',
      cr_ConfirmAllClusters = False, cr_Strategy = sample_strategy, cr_Actor = ''a'', cr_IdempotencyKey = ''k'',
      cr_AuditIsZero = False\<rparr>"

definition sample_store :: PlannerStore where
  "sample_store = \<lparr>sto_Rollouts = [], sto_Snapshots = \<lambda>_. Inr sample_snapshot, sto_Events = [], sto_Queue = [], sto_Audit = []\<rparr>"

lemma sample_version_valid: "VersionIdentity_Validate sample_lib sample_version = Inr ()"
  using sample_checks(3)
  by (simp add: VersionIdentity_Validate_def sample_version_def SnapshotIdentity_validate_def sample_request_def
      ResolvedSourceSpec_Validate_def validateSourceConnection_def validateSourceURL_def validateUUID_def
      TrustPolicy_Validate_def TargetOverrides_Validate_def sample_lib_def known_source_def url_scheme_allowed_def
      containsControl_def)

lemma sample_snapshot_valid: "validateSnapshot sample_lib sample_snapshot = Inr ()"
  using sample_version_valid
  by (simp add: validateSnapshot_def sample_snapshot_def Let_def as_invariant_def)
    (simp add: sample_version_def sample_request_def)

lemma sample_create_valid:
  "validateCreateRequest sample_lib sample_create = Inr ()"
  "RolloutStrategy_CanonicalDigest sample_lib (js_strategy sample_json) sample_strategy = Inr (DigestBytes ''{}'')"
  "request_digest sample_json sample_create sd = Some (DigestBytes ''abc'')"
  by (simp_all add: validateCreateRequest_def sample_create_def sample_strategies_valid safe_text_def trim_simps
      line_breakers_def contains_any_def RolloutStrategy_CanonicalDigest_def CanonicalDigest_def sample_json_def
      request_digest_def)


lemma sample_preview:
  "\<exists>r. Evaluate sample_lib (js_preview sample_json) sample_request = Inr r \<and> pr_Selected r = [sample_candidate 1 10]
     \<and> pr_SelectedCount r = 1 \<and> pr_PreviewDigest r = DigestBytes ''{}'' \<and> \<not> pr_RequiresAllConfirmation r"
proof -
  have "chosen sample_lib (placement_normal sample_lib (rq_Placement sample_request)) [] [10]
      [sample_candidate 1 10, sample_candidate 2 20] = [sample_candidate 1 10]"
    unfolding chosen_def decision_selected
    by (simp add: sample_request_def sample_candidate_def labels_placement_def placement_normal_def
        selector_accepts_def sortedUUIDs_def eligible_def)
  moreover have "\<not> pl_AllClusters (placement_normal sample_lib (rq_Placement sample_request))"
    by (simp add: placement_normal_def sample_request_def labels_placement_def)
  ultimately show ?thesis
    by (simp add: Evaluate_def Placement_Canonical_def sample_candidates sample_checks Evaluate_candidates_eq
        CanonicalDigest_def sample_json_def Let_def)
qed

lemma sample_built:
  "BuildCohorts sample_lib sample_strategy [sample_candidate 1 10] =
     Inr ([newCohort 0 ''rolling-0000'' [1] False 0], planned_rows 0 [newCohort 0 ''rolling-0000'' [1] False 0])"
  by (simp add: BuildCohorts_def sample_strategies_valid)
    (simp add: cohort_candidates_def sample_strategy_def sample_candidate_def strategy_cohorts_def
      batchCohorts_def batch_from.simps batch_numbers [simplified] newCohort_def)

lemma sample_planned:
  "\<exists>plan. plan_from_snapshot sample_lib sample_json 1000 9 sample_create (DigestBytes ''{}'') (DigestBytes ''abc'')
     sample_snapshot = Inr plan \<and> FrozenRollout_Validate sample_lib sample_json plan = Inr ()"
proof -
  obtain r where r: "Evaluate sample_lib (js_preview sample_json) sample_request = Inr r"
      "pr_Selected r = [sample_candidate 1 10]" "pr_SelectedCount r = 1" "pr_PreviewDigest r = DigestBytes ''{}''"
      "\<not> pr_RequiresAllConfirmation r"
    using sample_preview by blast
  let ?cohorts = "[newCohort 0 ''rolling-0000'' [1] False 0]" and ?d = "DigestBytes ''{}''" and ?rd = "DigestBytes ''abc''"
  let ?open = "open_plan sample_create sample_snapshot ?d ?rd ?d 1000 9 ?cohorts (planned_rows 0 ?cohorts)"
  have "\<exists>plan. seal_plan sample_json True ?open = Inr plan"
    by (simp add: seal_plan_def open_plan_def set_cohort_approval_def newCohort_def approvalDigest_def frozenDigest_def
        CanonicalDigest_def sample_json_def)
  then obtain plan where plan: "seal_plan sample_json True ?open = Inr plan" by blast
  have build: "BuildCohorts sample_lib (cr_Strategy sample_create) [sample_candidate 1 10] = Inr (?cohorts, planned_rows 0 ?cohorts)"
    by (simp add: sample_create_def sample_built)
  have "plan_from_snapshot sample_lib sample_json 1000 9 sample_create ?d ?rd sample_snapshot = Inr plan"
    using plan r build sample_snapshot_valid
    by (simp add: plan_from_snapshot_def) (simp add: sample_snapshot_def sample_create_def ValidateLaunch_def)
  moreover have "FrozenRollout_Validate sample_lib sample_json plan = Inr ()"
    using sample_create_valid(2)
    by (intro sealed_plan_validates [OF build _ plan sample_snapshot_valid])
      (simp_all add: sample_snapshot_def sample_create_def)
  ultimately show ?thesis by blast
qed

lemma sample_created:
  "\<exists>plan. Planner_Create sample_lib sample_json 1000 9 (\<lambda>_. False) sample_create sample_store sample_store
     = (Inr plan, with_intent plan (with_rollout plan sample_store))"
proof -
  obtain plan where "plan_from_snapshot sample_lib sample_json 1000 9 sample_create (DigestBytes ''{}'') (DigestBytes ''abc'')
     sample_snapshot = Inr plan" "FrozenRollout_Validate sample_lib sample_json plan = Inr ()"
    using sample_planned by blast
  then have "create_body sample_lib sample_json 1000 9 (\<lambda>_. False) sample_create (DigestBytes ''{}'') (DigestBytes ''abc'')
      sample_store sample_store = Inr (plan, with_intent plan (with_rollout plan sample_store))"
    by (simp add: create_body_def FindByIdempotency_def sample_store_def store_plan_def recordIntent_def call_def
        with_intent_def with_rollout_def)
  then show ?thesis
    using sample_create_valid by (auto simp: Planner_Create_Inr) (simp_all add: sample_create_def)
qed

section \<open>Properties of the planner\<close>

text \<open>C24. The planner never freezes a plan that its own validation would refuse: whatever the
  snapshot, clock and identifier, a plan built for an accepted request validates, with every
  approval digest and the plan digest in place.  The bound on the number of candidates excludes
  only slices too long for the machine to hold.\<close>

theorem fresh_plan_validates:
  assumes "validateCreateRequest E request = Inr ()"
    and "RolloutStrategy_CanonicalDigest E (js_strategy J) (cr_Strategy request) = Inr sd"
    and "request_digest J request sd = Some rd"
    and "plan_from_snapshot E J now newID request sd rd s = Inr plan"
    and "int (length (rq_Candidates (ps_PlacementRequest s))) * 100 < 2 ^ 63"
  shows "FrozenRollout_Validate E J plan = Inr ()"
  using assms(4)
proof (rule plan_from_snapshot_Inr)
  fix result cohorts
  assume ev: "Evaluate E (js_preview J) (ps_PlacementRequest s) = Inr result"
    and "validateSnapshot E s = Inr ()" "now \<noteq> 0" "newID \<noteq> uuid_nil" "ps_TargetID s = cr_TargetID request"
      "ps_TargetGeneration s \<noteq> 0"
    and build: "BuildCohorts E (cr_Strategy request) (pr_Selected result) = Inr (cohorts, planned_rows 0 cohorts)"
    and seal: "seal_plan J (ps_InitialApproval s)
         (open_plan request s sd rd (pr_PreviewDigest result) now newID cohorts (planned_rows 0 cohorts)) = Inr plan"
  moreover have "Digest_Validate rd = []"
    using assms(3) by (auto simp: request_digest_def dest: CanonicalDigest_valid)
  moreover have "cr_TargetID request \<noteq> uuid_nil"
    using assms(1) by (auto simp: validateCreateRequest_def)
  ultimately show ?thesis
    using assms(2,5) selected_at_most [OF ev] preview_digest_valid [OF ev]
    by (intro sealed_plan_validates [OF build _ seal]) simp_all
qed

theorem fresh_plan_validates_witness:
  "\<exists>plan. plan_from_snapshot sample_lib sample_json 1000 9 sample_create (DigestBytes ''{}'') (DigestBytes ''abc'')
     sample_snapshot = Inr plan \<and> FrozenRollout_Validate sample_lib sample_json plan = Inr ()"
proof -
  obtain plan where plan: "plan_from_snapshot sample_lib sample_json 1000 9 sample_create (DigestBytes ''{}'')
     (DigestBytes ''abc'') sample_snapshot = Inr plan"
    using sample_planned by blast
  have "FrozenRollout_Validate sample_lib sample_json plan = Inr ()"
    using sample_create_valid
    by (intro fresh_plan_validates [OF _ _ _ plan])
      (auto simp: sample_create_def sample_snapshot_def sample_request_def)
  with plan show ?thesis by blast
qed

text \<open>C25. \<open>Create\<close> is all or nothing, whatever call to the database fails: on an error the
  store is unchanged; on success either an existing plan with the same key is returned and only
  the audit intent is added, or the key was unused and the plan is added to the rollouts, the
  events, the queue and the audit log together.  The returned plan is valid.\<close>

theorem create_all_or_nothing:
  assumes "Planner_Create E J now newID fails request early st = (r, st')"
    and "prefix (sto_Rollouts early) (sto_Rollouts st)"
  shows "case r of
      Inl e \<Rightarrow> st' = st
    | Inr plan \<Rightarrow> FrozenRollout_Validate E J plan = Inr ()
        \<and> (case FindByIdempotency st (cr_TargetID request) (cr_IdempotencyKey request) of
             Some existing \<Rightarrow> plan = existing \<and> st' = with_intent plan st
           | None \<Rightarrow> st' = with_intent plan (with_rollout plan st))"
  using assms by (cases rule: create_cases) auto

theorem create_all_or_nothing_witness:
  "\<exists>plan st'. Planner_Create sample_lib sample_json 1000 9 (\<lambda>_. False) sample_create sample_store sample_store = (Inr plan, st')
     \<and> st' = with_intent plan (with_rollout plan sample_store)"
proof -
  obtain plan where c: "Planner_Create sample_lib sample_json 1000 9 (\<lambda>_. False) sample_create sample_store sample_store
     = (Inr plan, with_intent plan (with_rollout plan sample_store))"
    using sample_created by blast
  from create_all_or_nothing [OF c] c show ?thesis by (simp add: FindByIdempotency_def sample_store_def)
qed

text \<open>C26. The invariant of the planner's tables over any interleaving of creations, with any
  database failures and stale first look-ups, and of changes to targets: every stored plan is
  valid, no two share target and idempotency key, and every plan has exactly one creation event
  and one queue entry and at least one audit intent.\<close>

theorem planner_store_invariant:
  assumes "(planner_step E J)\<^sup>*\<^sup>* st st'" and "store_ok E J st"
  shows "store_ok E J st'"
  using assms by (induction rule: rtranclp_induct) (auto dest: planner_step_ok)

theorem planner_store_invariant_witness:
  "store_ok sample_lib sample_json
     (snd (Planner_Create sample_lib sample_json 1000 9 (\<lambda>_. False) sample_create sample_store sample_store))"
  by (rule planner_store_invariant [of _ _ sample_store])
    (auto intro!: planner_step.create r_into_rtranclp simp: store_ok_def, simp_all add: sample_store_def)





end
