(* ===== verification/Scheduler.thy ===== *)
theory Scheduler
  imports Rollout_Plan
begin

text \<open>
  \<open>internal/delivery/rollout/scheduler.go\<close>: the pure decision of the scheduler on a snapshot
  of a rollout.  A loop of the source that may return from the middle of the function is a
  \<open>for_each\<close> whose \<open>Inl\<close> is the early return.  \<open>decisionDigest\<close> sorts slices it shares with
  the decision, so the returned decision carries them sorted.

  The lemmas show the budgets a decision keeps, what is released and when, which transitions
  it proposes, and that the order of the runtime rows does not matter.
\<close>

section \<open>Runtime state and decisions\<close>

datatype AssignmentAction = AssignmentApply | AssignmentRollback | AssignmentOther string

record ClusterRuntime =
  ru_ClusterID :: uuid
  ru_State :: RolloutClusterState
  ru_Fence :: int
  ru_Connected :: bool
  ru_Available :: bool
  ru_ReadySince :: "gotime option"
  ru_StateChangedAt :: gotime
  ru_Deadline :: gotime
  ru_CurrentGeneration :: int
  ru_EverReleased :: bool
  ru_LastAction :: AssignmentAction

record RuntimeSnapshot =
  rs_Plan :: FrozenRollout
  rs_State :: RolloutState
  rs_Fence :: int
  rs_Clusters :: "ClusterRuntime list"

record EvaluateInput =
  ei_Now :: gotime
  ei_Snapshot :: RuntimeSnapshot
  ei_Lease :: Lease
  ei_InitialApproval :: "ApprovalDecision option"
  ei_CohortApprovals :: "(nat, ApprovalDecision) gomap"
  ei_Maintenance :: MaintenanceGate

datatype BlockReason = BlockNone | BlockApproval | BlockMaintenance | BlockSoak | BlockConcurrency
  | BlockUnavailable | BlockDisconnected

record RolloutTransition =
  rt_From :: RolloutState
  rt_To :: RolloutState
  rt_ExpectedFence :: int
  rt_Code :: string

record ClusterTransition =
  tr_ClusterID :: uuid
  tr_From :: RolloutClusterState
  tr_To :: RolloutClusterState
  tr_ExpectedFence :: int
  tr_Code :: string

record Release =
  rl_ClusterID :: uuid
  rl_Action :: AssignmentAction
  rl_Version :: VersionIdentity
  rl_Generation :: int
  rl_Deadline :: gotime
  rl_ExpectedFence :: int
  rl_IdempotencyKey :: digest
  rl_FromState :: RolloutClusterState
  rl_ToState :: RolloutClusterState

record Decision =
  de_ID :: digest
  de_ExpectedRolloutFence :: int
  de_RolloutTransition :: "RolloutTransition option"
  de_ClusterTransitions :: "ClusterTransition list"
  de_Releases :: "Release list"
  de_Counters :: RolloutCounters
  de_Blocked :: BlockReason

type_synonym release_input = "uuid \<times> uuid \<times> AssignmentAction \<times> uuid \<times> digest"

record decision_json =
  js_release :: "release_input \<Rightarrow> bytes option"
  js_decision :: "uuid \<times> Decision \<Rightarrow> bytes option"

section \<open>Helpers\<close>

definition deadlineFor :: "FrozenRollout \<Rightarrow> ClusterRuntime \<Rightarrow> gotime" where
  "deadlineFor plan c = (if \<not> is_zero_time (ru_Deadline c) then ru_Deadline c else fr_Deadline plan)"

definition isApplyActive :: "RolloutClusterState \<Rightarrow> bool" where
  "isApplyActive s \<longleftrightarrow> s = RolloutClusterReleased \<or> s = RolloutClusterAcknowledged \<or> s = RolloutClusterReconciling"

definition canStartRollback :: "RolloutClusterState \<Rightarrow> bool" where
  "canStartRollback s =
     (case s of
        RolloutClusterReleased \<Rightarrow> True | RolloutClusterAcknowledged \<Rightarrow> True | RolloutClusterReconciling \<Rightarrow> True
      | RolloutClusterReady \<Rightarrow> True | RolloutClusterTimedOut \<Rightarrow> True | RolloutClusterFailed \<Rightarrow> True
      | _ \<Rightarrow> False)"

definition matureAt :: "ClusterRuntime \<Rightarrow> duration \<Rightarrow> gotime" where
  "matureAt c minReady = the (ru_ReadySince c) + minReady"

definition consumesConcurrency :: "ClusterRuntime \<Rightarrow> duration \<Rightarrow> gotime \<Rightarrow> bool" where
  "consumesConcurrency c minReady now =
     (case ru_State c of
        RolloutClusterReleased \<Rightarrow> True | RolloutClusterAcknowledged \<Rightarrow> True | RolloutClusterReconciling \<Rightarrow> True
      | RolloutClusterRollingBack \<Rightarrow> True
      | RolloutClusterReady \<Rightarrow> after (matureAt c minReady) now
      | _ \<Rightarrow> False)"

definition amountLimit :: "Amount \<Rightarrow> int \<Rightarrow> int" where
  "amountLimit amount total_clusters =
     (if am_Type amount = AmountCount then min (uint (am_Value amount)) total_clusters
      else safe_Int (to_uint 64 (safe_Uint64 total_clusters * uint (am_Value amount)) div 100))"

definition failureBudgetExceeded :: "Amount \<Rightarrow> int \<Rightarrow> int \<Rightarrow> bool" where
  "failureBudgetExceeded amount total_clusters failures \<longleftrightarrow> failures > amountLimit amount total_clusters"

definition setRolloutTransition ::
    "Decision \<Rightarrow> RuntimeSnapshot \<Rightarrow> RolloutState \<Rightarrow> string \<Rightarrow> RolloutError + Decision" where
  "setRolloutTransition d s desired code =
     (if de_RolloutTransition d \<noteq> None then Inl (RolloutErr RErrInvariant ''decision'')
      else case TransitionRollout \<lparr>ro_State = rs_State s, ro_Fence = rs_Fence s\<rparr> desired (rs_Fence s) of
          Inl _ \<Rightarrow> Inl (RolloutErr RErrInvariant ''rollout.transition'')
        | Inr _ \<Rightarrow> Inr (d\<lparr>de_RolloutTransition := Some
            \<lparr>rt_From = rs_State s, rt_To = desired, rt_ExpectedFence = rs_Fence s, rt_Code = code\<rparr>\<rparr>))"

definition addClusterTransition ::
    "Decision \<Rightarrow> ClusterRuntime \<Rightarrow> RolloutClusterState \<Rightarrow> string \<Rightarrow> RolloutError + Decision" where
  "addClusterTransition d c desired code =
     (case TransitionRolloutCluster \<lparr>rcl_State = ru_State c, rcl_Fence = ru_Fence c\<rparr> desired (ru_Fence c) of
        Inl _ \<Rightarrow> Inl (RolloutErr RErrInvariant ''cluster.transition'')
      | Inr _ \<Rightarrow> Inr (d\<lparr>de_ClusterTransitions := de_ClusterTransitions d @
          [\<lparr>tr_ClusterID = ru_ClusterID c, tr_From = ru_State c, tr_To = desired,
            tr_ExpectedFence = ru_Fence c, tr_Code = code\<rparr>]\<rparr>))"

definition newRelease ::
    "decision_json \<Rightarrow> FrozenRollout \<Rightarrow> PlannedCluster \<Rightarrow> ClusterRuntime \<Rightarrow> AssignmentAction \<Rightarrow> VersionIdentity
     \<Rightarrow> gotime \<Rightarrow> RolloutError + Release" where
  "newRelease J plan planned c action version now =
     (if ru_CurrentGeneration c = int64_max then Inl (RolloutErr RErrInvariant ''generation'')
      else let desired = (if action = AssignmentRollback then RolloutClusterRollingBack else RolloutClusterReleased) in
        case TransitionRolloutCluster \<lparr>rcl_State = ru_State c, rcl_Fence = ru_Fence c\<rparr> desired (ru_Fence c) of
          Inl _ \<Rightarrow> Inl (RolloutErr RErrInvariant ''cluster.transition'')
        | Inr _ \<Rightarrow>
            (case CanonicalDigest (js_release J)
                    (fr_ID plan, pc_ClusterID planned, action, vi_BundleVersionID version, vi_SpecDigest version) of
               None \<Rightarrow> Inl RolloutDigestErr
             | Some key \<Rightarrow>
                 Inr \<lparr>rl_ClusterID = pc_ClusterID planned, rl_Action = action, rl_Version = version,
                      rl_Generation = ru_CurrentGeneration c + 1,
                      rl_Deadline = (if action = AssignmentRollback
                                     then now + st_ProgressDeadline (fr_Strategy plan) else fr_Deadline plan),
                      rl_ExpectedFence = ru_Fence c, rl_IdempotencyKey = key,
                      rl_FromState = ru_State c, rl_ToState = desired\<rparr>))"

definition sorted_decision :: "ext_lib \<Rightarrow> Decision \<Rightarrow> Decision" where
  "sorted_decision E d =
     d\<lparr>de_ClusterTransitions := sort_key (\<lambda>t. lib_uuidString E (tr_ClusterID t)) (de_ClusterTransitions d),
       de_Releases := sort_key (\<lambda>r. lib_uuidString E (rl_ClusterID r)) (de_Releases d)\<rparr>"

definition decisionDigest :: "ext_lib \<Rightarrow> decision_json \<Rightarrow> uuid \<Rightarrow> Decision \<Rightarrow> digest option" where
  "decisionDigest E J rolloutID d =
     CanonicalDigest (js_decision J) (rolloutID, (sorted_decision E d)\<lparr>de_ID := []\<rparr>)"

section \<open>The runtime rows\<close>

definition runtime_step ::
    "ClusterRuntime \<Rightarrow> (uuid, ClusterRuntime) gomap \<Rightarrow> RolloutError + (uuid, ClusterRuntime) gomap" where
  "runtime_step c byID =
     (if ru_ClusterID c = uuid_nil \<or> \<not> cluster_valid (ru_State c) \<or> ru_Fence c < 0 \<or> ru_CurrentGeneration c < 0
      then Inl (RolloutErr RErrInvariant ''runtime.clusters'')
      else if fmlookup byID (ru_ClusterID c) \<noteq> None then Inl (RolloutErr RErrInvariant ''runtime.clusters'')
      else if ru_State c = RolloutClusterReady \<and> (case ru_ReadySince c of None \<Rightarrow> True | Some t \<Rightarrow> is_zero_time t)
      then Inl (RolloutErr RErrInvariant ''runtime.ready_since'')
      else Inr (fmupd (ru_ClusterID c) c byID))"

definition validateRuntime :: "FrozenRollout \<Rightarrow> ClusterRuntime list \<Rightarrow> RolloutError + ClusterRuntime list" where
  "validateRuntime plan input =
     (if length input \<noteq> length (fr_Clusters plan) then Inl (RolloutErr RErrInvariant ''runtime.clusters'')
      else sbind (for_each runtime_step input fmempty) (\<lambda>byID.
        for_each (\<lambda>planned ordered.
            case fmlookup byID (pc_ClusterID planned) of
              None \<Rightarrow> Inl (RolloutErr RErrInvariant ''runtime.clusters'')
            | Some c \<Rightarrow> Inr (ordered @ [c])) (fr_Clusters plan) []))"

section \<open>The active cohort\<close>

definition cohort_step ::
    "FrozenRollout \<Rightarrow> ClusterRuntime list \<Rightarrow> gotime \<Rightarrow> nat \<Rightarrow> PlannedCluster \<Rightarrow> bool \<times> gotime
     \<Rightarrow> RolloutError + bool \<times> gotime" where
  "cohort_step plan clusters now index planned acc =
     (case acc of (complete, completedAt) \<Rightarrow>
      if pc_Cohort planned \<noteq> index then Inr acc
      else let c = clusters ! pc_Order planned in
        case ru_State c of
          RolloutClusterReady \<Rightarrow>
            let m = matureAt c (st_MinReady (fr_Strategy plan)) in
            Inr (if after m now then False else complete, if after m completedAt then m else completedAt)
        | s \<Rightarrow>
            if s = RolloutClusterFailed \<or> s = RolloutClusterTimedOut \<or> s = RolloutClusterSkipped then
              (if is_zero_time (ru_StateChangedAt c) then Inl (RolloutErr RErrInvariant ''runtime.state_changed_at'')
               else Inr (complete, if after (ru_StateChangedAt c) completedAt then ru_StateChangedAt c else completedAt))
            else Inr (False, completedAt))"

fun active_from ::
    "FrozenRollout \<Rightarrow> ClusterRuntime list \<Rightarrow> gotime \<Rightarrow> gotime \<Rightarrow> Cohort list \<Rightarrow> RolloutError + nat \<times> gotime \<times> bool" where
  "active_from plan clusters now previous [] = Inr (length (fr_Cohorts plan), previous, True)"
| "active_from plan clusters now previous (cohort # cohorts) =
     sbind (for_each (cohort_step plan clusters now (co_Index cohort)) (fr_Clusters plan) (True, fr_CreatedAt plan))
       (\<lambda>(complete, completedAt).
         if \<not> complete then Inr (co_Index cohort, previous, False)
         else active_from plan clusters now completedAt cohorts)"

definition activeCohort :: "FrozenRollout \<Rightarrow> ClusterRuntime list \<Rightarrow> gotime \<Rightarrow> RolloutError + nat \<times> gotime \<times> bool" where
  "activeCohort plan clusters now = active_from plan clusters now (fr_CreatedAt plan) (fr_Cohorts plan)"

section \<open>A progressing rollout\<close>

definition reconnect_step :: "FrozenRollout \<Rightarrow> gotime \<Rightarrow> ClusterRuntime \<Rightarrow> Decision \<Rightarrow> RolloutError + Decision" where
  "reconnect_step plan now c d =
     (if ru_State c = RolloutClusterPending \<and> \<not> ru_Connected c
      then addClusterTransition d c RolloutClusterBlocked ''cluster_disconnected''
      else if ru_State c = RolloutClusterBlocked \<and> ru_Connected c
      then addClusterTransition d c RolloutClusterPending ''cluster_reconnected''
      else if isApplyActive (ru_State c) \<and> \<not> after (deadlineFor plan c) now
      then addClusterTransition d c RolloutClusterTimedOut ''progress_deadline_exceeded''
      else Inr d)"

definition budget_step :: "duration \<Rightarrow> gotime \<Rightarrow> ClusterRuntime \<Rightarrow> int \<times> int \<Rightarrow> int \<times> int" where
  "budget_step minReady now c acc =
     (case acc of (reserved, atRisk) \<Rightarrow>
        if consumesConcurrency c minReady now then (reserved + 1, atRisk + 1)
        else if \<not> ru_Available c then (reserved, atRisk + 1)
        else (reserved, atRisk))"

record apply_state =
  as_slots :: int
  as_room :: int
  as_blocked :: bool
  as_releases :: "Release list"

definition apply_step ::
    "decision_json \<Rightarrow> FrozenRollout \<Rightarrow> gotime \<Rightarrow> nat \<Rightarrow> ClusterRuntime list \<Rightarrow> PlannedCluster \<Rightarrow> apply_state
     \<Rightarrow> RolloutError + apply_state" where
  "apply_step J plan now index clusters planned s =
     (if as_slots s = 0 then Inr s
      else if pc_Cohort planned \<noteq> index then Inr s
      else let c = clusters ! pc_Order planned in
        if ru_State c \<noteq> RolloutClusterPending \<or> \<not> ru_Connected c then Inr s
        else if ru_Available c \<and> as_room s \<le> 0 then Inr (s\<lparr>as_blocked := True\<rparr>)
        else
          sbind (newRelease J plan planned c AssignmentApply
                   (case pc_Desired planned of None \<Rightarrow> fr_Desired plan | Some d \<Rightarrow> d) now) (\<lambda>release.
            Inr (s\<lparr>as_releases := as_releases s @ [release], as_slots := as_slots s - 1,
                   as_room := (if ru_Available c then as_room s - 1 else as_room s)\<rparr>)))"

definition disconnected_in :: "FrozenRollout \<Rightarrow> ClusterRuntime list \<Rightarrow> nat \<Rightarrow> bool" where
  "disconnected_in plan clusters index \<longleftrightarrow>
     list_ex (\<lambda>planned. let c = clusters ! pc_Order planned in
       pc_Cohort planned = index \<and> (ru_State c = RolloutClusterBlocked \<or> \<not> ru_Connected c)) (fr_Clusters plan)"

definition release_batch ::
    "decision_json \<Rightarrow> FrozenRollout \<Rightarrow> gotime \<Rightarrow> ClusterRuntime list \<Rightarrow> nat \<Rightarrow> Decision \<Rightarrow> RolloutError + Decision" where
  "release_batch J plan now clusters index d =
     (case fold (budget_step (st_MinReady (fr_Strategy plan)) now) clusters (0, 0) of (reserved, atRisk) \<Rightarrow>
      let concurrencySlots = uint (st_MaxConcurrent (fr_Strategy plan)) - reserved in
      if concurrencySlots \<le> 0 then Inr (d\<lparr>de_Blocked := BlockConcurrency\<rparr>)
      else
        let maxUnavailable = amountLimit (st_MaxUnavailable (fr_Strategy plan)) (int (length clusters)) in
        sbind (for_each (apply_step J plan now index clusters) (fr_Clusters plan)
                 \<lparr>as_slots = concurrencySlots, as_room = maxUnavailable - atRisk, as_blocked = False,
                  as_releases = de_Releases d\<rparr>) (\<lambda>s.
          let d = d\<lparr>de_Releases := as_releases s\<rparr> in
          Inr (if de_Releases d = [] \<and> de_Blocked d = BlockNone then
                 (if as_blocked s then d\<lparr>de_Blocked := BlockUnavailable\<rparr>
                  else if disconnected_in plan clusters index then d\<lparr>de_Blocked := BlockDisconnected\<rparr>
                  else d)
               else d)))"

definition release_cohort ::
    "decision_json \<Rightarrow> EvaluateInput \<Rightarrow> ClusterRuntime list \<Rightarrow> nat \<Rightarrow> gotime \<Rightarrow> Decision \<Rightarrow> RolloutError + Decision" where
  "release_cohort J input clusters index completedAt d =
     (let plan = rs_Plan (ei_Snapshot input); now = ei_Now input;
          cohort = fr_Cohorts plan ! index;
          approval = fmlookup (ei_CohortApprovals input) (co_Index cohort) in
      if index > 0 \<and> after (completedAt + co_SoakAfter (fr_Cohorts plan ! (index - 1))) now
      then Inr (d\<lparr>de_Blocked := BlockSoak\<rparr>)
      else if co_ApprovalRequired cohort
              \<and> (case approval of None \<Rightarrow> True | Some a \<Rightarrow> \<not> validFor a (co_ApprovalDigest cohort) now)
      then Inr (d\<lparr>de_Blocked := BlockApproval\<rparr>)
      else if co_ApprovalRequired cohort \<and> \<not> ad_Approved (the approval)
      then setRolloutTransition d (ei_Snapshot input) RolloutPaused ''cohort_approval_rejected''
      else if st_RespectMaintenanceWindows (fr_Strategy plan) \<and> \<not> allowsRelease (ei_Maintenance input)
      then Inr (d\<lparr>de_Blocked := BlockMaintenance\<rparr>)
      else release_batch J plan now clusters index d)"

definition evaluateProgressing ::
    "decision_json \<Rightarrow> EvaluateInput \<Rightarrow> ClusterRuntime list \<Rightarrow> Decision \<Rightarrow> RolloutError + Decision" where
  "evaluateProgressing J input clusters d =
     (let snapshot = ei_Snapshot input; plan = rs_Plan snapshot; now = ei_Now input;
          strategy = fr_Strategy plan in
      sbind (for_each (reconnect_step plan now) clusters d) (\<lambda>d.
      if de_ClusterTransitions d \<noteq> [] then Inr d
      else if \<not> after (fr_Deadline plan) now
      then setRolloutTransition d snapshot RolloutFailed ''rollout_deadline_exceeded''
      else let failed = ct_Failed (de_Counters d);
               exceeded = failureBudgetExceeded (st_FailureThreshold strategy) (int (length clusters)) failed in
      if exceeded \<and> st_OnFailure strategy = FailurePause
      then setRolloutTransition d snapshot RolloutPaused ''failure_budget_exceeded''
      else if exceeded \<and> (st_OnFailure strategy = FailureAbort \<or> st_OnFailure strategy = FailureRollback)
      then setRolloutTransition d snapshot RolloutFailed ''failure_budget_exceeded''
      else
        sbind (activeCohort plan clusters now) (\<lambda>(cohortIndex, completedAt, complete).
          if complete then
            (if failed \<noteq> 0 then setRolloutTransition d snapshot RolloutFailed ''rollout_completed_with_failures''
             else setRolloutTransition d snapshot RolloutSucceeded ''rollout_completed'')
          else release_cohort J input clusters cohortIndex completedAt d)))"

section \<open>A rollback\<close>

record rollback_counts =
  rb_targets :: int
  rb_complete :: int
  rb_reserved :: int
  rb_atRisk :: int

definition rollback_count_step ::
    "RuntimeSnapshot \<Rightarrow> gotime \<Rightarrow> ClusterRuntime list \<Rightarrow> Decision \<Rightarrow> PlannedCluster \<Rightarrow> rollback_counts
     \<Rightarrow> (RolloutError + Decision) + rollback_counts" where
  "rollback_count_step snapshot now clusters d planned n =
     (let c = clusters ! pc_Order planned;
          finish = (\<lambda>code. Inl (setRolloutTransition d snapshot RolloutRollbackFailed code)) in
      if \<not> ru_EverReleased c then Inr n
      else let n = n\<lparr>rb_targets := rb_targets n + 1\<rparr> in
      if pc_Previous planned = None then finish ''previous_version_unavailable''
      else if ru_State c = RolloutClusterReadyPrevious then Inr (n\<lparr>rb_complete := rb_complete n + 1\<rparr>)
      else if (ru_State c = RolloutClusterFailed \<or> ru_State c = RolloutClusterTimedOut) \<and> ru_LastAction c = AssignmentRollback
      then finish ''rollback_cluster_failed''
      else if ru_State c = RolloutClusterRollingBack \<and> \<not> after (deadlineFor (rs_Plan snapshot) c) now
      then finish ''rollback_deadline_exceeded''
      else Inr (n\<lparr>rb_reserved := (if ru_State c = RolloutClusterRollingBack then rb_reserved n + 1 else rb_reserved n),
                  rb_atRisk := (if ru_State c = RolloutClusterRollingBack \<or> \<not> ru_Available c
                                then rb_atRisk n + 1 else rb_atRisk n)\<rparr>))"

record rollback_state =
  rk_slots :: int
  rk_atRisk :: int
  rk_decision :: Decision

definition rollback_step ::
    "decision_json \<Rightarrow> RuntimeSnapshot \<Rightarrow> gotime \<Rightarrow> ClusterRuntime list \<Rightarrow> int \<Rightarrow> PlannedCluster \<Rightarrow> rollback_state
     \<Rightarrow> (RolloutError + Decision) + rollback_state" where
  "rollback_step J snapshot now clusters maxUnavailable planned s =
     (let c = clusters ! pc_Order planned; d = rk_decision s; plan = rs_Plan snapshot in
      if rk_slots s = 0 then Inr s
      else if \<not> ru_EverReleased c \<or> ru_State c = RolloutClusterReadyPrevious \<or> ru_State c = RolloutClusterRollingBack
      then Inr s
      else if \<not> ru_Connected c then Inr (s\<lparr>rk_decision := d\<lparr>de_Blocked := BlockDisconnected\<rparr>\<rparr>)
      else if ru_Available c \<and> rk_atRisk s \<ge> maxUnavailable
      then Inr (s\<lparr>rk_decision := d\<lparr>de_Blocked := BlockUnavailable\<rparr>\<rparr>)
      else case pc_Previous planned of
          None \<Rightarrow> Inl (setRolloutTransition d snapshot RolloutRollbackFailed ''previous_version_unavailable'')
        | Some previous \<Rightarrow>
            if \<not> canStartRollback (ru_State c) then Inl (Inl (RolloutErr RErrInvariant ''cluster.state''))
            else (case newRelease J plan planned c AssignmentRollback (pv_Version previous) now of
                Inl e \<Rightarrow> Inl (Inl e)
              | Inr release \<Rightarrow>
                  Inr (s\<lparr>rk_slots := rk_slots s - 1,
                         rk_atRisk := (if ru_Available c then rk_atRisk s + 1 else rk_atRisk s),
                         rk_decision := d\<lparr>de_Releases := de_Releases d @ [release]\<rparr>\<rparr>)))"

definition rollback_order :: "FrozenRollout \<Rightarrow> ClusterRuntime list \<Rightarrow> PlannedCluster list" where
  "rollback_order plan clusters = sort_key (\<lambda>p. ru_Available (clusters ! pc_Order p)) (fr_Clusters plan)"

definition evaluateRollback ::
    "decision_json \<Rightarrow> EvaluateInput \<Rightarrow> ClusterRuntime list \<Rightarrow> Decision \<Rightarrow> RolloutError + Decision" where
  "evaluateRollback J input clusters d =
     (let snapshot = ei_Snapshot input; plan = rs_Plan snapshot; now = ei_Now input in
      case for_each (rollback_count_step snapshot now clusters d) (fr_Clusters plan)
             \<lparr>rb_targets = 0, rb_complete = 0, rb_reserved = 0, rb_atRisk = 0\<rparr> of
        Inl result \<Rightarrow> result
      | Inr n \<Rightarrow>
          if rb_targets n = 0 \<or> rb_complete n = rb_targets n
          then setRolloutTransition d snapshot RolloutRolledBack ''rollback_completed''
          else let slots = uint (st_MaxConcurrent (fr_Strategy plan)) - rb_reserved n in
            if slots \<le> 0 then Inr (d\<lparr>de_Blocked := BlockConcurrency\<rparr>)
            else case for_each (rollback_step J snapshot now clusters
                         (amountLimit (st_MaxUnavailable (fr_Strategy plan)) (int (length clusters))))
                         (rollback_order plan clusters)
                         \<lparr>rk_slots = slots, rk_atRisk = rb_atRisk n, rk_decision = d\<rparr> of
                Inl result \<Rightarrow> result
              | Inr s \<Rightarrow> Inr (rk_decision s))"

section \<open>The decision\<close>

definition decide ::
    "decision_json \<Rightarrow> EvaluateInput \<Rightarrow> ClusterRuntime list \<Rightarrow> Decision \<Rightarrow> RolloutError + Decision" where
  "decide J input clusters d =
     (let snapshot = ei_Snapshot input; plan = rs_Plan snapshot; now = ei_Now input in
      case rs_State snapshot of
        RolloutResolving \<Rightarrow>
          if ab_Required (fr_Approval plan)
          then setRolloutTransition d snapshot RolloutAwaitingApproval ''approval_requested''
          else setRolloutTransition d snapshot RolloutQueued ''plan_resolved''
      | RolloutAwaitingApproval \<Rightarrow>
          (case ei_InitialApproval input of
             None \<Rightarrow> Inr (d\<lparr>de_Blocked := BlockApproval\<rparr>)
           | Some a \<Rightarrow>
               if \<not> validFor a (ab_Digest (fr_Approval plan)) now then Inr (d\<lparr>de_Blocked := BlockApproval\<rparr>)
               else if \<not> ad_Approved a then setRolloutTransition d snapshot RolloutRejected ''approval_rejected''
               else setRolloutTransition d snapshot RolloutQueued ''approval_granted'')
      | RolloutQueued \<Rightarrow>
          if st_RespectMaintenanceWindows (fr_Strategy plan) \<and> \<not> allowsRelease (ei_Maintenance input)
          then Inr (d\<lparr>de_Blocked := BlockMaintenance\<rparr>)
          else setRolloutTransition d snapshot RolloutProgressing ''rollout_started''
      | RolloutProgressing \<Rightarrow> evaluateProgressing J input clusters d
      | RolloutFailed \<Rightarrow>
          if st_OnFailure (fr_Strategy plan) = FailureRollback
          then setRolloutTransition d snapshot RolloutRollingBack ''automatic_rollback_started''
          else Inr d
      | RolloutRollingBack \<Rightarrow> evaluateRollback J input clusters d
      | RolloutDraft \<Rightarrow> Inl (RolloutErr RErrInvariant ''rollout.state'')
      | RolloutOther _ \<Rightarrow> Inl (RolloutErr RErrInvariant ''rollout.state'')
      | _ \<Rightarrow> Inr d)"

definition initial_decision :: "int \<Rightarrow> RolloutCounters \<Rightarrow> Decision" where
  "initial_decision fence counters =
     \<lparr>de_ID = [], de_ExpectedRolloutFence = fence, de_RolloutTransition = None, de_ClusterTransitions = [],
      de_Releases = [], de_Counters = counters, de_Blocked = BlockNone\<rparr>"

definition Scheduler_Evaluate ::
    "ext_lib \<Rightarrow> json_lib \<Rightarrow> decision_json \<Rightarrow> EvaluateInput \<Rightarrow> RolloutError + Decision" where
  "Scheduler_Evaluate E J D input =
     (let now = ei_Now input; snapshot = ei_Snapshot input; plan = rs_Plan snapshot in
      if is_zero_time now then Inl (RolloutErr RErrInvalidInput ''now'')
      else if FrozenRollout_Validate E J plan \<noteq> Inr () then Inl (RolloutErr RErrInvariant ''plan'')
      else if \<not> rollout_valid (rs_State snapshot) \<or> rs_Fence snapshot < 0
      then Inl (RolloutErr RErrInvariant ''rollout_runtime'')
      else
        sbind (Lease_validate (ei_Lease input) now (rs_Fence snapshot)) (\<lambda>_.
        sbind (validateRuntime plan (rs_Clusters snapshot)) (\<lambda>clusters.
        case DeriveRolloutCounters (map ru_State clusters) of
          Inl e \<Rightarrow> Inl (RolloutStateErr e)
        | Inr counters \<Rightarrow>
            sbind (decide D input clusters (initial_decision (rs_Fence snapshot) counters)) (\<lambda>d.
            case decisionDigest E D (fr_ID plan) d of
              None \<Rightarrow> Inl RolloutDigestErr
            | Some digest \<Rightarrow> Inr ((sorted_decision E d)\<lparr>de_ID := digest\<rparr>)))))"

section \<open>Single steps\<close>

lemma TransitionRollout_ok:
  "(\<exists>r. TransitionRollout \<lparr>ro_State = s, ro_Fence = f\<rparr> t f = Inr r) \<longleftrightarrow>
     rollout_valid s \<and> rollout_valid t \<and> (s = t \<or> rollout_allows s t)"
  by (auto simp: TransitionRollout_def)

lemma TransitionRolloutCluster_ok:
  "(\<exists>r. TransitionRolloutCluster \<lparr>rcl_State = s, rcl_Fence = f\<rparr> t f = Inr r) \<longleftrightarrow>
     cluster_valid s \<and> cluster_valid t \<and> (s = t \<or> cluster_allows s t)"
  by (auto simp: TransitionRolloutCluster_def)

lemma case_sum_Inr_iff:
  "(case r of Inl _ \<Rightarrow> Inl e | Inr _ \<Rightarrow> Inr y) = Inr z \<longleftrightarrow> (\<exists>x. r = Inr x) \<and> z = y"
  by (cases r) auto

lemma setRolloutTransition_Inr:
  "setRolloutTransition d s t code = Inr d' \<longleftrightarrow>
     de_RolloutTransition d = None \<and> rollout_valid (rs_State s) \<and> rollout_valid t
     \<and> (rs_State s = t \<or> rollout_allows (rs_State s) t)
     \<and> d' = d\<lparr>de_RolloutTransition := Some
              \<lparr>rt_From = rs_State s, rt_To = t, rt_ExpectedFence = rs_Fence s, rt_Code = code\<rparr>\<rparr>"
  by (auto simp: setRolloutTransition_def case_sum_Inr_iff TransitionRollout_ok)

lemma addClusterTransition_Inr:
  "addClusterTransition d c t code = Inr d' \<longleftrightarrow>
     cluster_valid (ru_State c) \<and> cluster_valid t \<and> (ru_State c = t \<or> cluster_allows (ru_State c) t)
     \<and> d' = d\<lparr>de_ClusterTransitions := de_ClusterTransitions d @
          [\<lparr>tr_ClusterID = ru_ClusterID c, tr_From = ru_State c, tr_To = t,
            tr_ExpectedFence = ru_Fence c, tr_Code = code\<rparr>]\<rparr>"
  by (auto simp: addClusterTransition_def case_sum_Inr_iff TransitionRolloutCluster_ok)

definition action_state :: "AssignmentAction \<Rightarrow> RolloutClusterState" where
  "action_state a = (if a = AssignmentRollback then RolloutClusterRollingBack else RolloutClusterReleased)"

lemma newRelease_Inr:
  assumes "newRelease D plan p c a v now = Inr r"
  shows "rl_ClusterID r = pc_ClusterID p" and "rl_Action r = a" and "rl_Version r = v"
    and "rl_Generation r = ru_CurrentGeneration c + 1" and "ru_CurrentGeneration c \<noteq> int64_max"
    and "rl_ExpectedFence r = ru_Fence c" and "rl_FromState r = ru_State c" and "rl_ToState r = action_state a"
    and "ru_State c = action_state a \<or> cluster_allows (ru_State c) (action_state a)"
    and "rl_Deadline r = (if a = AssignmentRollback then now + st_ProgressDeadline (fr_Strategy plan) else fr_Deadline plan)"
proof -
  have "\<exists>x. TransitionRolloutCluster \<lparr>rcl_State = ru_State c, rcl_Fence = ru_Fence c\<rparr> (action_state a) (ru_Fence c) = Inr x"
    using assms by (auto simp: newRelease_def action_state_def Let_def split: if_splits sum.splits)
  then show "ru_State c = action_state a \<or> cluster_allows (ru_State c) (action_state a)"
    by (simp add: TransitionRolloutCluster_ok)
  show "rl_ClusterID r = pc_ClusterID p" "rl_Action r = a" "rl_Version r = v"
    "rl_Generation r = ru_CurrentGeneration c + 1" "ru_CurrentGeneration c \<noteq> int64_max"
    "rl_ExpectedFence r = ru_Fence c" "rl_FromState r = ru_State c" "rl_ToState r = action_state a"
    "rl_Deadline r = (if a = AssignmentRollback then now + st_ProgressDeadline (fr_Strategy plan) else fr_Deadline plan)"
    using assms by (auto simp: newRelease_def action_state_def Let_def split: if_splits sum.splits option.splits)
qed

section \<open>Runtime rows in plan order\<close>

definition runtime_ok :: "ClusterRuntime \<Rightarrow> bool" where
  "runtime_ok c \<longleftrightarrow> ru_ClusterID c \<noteq> uuid_nil \<and> cluster_valid (ru_State c) \<and> 0 \<le> ru_Fence c \<and> 0 \<le> ru_CurrentGeneration c
     \<and> (ru_State c = RolloutClusterReady \<longrightarrow> ru_ReadySince c \<noteq> None \<and> ru_ReadySince c \<noteq> Some 0)"

definition lookup_runtime :: "ClusterRuntime list \<Rightarrow> uuid \<Rightarrow> ClusterRuntime option" where
  "lookup_runtime cs k = find (\<lambda>c. ru_ClusterID c = k) cs"

lemma runtime_step_Inr:
  "runtime_step c m = Inr m' \<longleftrightarrow> runtime_ok c \<and> fmlookup m (ru_ClusterID c) = None \<and> m' = fmupd (ru_ClusterID c) c m"
  by (auto simp: runtime_step_def runtime_ok_def not_less split: option.splits)

lemma runtime_loop:
  "for_each runtime_step cs m = Inr m' \<longleftrightarrow>
     (\<forall>c \<in> set cs. runtime_ok c \<and> fmlookup m (ru_ClusterID c) = None) \<and> distinct (map ru_ClusterID cs)
     \<and> m' = m ++\<^sub>f fmap_of_list (map (\<lambda>c. (ru_ClusterID c, c)) cs)"
proof (induction cs arbitrary: m)
  case (Cons c cs)
  have "fmupd (ru_ClusterID c) c m ++\<^sub>f fmap_of_list (map (\<lambda>c. (ru_ClusterID c, c)) cs)
      = m ++\<^sub>f fmupd (ru_ClusterID c) c (fmap_of_list (map (\<lambda>c. (ru_ClusterID c, c)) cs))"
    if "ru_ClusterID c \<notin> ru_ClusterID ` set cs"
    using that by (intro fmap_ext) (auto simp: fmlookup_of_list map_of_eq_None_iff image_iff map_add_def fset_of_list_elem)
  then show ?case
    by (auto simp: sbind_Inr_iff runtime_step_Inr Cons.IH)
qed auto

lemma runtime_table:
  "fmlookup (fmap_of_list (map (\<lambda>c. (ru_ClusterID c, c)) cs)) k = lookup_runtime cs k"
  unfolding fmlookup_of_list lookup_runtime_def by (induction cs) auto

lemma ordered_loop:
  "for_each (\<lambda>p acc. case f p of None \<Rightarrow> Inl e | Some c \<Rightarrow> Inr (acc @ [c])) ps acc = Inr out \<longleftrightarrow>
     (\<forall>p \<in> set ps. f p \<noteq> None) \<and> out = acc @ map (\<lambda>p. the (f p)) ps"
proof (induction ps arbitrary: acc)
  case (Cons p ps)
  then show ?case by (cases "f p") auto
qed auto

lemma validateRuntime_iff:
  "validateRuntime plan input = Inr clusters \<longleftrightarrow>
     length input = length (fr_Clusters plan) \<and> (\<forall>c \<in> set input. runtime_ok c) \<and> distinct (map ru_ClusterID input)
     \<and> (\<forall>p \<in> set (fr_Clusters plan). lookup_runtime input (pc_ClusterID p) \<noteq> None)
     \<and> clusters = map (\<lambda>p. the (lookup_runtime input (pc_ClusterID p))) (fr_Clusters plan)"
  by (auto simp: validateRuntime_def sbind_Inr_iff runtime_loop ordered_loop runtime_table)

lemma lookup_runtime_Some:
  assumes "distinct (map ru_ClusterID cs)"
  shows "lookup_runtime cs k = Some c \<longleftrightarrow> c \<in> set cs \<and> ru_ClusterID c = k"
proof
  assume "lookup_runtime cs k = Some c"
  then show "c \<in> set cs \<and> ru_ClusterID c = k" unfolding lookup_runtime_def by (rule find_SomeD)
next
  assume c: "c \<in> set cs \<and> ru_ClusterID c = k"
  then obtain c' where c': "lookup_runtime cs k = Some c'"
    unfolding lookup_runtime_def using find_NoneD by (metis (mono_tags, lifting) not_None_eq)
  then have "c' \<in> set cs \<and> ru_ClusterID c' = k" unfolding lookup_runtime_def by (rule find_SomeD)
  with c assms have "c' = c" by (metis distinct_map inj_onD)
  with c' show "lookup_runtime cs k = Some c" by simp
qed

lemma validated_order:
  assumes "FrozenRollout_Validate E J plan = Inr ()"
  shows "j < length (fr_Clusters plan) \<Longrightarrow> pc_Order (fr_Clusters plan ! j) = j"
    and "p \<in> set (fr_Clusters plan) \<Longrightarrow> pc_Order p < length (fr_Clusters plan) \<and> fr_Clusters plan ! pc_Order p = p"
    and "distinct (map pc_ClusterID (fr_Clusters plan))"
    and "k < length (fr_Cohorts plan) \<Longrightarrow> co_Index (fr_Cohorts plan ! k) = k"
    and "p \<in> set (fr_Clusters plan) \<Longrightarrow> pc_Cohort p < length (fr_Cohorts plan)"
proof -
  let ?rows = "fr_Clusters plan"
  from assms have rows: "map bare ?rows = planned_rows 0 (fr_Cohorts plan)" and ids: "distinct (cluster_ids (fr_Cohorts plan))"
    and heads: "\<forall>k < length (fr_Cohorts plan). cohort_header_ok J plan k"
    by (simp_all add: Validate_iff)
  have len: "length (planned_rows 0 (fr_Cohorts plan)) = length ?rows" using arg_cong [OF rows, of length] by simp
  show order: "pc_Order (?rows ! j) = j" if "j < length ?rows" for j
    using planned_rows_order [of j 0 "fr_Cohorts plan"] arg_cong [OF rows, of "\<lambda>l. pc_Order (l ! j)"] that len by simp
  show "pc_Order p < length ?rows \<and> ?rows ! pc_Order p = p" if "p \<in> set ?rows" for p
    using that order by (auto simp: in_set_conv_nth)
  have "map pc_ClusterID ?rows = map pc_ClusterID (map bare ?rows)" by simp
  also have "\<dots> = cluster_ids (fr_Cohorts plan)" by (simp only: rows planned_rows_ids)
  finally show "distinct (map pc_ClusterID ?rows)" using ids by simp
  show index: "co_Index (fr_Cohorts plan ! k) = k" if "k < length (fr_Cohorts plan)" for k
    using heads that by (auto simp: cohort_header_ok_def Let_def)
  show "pc_Cohort p < length (fr_Cohorts plan)" if "p \<in> set ?rows"
  proof -
    from that have "bare p \<in> set (planned_rows 0 (fr_Cohorts plan))" by (simp flip: rows)
    from planned_rows_cohort [OF this] index show ?thesis by (auto simp: in_set_conv_nth)
  qed
qed

section \<open>Release loops\<close>

text \<open>The contract of the two loops that release clusters: a step leaves budget and releases
  alone, or uses a slot, and room as well when the cluster is healthy, and adds one release.\<close>

locale release_loop =
  fixes step :: "PlannedCluster \<Rightarrow> 's \<Rightarrow> 'e + 's" and slots room :: "'s \<Rightarrow> int" and releases :: "'s \<Rightarrow> Release list"
    and healthy :: "PlannedCluster \<Rightarrow> bool" and fits :: "PlannedCluster \<Rightarrow> Release \<Rightarrow> bool"
  assumes step_law: "step p s = Inr s' \<Longrightarrow>
      slots s' = slots s \<and> room s' = room s \<and> releases s' = releases s
    \<or> slots s \<noteq> 0 \<and> (healthy p \<longrightarrow> 0 < room s) \<and> slots s' = slots s - 1
      \<and> room s' = room s - (if healthy p then 1 else 0) \<and> (\<exists>r. releases s' = releases s @ [r] \<and> fits p r)"
begin

lemma loop_budget:
  assumes "for_each step ps s = Inr s'" and "0 \<le> slots s"
  shows "\<exists>qs rs. subseq qs ps \<and> releases s' = releases s @ rs \<and> list_all2 fits qs rs
    \<and> slots s' = slots s - int (length qs) \<and> 0 \<le> slots s'
    \<and> room s' = room s - int (length (filter healthy qs)) \<and> (filter healthy qs \<noteq> [] \<longrightarrow> 0 \<le> room s')"
  using assms
proof (induction ps arbitrary: s)
  case Nil
  then show ?case by (intro exI [of _ "[]"]) simp
next
  case (Cons p ps)
  from Cons.prems(1) obtain t where t: "step p s = Inr t" and rest: "for_each step ps t = Inr s'"
    by (auto simp: sbind_Inr_iff)
  from step_law [OF t] show ?case
  proof
    assume same: "slots t = slots s \<and> room t = room s \<and> releases t = releases s"
    with Cons.IH [OF rest] Cons.prems(2) obtain qs rs where "subseq qs ps \<and> releases s' = releases s @ rs
        \<and> list_all2 fits qs rs \<and> slots s' = slots s - int (length qs) \<and> 0 \<le> slots s'
        \<and> room s' = room s - int (length (filter healthy qs)) \<and> (filter healthy qs \<noteq> [] \<longrightarrow> 0 \<le> room s')"
      by fastforce
    then show ?thesis by (intro exI [of _ qs] exI [of _ rs]) auto
  next
    assume used: "slots s \<noteq> 0 \<and> (healthy p \<longrightarrow> 0 < room s) \<and> slots t = slots s - 1
      \<and> room t = room s - (if healthy p then 1 else 0) \<and> (\<exists>r. releases t = releases s @ [r] \<and> fits p r)"
    then obtain r where r: "releases t = releases s @ [r]" "fits p r" by blast
    from used Cons.prems(2) have "0 \<le> slots t" by simp
    from Cons.IH [OF rest this] r(1) obtain qs rs where qs: "subseq qs ps \<and> releases s' = releases s @ r # rs
        \<and> list_all2 fits qs rs \<and> slots s' = slots t - int (length qs) \<and> 0 \<le> slots s'
        \<and> room s' = room t - int (length (filter healthy qs)) \<and> (filter healthy qs \<noteq> [] \<longrightarrow> 0 \<le> room s')"
      by fastforce
    have "healthy p \<longrightarrow> 0 \<le> room s'"
      using used qs by (cases "filter healthy qs = []") auto
    with qs r(2) used show ?thesis by (intro exI [of _ "p # qs"] exI [of _ "r # rs"]) auto
  qed
qed

end

definition runtime_of :: "ClusterRuntime list \<Rightarrow> PlannedCluster \<Rightarrow> ClusterRuntime" where
  "runtime_of clusters p = clusters ! pc_Order p"

definition desired_version :: "FrozenRollout \<Rightarrow> PlannedCluster \<Rightarrow> VersionIdentity" where
  "desired_version plan p = (case pc_Desired p of None \<Rightarrow> fr_Desired plan | Some d \<Rightarrow> d)"

definition apply_fits ::
    "decision_json \<Rightarrow> FrozenRollout \<Rightarrow> gotime \<Rightarrow> nat \<Rightarrow> ClusterRuntime list \<Rightarrow> PlannedCluster \<Rightarrow> Release \<Rightarrow> bool" where
  "apply_fits D plan now k clusters p r \<longleftrightarrow>
     pc_Cohort p = k \<and> ru_State (runtime_of clusters p) = RolloutClusterPending \<and> ru_Connected (runtime_of clusters p)
     \<and> newRelease D plan p (runtime_of clusters p) AssignmentApply (desired_version plan p) now = Inr r"

interpretation apply_loop: release_loop "apply_step D plan now k clusters" as_slots as_room as_releases
    "\<lambda>p. ru_Available (runtime_of clusters p)" "apply_fits D plan now k clusters"
  for D plan now k clusters
proof
  fix p s s'
  assume "apply_step D plan now k clusters p s = Inr s'"
  then show "as_slots s' = as_slots s \<and> as_room s' = as_room s \<and> as_releases s' = as_releases s
    \<or> as_slots s \<noteq> 0 \<and> (ru_Available (runtime_of clusters p) \<longrightarrow> 0 < as_room s) \<and> as_slots s' = as_slots s - 1
      \<and> as_room s' = as_room s - (if ru_Available (runtime_of clusters p) then 1 else 0)
      \<and> (\<exists>r. as_releases s' = as_releases s @ [r] \<and> apply_fits D plan now k clusters p r)"
    by (auto simp: apply_step_def runtime_of_def apply_fits_def desired_version_def Let_def sbind_Inr_iff split: if_splits)
qed

definition rollback_fits ::
    "decision_json \<Rightarrow> FrozenRollout \<Rightarrow> gotime \<Rightarrow> ClusterRuntime list \<Rightarrow> PlannedCluster \<Rightarrow> Release \<Rightarrow> bool" where
  "rollback_fits D plan now clusters p r \<longleftrightarrow>
     ru_EverReleased (runtime_of clusters p) \<and> ru_Connected (runtime_of clusters p)
     \<and> canStartRollback (ru_State (runtime_of clusters p))
     \<and> (\<exists>previous. pc_Previous p = Some previous
         \<and> newRelease D plan p (runtime_of clusters p) AssignmentRollback (pv_Version previous) now = Inr r)"

interpretation rollback_loop: release_loop "rollback_step D snapshot now clusters limit" rk_slots
    "\<lambda>s. limit - rk_atRisk s" "\<lambda>s. de_Releases (rk_decision s)"
    "\<lambda>p. ru_Available (runtime_of clusters p)" "rollback_fits D (rs_Plan snapshot) now clusters"
  for D snapshot now clusters limit
proof
  fix p s s'
  assume "rollback_step D snapshot now clusters limit p s = Inr s'"
  then show "rk_slots s' = rk_slots s \<and> limit - rk_atRisk s' = limit - rk_atRisk s
      \<and> de_Releases (rk_decision s') = de_Releases (rk_decision s)
    \<or> rk_slots s \<noteq> 0 \<and> (ru_Available (runtime_of clusters p) \<longrightarrow> 0 < limit - rk_atRisk s) \<and> rk_slots s' = rk_slots s - 1
      \<and> limit - rk_atRisk s' = limit - rk_atRisk s - (if ru_Available (runtime_of clusters p) then 1 else 0)
      \<and> (\<exists>r. de_Releases (rk_decision s') = de_Releases (rk_decision s) @ [r]
           \<and> rollback_fits D (rs_Plan snapshot) now clusters p r)"
    by (auto simp: rollback_step_def runtime_of_def rollback_fits_def Let_def split: if_splits option.splits sum.splits)
qed

section \<open>Counting\<close>

definition in_flight :: "FrozenRollout \<Rightarrow> gotime \<Rightarrow> ClusterRuntime list \<Rightarrow> int" where
  "in_flight plan now cs = int (length (filter (\<lambda>c. consumesConcurrency c (st_MinReady (fr_Strategy plan)) now) cs))"

definition at_risk :: "FrozenRollout \<Rightarrow> gotime \<Rightarrow> ClusterRuntime list \<Rightarrow> int" where
  "at_risk plan now cs =
     int (length (filter (\<lambda>c. consumesConcurrency c (st_MinReady (fr_Strategy plan)) now \<or> \<not> ru_Available c) cs))"

text \<open>The runtime rows once the releases of a decision are applied.\<close>

definition released_runtime :: "Decision \<Rightarrow> ClusterRuntime list \<Rightarrow> ClusterRuntime list" where
  "released_runtime d cs = map (\<lambda>c. case find (\<lambda>r. rl_ClusterID r = ru_ClusterID c) (de_Releases d) of
       None \<Rightarrow> c | Some r \<Rightarrow> c\<lparr>ru_State := rl_ToState r\<rparr>) cs"

lemma budget_fold:
  "fold (budget_step (st_MinReady (fr_Strategy plan)) now) cs (a, b) = (a + in_flight plan now cs, b + at_risk plan now cs)"
  by (induction cs arbitrary: a b) (auto simp: budget_step_def in_flight_def at_risk_def)

lemma runtime_rows:
  assumes "FrozenRollout_Validate E J plan = Inr ()" and "validateRuntime plan input = Inr clusters"
  shows "length clusters = length (fr_Clusters plan)" and "map (runtime_of clusters) (fr_Clusters plan) = clusters"
    and "mset clusters = mset input" and "\<forall>c \<in> set clusters. runtime_ok c"
    and "p \<in> set (fr_Clusters plan) \<Longrightarrow> ru_ClusterID (runtime_of clusters p) = pc_ClusterID p"
    and "distinct (map ru_ClusterID clusters)"
proof -
  let ?rows = "fr_Clusters plan"
  note order = validated_order [OF assms(1)]
  note run = assms(2) [unfolded validateRuntime_iff]
  have clusters: "clusters = map (\<lambda>p. the (lookup_runtime input (pc_ClusterID p))) ?rows"
    and dist: "distinct (map ru_ClusterID input)" and len: "length input = length ?rows"
    and found: "\<forall>p \<in> set ?rows. lookup_runtime input (pc_ClusterID p) \<noteq> None"
    and ok: "\<forall>c \<in> set input. runtime_ok c"
    using run by auto
  show length: "length clusters = length ?rows" by (simp add: clusters)
  show rows: "map (runtime_of clusters) ?rows = clusters"
    by (rule nth_equalityI) (simp_all add: runtime_of_def order(1) length)
  have look: "the (lookup_runtime input (pc_ClusterID p)) \<in> set input
      \<and> ru_ClusterID (the (lookup_runtime input (pc_ClusterID p))) = pc_ClusterID p" if "p \<in> set ?rows" for p
  proof -
    from bspec [OF found that] obtain c where "lookup_runtime input (pc_ClusterID p) = Some c" by blast
    then show ?thesis using lookup_runtime_Some [OF dist, of "pc_ClusterID p" c] by simp
  qed
  then have sub: "set clusters \<subseteq> set input" and "map ru_ClusterID clusters = map pc_ClusterID ?rows"
    by (auto simp: clusters)
  then show ids: "distinct (map ru_ClusterID clusters)" using order(3) by simp
  then have d: "distinct clusters" and di: "distinct input" using dist by (simp_all add: distinct_map)
  have "set clusters = set input"
    using sub d di len length by (intro card_subset_eq) (simp_all add: distinct_card)
  with d di show "mset clusters = mset input" by (simp add: set_eq_iff_mset_eq_distinct)
  show "\<forall>c \<in> set clusters. runtime_ok c" using ok sub by blast
  show "ru_ClusterID (runtime_of clusters p) = pc_ClusterID p" if "p \<in> set ?rows"
  proof -
    have "runtime_of clusters p = the (lookup_runtime input (pc_ClusterID p))"
      using order(2) [OF that] by (simp add: runtime_of_def clusters)
    with look [OF that] show ?thesis by simp
  qed
qed

lemma length_filter_mset:
  assumes "mset xs = mset ys"
  shows "length (filter P xs) = length (filter P ys)"
proof -
  have "size (mset (filter P xs)) = size (mset (filter P ys))" by (simp only: mset_filter assms)
  then show ?thesis by (simp only: size_mset)
qed

lemma length_filter_rows:
  assumes "FrozenRollout_Validate E J plan = Inr ()" and "validateRuntime plan input = Inr clusters"
  shows "length (filter P input) = length (filter (\<lambda>p. P (runtime_of clusters p)) (fr_Clusters plan))"
proof -
  have "length (filter P input) = length (filter P clusters)"
    by (rule length_filter_mset) (simp add: runtime_rows(3) [OF assms])
  also have "\<dots> = length (filter P (map (runtime_of clusters) (fr_Clusters plan)))"
    by (simp only: runtime_rows(2) [OF assms])
  finally show ?thesis by (simp add: filter_map comp_def)
qed


lemma released_uniform:
  assumes "\<forall>r \<in> set (de_Releases d). rl_ToState r = t"
  shows "released_runtime d cs =
    map (\<lambda>c. if ru_ClusterID c \<in> rl_ClusterID ` set (de_Releases d) then c\<lparr>ru_State := t\<rparr> else c) cs"
proof -
  have "(case find (\<lambda>r. rl_ClusterID r = ru_ClusterID c) (de_Releases d) of None \<Rightarrow> c | Some r \<Rightarrow> c\<lparr>ru_State := rl_ToState r\<rparr>)
      = (if ru_ClusterID c \<in> rl_ClusterID ` set (de_Releases d) then c\<lparr>ru_State := t\<rparr> else c)" for c :: ClusterRuntime
  proof (cases "find (\<lambda>r. rl_ClusterID r = ru_ClusterID c) (de_Releases d)")
    case None
    then have "ru_ClusterID c \<notin> rl_ClusterID ` set (de_Releases d)" by (auto simp: find_None_iff)
    with None show ?thesis by simp
  next
    case (Some r)
    from find_SomeD [OF Some] assms have "rl_ToState r = t" "ru_ClusterID c \<in> rl_ClusterID ` set (de_Releases d)"
      by (auto intro: rev_image_eqI)
    with Some show ?thesis by simp
  qed
  then show ?thesis unfolding released_runtime_def by (simp only:)
qed

lemma count_with_released:
  assumes "distinct rows" and "distinct qs" and "set qs \<subseteq> set rows"
  shows "length (filter (\<lambda>p. p \<in> set qs \<or> Q p) rows) = length (filter Q rows) + length (filter (\<lambda>p. \<not> Q p) qs)"
proof -
  have "set (filter (\<lambda>p. p \<in> set qs \<or> Q p) rows) = set (filter Q rows) \<union> set (filter (\<lambda>p. \<not> Q p) qs)"
    using assms(3) by auto
  moreover have "set (filter Q rows) \<inter> set (filter (\<lambda>p. \<not> Q p) qs) = {}" by auto
  ultimately have "card (set (filter (\<lambda>p. p \<in> set qs \<or> Q p) rows))
      = card (set (filter Q rows)) + card (set (filter (\<lambda>p. \<not> Q p) qs))"
    by (simp add: card_Un_disjoint)
  with assms(1,2) show ?thesis by (simp add: distinct_card del: set_filter)
qed

text \<open>Counts after the releases, for releases that stand for the planned clusters \<open>qs\<close>.\<close>

lemma count_after_release:
  assumes plan: "FrozenRollout_Validate E J plan = Inr ()" and run: "validateRuntime plan input = Inr clusters"
    and dq: "distinct qs" and sub: "set qs \<subseteq> set (fr_Clusters plan)"
    and ids: "rl_ClusterID ` set (de_Releases d) = pc_ClusterID ` set qs"
    and state: "\<forall>r \<in> set (de_Releases d). rl_ToState r = t"
    and holds: "\<And>p. p \<in> set qs \<Longrightarrow> P ((runtime_of clusters p)\<lparr>ru_State := t\<rparr>)"
  shows "length (filter P (released_runtime d input))
    = length (filter P input) + length (filter (\<lambda>p. \<not> P (runtime_of clusters p)) qs)"
proof -
  let ?rows = "fr_Clusters plan"
  let ?ids = "rl_ClusterID ` set (de_Releases d)"
  let ?new = "\<lambda>c. if ru_ClusterID c \<in> ?ids then c\<lparr>ru_State := t\<rparr> else c"
  have dist: "distinct (map pc_ClusterID ?rows)" by (rule validated_order(3) [OF plan])
  have mem: "ru_ClusterID (runtime_of clusters p) \<in> ?ids \<longleftrightarrow> p \<in> set qs" if "p \<in> set ?rows" for p
  proof -
    have "pc_ClusterID p \<in> pc_ClusterID ` set qs \<longleftrightarrow> p \<in> set qs"
      using dist sub that by (auto simp: distinct_map dest: inj_onD)
    then show ?thesis using runtime_rows(5) [OF plan run that] ids by simp
  qed
  have "length (filter P (released_runtime d input)) = length (filter (\<lambda>c. P (?new c)) input)"
    by (simp add: released_uniform [OF state] filter_map comp_def)
  also have "\<dots> = length (filter (\<lambda>p. P (?new (runtime_of clusters p))) ?rows)"
    by (rule length_filter_rows [OF plan run])
  also have "\<dots> = length (filter (\<lambda>p. p \<in> set qs \<or> P (runtime_of clusters p)) ?rows)"
    using mem holds by (intro arg_cong [of _ _ length] filter_cong) auto
  also have "\<dots> = length (filter (\<lambda>p. P (runtime_of clusters p)) ?rows) + length (filter (\<lambda>p. \<not> P (runtime_of clusters p)) qs)"
    using dist dq sub by (intro count_with_released) (simp_all add: distinct_map)
  also have "length (filter (\<lambda>p. P (runtime_of clusters p)) ?rows) = length (filter P input)"
    by (rule length_filter_rows [OF plan run, symmetric])
  finally show ?thesis .
qed


section \<open>Outcomes of a progressing rollout\<close>

definition needs_transition :: "FrozenRollout \<Rightarrow> gotime \<Rightarrow> ClusterRuntime \<Rightarrow> bool" where
  "needs_transition plan now c \<longleftrightarrow>
     ru_State c = RolloutClusterPending \<and> \<not> ru_Connected c \<or> ru_State c = RolloutClusterBlocked \<and> ru_Connected c
     \<or> isApplyActive (ru_State c) \<and> deadlineFor plan c \<le> now"

definition transition_fits :: "ClusterRuntime \<Rightarrow> ClusterTransition \<Rightarrow> bool" where
  "transition_fits c t \<longleftrightarrow> tr_ClusterID t = ru_ClusterID c \<and> tr_From t = ru_State c \<and> tr_ExpectedFence t = ru_Fence c
     \<and> cluster_allows (tr_From t) (tr_To t)"

lemma transition_added:
  assumes "addClusterTransition d c t code = Inr d'" and "ru_State c \<noteq> t"
  shows "\<exists>tr. transition_fits c tr \<and> d' = d\<lparr>de_ClusterTransitions := de_ClusterTransitions d @ [tr]\<rparr>"
  using assms
  by (intro exI [of _ "\<lparr>tr_ClusterID = ru_ClusterID c, tr_From = ru_State c, tr_To = t,
            tr_ExpectedFence = ru_Fence c, tr_Code = code\<rparr>"])
    (simp add: addClusterTransition_Inr transition_fits_def)

lemma reconnect_step_Inr:
  assumes "reconnect_step plan now c d = Inr d'"
  shows "if needs_transition plan now c
     then \<exists>t. transition_fits c t \<and> d' = d\<lparr>de_ClusterTransitions := de_ClusterTransitions d @ [t]\<rparr>
     else d' = d"
proof (cases "needs_transition plan now c")
  case True
  with assms have "\<exists>t code. addClusterTransition d c t code = Inr d' \<and> ru_State c \<noteq> t"
    by (auto simp: reconnect_step_def needs_transition_def isApplyActive_def not_less split: if_splits)
  with True transition_added show ?thesis by (auto simp only: if_True)
next
  case False
  with assms show ?thesis
    by (auto simp: reconnect_step_def needs_transition_def not_less split: if_splits)
qed

lemma reconnect_loop:
  assumes "for_each (reconnect_step plan now) cs d = Inr d'"
  shows "\<exists>ts. d' = d\<lparr>de_ClusterTransitions := de_ClusterTransitions d @ ts\<rparr>
    \<and> list_all2 transition_fits (filter (needs_transition plan now) cs) ts"
  using assms
proof (induction cs arbitrary: d)
  case (Cons c cs)
  from Cons.prems obtain e where e: "reconnect_step plan now c d = Inr e"
    and rest: "for_each (reconnect_step plan now) cs e = Inr d'"
    by (auto simp: sbind_Inr_iff)
  from Cons.IH [OF rest] obtain ts where ts: "d' = e\<lparr>de_ClusterTransitions := de_ClusterTransitions e @ ts\<rparr>"
    "list_all2 transition_fits (filter (needs_transition plan now) cs) ts" by blast
  show ?case
  proof (cases "needs_transition plan now c")
    case True
    with reconnect_step_Inr [OF e] obtain t where "transition_fits c t"
      "e = d\<lparr>de_ClusterTransitions := de_ClusterTransitions d @ [t]\<rparr>" by auto
    with ts True show ?thesis by (intro exI [of _ "t # ts"]) simp
  next
    case False
    with reconnect_step_Inr [OF e] ts show ?thesis by (intro exI [of _ ts]) simp
  qed
qed simp

text \<open>The conditions under which the active cohort \<open>k\<close> may be released.\<close>

definition gates_open :: "EvaluateInput \<Rightarrow> nat \<Rightarrow> gotime \<Rightarrow> bool" where
  "gates_open input k completedAt \<longleftrightarrow>
     (let plan = rs_Plan (ei_Snapshot input); now = ei_Now input; cohort = fr_Cohorts plan ! k in
      (k > 0 \<longrightarrow> completedAt + co_SoakAfter (fr_Cohorts plan ! (k - 1)) \<le> now)
    \<and> (co_ApprovalRequired cohort \<longrightarrow> (\<exists>a. fmlookup (ei_CohortApprovals input) (co_Index cohort) = Some a
         \<and> validFor a (co_ApprovalDigest cohort) now \<and> ad_Approved a))
    \<and> (st_RespectMaintenanceWindows (fr_Strategy plan) \<longrightarrow> allowsRelease (ei_Maintenance input)))"

definition budget_ok :: "FrozenRollout \<Rightarrow> gotime \<Rightarrow> ClusterRuntime list \<Rightarrow> PlannedCluster list \<Rightarrow> bool" where
  "budget_ok plan now clusters qs \<longleftrightarrow>
     in_flight plan now clusters + int (length qs) \<le> uint (st_MaxConcurrent (fr_Strategy plan))
   \<and> (let healthy = filter (\<lambda>p. ru_Available (runtime_of clusters p)) qs in
      healthy \<noteq> [] \<longrightarrow> at_risk plan now clusters + int (length healthy)
        \<le> amountLimit (st_MaxUnavailable (fr_Strategy plan)) (int (length clusters)))"

lemma release_batch_Inr:
  assumes "release_batch D plan now clusters k d = Inr d'" and "de_Releases d = []"
  shows "(\<exists>b. d' = d\<lparr>de_Blocked := b\<rparr> \<and> b \<noteq> BlockNone)
    \<or> (\<exists>qs rs b. d' = d\<lparr>de_Releases := rs, de_Blocked := b\<rparr> \<and> subseq qs (fr_Clusters plan)
        \<and> list_all2 (apply_fits D plan now k clusters) qs rs \<and> budget_ok plan now clusters qs)"
proof (cases "uint (st_MaxConcurrent (fr_Strategy plan)) - in_flight plan now clusters \<le> 0")
  case True
  with assms(1) show ?thesis by (auto simp: release_batch_def budget_fold)
next
  case False
  let ?s0 = "\<lparr>as_slots = uint (st_MaxConcurrent (fr_Strategy plan)) - in_flight plan now clusters,
    as_room = amountLimit (st_MaxUnavailable (fr_Strategy plan)) (int (length clusters)) - at_risk plan now clusters,
    as_blocked = False, as_releases = []\<rparr>"
  from assms False obtain s where loop: "for_each (apply_step D plan now k clusters) (fr_Clusters plan) ?s0 = Inr s"
    and d': "d' = d\<lparr>de_Releases := as_releases s, de_Blocked := de_Blocked d'\<rparr>"
    by (auto simp: release_batch_def budget_fold Let_def sbind_Inr_iff split: if_splits)
  from False have "0 \<le> as_slots ?s0" by simp
  from apply_loop.loop_budget [OF loop this] obtain qs rs where qs: "subseq qs (fr_Clusters plan)
      \<and> as_releases s = as_releases ?s0 @ rs \<and> list_all2 (apply_fits D plan now k clusters) qs rs
      \<and> as_slots s = as_slots ?s0 - int (length qs) \<and> 0 \<le> as_slots s
      \<and> as_room s = as_room ?s0 - int (length (filter (\<lambda>p. ru_Available (runtime_of clusters p)) qs))
      \<and> (filter (\<lambda>p. ru_Available (runtime_of clusters p)) qs \<noteq> [] \<longrightarrow> 0 \<le> as_room s)"
    by blast
  have "budget_ok plan now clusters qs"
    using qs unfolding budget_ok_def Let_def by auto
  moreover from qs have "subseq qs (fr_Clusters plan)" "list_all2 (apply_fits D plan now k clusters) qs (as_releases s)"
    by simp_all
  ultimately show ?thesis using d' by blast
qed

lemma release_cohort_Inr:
  assumes "release_cohort D input clusters k completedAt d = Inr d'" and "de_Releases d = []"
  shows "(\<exists>b. d' = d\<lparr>de_Blocked := b\<rparr> \<and> b \<noteq> BlockNone)
    \<or> setRolloutTransition d (ei_Snapshot input) RolloutPaused ''cohort_approval_rejected'' = Inr d'
    \<or> gates_open input k completedAt
      \<and> release_batch D (rs_Plan (ei_Snapshot input)) (ei_Now input) clusters k d = Inr d'
      \<and> (\<exists>qs rs b. d' = d\<lparr>de_Releases := rs, de_Blocked := b\<rparr> \<and> subseq qs (fr_Clusters (rs_Plan (ei_Snapshot input)))
        \<and> list_all2 (apply_fits D (rs_Plan (ei_Snapshot input)) (ei_Now input) k clusters) qs rs
        \<and> budget_ok (rs_Plan (ei_Snapshot input)) (ei_Now input) clusters qs)"
proof (cases "gates_open input k completedAt")
  case True
  with assms(1) have batch: "release_batch D (rs_Plan (ei_Snapshot input)) (ei_Now input) clusters k d = Inr d'"
    by (auto simp: release_cohort_def gates_open_def Let_def split: if_splits)
  from release_batch_Inr [OF batch assms(2)] True batch show ?thesis by blast
next
  case False
  with assms(1) show ?thesis
    by (auto simp: release_cohort_def gates_open_def Let_def split: if_splits option.splits)
qed


lemma progressing_cases:
  assumes "evaluateProgressing D input clusters d = Inr d'" and "de_Releases d = []" and "de_ClusterTransitions d = []"
  defines "plan \<equiv> rs_Plan (ei_Snapshot input)"
  obtains (transitions) ts where "d' = d\<lparr>de_ClusterTransitions := ts\<rparr>" and "ts \<noteq> []"
      and "list_all2 transition_fits (filter (needs_transition plan (ei_Now input)) clusters) ts"
  | (rollout) t code where "t \<in> {RolloutFailed, RolloutPaused, RolloutSucceeded}"
      and "setRolloutTransition d (ei_Snapshot input) t code = Inr d'"
      and "\<forall>c \<in> set clusters. \<not> needs_transition plan (ei_Now input) c"
  | (blocked) b where "d' = d\<lparr>de_Blocked := b\<rparr>" and "b \<noteq> BlockNone"
      and "\<forall>c \<in> set clusters. \<not> needs_transition plan (ei_Now input) c"
  | (batch) k completedAt qs rs b where "activeCohort plan clusters (ei_Now input) = Inr (k, completedAt, False)"
      and "gates_open input k completedAt" and "ei_Now input < fr_Deadline plan"
      and "\<not> failureBudgetExceeded (st_FailureThreshold (fr_Strategy plan)) (int (length clusters)) (ct_Failed (de_Counters d))
           \<or> (\<exists>x. st_OnFailure (fr_Strategy plan) = FailureOther x)"
      and "d' = d\<lparr>de_Releases := rs, de_Blocked := b\<rparr>" and "subseq qs (fr_Clusters plan)"
      and "list_all2 (apply_fits D plan (ei_Now input) k clusters) qs rs" and "budget_ok plan (ei_Now input) clusters qs"
      and "\<forall>c \<in> set clusters. \<not> needs_transition plan (ei_Now input) c"
      and "release_batch D plan (ei_Now input) clusters k d = Inr d'"
proof -
  from assms(1) obtain e where loop: "for_each (reconnect_step plan (ei_Now input)) clusters d = Inr e"
    by (auto simp: evaluateProgressing_def Let_def sbind_Inr_iff plan_def)
  from reconnect_loop [OF loop] assms(3) obtain ts where e: "e = d\<lparr>de_ClusterTransitions := ts\<rparr>"
    and ts: "list_all2 transition_fits (filter (needs_transition plan (ei_Now input)) clusters) ts" by auto
  show thesis
  proof (cases "ts = []")
    case False
    with assms(1) loop e have "d' = d\<lparr>de_ClusterTransitions := ts\<rparr>"
      by (simp add: evaluateProgressing_def Let_def plan_def)
    with False ts show thesis by (intro transitions)
  next
    case True
    with ts have quiet: "\<forall>c \<in> set clusters. \<not> needs_transition plan (ei_Now input) c"
      by (simp add: filter_empty_conv)
    from True e assms(3) have "e = d" by simp
    with assms(1,3) loop have "(\<exists>t code. t \<in> {RolloutFailed, RolloutPaused, RolloutSucceeded}
          \<and> setRolloutTransition d (ei_Snapshot input) t code = Inr d')
      \<or> ei_Now input < fr_Deadline plan
        \<and> (\<not> failureBudgetExceeded (st_FailureThreshold (fr_Strategy plan)) (int (length clusters)) (ct_Failed (de_Counters d))
           \<or> (\<exists>x. st_OnFailure (fr_Strategy plan) = FailureOther x))
        \<and> (\<exists>k completedAt. activeCohort plan clusters (ei_Now input) = Inr (k, completedAt, False)
             \<and> release_cohort D input clusters k completedAt d = Inr d')"
      unfolding evaluateProgressing_def Let_def plan_def
      by (cases "st_OnFailure (fr_Strategy (rs_Plan (ei_Snapshot input)))") (auto simp: sbind_Inr_iff split: if_splits)
    then consider (whole) t code where "t \<in> {RolloutFailed, RolloutPaused, RolloutSucceeded}"
        and "setRolloutTransition d (ei_Snapshot input) t code = Inr d'"
      | (cohort) k completedAt where "activeCohort plan clusters (ei_Now input) = Inr (k, completedAt, False)"
        and "ei_Now input < fr_Deadline plan" and "release_cohort D input clusters k completedAt d = Inr d'"
        and "\<not> failureBudgetExceeded (st_FailureThreshold (fr_Strategy plan)) (int (length clusters)) (ct_Failed (de_Counters d))
           \<or> (\<exists>x. st_OnFailure (fr_Strategy plan) = FailureOther x)"
      by blast
    then show thesis
    proof cases
      case whole
      then show thesis using quiet by (rule rollout)
    next
      case cohort
      from release_cohort_Inr [OF cohort(3) assms(2), folded plan_def]
      consider b where "d' = d\<lparr>de_Blocked := b\<rparr>" "b \<noteq> BlockNone"
        | "setRolloutTransition d (ei_Snapshot input) RolloutPaused ''cohort_approval_rejected'' = Inr d'"
        | qs rs b where "release_batch D plan (ei_Now input) clusters k d = Inr d'" "gates_open input k completedAt" "d' = d\<lparr>de_Releases := rs, de_Blocked := b\<rparr>"
          "subseq qs (fr_Clusters plan)" "list_all2 (apply_fits D plan (ei_Now input) k clusters) qs rs"
          "budget_ok plan (ei_Now input) clusters qs"
        by blast
      then show thesis
      proof cases
        case 1
        then show thesis using quiet by (rule blocked)
      next
        case 2
        then show thesis using quiet by (intro rollout [of RolloutPaused]) simp_all
      next
        case 3
        with cohort quiet show thesis by (intro batch)
      qed
    qed
  qed
qed


section \<open>Settled cohorts\<close>

definition settled :: "FrozenRollout \<Rightarrow> gotime \<Rightarrow> ClusterRuntime \<Rightarrow> bool" where
  "settled plan now c \<longleftrightarrow>
     ru_State c = RolloutClusterReady \<and> matureAt c (st_MinReady (fr_Strategy plan)) \<le> now
     \<or> ru_State c \<in> {RolloutClusterFailed, RolloutClusterTimedOut, RolloutClusterSkipped}"

definition settle_time :: "FrozenRollout \<Rightarrow> ClusterRuntime \<Rightarrow> gotime" where
  "settle_time plan c =
     (if ru_State c = RolloutClusterReady then matureAt c (st_MinReady (fr_Strategy plan)) else ru_StateChangedAt c)"

definition cohort_settled :: "FrozenRollout \<Rightarrow> gotime \<Rightarrow> ClusterRuntime list \<Rightarrow> nat \<Rightarrow> bool" where
  "cohort_settled plan now clusters k \<longleftrightarrow>
     (\<forall>p \<in> set (fr_Clusters plan). pc_Cohort p = k \<longrightarrow> settled plan now (runtime_of clusters p))"

lemma cohort_step_Inr:
  assumes "cohort_step plan clusters now k p (b, t) = Inr (b', t')"
  shows "if pc_Cohort p = k
    then (b' \<longleftrightarrow> b \<and> settled plan now (runtime_of clusters p)) \<and> t \<le> t'
      \<and> (settled plan now (runtime_of clusters p) \<longrightarrow> settle_time plan (runtime_of clusters p) \<le> t')
    else b' = b \<and> t' = t"
  using assms
  by (cases "ru_State (runtime_of clusters p)")
    (auto simp: cohort_step_def settled_def settle_time_def runtime_of_def Let_def split: if_splits)

lemma cohort_loop:
  assumes "for_each (cohort_step plan clusters now k) ps (b, t) = Inr (b', t')"
  shows "(b' \<longleftrightarrow> b \<and> (\<forall>p \<in> set ps. pc_Cohort p = k \<longrightarrow> settled plan now (runtime_of clusters p))) \<and> t \<le> t'
    \<and> (\<forall>p \<in> set ps. pc_Cohort p = k \<longrightarrow> settled plan now (runtime_of clusters p)
         \<longrightarrow> settle_time plan (runtime_of clusters p) \<le> t')"
  using assms
proof (induction ps arbitrary: b t)
  case (Cons p ps)
  from Cons.prems obtain b1 t1 where step: "cohort_step plan clusters now k p (b, t) = Inr (b1, t1)"
    and rest: "for_each (cohort_step plan clusters now k) ps (b1, t1) = Inr (b', t')"
    by (auto simp: sbind_Inr_iff)
  from cohort_step_Inr [OF step] Cons.IH [OF rest] show ?case by (auto split: if_splits)
qed simp

lemma active_from_Inr:
  assumes "active_from plan clusters now prev cs = Inr (k, at, complete)"
    and "\<forall>j < length cs. co_Index (cs ! j) = i + j"
  shows "if complete then \<forall>j. i \<le> j \<and> j < i + length cs \<longrightarrow> cohort_settled plan now clusters j
    else i \<le> k \<and> k < i + length cs \<and> (\<forall>j. i \<le> j \<and> j < k \<longrightarrow> cohort_settled plan now clusters j)
      \<and> \<not> cohort_settled plan now clusters k \<and> (k = i \<longrightarrow> at = prev)
      \<and> (i < k \<longrightarrow> (\<forall>p \<in> set (fr_Clusters plan). pc_Cohort p = k - 1 \<longrightarrow> settle_time plan (runtime_of clusters p) \<le> at))"
  using assms
proof (induction cs arbitrary: i prev)
  case (Cons c cs)
  from Cons.prems(2) have index: "co_Index c = i" and later: "\<forall>j < length cs. co_Index (cs ! j) = Suc i + j"
    by (auto simp: nth_Cons split: nat.splits dest: spec [of _ 0] spec [of _ "Suc _"])
  from Cons.prems(1) obtain b t where
    loop: "for_each (cohort_step plan clusters now i) (fr_Clusters plan) (True, fr_CreatedAt plan) = Inr (b, t)"
    and rest: "(if \<not> b then Inr (i, prev, False) else active_from plan clusters now t cs) = Inr (k, at, complete)"
    unfolding active_from.simps index by (auto simp: sbind_Inr_iff)
  have b: "b \<longleftrightarrow> cohort_settled plan now clusters i"
    and t: "b \<Longrightarrow> \<forall>p \<in> set (fr_Clusters plan). pc_Cohort p = i \<longrightarrow> settle_time plan (runtime_of clusters p) \<le> t"
    using cohort_loop [OF loop] by (auto simp: cohort_settled_def)
  show ?case
  proof (cases b)
    case False
    with rest b show ?thesis by auto
  next
    case True
    with rest have act: "active_from plan clusters now t cs = Inr (k, at, complete)" by simp
    note IH = Cons.IH [OF act later]
    have from_i: "i \<le> j \<longleftrightarrow> j = i \<or> Suc i \<le> j" for j by auto
    show ?thesis
    proof (cases complete)
      case complete: True
      with IH b \<open>b\<close> show ?thesis by (simp add: from_i) blast
    next
      case incomplete: False
      with IH have k: "Suc i \<le> k" "k < Suc i + length cs" "\<not> cohort_settled plan now clusters k"
        "\<forall>j. Suc i \<le> j \<and> j < k \<longrightarrow> cohort_settled plan now clusters j"
        "Suc i < k \<longrightarrow> (\<forall>p \<in> set (fr_Clusters plan). pc_Cohort p = k - 1 \<longrightarrow> settle_time plan (runtime_of clusters p) \<le> at)"
        by auto
      have first: "at = t" if "k = Suc i"
        using IH incomplete that by auto
      have "\<forall>j. i \<le> j \<and> j < k \<longrightarrow> cohort_settled plan now clusters j"
        using k(4) b \<open>b\<close> by (simp add: from_i) blast
      moreover have "\<forall>p \<in> set (fr_Clusters plan). pc_Cohort p = k - 1 \<longrightarrow> settle_time plan (runtime_of clusters p) \<le> at"
        using k(1,5) t [OF \<open>b\<close>] first by (cases "k = Suc i") auto
      ultimately show ?thesis using k incomplete by auto
    qed
  qed
qed (auto split: if_splits)


lemma activeCohort_Inr:
  assumes "FrozenRollout_Validate E J plan = Inr ()" and "activeCohort plan clusters now = Inr (k, at, False)"
  shows "k < length (fr_Cohorts plan)" and "\<And>j. j < k \<Longrightarrow> cohort_settled plan now clusters j"
    and "\<not> cohort_settled plan now clusters k"
    and "0 < k \<Longrightarrow> p \<in> set (fr_Clusters plan) \<Longrightarrow> pc_Cohort p = k - 1 \<Longrightarrow> settle_time plan (runtime_of clusters p) \<le> at"
  using active_from_Inr [OF assms(2) [unfolded activeCohort_def], of 0] validated_order(4) [OF assms(1)] by auto

section \<open>From the decision back to the input\<close>

lemma Scheduler_Evaluate_Inr:
  assumes "Scheduler_Evaluate E J D input = Inr d"
  defines "plan \<equiv> rs_Plan (ei_Snapshot input)"
  obtains clusters counters e digest where "FrozenRollout_Validate E J plan = Inr ()"
    and "rollout_valid (rs_State (ei_Snapshot input))"
    and "Lease_validate (ei_Lease input) (ei_Now input) (rs_Fence (ei_Snapshot input)) = Inr ()"
    and "validateRuntime plan (rs_Clusters (ei_Snapshot input)) = Inr clusters"
    and "DeriveRolloutCounters (map ru_State clusters) = Inr counters"
    and "decide D input clusters (initial_decision (rs_Fence (ei_Snapshot input)) counters) = Inr e"
    and "d = (sorted_decision E e)\<lparr>de_ID := digest\<rparr>"
proof -
  from assms(1) obtain clusters where head: "FrozenRollout_Validate E J plan = Inr ()"
      "rollout_valid (rs_State (ei_Snapshot input))"
      "Lease_validate (ei_Lease input) (ei_Now input) (rs_Fence (ei_Snapshot input)) = Inr ()"
      "validateRuntime plan (rs_Clusters (ei_Snapshot input)) = Inr clusters"
    and body: "(case DeriveRolloutCounters (map ru_State clusters) of
          Inl e \<Rightarrow> Inl (RolloutStateErr e)
        | Inr counters \<Rightarrow>
            sbind (decide D input clusters (initial_decision (rs_Fence (ei_Snapshot input)) counters)) (\<lambda>d.
            case decisionDigest E D (fr_ID plan) d of
              None \<Rightarrow> Inl RolloutDigestErr
            | Some digest \<Rightarrow> Inr ((sorted_decision E d)\<lparr>de_ID := digest\<rparr>))) = Inr d"
    unfolding plan_def by (auto simp: Scheduler_Evaluate_def Let_def sbind_Inr_iff split: if_splits)
  from body obtain counters where counters: "DeriveRolloutCounters (map ru_State clusters) = Inr counters"
    by (cases "DeriveRolloutCounters (map ru_State clusters)") auto
  with body obtain e where e: "decide D input clusters (initial_decision (rs_Fence (ei_Snapshot input)) counters) = Inr e"
    and fin: "(case decisionDigest E D (fr_ID plan) e of
              None \<Rightarrow> Inl RolloutDigestErr
            | Some digest \<Rightarrow> Inr ((sorted_decision E e)\<lparr>de_ID := digest\<rparr>)) = Inr d"
    by (auto simp: sbind_Inr_iff)
  from fin obtain digest where "d = (sorted_decision E e)\<lparr>de_ID := digest\<rparr>"
    by (cases "decisionDigest E D (fr_ID plan) e") auto
  with head counters e show thesis by (rule that)
qed

lemma sorted_decision_fields [simp]:
  "set (de_Releases (sorted_decision E e)) = set (de_Releases e)"
  "set (de_ClusterTransitions (sorted_decision E e)) = set (de_ClusterTransitions e)"
  "de_Releases (sorted_decision E e) = [] \<longleftrightarrow> de_Releases e = []"
  "de_ClusterTransitions (sorted_decision E e) = [] \<longleftrightarrow> de_ClusterTransitions e = []"
  "de_RolloutTransition (sorted_decision E e) = de_RolloutTransition e"
  "de_Blocked (sorted_decision E e) = de_Blocked e" "de_Counters (sorted_decision E e) = de_Counters e"
  "distinct (map rl_ClusterID (de_Releases (sorted_decision E e))) \<longleftrightarrow> distinct (map rl_ClusterID (de_Releases e))"
  by (simp_all add: sorted_decision_def)

lemma initial_decision_fields [simp]:
  "de_Releases (initial_decision f n) = []" "de_ClusterTransitions (initial_decision f n) = []"
  "de_RolloutTransition (initial_decision f n) = None" "de_Counters (initial_decision f n) = n"
  "de_Blocked (initial_decision f n) = BlockNone" "de_ExpectedRolloutFence (initial_decision f n) = f"
  by (simp_all add: initial_decision_def)

lemma list_all2_fits_ids:
  assumes "list_all2 F qs rs" and "\<And>p r. F p r \<Longrightarrow> rl_ClusterID r = pc_ClusterID p"
  shows "map rl_ClusterID rs = map pc_ClusterID qs"
  using assms(1) by (induction rule: list_all2_induct) (simp_all add: assms(2))

lemma list_all2_in_right:
  assumes "list_all2 F qs rs" and "r \<in> set rs"
  obtains p where "p \<in> set qs" and "F p r"
  using assms by (induction rule: list_all2_induct) auto

lemma list_all2_in_left:
  assumes "list_all2 F qs rs" and "p \<in> set qs"
  obtains r where "r \<in> set rs" and "F p r"
  using assms by (induction rule: list_all2_induct) auto

lemma subseq_rows:
  assumes "subseq qs rows"
  shows "set qs \<subseteq> set rows" and "distinct (map f rows) \<Longrightarrow> distinct (map f qs)"
proof -
  from assms obtain I where I: "qs = nths rows I" by (auto simp: subseq_conv_nths)
  then show "set qs \<subseteq> set rows" by (auto dest: in_set_nthsD)
  show "distinct (map f rows) \<Longrightarrow> distinct (map f qs)"
    unfolding I nths_map [symmetric] by (rule distinct_nthsI)
qed

text \<open>The releases of a progressing rollout, with everything the code has checked.\<close>

lemma progressing_release:
  assumes "Scheduler_Evaluate E J D input = Inr d" and "rs_State (ei_Snapshot input) = RolloutProgressing"
    and "de_Releases d \<noteq> []"
  defines "plan \<equiv> rs_Plan (ei_Snapshot input)"
  obtains clusters k completedAt qs where "FrozenRollout_Validate E J plan = Inr ()"
    and "validateRuntime plan (rs_Clusters (ei_Snapshot input)) = Inr clusters"
    and "activeCohort plan clusters (ei_Now input) = Inr (k, completedAt, False)"
    and "gates_open input k completedAt" and "ei_Now input < fr_Deadline plan"
    and "\<not> failureBudgetExceeded (st_FailureThreshold (fr_Strategy plan)) (int (length clusters)) (ct_Failed (de_Counters d))"
    and "subseq qs (fr_Clusters plan)" and "budget_ok plan (ei_Now input) clusters qs"
    and "\<forall>r \<in> set (de_Releases d). \<exists>p \<in> set qs. apply_fits D plan (ei_Now input) k clusters p r"
    and "\<forall>p \<in> set qs. \<exists>r \<in> set (de_Releases d). apply_fits D plan (ei_Now input) k clusters p r"
    and "rl_ClusterID ` set (de_Releases d) = pc_ClusterID ` set qs"
    and "distinct (map rl_ClusterID (de_Releases d))"
    and "de_RolloutTransition d = None" and "de_ClusterTransitions d = []"
    and "DeriveRolloutCounters (map ru_State clusters) = Inr (de_Counters d)"
    and "Lease_validate (ei_Lease input) (ei_Now input) (rs_Fence (ei_Snapshot input)) = Inr ()"
proof -
  obtain clusters counters e digest where valid: "FrozenRollout_Validate E J plan = Inr ()"
    and lease: "Lease_validate (ei_Lease input) (ei_Now input) (rs_Fence (ei_Snapshot input)) = Inr ()"
    and counters: "DeriveRolloutCounters (map ru_State clusters) = Inr counters"
    and run: "validateRuntime plan (rs_Clusters (ei_Snapshot input)) = Inr clusters"
    and dec: "decide D input clusters (initial_decision (rs_Fence (ei_Snapshot input)) counters) = Inr e"
    and d: "d = (sorted_decision E e)\<lparr>de_ID := digest\<rparr>"
    by (rule Scheduler_Evaluate_Inr [OF assms(1), folded plan_def]) (rule that)
  let ?d0 = "initial_decision (rs_Fence (ei_Snapshot input)) counters"
  have strategy: "\<not> (\<exists>x. st_OnFailure (fr_Strategy plan) = FailureOther x)"
    using valid strategy_accepted(5) [of E "fr_Strategy plan"]
    by (auto simp: Validate_iff RolloutStrategy_CanonicalDigest_def split: if_splits)
  from dec assms(2) have "evaluateProgressing D input clusters ?d0 = Inr e" by (simp add: decide_def Let_def)
  from this initial_decision_fields(1,2) show thesis
  proof (cases rule: progressing_cases)
    case (batch k completedAt qs rs b)
    have fits: "list_all2 (apply_fits D plan (ei_Now input) k clusters) qs rs"
      using batch(7) by (simp add: plan_def)
    have ids: "map rl_ClusterID rs = map pc_ClusterID qs"
      by (rule list_all2_fits_ids [OF fits]) (auto simp: apply_fits_def dest: newRelease_Inr)
    have "distinct (map pc_ClusterID qs)"
      by (rule subseq_rows(2) [OF batch(6) validated_order(3) [OF valid [unfolded plan_def]]])
    moreover have "\<forall>r \<in> set (de_Releases d). \<exists>p \<in> set qs. apply_fits D plan (ei_Now input) k clusters p r"
      using list_all2_in_right [OF fits] by (simp add: d batch(5)) blast
    moreover have "\<forall>p \<in> set qs. \<exists>r \<in> set (de_Releases d). apply_fits D plan (ei_Now input) k clusters p r"
      using list_all2_in_left [OF fits] by (simp add: d batch(5)) blast
    moreover have "rl_ClusterID ` set rs = pc_ClusterID ` set qs"
      using arg_cong [OF ids, of set] by simp
    moreover have "\<not> failureBudgetExceeded (st_FailureThreshold (fr_Strategy plan)) (int (length clusters)) (ct_Failed (de_Counters d))"
      using batch(4) [folded plan_def] strategy by (simp add: d batch(5))
    ultimately show thesis
      by (intro that [OF valid run batch(1) [folded plan_def] batch(2) batch(3) [folded plan_def] _ batch(6) [folded plan_def]
            batch(8) [folded plan_def]])
        (simp_all add: d batch(5) ids counters lease)
  next
    case (transitions ts)
    with assms(3) show thesis by (simp add: d)
  next
    case (rollout t code)
    from rollout(2) assms(3) show thesis by (auto simp: d setRolloutTransition_Inr)
  next
    case (blocked b)
    with assms(3) show thesis by (simp add: d)
  qed
qed


lemma apply_fitsD:
  assumes "apply_fits D plan now k clusters p r"
  shows "pc_Cohort p = k" and "ru_State (runtime_of clusters p) = RolloutClusterPending"
    and "ru_Connected (runtime_of clusters p)" and "rl_ClusterID r = pc_ClusterID p"
    and "rl_Action r = AssignmentApply" and "rl_Version r = desired_version plan p"
    and "rl_Generation r = ru_CurrentGeneration (runtime_of clusters p) + 1"
    and "ru_CurrentGeneration (runtime_of clusters p) \<noteq> int64_max"
    and "rl_ExpectedFence r = ru_Fence (runtime_of clusters p)"
    and "rl_FromState r = RolloutClusterPending" and "rl_ToState r = RolloutClusterReleased"
    and "rl_Deadline r = fr_Deadline plan"
proof -
  note fits = assms [unfolded apply_fits_def]
  then show "pc_Cohort p = k" and pending: "ru_State (runtime_of clusters p) = RolloutClusterPending"
    and "ru_Connected (runtime_of clusters p)" by simp_all
  from fits have new: "newRelease D plan p (runtime_of clusters p) AssignmentApply (desired_version plan p) now = Inr r"
    by simp
  show "rl_ClusterID r = pc_ClusterID p" and "rl_Action r = AssignmentApply" and "rl_Version r = desired_version plan p"
    and "rl_Generation r = ru_CurrentGeneration (runtime_of clusters p) + 1"
    and "ru_CurrentGeneration (runtime_of clusters p) \<noteq> int64_max"
    and "rl_ExpectedFence r = ru_Fence (runtime_of clusters p)"
    and "rl_FromState r = RolloutClusterPending" and "rl_ToState r = RolloutClusterReleased"
    and "rl_Deadline r = fr_Deadline plan"
    using newRelease_Inr [OF new] pending by (simp_all add: action_state_def)
qed

definition failed_clusters :: "ClusterRuntime list \<Rightarrow> int" where
  "failed_clusters rows = int (length (filter (\<lambda>c. ru_State c
     \<in> {RolloutClusterFailed, RolloutClusterTimedOut, RolloutClusterRollbackFailed}) rows))"

lemma counted_failures:
  assumes "DeriveRolloutCounters (map ru_State clusters) = Inr n" and "mset clusters = mset rows"
  shows "ct_Failed n = failed_clusters rows"
proof -
  from assms(1) have "list_all cluster_valid (map ru_State clusters)"
    using counters_fail_iff [of "map ru_State clusters"] by (auto simp: list_all_iff)
  with assms(1) have "ct_Failed n = count_in RolloutClusterFailed (map ru_State clusters)"
    by (auto simp: DeriveRolloutCounters_def counters_loop zero_counters_def Let_def)
  also have "\<dots> = failed_clusters clusters"
    by (simp add: failed_clusters_def filter_map comp_def cluster_class_def)
  also have "\<dots> = failed_clusters rows"
    unfolding failed_clusters_def using length_filter_mset [OF assms(2)] by simp
  finally show ?thesis .
qed

lemma counts_permuted:
  assumes "mset clusters = mset rows"
  shows "in_flight plan now clusters = in_flight plan now rows" and "at_risk plan now clusters = at_risk plan now rows"
  unfolding in_flight_def at_risk_def using length_filter_mset [OF assms] by simp_all

lemma release_fits_slots:
  assumes "Scheduler_Evaluate E J D input = Inr d" and "rs_State (ei_Snapshot input) = RolloutProgressing"
    and "de_Releases d \<noteq> []"
  defines "plan \<equiv> rs_Plan (ei_Snapshot input)"
  shows "in_flight plan (ei_Now input) (rs_Clusters (ei_Snapshot input)) + int (length (de_Releases d))
    \<le> uint (st_MaxConcurrent (fr_Strategy plan))" and "de_ClusterTransitions d = []"
proof -
  obtain clusters k qs where valid: "FrozenRollout_Validate E J plan = Inr ()"
    and run: "validateRuntime plan (rs_Clusters (ei_Snapshot input)) = Inr clusters"
    and qs: "subseq qs (fr_Clusters plan)" and budget: "budget_ok plan (ei_Now input) clusters qs"
    and ids: "rl_ClusterID ` set (de_Releases d) = pc_ClusterID ` set qs"
    and dist: "distinct (map rl_ClusterID (de_Releases d))" and none: "de_ClusterTransitions d = []"
    by (rule progressing_release [OF assms(1-3), folded plan_def]) (rule that)
  have "distinct (map pc_ClusterID qs)" by (rule subseq_rows(2) [OF qs validated_order(3) [OF valid]])
  with dist ids have "length (de_Releases d) = length qs"
    by (metis distinct_card length_map list.set_map)
  with budget counts_permuted(1) [OF runtime_rows(3) [OF valid run]]
  show "in_flight plan (ei_Now input) (rs_Clusters (ei_Snapshot input)) + int (length (de_Releases d))
    \<le> uint (st_MaxConcurrent (fr_Strategy plan))"
    by (simp add: budget_ok_def Let_def)
  show "de_ClusterTransitions d = []" by (rule none)
qed

section \<open>Properties of a progressing rollout\<close>

text \<open>C29. The budgets are hard.  Once the releases of a decision are applied, no more than
  \<open>max_concurrent\<close> clusters are in flight, and the number of clusters that are in flight or
  unavailable is within \<open>max_unavailable\<close>, or no larger than before: the only releases made
  above the limit are repairs of clusters that were already unavailable.\<close>

theorem release_budget:
  assumes "Scheduler_Evaluate E J D input = Inr d" and "rs_State (ei_Snapshot input) = RolloutProgressing"
    and "de_Releases d \<noteq> []"
  defines "plan \<equiv> rs_Plan (ei_Snapshot input)" and "rows \<equiv> rs_Clusters (ei_Snapshot input)"
  shows "in_flight plan (ei_Now input) (released_runtime d rows) \<le> uint (st_MaxConcurrent (fr_Strategy plan))
    \<and> at_risk plan (ei_Now input) (released_runtime d rows)
      \<le> max (at_risk plan (ei_Now input) rows)
            (amountLimit (st_MaxUnavailable (fr_Strategy plan)) (int (length rows)))"
proof -
  let ?now = "ei_Now input"
  obtain clusters k completedAt qs where valid: "FrozenRollout_Validate E J plan = Inr ()"
    and run: "validateRuntime plan rows = Inr clusters" and qs: "subseq qs (fr_Clusters plan)"
    and budget: "budget_ok plan ?now clusters qs"
    and fits: "\<forall>r \<in> set (de_Releases d). \<exists>p \<in> set qs. apply_fits D plan ?now k clusters p r"
    and ids: "rl_ClusterID ` set (de_Releases d) = pc_ClusterID ` set qs"
    and origin: "\<forall>p \<in> set qs. \<exists>r \<in> set (de_Releases d). apply_fits D plan ?now k clusters p r"
    by (rule progressing_release [OF assms(1-3), folded plan_def rows_def]) (rule that)
  note rows = runtime_rows [OF valid run]
  have to: "\<forall>r \<in> set (de_Releases d). rl_ToState r = RolloutClusterReleased"
    using fits apply_fitsD(11) by blast
  have pending: "ru_State (runtime_of clusters p) = RolloutClusterPending" if p: "p \<in> set qs" for p
    using origin p apply_fitsD(2) by blast
  have dq: "distinct qs" and sub: "set qs \<subseteq> set (fr_Clusters plan)"
    using subseq_rows(1) [OF qs] subseq_rows(2) [OF qs validated_order(3) [OF valid]] by (simp_all add: distinct_map)
  have "in_flight plan ?now (released_runtime d rows) = in_flight plan ?now rows + int (length qs)"
    unfolding in_flight_def
    by (subst count_after_release [OF valid run dq sub ids to]) (simp_all add: consumesConcurrency_def pending)
  moreover have "at_risk plan ?now (released_runtime d rows)
      = at_risk plan ?now rows + int (length (filter (\<lambda>p. ru_Available (runtime_of clusters p)) qs))"
  proof -
    have "filter (\<lambda>p. \<not> (consumesConcurrency (runtime_of clusters p) (st_MinReady (fr_Strategy plan)) ?now
          \<or> \<not> ru_Available (runtime_of clusters p))) qs = filter (\<lambda>p. ru_Available (runtime_of clusters p)) qs"
      by (rule filter_cong) (simp_all add: consumesConcurrency_def pending)
    then show ?thesis
      unfolding at_risk_def
      by (subst count_after_release [OF valid run dq sub ids to]) (simp_all add: consumesConcurrency_def)
  qed
  ultimately show ?thesis
    using budget counts_permuted [OF rows(3)] rows(1) mset_eq_length [OF rows(3)]
    by (auto simp: budget_ok_def Let_def)
qed


lemma planned_unique:
  assumes "FrozenRollout_Validate E J plan = Inr ()" and "p \<in> set (fr_Clusters plan)" and "q \<in> set (fr_Clusters plan)"
    and "pc_ClusterID p = pc_ClusterID q"
  shows "p = q"
  using validated_order(3) [OF assms(1)] assms(2-4) inj_onD [of pc_ClusterID "set (fr_Clusters plan)" p q]
  by (simp add: distinct_map)

lemma runtime_unique:
  assumes "FrozenRollout_Validate E J plan = Inr ()" and "validateRuntime plan rows = Inr clusters"
    and "q \<in> set (fr_Clusters plan)"
  shows "runtime_of clusters q \<in> set rows"
    and "c \<in> set rows \<Longrightarrow> ru_ClusterID c = pc_ClusterID q \<Longrightarrow> c = runtime_of clusters q"
proof -
  note run = runtime_rows [OF assms(1,2)]
  have set_eq: "set clusters = set rows" by (rule mset_eq_setD [OF run(3)])
  have "runtime_of clusters q \<in> runtime_of clusters ` set (fr_Clusters plan)" using assms(3) by simp
  also have "\<dots> = set clusters" using arg_cong [OF run(2), of set] by simp
  finally show mem: "runtime_of clusters q \<in> set rows" using set_eq by simp
  have "inj_on ru_ClusterID (set rows)" using run(6) set_eq by (simp add: distinct_map)
  then show "c = runtime_of clusters q" if "c \<in> set rows" "ru_ClusterID c = pc_ClusterID q"
    using that mem run(5) [OF assms(3)] by (intro inj_onD [of ru_ClusterID "set rows" c]) simp_all
qed

text \<open>C30. What is released: every release of a progressing rollout is for a planned cluster
  that is pending and connected, moves it to \<open>released\<close>, assigns the version the plan froze
  for it, carries the next generation and the fence it was read with, and ends at the
  deadline of the plan; no cluster is released twice.\<close>

theorem releases_follow_plan:
  assumes "Scheduler_Evaluate E J D input = Inr d" and "rs_State (ei_Snapshot input) = RolloutProgressing"
    and "r \<in> set (de_Releases d)"
  shows "distinct (map rl_ClusterID (de_Releases d))
    \<and> (\<exists>p \<in> set (fr_Clusters (rs_Plan (ei_Snapshot input))). \<exists>c \<in> set (rs_Clusters (ei_Snapshot input)).
         rl_ClusterID r = pc_ClusterID p \<and> ru_ClusterID c = pc_ClusterID p
       \<and> ru_State c = RolloutClusterPending \<and> ru_Connected c
       \<and> rl_Action r = AssignmentApply \<and> rl_Version r = desired_version (rs_Plan (ei_Snapshot input)) p
       \<and> rl_FromState r = ru_State c \<and> rl_ToState r = RolloutClusterReleased
       \<and> rl_Generation r = ru_CurrentGeneration c + 1 \<and> rl_ExpectedFence r = ru_Fence c
       \<and> rl_Deadline r = fr_Deadline (rs_Plan (ei_Snapshot input)))"
proof -
  define plan rows where "plan = rs_Plan (ei_Snapshot input)" and "rows = rs_Clusters (ei_Snapshot input)"
  from assms(3) have "de_Releases d \<noteq> []" by auto
  then obtain clusters k completedAt qs where valid: "FrozenRollout_Validate E J plan = Inr ()"
    and run: "validateRuntime plan rows = Inr clusters" and qs: "subseq qs (fr_Clusters plan)"
    and fits: "\<forall>r \<in> set (de_Releases d). \<exists>p \<in> set qs. apply_fits D plan (ei_Now input) k clusters p r"
    and dist: "distinct (map rl_ClusterID (de_Releases d))"
    by (rule progressing_release [OF assms(1,2), folded plan_def rows_def]) (rule that)
  from fits assms(3) obtain p where p: "p \<in> set qs" and fit: "apply_fits D plan (ei_Now input) k clusters p r" by blast
  from p subseq_rows(1) [OF qs] have row: "p \<in> set (fr_Clusters plan)" by blast
  from runtime_unique(1) [OF valid run row] row dist apply_fitsD [OF fit] runtime_rows(5) [OF valid run row] show ?thesis
    unfolding plan_def rows_def by (intro conjI bexI) simp_all
qed

text \<open>C31. Cohorts go in order: when a cluster is released, every cluster of every earlier cohort
  has settled (ready for \<open>min_ready\<close>, failed, timed out or skipped), and the soak time of the
  cohort just before has passed since each of its clusters settled.\<close>

theorem releases_respect_cohorts:
  assumes "Scheduler_Evaluate E J D input = Inr d" and "rs_State (ei_Snapshot input) = RolloutProgressing"
    and "r \<in> set (de_Releases d)"
  defines "plan \<equiv> rs_Plan (ei_Snapshot input)"
  assumes "p \<in> set (fr_Clusters plan)" and "pc_ClusterID p = rl_ClusterID r"
    and "q \<in> set (fr_Clusters plan)" and "pc_Cohort q < pc_Cohort p"
    and "c \<in> set (rs_Clusters (ei_Snapshot input))" and "ru_ClusterID c = pc_ClusterID q"
  shows "settled plan (ei_Now input) c
    \<and> (pc_Cohort p = pc_Cohort q + 1 \<longrightarrow>
         settle_time plan c + co_SoakAfter (fr_Cohorts plan ! pc_Cohort q) \<le> ei_Now input)"
proof -
  define rows where "rows = rs_Clusters (ei_Snapshot input)"
  from assms(3) have "de_Releases d \<noteq> []" by auto
  then obtain clusters k completedAt qs where valid: "FrozenRollout_Validate E J plan = Inr ()"
    and run: "validateRuntime plan rows = Inr clusters" and qs: "subseq qs (fr_Clusters plan)"
    and active: "activeCohort plan clusters (ei_Now input) = Inr (k, completedAt, False)"
    and gates: "gates_open input k completedAt"
    and fits: "\<forall>r \<in> set (de_Releases d). \<exists>p \<in> set qs. apply_fits D plan (ei_Now input) k clusters p r"
    by (rule progressing_release [OF assms(1,2), folded plan_def rows_def]) (rule that)
  from fits assms(3) obtain p' where p': "p' \<in> set qs" and fit: "apply_fits D plan (ei_Now input) k clusters p' r" by blast
  have "p' = p"
    using p' subseq_rows(1) [OF qs] apply_fitsD(4) [OF fit] assms(5,6) by (intro planned_unique [OF valid]) auto
  with fit have k: "pc_Cohort p = k" by (auto dest: apply_fitsD)
  have c: "c = runtime_of clusters q"
    by (rule runtime_unique(2) [OF valid run assms(7) assms(9) [folded rows_def] assms(10)])
  note act = activeCohort_Inr [OF valid active]
  have "settled plan (ei_Now input) c"
    using act(2) [of "pc_Cohort q"] assms(7,8) k by (simp add: cohort_settled_def c)
  moreover have "settle_time plan c + co_SoakAfter (fr_Cohorts plan ! pc_Cohort q) \<le> ei_Now input"
    if "pc_Cohort p = pc_Cohort q + 1"
    using act(4) [OF _ assms(7)] that gates k unfolding c gates_open_def Let_def by (fastforce simp: plan_def)
  ultimately show ?thesis by blast
qed

text \<open>C32. A release passes every gate: the worker's lease is current, the deadline of the
  rollout is ahead, the failures are within the failure threshold, a maintenance window is open
  or overridden where the strategy respects windows, and a cohort that requires approval has an
  approval, given before, not expired, and bound to exactly this cohort of this plan.\<close>

theorem releases_pass_gates:
  assumes "Scheduler_Evaluate E J D input = Inr d" and "rs_State (ei_Snapshot input) = RolloutProgressing"
    and "r \<in> set (de_Releases d)"
  defines "plan \<equiv> rs_Plan (ei_Snapshot input)"
  assumes "p \<in> set (fr_Clusters plan)" and "pc_ClusterID p = rl_ClusterID r"
  shows "ls_Fence (ei_Lease input) = rs_Fence (ei_Snapshot input) \<and> ei_Now input < ls_ExpiresAt (ei_Lease input)
    \<and> ei_Now input < fr_Deadline plan
    \<and> failed_clusters (rs_Clusters (ei_Snapshot input))
        \<le> amountLimit (st_FailureThreshold (fr_Strategy plan)) (int (length (fr_Clusters plan)))
    \<and> (st_RespectMaintenanceWindows (fr_Strategy plan) \<longrightarrow> allowsRelease (ei_Maintenance input))
    \<and> (co_ApprovalRequired (fr_Cohorts plan ! pc_Cohort p) \<longrightarrow>
         (\<exists>a. fmlookup (ei_CohortApprovals input) (pc_Cohort p) = Some a \<and> ad_Approved a
            \<and> approvalDigest J plan (int (pc_Cohort p)) = Inr (ad_BindingDigest a)
            \<and> ad_DecidedAt a \<le> ei_Now input \<and> ei_Now input < ad_ExpiresAt a))"
proof -
  define rows where "rows = rs_Clusters (ei_Snapshot input)"
  from assms(3) have "de_Releases d \<noteq> []" by auto
  then obtain clusters k completedAt qs where valid: "FrozenRollout_Validate E J plan = Inr ()"
    and run: "validateRuntime plan rows = Inr clusters" and qs: "subseq qs (fr_Clusters plan)"
    and active: "activeCohort plan clusters (ei_Now input) = Inr (k, completedAt, False)"
    and gates: "gates_open input k completedAt" and deadline: "ei_Now input < fr_Deadline plan"
    and failures: "\<not> failureBudgetExceeded (st_FailureThreshold (fr_Strategy plan)) (int (length clusters))
      (ct_Failed (de_Counters d))"
    and counters: "DeriveRolloutCounters (map ru_State clusters) = Inr (de_Counters d)"
    and lease: "Lease_validate (ei_Lease input) (ei_Now input) (rs_Fence (ei_Snapshot input)) = Inr ()"
    and fits: "\<forall>r \<in> set (de_Releases d). \<exists>p \<in> set qs. apply_fits D plan (ei_Now input) k clusters p r"
    by (rule progressing_release [OF assms(1,2), folded plan_def rows_def]) (rule that)
  from fits assms(3) obtain p' where p': "p' \<in> set qs" and fit: "apply_fits D plan (ei_Now input) k clusters p' r" by blast
  have "p' = p"
    using p' subseq_rows(1) [OF qs] apply_fitsD(4) [OF fit] assms(5,6) by (intro planned_unique [OF valid]) auto
  with fit have k: "pc_Cohort p = k" by (auto dest: apply_fitsD)
  note act = activeCohort_Inr [OF valid active]
  have head: "cohort_header_ok J plan k" using valid act(1) by (simp add: Validate_iff)
  have "failed_clusters rows \<le> amountLimit (st_FailureThreshold (fr_Strategy plan)) (int (length (fr_Clusters plan)))"
    using failures counted_failures [OF counters runtime_rows(3) [OF valid run]] runtime_rows(1) [OF valid run]
    by (simp add: failureBudgetExceeded_def)
  moreover have "ls_Fence (ei_Lease input) = rs_Fence (ei_Snapshot input) \<and> ei_Now input < ls_ExpiresAt (ei_Lease input)"
    using lease by (simp add: Lease_validate_Inr)
  ultimately show ?thesis
    using deadline gates head k unfolding gates_open_def cohort_header_ok_def
    by (auto simp: Let_def validFor_def rows_def plan_def)
qed


section \<open>Outcomes of a rollback\<close>

definition rolling_back :: "ClusterRuntime list \<Rightarrow> int" where
  "rolling_back rows = int (length (filter (\<lambda>c. ru_EverReleased c \<and> ru_State c = RolloutClusterRollingBack) rows))"

definition rollback_risk :: "ClusterRuntime list \<Rightarrow> int" where
  "rollback_risk rows = int (length (filter (\<lambda>c. ru_EverReleased c \<and> ru_State c \<noteq> RolloutClusterReadyPrevious
     \<and> (ru_State c = RolloutClusterRollingBack \<or> \<not> ru_Available c)) rows))"

lemma rollback_count_loop:
  assumes "for_each (rollback_count_step snapshot now clusters d) ps n = Inr n'"
  shows "(\<forall>p \<in> set ps. ru_EverReleased (runtime_of clusters p) \<longrightarrow> pc_Previous p \<noteq> None)
    \<and> rb_reserved n' = rb_reserved n + rolling_back (map (runtime_of clusters) ps)
    \<and> rb_atRisk n' = rb_atRisk n + rollback_risk (map (runtime_of clusters) ps)"
  using assms
proof (induction ps arbitrary: n)
  case (Cons p ps)
  from Cons.prems obtain m where step: "rollback_count_step snapshot now clusters d p n = Inr m"
    and rest: "for_each (rollback_count_step snapshot now clusters d) ps m = Inr n'"
    by (auto simp: sbind_Inr_iff)
  have "(ru_EverReleased (runtime_of clusters p) \<longrightarrow> pc_Previous p \<noteq> None)
    \<and> rb_reserved m = rb_reserved n + rolling_back [runtime_of clusters p]
    \<and> rb_atRisk m = rb_atRisk n + rollback_risk [runtime_of clusters p]"
    using step
    by (auto simp: rollback_count_step_def runtime_of_def rolling_back_def rollback_risk_def Let_def split: if_splits)
  with Cons.IH [OF rest] show ?case by (auto simp: rolling_back_def rollback_risk_def)
qed (simp add: rolling_back_def rollback_risk_def)

lemma for_each_Inl:
  assumes "for_each f xs s = Inl e"
  obtains x t where "x \<in> set xs" and "f x t = Inl e"
  using assms by (induction xs arbitrary: s) (auto simp: sbind_Inl_iff)

lemma rollback_step_frame:
  assumes "rollback_step D snapshot now clusters limit p s = Inr s'"
  shows "\<exists>rs b. rk_decision s' = (rk_decision s)\<lparr>de_Releases := rs, de_Blocked := b\<rparr>"
proof -
  have same: "d = d\<lparr>de_Releases := de_Releases d, de_Blocked := de_Blocked d\<rparr>" for d :: Decision by simp
  have blocked: "d\<lparr>de_Blocked := b\<rparr> = d\<lparr>de_Releases := de_Releases d, de_Blocked := b\<rparr>" for d :: Decision and b by simp
  have released: "d\<lparr>de_Releases := rs\<rparr> = d\<lparr>de_Releases := rs, de_Blocked := de_Blocked d\<rparr>" for d :: Decision and rs by simp
  have "rk_decision s' = rk_decision s \<or> (\<exists>b. rk_decision s' = (rk_decision s)\<lparr>de_Blocked := b\<rparr>)
    \<or> (\<exists>rs. rk_decision s' = (rk_decision s)\<lparr>de_Releases := rs\<rparr>)"
    using assms by (auto simp: rollback_step_def Let_def split: if_splits option.splits sum.splits)
  then show ?thesis using same blocked released by (elim disjE exE) metis+
qed

lemma rollback_loop_frame:
  assumes "for_each (rollback_step D snapshot now clusters limit) ps s = Inr s'"
  shows "\<exists>rs b. rk_decision s' = (rk_decision s)\<lparr>de_Releases := rs, de_Blocked := b\<rparr>"
proof (rule for_each_invariant [OF assms])
  show "\<exists>rs b. rk_decision s = (rk_decision s)\<lparr>de_Releases := rs, de_Blocked := b\<rparr>"
    by (intro exI [of _ "de_Releases (rk_decision s)"] exI [of _ "de_Blocked (rk_decision s)"]) simp
next
  fix p t t'
  assume "\<exists>rs b. rk_decision t = (rk_decision s)\<lparr>de_Releases := rs, de_Blocked := b\<rparr>"
    and step: "rollback_step D snapshot now clusters limit p t = Inr t'"
  moreover obtain rs b where "rk_decision t' = (rk_decision t)\<lparr>de_Releases := rs, de_Blocked := b\<rparr>"
    using rollback_step_frame [OF step] by blast
  ultimately show "\<exists>rs b. rk_decision t' = (rk_decision s)\<lparr>de_Releases := rs, de_Blocked := b\<rparr>"
    by (intro exI [of _ rs] exI [of _ b]) auto
qed

lemma rollback_cases:
  assumes "evaluateRollback D input clusters d = Inr d'" and "de_Releases d = []"
  defines "plan \<equiv> rs_Plan (ei_Snapshot input)"
  obtains (rollout) t code where "t \<in> {RolloutRollbackFailed, RolloutRolledBack}"
      and "setRolloutTransition d (ei_Snapshot input) t code = Inr d'"
  | (blocked) "d' = d\<lparr>de_Blocked := BlockConcurrency\<rparr>"
  | (batch) qs rs b where "d' = d\<lparr>de_Releases := rs, de_Blocked := b\<rparr>" and "subseq qs (rollback_order plan clusters)"
      and "list_all2 (rollback_fits D plan (ei_Now input) clusters) qs rs"
      and "rolling_back (map (runtime_of clusters) (fr_Clusters plan)) + int (length qs) \<le> uint (st_MaxConcurrent (fr_Strategy plan))"
      and "filter (\<lambda>p. ru_Available (runtime_of clusters p)) qs \<noteq> [] \<Longrightarrow>
        rollback_risk (map (runtime_of clusters) (fr_Clusters plan))
          + int (length (filter (\<lambda>p. ru_Available (runtime_of clusters p)) qs))
        \<le> amountLimit (st_MaxUnavailable (fr_Strategy plan)) (int (length clusters))"
proof -
  let ?now = "ei_Now input" and ?snap = "ei_Snapshot input"
  let ?n0 = "\<lparr>rb_targets = 0, rb_complete = 0, rb_reserved = 0, rb_atRisk = 0\<rparr>"
  let ?limit = "amountLimit (st_MaxUnavailable (fr_Strategy plan)) (int (length clusters))"
  note body = assms(1) [unfolded evaluateRollback_def Let_def, folded plan_def]
  show thesis
  proof (cases "for_each (rollback_count_step ?snap ?now clusters d) (fr_Clusters plan) ?n0")
    case (Inl result)
    then obtain p n where "rollback_count_step ?snap ?now clusters d p n = Inl result" by (rule for_each_Inl) (rule that)
    then obtain code where "result = setRolloutTransition d ?snap RolloutRollbackFailed code"
      by (auto simp: rollback_count_step_def Let_def split: if_splits)
    with Inl body show thesis by (intro rollout [of RolloutRollbackFailed code]) simp_all
  next
    case (Inr n)
    note count = rollback_count_loop [OF Inr]
    show thesis
    proof (cases "rb_targets n = 0 \<or> rb_complete n = rb_targets n")
      case True
      with Inr body show thesis by (intro rollout [of RolloutRolledBack "''rollback_completed''"]) simp_all
    next
      case busy: False
      show thesis
      proof (cases "uint (st_MaxConcurrent (fr_Strategy plan)) - rb_reserved n \<le> 0")
        case True
        with Inr busy body show thesis by (intro blocked) simp
      next
        case slots: False
        let ?s0 = "\<lparr>rk_slots = uint (st_MaxConcurrent (fr_Strategy plan)) - rb_reserved n, rk_atRisk = rb_atRisk n, rk_decision = d\<rparr>"
        let ?loop = "for_each (rollback_step D ?snap ?now clusters ?limit) (rollback_order plan clusters) ?s0"
        from Inr busy slots body have fin: "(case ?loop of Inl result \<Rightarrow> result | Inr s \<Rightarrow> Inr (rk_decision s)) = Inr d'"
          by simp
        show thesis
        proof (cases ?loop)
          case (Inl result)
          then obtain p t where p: "p \<in> set (rollback_order plan clusters)"
            and step: "rollback_step D ?snap ?now clusters ?limit p t = Inl result" by (rule for_each_Inl)
          have "ru_EverReleased (runtime_of clusters p) \<longrightarrow> pc_Previous p \<noteq> None"
            using count p by (simp add: rollback_order_def)
          with step have "\<exists>e. result = Inl e"
            by (auto simp: rollback_step_def runtime_of_def Let_def split: if_splits option.splits sum.splits)
          with fin Inl show thesis by auto
        next
          case loop: (Inr s)
          with fin have d': "d' = rk_decision s" by simp
          from rollback_loop_frame [OF loop] obtain rs' b where frame: "d' = d\<lparr>de_Releases := rs', de_Blocked := b\<rparr>"
            by (auto simp: d')
          from slots have "0 \<le> rk_slots ?s0" by simp
          from rollback_loop.loop_budget [OF loop this] obtain qs rs where qs: "subseq qs (rollback_order plan clusters)
            \<and> de_Releases (rk_decision s) = de_Releases (rk_decision ?s0) @ rs
            \<and> list_all2 (rollback_fits D (rs_Plan ?snap) ?now clusters) qs rs
            \<and> rk_slots s = rk_slots ?s0 - int (length qs) \<and> 0 \<le> rk_slots s
            \<and> ?limit - rk_atRisk s = ?limit - rk_atRisk ?s0 - int (length (filter (\<lambda>p. ru_Available (runtime_of clusters p)) qs))
            \<and> (filter (\<lambda>p. ru_Available (runtime_of clusters p)) qs \<noteq> [] \<longrightarrow> 0 \<le> ?limit - rk_atRisk s)"
            by blast
          have "rs' = rs" using qs assms(2) by (simp add: frame flip: d')
          then show thesis using qs count frame by (intro batch [of b rs qs]) (auto simp: plan_def)
        qed
      qed
    qed
  qed
qed


lemma rollback_fitsD:
  assumes "rollback_fits D plan now clusters p r"
  shows "ru_EverReleased (runtime_of clusters p)" and "ru_Connected (runtime_of clusters p)"
    and "canStartRollback (ru_State (runtime_of clusters p))" and "rl_ClusterID r = pc_ClusterID p"
    and "rl_Action r = AssignmentRollback" and "\<exists>previous. pc_Previous p = Some previous \<and> rl_Version r = pv_Version previous"
    and "rl_Generation r = ru_CurrentGeneration (runtime_of clusters p) + 1"
    and "rl_ExpectedFence r = ru_Fence (runtime_of clusters p)"
    and "rl_FromState r = ru_State (runtime_of clusters p)" and "rl_ToState r = RolloutClusterRollingBack"
    and "rl_Deadline r = now + st_ProgressDeadline (fr_Strategy plan)"
proof -
  from assms obtain previous where previous: "pc_Previous p = Some previous"
    and new: "newRelease D plan p (runtime_of clusters p) AssignmentRollback (pv_Version previous) now = Inr r"
    by (auto simp: rollback_fits_def)
  show "ru_EverReleased (runtime_of clusters p)" "ru_Connected (runtime_of clusters p)"
    "canStartRollback (ru_State (runtime_of clusters p))"
    using assms by (simp_all add: rollback_fits_def)
  show "rl_ClusterID r = pc_ClusterID p" "rl_Action r = AssignmentRollback"
    "rl_Generation r = ru_CurrentGeneration (runtime_of clusters p) + 1"
    "rl_ExpectedFence r = ru_Fence (runtime_of clusters p)"
    "rl_FromState r = ru_State (runtime_of clusters p)" "rl_ToState r = RolloutClusterRollingBack"
    "rl_Deadline r = now + st_ProgressDeadline (fr_Strategy plan)"
    using newRelease_Inr [OF new] by (simp_all add: action_state_def)
  show "\<exists>previous. pc_Previous p = Some previous \<and> rl_Version r = pv_Version previous"
    using previous newRelease_Inr(3) [OF new] by simp
qed

lemma rollback_release:
  assumes "Scheduler_Evaluate E J D input = Inr d" and "rs_State (ei_Snapshot input) = RolloutRollingBack"
    and "de_Releases d \<noteq> []"
  defines "plan \<equiv> rs_Plan (ei_Snapshot input)" and "rows \<equiv> rs_Clusters (ei_Snapshot input)"
  obtains clusters qs where "FrozenRollout_Validate E J plan = Inr ()" and "validateRuntime plan rows = Inr clusters"
    and "distinct qs" and "set qs \<subseteq> set (fr_Clusters plan)"
    and "\<forall>r \<in> set (de_Releases d). \<exists>p \<in> set qs. rollback_fits D plan (ei_Now input) clusters p r"
    and "\<forall>p \<in> set qs. \<exists>r \<in> set (de_Releases d). rollback_fits D plan (ei_Now input) clusters p r"
    and "rl_ClusterID ` set (de_Releases d) = pc_ClusterID ` set qs" and "distinct (map rl_ClusterID (de_Releases d))"
    and "rolling_back rows + int (length qs) \<le> uint (st_MaxConcurrent (fr_Strategy plan))"
    and "filter (\<lambda>p. ru_Available (runtime_of clusters p)) qs \<noteq> [] \<Longrightarrow>
        rollback_risk rows + int (length (filter (\<lambda>p. ru_Available (runtime_of clusters p)) qs))
        \<le> amountLimit (st_MaxUnavailable (fr_Strategy plan)) (int (length rows))"
    and "de_RolloutTransition d = None" and "de_ClusterTransitions d = []"
proof -
  obtain clusters counters e digest where valid: "FrozenRollout_Validate E J plan = Inr ()"
    and run: "validateRuntime plan rows = Inr clusters"
    and dec: "decide D input clusters (initial_decision (rs_Fence (ei_Snapshot input)) counters) = Inr e"
    and d: "d = (sorted_decision E e)\<lparr>de_ID := digest\<rparr>"
    by (rule Scheduler_Evaluate_Inr [OF assms(1), folded plan_def rows_def]) (rule that)
  let ?d0 = "initial_decision (rs_Fence (ei_Snapshot input)) counters"
  note rr = runtime_rows [OF valid run]
  have permuted: "rolling_back clusters = rolling_back rows" "rollback_risk clusters = rollback_risk rows"
    "length clusters = length rows"
    unfolding rolling_back_def rollback_risk_def using length_filter_mset [OF rr(3)] mset_eq_length [OF rr(3)] by simp_all
  from dec assms(2) have "evaluateRollback D input clusters ?d0 = Inr e" by (simp add: decide_def Let_def)
  from this initial_decision_fields(1) show thesis
  proof (cases rule: rollback_cases)
    case (rollout t code)
    from rollout(2) assms(3) show thesis by (auto simp: d setRolloutTransition_Inr)
  next
    case blocked
    with assms(3) show thesis by (simp add: d)
  next
    case (batch qs rs b)
    note batch = batch [folded plan_def]
    have fits: "list_all2 (rollback_fits D plan (ei_Now input) clusters) qs rs" by (rule batch(3))
    have ids: "map rl_ClusterID rs = map pc_ClusterID qs"
      by (rule list_all2_fits_ids [OF fits]) (rule rollback_fitsD(4))
    have "distinct (map pc_ClusterID (rollback_order plan clusters))"
      using validated_order(3) [OF valid] by (simp add: rollback_order_def)
    from subseq_rows(2) [OF batch(2) this] have dist: "distinct (map pc_ClusterID qs)" .
    have sub: "set qs \<subseteq> set (fr_Clusters plan)"
      using subseq_rows(1) [OF batch(2)] by (simp add: rollback_order_def)
    have "\<forall>r \<in> set (de_Releases d). \<exists>p \<in> set qs. rollback_fits D plan (ei_Now input) clusters p r"
      "\<forall>p \<in> set qs. \<exists>r \<in> set (de_Releases d). rollback_fits D plan (ei_Now input) clusters p r"
      using list_all2_in_right [OF fits] list_all2_in_left [OF fits] by (simp_all add: d batch(1)) blast+
    moreover have "rl_ClusterID ` set rs = pc_ClusterID ` set qs"
      using arg_cong [OF ids, of set] by simp
    moreover have "distinct (map rl_ClusterID rs)" using dist ids by simp
    moreover have "distinct qs" using dist by (simp add: distinct_map)
    ultimately show thesis
      using batch(4,5) permuted by (intro that [OF valid run _ sub]) (simp_all add: d batch(1) rr(2))
  qed
qed

section \<open>Properties of a rollback\<close>

text \<open>C33. The budgets of a rollback: once its releases are applied, at most \<open>max_concurrent\<close>
  clusters are rolling back, and the clusters put at risk stay within \<open>max_unavailable\<close> or are
  no more than before.\<close>

theorem rollback_budget:
  assumes "Scheduler_Evaluate E J D input = Inr d" and "rs_State (ei_Snapshot input) = RolloutRollingBack"
    and "de_Releases d \<noteq> []"
  defines "plan \<equiv> rs_Plan (ei_Snapshot input)" and "rows \<equiv> rs_Clusters (ei_Snapshot input)"
  shows "rolling_back (released_runtime d rows) \<le> uint (st_MaxConcurrent (fr_Strategy plan))
    \<and> rollback_risk (released_runtime d rows)
      \<le> max (rollback_risk rows) (amountLimit (st_MaxUnavailable (fr_Strategy plan)) (int (length rows)))"
proof -
  obtain clusters qs where valid: "FrozenRollout_Validate E J plan = Inr ()"
    and run: "validateRuntime plan rows = Inr clusters" and dq: "distinct qs" and sub: "set qs \<subseteq> set (fr_Clusters plan)"
    and fits: "\<forall>r \<in> set (de_Releases d). \<exists>p \<in> set qs. rollback_fits D plan (ei_Now input) clusters p r"
    and origin: "\<forall>p \<in> set qs. \<exists>r \<in> set (de_Releases d). rollback_fits D plan (ei_Now input) clusters p r"
    and ids: "rl_ClusterID ` set (de_Releases d) = pc_ClusterID ` set qs"
    and slots: "rolling_back rows + int (length qs) \<le> uint (st_MaxConcurrent (fr_Strategy plan))"
    and room: "filter (\<lambda>p. ru_Available (runtime_of clusters p)) qs \<noteq> [] \<Longrightarrow>
        rollback_risk rows + int (length (filter (\<lambda>p. ru_Available (runtime_of clusters p)) qs))
        \<le> amountLimit (st_MaxUnavailable (fr_Strategy plan)) (int (length rows))"
    by (rule rollback_release [OF assms(1-3), folded plan_def rows_def]) (rule that)
  have to: "\<forall>r \<in> set (de_Releases d). rl_ToState r = RolloutClusterRollingBack"
    using fits rollback_fitsD(10) by blast
  have old: "ru_EverReleased (runtime_of clusters p)" "ru_State (runtime_of clusters p) \<noteq> RolloutClusterRollingBack"
    "ru_State (runtime_of clusters p) \<noteq> RolloutClusterReadyPrevious" if p: "p \<in> set qs" for p
    using origin p rollback_fitsD(1,3) by (fastforce simp: canStartRollback_def)+
  have "rolling_back (released_runtime d rows) = rolling_back rows + int (length qs)"
    unfolding rolling_back_def
    by (subst count_after_release [OF valid run dq sub ids to]) (simp_all add: old)
  moreover have "rollback_risk (released_runtime d rows)
      = rollback_risk rows + int (length (filter (\<lambda>p. ru_Available (runtime_of clusters p)) qs))"
  proof -
    have "filter (\<lambda>p. \<not> (ru_EverReleased (runtime_of clusters p)
          \<and> ru_State (runtime_of clusters p) \<noteq> RolloutClusterReadyPrevious
          \<and> (ru_State (runtime_of clusters p) = RolloutClusterRollingBack \<or> \<not> ru_Available (runtime_of clusters p)))) qs
        = filter (\<lambda>p. ru_Available (runtime_of clusters p)) qs"
      by (rule filter_cong) (simp_all add: old)
    then show ?thesis
      unfolding rollback_risk_def
      by (subst count_after_release [OF valid run dq sub ids to]) (simp_all add: old)
  qed
  ultimately show ?thesis using slots room by fastforce
qed

text \<open>C34. A rollback only restores: every release of a rollback is for a cluster this rollout
  reached, is connected, and has a frozen previous version; it assigns exactly that version,
  with the next generation, and the time allowed for it starts at the decision.\<close>

theorem rollback_restores_previous:
  assumes "Scheduler_Evaluate E J D input = Inr d" and "rs_State (ei_Snapshot input) = RolloutRollingBack"
    and "r \<in> set (de_Releases d)"
  shows "\<exists>p \<in> set (fr_Clusters (rs_Plan (ei_Snapshot input))). \<exists>c \<in> set (rs_Clusters (ei_Snapshot input)).
       rl_ClusterID r = pc_ClusterID p \<and> ru_ClusterID c = pc_ClusterID p
     \<and> ru_EverReleased c \<and> ru_Connected c \<and> canStartRollback (ru_State c)
     \<and> (\<exists>previous. pc_Previous p = Some previous \<and> rl_Version r = pv_Version previous)
     \<and> rl_Action r = AssignmentRollback \<and> rl_ToState r = RolloutClusterRollingBack
     \<and> rl_Generation r = ru_CurrentGeneration c + 1 \<and> rl_ExpectedFence r = ru_Fence c
     \<and> rl_Deadline r = ei_Now input + st_ProgressDeadline (fr_Strategy (rs_Plan (ei_Snapshot input)))"
proof -
  define plan rows where "plan = rs_Plan (ei_Snapshot input)" and "rows = rs_Clusters (ei_Snapshot input)"
  from assms(3) have "de_Releases d \<noteq> []" by auto
  then obtain clusters qs where valid: "FrozenRollout_Validate E J plan = Inr ()"
    and run: "validateRuntime plan rows = Inr clusters" and sub: "set qs \<subseteq> set (fr_Clusters plan)"
    and fits: "\<forall>r \<in> set (de_Releases d). \<exists>p \<in> set qs. rollback_fits D plan (ei_Now input) clusters p r"
    by (rule rollback_release [OF assms(1,2), folded plan_def rows_def]) (rule that)
  from fits assms(3) obtain p where p: "p \<in> set qs" and fit: "rollback_fits D plan (ei_Now input) clusters p r" by blast
  with sub have row: "p \<in> set (fr_Clusters plan)" by blast
  from runtime_unique(1) [OF valid run row] row rollback_fitsD [OF fit] runtime_rows(5) [OF valid run row] show ?thesis
    unfolding plan_def rows_def by (intro bexI conjI) simp_all
qed


section \<open>Properties of every decision\<close>

lemma list_all2_distinct_ids:
  assumes "list_all2 transition_fits (filter P clusters) ts" and "distinct (map ru_ClusterID clusters)"
  shows "distinct (map tr_ClusterID ts)" and "t \<in> set ts \<Longrightarrow> \<exists>c \<in> set clusters. transition_fits c t"
proof -
  from assms(1) have "map tr_ClusterID ts = map ru_ClusterID (filter P clusters)"
    by (induction rule: list_all2_induct) (simp_all add: transition_fits_def)
  then show "distinct (map tr_ClusterID ts)" using assms(2) by (simp add: distinct_map_filter)
  from assms(1) have "\<forall>t \<in> set ts. \<exists>c \<in> set (filter P clusters). transition_fits c t"
    by (induction rule: list_all2_induct) auto
  then show "t \<in> set ts \<Longrightarrow> \<exists>c \<in> set clusters. transition_fits c t" by auto
qed

text \<open>What one decision may contain: a move of the whole rollout and nothing else, or moves of
  single clusters, or releases.\<close>

definition decision_legal :: "RuntimeSnapshot \<Rightarrow> Decision \<Rightarrow> bool" where
  "decision_legal snapshot d \<longleftrightarrow>
     (case de_RolloutTransition d of
        Some t \<Rightarrow> rt_From t = rs_State snapshot \<and> rollout_allows (rt_From t) (rt_To t)
          \<and> rt_ExpectedFence t = rs_Fence snapshot \<and> de_Releases d = [] \<and> de_ClusterTransitions d = []
      | None \<Rightarrow> de_Releases d = [] \<or> de_ClusterTransitions d = [])
   \<and> (\<forall>t \<in> set (de_ClusterTransitions d). \<exists>c \<in> set (rs_Clusters snapshot). transition_fits c t)
   \<and> (\<forall>r \<in> set (de_Releases d). \<exists>c \<in> set (rs_Clusters snapshot). ru_ClusterID c = rl_ClusterID r
        \<and> rl_FromState r = ru_State c \<and> rl_ExpectedFence r = ru_Fence c
        \<and> cluster_allows (rl_FromState r) (rl_ToState r) \<and> rl_Generation r = ru_CurrentGeneration c + 1)
   \<and> distinct (map rl_ClusterID (de_Releases d)) \<and> distinct (map tr_ClusterID (de_ClusterTransitions d))"

lemma legal_transition:
  assumes "setRolloutTransition d snapshot t code = Inr d'" and "rs_State snapshot \<noteq> t"
    and "de_Releases d = []" and "de_ClusterTransitions d = []"
  shows "decision_legal snapshot d'"
  using assms by (auto simp: decision_legal_def setRolloutTransition_Inr)

lemma legal_quiet: "de_RolloutTransition d = None \<Longrightarrow> de_Releases d = [] \<Longrightarrow> de_ClusterTransitions d = [] \<Longrightarrow> decision_legal s d"
  by (simp add: decision_legal_def)

lemma decision_legal_sorted:
  "decision_legal s ((sorted_decision E e)\<lparr>de_ID := x\<rparr>) \<longleftrightarrow> decision_legal s e"
  by (simp add: decision_legal_def sorted_decision_def split: option.split)

lemma legal_progressing:
  assumes "evaluateProgressing D input clusters d = Inr d'" and "de_Releases d = []" and "de_ClusterTransitions d = []"
    and "de_RolloutTransition d = None" and "rs_State (ei_Snapshot input) = RolloutProgressing"
    and valid: "FrozenRollout_Validate E J (rs_Plan (ei_Snapshot input)) = Inr ()"
    and run: "validateRuntime (rs_Plan (ei_Snapshot input)) (rs_Clusters (ei_Snapshot input)) = Inr clusters"
  shows "decision_legal (ei_Snapshot input) d'"
  using assms(1-3)
proof (cases rule: progressing_cases)
  case (transitions ts)
  note ts = list_all2_distinct_ids [OF transitions(3) runtime_rows(6) [OF valid run]]
  have "set clusters = set (rs_Clusters (ei_Snapshot input))" by (rule mset_eq_setD [OF runtime_rows(3) [OF valid run]])
  with ts assms(2,4) show ?thesis by (auto simp: decision_legal_def transitions(1))
next
  case (rollout t code)
  then show ?thesis using assms(2,3,5) by (intro legal_transition) auto
next
  case (blocked b)
  then show ?thesis using assms(2-4) by (intro legal_quiet) simp_all
next
  case (batch k completedAt qs rs b)
  note fits = batch(7)
  have ids: "map rl_ClusterID rs = map pc_ClusterID qs"
    by (rule list_all2_fits_ids [OF fits]) (rule apply_fitsD(4))
  then have "distinct (map rl_ClusterID rs)"
    using subseq_rows(2) [OF batch(6) validated_order(3) [OF valid]] by simp
  moreover have "\<exists>c \<in> set (rs_Clusters (ei_Snapshot input)). ru_ClusterID c = rl_ClusterID r \<and> rl_FromState r = ru_State c
      \<and> rl_ExpectedFence r = ru_Fence c \<and> cluster_allows (rl_FromState r) (rl_ToState r)
      \<and> rl_Generation r = ru_CurrentGeneration c + 1" if "r \<in> set rs" for r
  proof -
    from fits that obtain p where p: "p \<in> set qs" and fit: "apply_fits D (rs_Plan (ei_Snapshot input)) (ei_Now input) k clusters p r"
      by (rule list_all2_in_right)
    have row: "p \<in> set (fr_Clusters (rs_Plan (ei_Snapshot input)))" using p subseq_rows(1) [OF batch(6)] by blast
    show ?thesis
      using runtime_unique(1) [OF valid run row] runtime_rows(5) [OF valid run row] apply_fitsD [OF fit]
      by (intro bexI [of _ "runtime_of clusters p"]) simp_all
  qed
  ultimately show ?thesis using assms(3,4) by (simp add: decision_legal_def batch(5))
qed

lemma legal_rollback:
  assumes "evaluateRollback D input clusters d = Inr d'" and "de_Releases d = []" and "de_ClusterTransitions d = []"
    and "de_RolloutTransition d = None" and "rs_State (ei_Snapshot input) = RolloutRollingBack"
    and valid: "FrozenRollout_Validate E J (rs_Plan (ei_Snapshot input)) = Inr ()"
    and run: "validateRuntime (rs_Plan (ei_Snapshot input)) (rs_Clusters (ei_Snapshot input)) = Inr clusters"
  shows "decision_legal (ei_Snapshot input) d'"
  using assms(1,2)
proof (cases rule: rollback_cases)
  case (rollout t code)
  then show ?thesis using assms(2,3,5) by (intro legal_transition) auto
next
  case blocked
  then show ?thesis using assms(2-4) by (intro legal_quiet) simp_all
next
  case (batch qs rs b)
  note fits = batch(3)
  have ids: "map rl_ClusterID rs = map pc_ClusterID qs"
    by (rule list_all2_fits_ids [OF fits]) (rule rollback_fitsD(4))
  have "distinct (map pc_ClusterID (rollback_order (rs_Plan (ei_Snapshot input)) clusters))"
    using validated_order(3) [OF valid] by (simp add: rollback_order_def)
  from subseq_rows(2) [OF batch(2) this] ids have "distinct (map rl_ClusterID rs)" by simp
  moreover have "\<exists>c \<in> set (rs_Clusters (ei_Snapshot input)). ru_ClusterID c = rl_ClusterID r \<and> rl_FromState r = ru_State c
      \<and> rl_ExpectedFence r = ru_Fence c \<and> cluster_allows (rl_FromState r) (rl_ToState r)
      \<and> rl_Generation r = ru_CurrentGeneration c + 1" if "r \<in> set rs" for r
  proof -
    from fits that obtain p where p: "p \<in> set qs" and fit: "rollback_fits D (rs_Plan (ei_Snapshot input)) (ei_Now input) clusters p r"
      by (rule list_all2_in_right)
    have row: "p \<in> set (fr_Clusters (rs_Plan (ei_Snapshot input)))"
      using p subseq_rows(1) [OF batch(2)] by (auto simp: rollback_order_def)
    have "cluster_allows (ru_State (runtime_of clusters p)) RolloutClusterRollingBack"
      using rollback_fitsD(3) [OF fit] by (auto simp: canStartRollback_def split: RolloutClusterState.splits)
    then show ?thesis
      using runtime_unique(1) [OF valid run row] runtime_rows(5) [OF valid run row] rollback_fitsD [OF fit]
      by (intro bexI [of _ "runtime_of clusters p"]) simp_all
  qed
  ultimately show ?thesis using assms(3,4) by (simp add: decision_legal_def batch(1))
qed

lemma Scheduler_Evaluate_legal:
  assumes "Scheduler_Evaluate E J D input = Inr d"
  shows "decision_legal (ei_Snapshot input) d"
proof -
  obtain clusters counters e digest where valid: "FrozenRollout_Validate E J (rs_Plan (ei_Snapshot input)) = Inr ()"
    and run: "validateRuntime (rs_Plan (ei_Snapshot input)) (rs_Clusters (ei_Snapshot input)) = Inr clusters"
    and dec: "decide D input clusters (initial_decision (rs_Fence (ei_Snapshot input)) counters) = Inr e"
    and d: "d = (sorted_decision E e)\<lparr>de_ID := digest\<rparr>"
    by (rule Scheduler_Evaluate_Inr [OF assms]) (rule that)
  have "decision_legal (ei_Snapshot input) e"
  proof (cases "rs_State (ei_Snapshot input)")
    case RolloutProgressing
    with dec show ?thesis by (intro legal_progressing [OF _ _ _ _ _ valid run]) (auto simp: decide_def Let_def)
  next
    case RolloutRollingBack
    with dec show ?thesis by (intro legal_rollback [OF _ _ _ _ _ valid run]) (auto simp: decide_def Let_def)
  qed (use dec in \<open>auto simp: decide_def Let_def intro: legal_quiet legal_transition split: if_splits option.splits\<close>)
  then show ?thesis by (simp only: d decision_legal_sorted)
qed

text \<open>C35. Every decision is legal in the transition tables: the rollout move it proposes starts
  at the current state and fence and is an edge of the table, cluster moves and releases start
  at the state and fence of a row of the snapshot and are edges of the table, no cluster is
  moved or released twice, and a rollout move comes alone.\<close>

theorem decisions_are_legal:
  assumes "Scheduler_Evaluate E J D input = Inr d"
  shows "decision_legal (ei_Snapshot input) d"
  by (rule Scheduler_Evaluate_legal [OF assms])


text \<open>Only the state, fence and plan of the snapshot, and the rows in plan order, reach the
  decision.\<close>

lemma snapshot_fields:
  "ei_Snapshot (input\<lparr>ei_Snapshot := s\<rparr>) = s" "ei_Now (input\<lparr>ei_Snapshot := s\<rparr>) = ei_Now input"
  "ei_Lease (input\<lparr>ei_Snapshot := s\<rparr>) = ei_Lease input"
  "ei_InitialApproval (input\<lparr>ei_Snapshot := s\<rparr>) = ei_InitialApproval input"
  "ei_CohortApprovals (input\<lparr>ei_Snapshot := s\<rparr>) = ei_CohortApprovals input"
  "ei_Maintenance (input\<lparr>ei_Snapshot := s\<rparr>) = ei_Maintenance input"
  "rs_Plan (t\<lparr>rs_Clusters := x\<rparr>) = rs_Plan t" "rs_State (t\<lparr>rs_Clusters := x\<rparr>) = rs_State t"
  "rs_Fence (t\<lparr>rs_Clusters := x\<rparr>) = rs_Fence t" "rs_Clusters (t\<lparr>rs_Clusters := x\<rparr>) = x"
  by simp_all

lemma snapshot_rows_unused:
  "setRolloutTransition d (s\<lparr>rs_Clusters := x\<rparr>) t code = setRolloutTransition d s t code"
  "rollback_count_step (s\<lparr>rs_Clusters := x\<rparr>) now clusters d p n = rollback_count_step s now clusters d p n"
  "rollback_step D (s\<lparr>rs_Clusters := x\<rparr>) now clusters m p k = rollback_step D s now clusters m p k"
proof -
  show one: "setRolloutTransition d (s\<lparr>rs_Clusters := x\<rparr>) t code = setRolloutTransition d s t code" for d t code
    unfolding setRolloutTransition_def snapshot_fields by (rule refl)
  show "rollback_count_step (s\<lparr>rs_Clusters := x\<rparr>) now clusters d p n = rollback_count_step s now clusters d p n"
    unfolding rollback_count_step_def snapshot_fields one by (rule refl)
  show "rollback_step D (s\<lparr>rs_Clusters := x\<rparr>) now clusters m p k = rollback_step D s now clusters m p k"
    unfolding rollback_step_def snapshot_fields one by (rule refl)
qed

lemma rollback_loops_unused:
  "rollback_count_step (s\<lparr>rs_Clusters := x\<rparr>) = rollback_count_step s"
  "rollback_step D (s\<lparr>rs_Clusters := x\<rparr>) = rollback_step D s"
  by (intro ext snapshot_rows_unused)+

lemma decide_rows_unused:
  "decide D (input\<lparr>ei_Snapshot := (ei_Snapshot input)\<lparr>rs_Clusters := x\<rparr>\<rparr>) clusters d = decide D input clusters d"
  unfolding decide_def evaluateProgressing_def evaluateRollback_def release_cohort_def Let_def
    snapshot_fields snapshot_rows_unused(1) rollback_loops_unused
  by (rule refl)

lemma validateRuntime_order_free:
  assumes "mset xs = mset ys"
  shows "result_of (validateRuntime plan xs) = result_of (validateRuntime plan ys)"
proof -
  have one: "validateRuntime plan ys = Inr clusters"
    if "validateRuntime plan xs = Inr clusters" and "mset xs = mset ys" for xs ys clusters
  proof -
    from that(1) have x: "length xs = length (fr_Clusters plan)" "\<forall>c \<in> set xs. runtime_ok c" "distinct (map ru_ClusterID xs)"
      "\<forall>p \<in> set (fr_Clusters plan). lookup_runtime xs (pc_ClusterID p) \<noteq> None"
      "clusters = map (\<lambda>p. the (lookup_runtime xs (pc_ClusterID p))) (fr_Clusters plan)"
      by (auto simp: validateRuntime_iff)
    have y: "length ys = length xs" "set ys = set xs"
      using mset_eq_length [OF that(2)] mset_eq_setD [OF that(2)] by simp_all
    have dy: "distinct (map ru_ClusterID ys)"
      using x(3) that(2) by (metis mset_eq_imp_distinct_iff mset_map)
    have "lookup_runtime ys k = lookup_runtime xs k" for k
      by (rule option.expand)
        (use lookup_runtime_Some [OF x(3), of k] lookup_runtime_Some [OF dy, of k] y(2) in
          \<open>auto simp: not_None_eq [symmetric] simp del: not_None_eq, (metis option.collapse)+\<close>)
    then show ?thesis using x y dy by (simp add: validateRuntime_iff)
  qed
  show ?thesis
  proof (cases "validateRuntime plan xs")
    case (Inr clusters)
    with one [OF Inr assms] show ?thesis by simp
  next
    case (Inl e)
    have "\<exists>e'. validateRuntime plan ys = Inl e'"
    proof (cases "validateRuntime plan ys")
      case (Inr clusters)
      from one [OF Inr assms [symmetric]] Inl show ?thesis by simp
    qed simp
    with Inl show ?thesis by auto
  qed
qed

text \<open>C36. A decision does not depend on the order in which the runtime rows were read: for
  every permutation of the rows the scheduler decides the same, with the same identifier.\<close>

theorem decision_order_free:
  assumes "mset rows = mset (rs_Clusters (ei_Snapshot input))"
  shows "result_of (Scheduler_Evaluate E J D (input\<lparr>ei_Snapshot := (ei_Snapshot input)\<lparr>rs_Clusters := rows\<rparr>\<rparr>))
    = result_of (Scheduler_Evaluate E J D input)"
proof -
  let ?plan = "rs_Plan (ei_Snapshot input)"
  have run: "result_of (validateRuntime ?plan rows) = result_of (validateRuntime ?plan (rs_Clusters (ei_Snapshot input)))"
    by (rule validateRuntime_order_free [OF assms])
  show ?thesis
    unfolding Scheduler_Evaluate_def Let_def snapshot_fields decide_rows_unused
    by (simp add: result_of_sbind run)
qed

section \<open>No silent stall\<close>

lemma apply_step_quiet:
  assumes "apply_step D plan now k clusters p s = Inr s'" and "as_releases s' = as_releases s" and "as_slots s \<noteq> 0"
  shows "as_slots s' = as_slots s \<and> (as_blocked s \<longrightarrow> as_blocked s')
    \<and> (pc_Cohort p = k \<and> ru_State (runtime_of clusters p) = RolloutClusterPending \<and> ru_Connected (runtime_of clusters p)
       \<longrightarrow> as_blocked s')"
  using assms by (auto simp: apply_step_def runtime_of_def Let_def sbind_Inr_iff split: if_splits)

lemma apply_step_extends:
  assumes "apply_step D plan now k clusters p s = Inr s'"
  shows "prefix (as_releases s) (as_releases s')"
  using assms by (auto simp: apply_step_def Let_def sbind_Inr_iff split: if_splits)

lemma apply_loop_extends:
  assumes "for_each (apply_step D plan now k clusters) ps s = Inr s'"
  shows "prefix (as_releases s) (as_releases s')"
  by (rule for_each_invariant [OF assms]) (auto dest: apply_step_extends intro: prefix_order.order_trans)

lemma apply_loop_quiet:
  assumes "for_each (apply_step D plan now k clusters) ps s = Inr s'" and "as_releases s' = as_releases s" and "as_slots s \<noteq> 0"
  shows "(as_blocked s \<longrightarrow> as_blocked s')
    \<and> (\<forall>p \<in> set ps. pc_Cohort p = k \<and> ru_State (runtime_of clusters p) = RolloutClusterPending
         \<and> ru_Connected (runtime_of clusters p) \<longrightarrow> as_blocked s')"
  using assms
proof (induction ps arbitrary: s)
  case (Cons p ps)
  from Cons.prems(1) obtain t where t: "apply_step D plan now k clusters p s = Inr t"
    and rest: "for_each (apply_step D plan now k clusters) ps t = Inr s'"
    by (auto simp: sbind_Inr_iff)
  have "as_releases t = as_releases s"
    using apply_step_extends [OF t] apply_loop_extends [OF rest] Cons.prems(2) by (metis prefix_order.antisym)
  with apply_step_quiet [OF t] Cons.IH [OF rest] Cons.prems(2,3) show ?case by auto
qed simp

lemma release_batch_quiet:
  assumes "release_batch D plan now clusters k d = Inr d'" and "de_Releases d = []" and "de_Releases d' = []"
    and "de_Blocked d = BlockNone" and "de_Blocked d' = BlockNone"
  shows "\<not> disconnected_in plan clusters k"
    and "p \<in> set (fr_Clusters plan) \<Longrightarrow> pc_Cohort p = k \<Longrightarrow> ru_State (runtime_of clusters p) = RolloutClusterPending
      \<Longrightarrow> \<not> ru_Connected (runtime_of clusters p)"
proof -
  have slots: "\<not> uint (st_MaxConcurrent (fr_Strategy plan)) - in_flight plan now clusters \<le> 0"
    using assms(1,5) by (auto simp: release_batch_def budget_fold)
  let ?s0 = "\<lparr>as_slots = uint (st_MaxConcurrent (fr_Strategy plan)) - in_flight plan now clusters,
    as_room = amountLimit (st_MaxUnavailable (fr_Strategy plan)) (int (length clusters)) - at_risk plan now clusters,
    as_blocked = False, as_releases = []\<rparr>"
  from assms(1,2) slots obtain s where loop: "for_each (apply_step D plan now k clusters) (fr_Clusters plan) ?s0 = Inr s"
    and d': "d' = (let e = d\<lparr>de_Releases := as_releases s\<rparr> in
          if de_Releases e = [] \<and> de_Blocked e = BlockNone then
            (if as_blocked s then e\<lparr>de_Blocked := BlockUnavailable\<rparr>
             else if disconnected_in plan clusters k then e\<lparr>de_Blocked := BlockDisconnected\<rparr> else e)
          else e)"
    by (auto simp: release_batch_def budget_fold Let_def sbind_Inr_iff)
  from d' assms(3) have none: "as_releases s = []" by (simp add: Let_def split: if_splits)
  with d' assms(4,5) have free: "\<not> as_blocked s" and conn: "\<not> disconnected_in plan clusters k"
    by (simp_all add: Let_def split: if_splits)
  show "\<not> disconnected_in plan clusters k" by (rule conn)
  show "\<not> ru_Connected (runtime_of clusters p)" if "p \<in> set (fr_Clusters plan)" "pc_Cohort p = k"
    "ru_State (runtime_of clusters p) = RolloutClusterPending"
    using apply_loop_quiet [OF loop] none free slots that by auto
qed

definition nothing_decided :: "Decision \<Rightarrow> bool" where
  "nothing_decided d \<longleftrightarrow> de_RolloutTransition d = None \<and> de_ClusterTransitions d = [] \<and> de_Releases d = []
     \<and> de_Blocked d = BlockNone"

text \<open>C37. A progressing rollout never stalls in silence: a decision that neither changes
  anything nor gives a reason for waiting is made only while some cluster of an unfinished
  cohort is still in flight, or is in one of the three states (aborted, rollback failed, ready on
  the previous version) that no transition of a progressing rollout leads to.\<close>

theorem no_silent_stall:
  assumes "Scheduler_Evaluate E J D input = Inr d" and "rs_State (ei_Snapshot input) = RolloutProgressing"
    and "nothing_decided d"
  defines "plan \<equiv> rs_Plan (ei_Snapshot input)"
  shows "\<exists>c \<in> set (rs_Clusters (ei_Snapshot input)).
     consumesConcurrency c (st_MinReady (fr_Strategy plan)) (ei_Now input)
     \<or> ru_State c \<in> {RolloutClusterAborted, RolloutClusterRollbackFailed, RolloutClusterReadyPrevious}"
proof -
  define rows where "rows = rs_Clusters (ei_Snapshot input)"
  obtain clusters counters e digest where valid: "FrozenRollout_Validate E J plan = Inr ()"
    and run: "validateRuntime plan rows = Inr clusters"
    and dec: "decide D input clusters (initial_decision (rs_Fence (ei_Snapshot input)) counters) = Inr e"
    and d: "d = (sorted_decision E e)\<lparr>de_ID := digest\<rparr>"
    by (rule Scheduler_Evaluate_Inr [OF assms(1), folded plan_def rows_def]) (rule that)
  from assms(3) have quiet: "nothing_decided e" by (simp add: d nothing_decided_def)
  from dec assms(2) have ev: "evaluateProgressing D input clusters (initial_decision (rs_Fence (ei_Snapshot input)) counters) = Inr e"
    by (simp add: decide_def Let_def)
  from ev initial_decision_fields(1,2) show ?thesis
  proof (cases rule: progressing_cases)
    case (transitions ts)
    with quiet show ?thesis by (simp add: nothing_decided_def)
  next
    case (rollout t code)
    from rollout(2) quiet show ?thesis by (auto simp: nothing_decided_def setRolloutTransition_Inr)
  next
    case (blocked b)
    with quiet show ?thesis by (simp add: nothing_decided_def)
  next
    case (batch k completedAt qs rs b)
    note batch = batch [folded plan_def]
    from activeCohort_Inr(3) [OF valid batch(1)] obtain p where p: "p \<in> set (fr_Clusters plan)" "pc_Cohort p = k"
      and open': "\<not> settled plan (ei_Now input) (runtime_of clusters p)"
      by (auto simp: cohort_settled_def)
    let ?c = "runtime_of clusters p"
    note row = runtime_unique(1) [OF valid run p(1)]
    from row have mem: "?c \<in> set clusters" using mset_eq_setD [OF runtime_rows(3) [OF valid run]] by simp
    then have ok: "runtime_ok ?c" and calm: "\<not> needs_transition plan (ei_Now input) ?c"
      using runtime_rows(4) [OF valid run] batch(9) by blast+
    have "\<not> disconnected_in plan clusters k" and "ru_State ?c = RolloutClusterPending \<Longrightarrow> \<not> ru_Connected ?c"
      using release_batch_quiet [OF batch(10)] quiet p by (simp_all add: nothing_decided_def)
    then have "ru_State ?c \<noteq> RolloutClusterPending" "ru_State ?c \<noteq> RolloutClusterBlocked"
      using calm p by (auto simp: needs_transition_def disconnected_in_def list_ex_iff runtime_of_def Let_def)
    then have "consumesConcurrency ?c (st_MinReady (fr_Strategy plan)) (ei_Now input)
      \<or> ru_State ?c \<in> {RolloutClusterAborted, RolloutClusterRollbackFailed, RolloutClusterReadyPrevious}"
      using open' ok by (cases "ru_State ?c") (auto simp: settled_def consumesConcurrency_def runtime_ok_def valid_defs)
    with row show ?thesis unfolding rows_def by blast
  qed
qed


section \<open>A sample rollout\<close>

text \<open>Two clusters in cohorts of one, each with a previous version.\<close>

definition sample_previous :: PreviousDeployment where
  "sample_previous = \<lparr>pv_Version = sample_version, pv_Generation = 1\<rparr>"

definition sample_cohort_list :: "Cohort list" where
  "sample_cohort_list = [newCohort 0 ''rolling-0000'' [1] False 0, newCohort 1 ''rolling-0001'' [2] False 0]"

definition sample_base :: PlanningSnapshot where
  "sample_base = sample_snapshot\<lparr>ps_PreviousByCluster := fmupd 1 sample_previous (fmupd 2 sample_previous fmempty)\<rparr>"

definition sample_open :: FrozenRollout where
  "sample_open = open_plan sample_create sample_base (DigestBytes ''{}'') (DigestBytes ''abc'') (DigestBytes ''{}'') 1000 9
     sample_cohort_list (planned_rows 0 sample_cohort_list)"

definition sample_rollout :: FrozenRollout where
  "sample_rollout = sample_open\<lparr>fr_Approval := \<lparr>ab_Required = True, ab_Digest = DigestBytes ''{}''\<rparr>,
     fr_PlanDigest := DigestBytes ''{}''\<rparr>"

definition sample_row :: "uuid \<Rightarrow> RolloutClusterState \<Rightarrow> ClusterRuntime" where
  "sample_row cid state =
     \<lparr>ru_ClusterID = cid, ru_State = state, ru_Fence = 3, ru_Connected = True, ru_Available = True,
      ru_ReadySince = Some 1000, ru_StateChangedAt = 1000, ru_Deadline = 0, ru_CurrentGeneration = 1,
      ru_EverReleased = (cid = 1), ru_LastAction = AssignmentApply\<rparr>"

definition sample_input :: "RolloutState \<Rightarrow> ClusterRuntime list \<Rightarrow> EvaluateInput" where
  "sample_input state rows =
     \<lparr>ei_Now = 1050,
      ei_Snapshot = \<lparr>rs_Plan = sample_rollout, rs_State = state, rs_Fence = 4, rs_Clusters = rows\<rparr>,
      ei_Lease = \<lparr>ls_Owner = ''w'', ls_Fence = 4, ls_ExpiresAt = 1060\<rparr>, ei_InitialApproval = None,
      ei_CohortApprovals = fmempty,
      ei_Maintenance = \<lparr>mg_Open = True, mg_OverrideAuthorized = False, mg_OverrideReason = []\<rparr>\<rparr>"

definition sample_djson :: decision_json where
  "sample_djson = \<lparr>js_release = \<lambda>_. Some ''{}'', js_decision = \<lambda>_. Some ''{}''\<rparr>"

lemma sample_sealed: "seal_plan sample_json True sample_open = Inr sample_rollout"
  by (simp add: seal_plan_def sample_open_def sample_rollout_def open_plan_def set_cohort_approval_def
      sample_cohort_list_def newCohort_def approvalDigest_def frozenDigest_def CanonicalDigest_def Let_def)
    (simp add: sample_json_def)

lemma sample_base_valid: "validateSnapshot sample_lib sample_base = Inr ()"
proof -
  have "PreviousDeployment_Validate sample_lib sample_previous = Inr ()"
    using sample_version_valid by (simp add: PreviousDeployment_Validate_def sample_previous_def)
  then have "as_invariant f (PreviousDeployment_Validate sample_lib (the (fmlookup (ps_PreviousByCluster sample_base) k))) = Inr ()"
    if "k \<in> fmdom' (ps_PreviousByCluster sample_base)" for f k
    using that by (auto simp: sample_base_def as_invariant_def)
  moreover have "k \<noteq> uuid_nil" if "k \<in> fmdom' (ps_PreviousByCluster sample_base)" for k
    using that by (auto simp: sample_base_def)
  ultimately show ?thesis
    using sample_snapshot_valid
    unfolding validateSnapshot_def Let_def sbind_Inr_iff for_each_unit_iff
    by (auto simp: sample_base_def)
qed

lemma sample_rollout_valid: "FrozenRollout_Validate sample_lib sample_json sample_rollout = Inr ()"
proof -
  have build: "BuildCohorts sample_lib (cr_Strategy sample_create) [sample_candidate 2 10, sample_candidate 1 10]
      = Inr (sample_cohort_list, planned_rows 0 sample_cohort_list)"
    by (simp add: sample_create_def sample_cohorts sample_cohort_list_def newCohort_def)
  have "RolloutStrategy_CanonicalDigest sample_lib (js_strategy sample_json) (cr_Strategy sample_create)
      = Inr (DigestBytes ''{}'')"
    using sample_create_valid(2) by (simp add: sample_create_def)
  then show ?thesis
    by (intro sealed_plan_validates [OF build _ sample_sealed [unfolded sample_open_def] sample_base_valid])
      (simp_all add: sample_base_def sample_snapshot_def)
qed

lemma sample_rollout_fields:
  "fr_Clusters sample_rollout =
     [\<lparr>pc_ClusterID = 1, pc_Cohort = 0, pc_Order = 0, pc_Desired = None, pc_Previous = Some sample_previous\<rparr>,
      \<lparr>pc_ClusterID = 2, pc_Cohort = 1, pc_Order = 1, pc_Desired = None, pc_Previous = Some sample_previous\<rparr>]"
  "fr_Cohorts sample_rollout = sample_cohort_list" "fr_Strategy sample_rollout = sample_strategy"
  "fr_CreatedAt sample_rollout = 1000" "fr_Deadline sample_rollout = 1100" "fr_ID sample_rollout = 9"
  "fr_Desired sample_rollout = sample_version"
  by (simp_all add: sample_rollout_def sample_open_def open_plan_def sample_cohort_list_def newCohort_def
      attach_versions_def sample_base_def sample_snapshot_def sample_create_def sample_strategy_def)

lemma sample_decided:
  assumes "validateRuntime sample_rollout rows = Inr clusters" and "DeriveRolloutCounters (map ru_State clusters) = Inr n"
    and "decide sample_djson (sample_input state rows) clusters (initial_decision 4 n) = Inr e" and "rollout_valid state"
  shows "Scheduler_Evaluate sample_lib sample_json sample_djson (sample_input state rows)
    = Inr ((sorted_decision sample_lib e)\<lparr>de_ID := DigestBytes ''{}''\<rparr>)"
  using assms sample_rollout_valid
  by (simp add: Scheduler_Evaluate_def sample_input_def Let_def Lease_validate_def contains_any_def line_breakers_def
      decisionDigest_def CanonicalDigest_def sample_djson_def)

abbreviation sample_progressing :: EvaluateInput where
  "sample_progressing \<equiv> sample_input RolloutProgressing [sample_row 2 RolloutClusterPending, sample_row 1 RolloutClusterReady]"

lemma sample_progress:
  "\<exists>d r. Scheduler_Evaluate sample_lib sample_json sample_djson sample_progressing = Inr d
     \<and> de_Releases d = [r] \<and> rl_ClusterID r = 2"
proof -
  let ?clusters = "[sample_row 1 RolloutClusterReady, sample_row 2 RolloutClusterPending]"
  have run: "validateRuntime sample_rollout [sample_row 2 RolloutClusterPending, sample_row 1 RolloutClusterReady] = Inr ?clusters"
    by (simp add: validateRuntime_def runtime_step_def sample_rollout_fields sample_row_def valid_defs)
  obtain n where n: "DeriveRolloutCounters (map ru_State ?clusters) = Inr n" and failed: "ct_Failed n = 0"
    by (simp add: DeriveRolloutCounters_def count_state_def sample_row_def valid_defs zero_counters_def Let_def)
  have "activeCohort sample_rollout ?clusters 1050 = Inr (1, 1000, False)"
    by (simp add: activeCohort_def sample_rollout_fields sample_cohort_list_def newCohort_def cohort_step_def
        sample_row_def matureAt_def sample_strategy_def)
  then have "\<exists>e r. decide sample_djson sample_progressing ?clusters (initial_decision 4 n) = Inr e
      \<and> de_Releases e = [r] \<and> rl_ClusterID r = 2"
    using failed
    by (simp add: decide_def sample_input_def Let_def evaluateProgressing_def reconnect_step_def sample_row_def
        isApplyActive_def sample_rollout_fields failureBudgetExceeded_def amountLimit_def sample_strategy_def
        release_cohort_def sample_cohort_list_def newCohort_def allowsRelease_def release_batch_def budget_step_def
        consumesConcurrency_def matureAt_def apply_step_def newRelease_def TransitionRolloutCluster_def valid_defs
        CanonicalDigest_def sample_djson_def)
  then obtain e r where e: "decide sample_djson sample_progressing ?clusters (initial_decision 4 n) = Inr e"
    "de_Releases e = [r]" "rl_ClusterID r = 2" by blast
  from sample_decided [OF run n e(1)] e(2,3) show ?thesis
    by (simp add: valid_defs sorted_decision_def)
qed

abbreviation sample_rolling_back :: EvaluateInput where
  "sample_rolling_back \<equiv> sample_input RolloutRollingBack [sample_row 2 RolloutClusterPending, sample_row 1 RolloutClusterReady]"

lemma sample_rollback:
  "\<exists>d r. Scheduler_Evaluate sample_lib sample_json sample_djson sample_rolling_back = Inr d
     \<and> de_Releases d = [r] \<and> rl_ClusterID r = 1"
proof -
  let ?clusters = "[sample_row 1 RolloutClusterReady, sample_row 2 RolloutClusterPending]"
  have run: "validateRuntime sample_rollout [sample_row 2 RolloutClusterPending, sample_row 1 RolloutClusterReady] = Inr ?clusters"
    by (simp add: validateRuntime_def runtime_step_def sample_rollout_fields sample_row_def valid_defs)
  obtain n where n: "DeriveRolloutCounters (map ru_State ?clusters) = Inr n"
    by (simp add: DeriveRolloutCounters_def count_state_def sample_row_def valid_defs zero_counters_def Let_def)
  have "\<exists>e r. decide sample_djson sample_rolling_back ?clusters (initial_decision 4 n) = Inr e
      \<and> de_Releases e = [r] \<and> rl_ClusterID r = 1"
    by (simp add: decide_def sample_input_def Let_def evaluateRollback_def rollback_count_step_def
        rollback_order_def rollback_step_def sample_row_def canStartRollback_def sample_rollout_fields amountLimit_def
        sample_strategy_def newRelease_def TransitionRolloutCluster_def valid_defs CanonicalDigest_def sample_djson_def
        sample_previous_def sort_key_def)
  then obtain e r where e: "decide sample_djson sample_rolling_back ?clusters (initial_decision 4 n) = Inr e"
    "de_Releases e = [r]" "rl_ClusterID r = 1" by blast
  from sample_decided [OF run n e(1)] e(2,3) show ?thesis
    by (simp add: valid_defs sorted_decision_def)
qed

abbreviation sample_waiting :: EvaluateInput where
  "sample_waiting \<equiv> sample_input RolloutProgressing [sample_row 2 RolloutClusterPending, sample_row 1 RolloutClusterReadyPrevious]"

lemma sample_wait:
  "\<exists>d. Scheduler_Evaluate sample_lib sample_json sample_djson sample_waiting = Inr d \<and> nothing_decided d"
proof -
  let ?clusters = "[sample_row 1 RolloutClusterReadyPrevious, sample_row 2 RolloutClusterPending]"
  have run: "validateRuntime sample_rollout [sample_row 2 RolloutClusterPending, sample_row 1 RolloutClusterReadyPrevious] = Inr ?clusters"
    by (simp add: validateRuntime_def runtime_step_def sample_rollout_fields sample_row_def valid_defs)
  obtain n where n: "DeriveRolloutCounters (map ru_State ?clusters) = Inr n" and failed: "ct_Failed n = 0"
    by (simp add: DeriveRolloutCounters_def count_state_def sample_row_def valid_defs zero_counters_def Let_def)
  have "activeCohort sample_rollout ?clusters 1050 = Inr (0, 1000, False)"
    by (simp add: activeCohort_def sample_rollout_fields sample_cohort_list_def newCohort_def cohort_step_def
        sample_row_def matureAt_def sample_strategy_def)
  then have "\<exists>e. decide sample_djson sample_waiting ?clusters (initial_decision 4 n) = Inr e \<and> nothing_decided e"
    using failed
    by (simp add: decide_def sample_input_def Let_def evaluateProgressing_def reconnect_step_def sample_row_def
        isApplyActive_def sample_rollout_fields failureBudgetExceeded_def amountLimit_def sample_strategy_def
        release_cohort_def sample_cohort_list_def newCohort_def allowsRelease_def release_batch_def budget_step_def
        consumesConcurrency_def matureAt_def apply_step_def nothing_decided_def initial_decision_def disconnected_in_def)
  then obtain e where e: "decide sample_djson sample_waiting ?clusters (initial_decision 4 n) = Inr e" "nothing_decided e"
    by blast
  from sample_decided [OF run n e(1)] e(2) show ?thesis
    by (simp add: valid_defs sorted_decision_def nothing_decided_def)
qed

lemma sample_input_fields:
  "ei_Now (sample_input state rows) = 1050" "rs_Plan (ei_Snapshot (sample_input state rows)) = sample_rollout"
  "rs_State (ei_Snapshot (sample_input state rows)) = state" "rs_Clusters (ei_Snapshot (sample_input state rows)) = rows"
  by (simp_all add: sample_input_def)

section \<open>Witnesses\<close>

theorem release_budget_witness:
  "\<exists>d. Scheduler_Evaluate sample_lib sample_json sample_djson sample_progressing = Inr d \<and> de_Releases d \<noteq> []
     \<and> in_flight sample_rollout 1050 (released_runtime d (rs_Clusters (ei_Snapshot sample_progressing))) \<le> 1"
proof -
  obtain d r where d: "Scheduler_Evaluate sample_lib sample_json sample_djson sample_progressing = Inr d"
    "de_Releases d = [r]" using sample_progress by blast
  from release_budget [OF d(1)] d show ?thesis
    by (simp add: sample_input_fields sample_rollout_fields sample_strategy_def)
qed

theorem releases_follow_plan_witness:
  "\<exists>d r. Scheduler_Evaluate sample_lib sample_json sample_djson sample_progressing = Inr d \<and> de_Releases d = [r]
     \<and> rl_Version r = sample_version \<and> rl_ToState r = RolloutClusterReleased \<and> rl_Generation r = 2
     \<and> rl_ExpectedFence r = 3 \<and> rl_Deadline r = 1100"
proof -
  obtain d r where d: "Scheduler_Evaluate sample_lib sample_json sample_djson sample_progressing = Inr d"
    "de_Releases d = [r]" using sample_progress by blast
  from releases_follow_plan [OF d(1), of r] d show ?thesis
    by (auto simp: sample_input_fields sample_rollout_fields desired_version_def sample_row_def)
qed

theorem releases_respect_cohorts_witness:
  "\<exists>d r. Scheduler_Evaluate sample_lib sample_json sample_djson sample_progressing = Inr d \<and> de_Releases d = [r]
     \<and> settled sample_rollout 1050 (sample_row 1 RolloutClusterReady)
     \<and> settle_time sample_rollout (sample_row 1 RolloutClusterReady) \<le> 1050"
proof -
  obtain d r where d: "Scheduler_Evaluate sample_lib sample_json sample_djson sample_progressing = Inr d"
    "de_Releases d = [r]" "rl_ClusterID r = 2" using sample_progress by blast
  from releases_respect_cohorts [OF d(1), of r "fr_Clusters sample_rollout ! 1" "fr_Clusters sample_rollout ! 0"
      "sample_row 1 RolloutClusterReady"] d
  show ?thesis
    by (simp add: sample_input_fields sample_rollout_fields sample_cohort_list_def newCohort_def)
      (simp add: sample_row_def)
qed

theorem releases_pass_gates_witness:
  "\<exists>d r. Scheduler_Evaluate sample_lib sample_json sample_djson sample_progressing = Inr d \<and> de_Releases d = [r]
     \<and> ei_Now sample_progressing < fr_Deadline sample_rollout
     \<and> failed_clusters (rs_Clusters (ei_Snapshot sample_progressing)) \<le> amountLimit (st_FailureThreshold sample_strategy) 2"
proof -
  obtain d r where d: "Scheduler_Evaluate sample_lib sample_json sample_djson sample_progressing = Inr d"
    "de_Releases d = [r]" "rl_ClusterID r = 2" using sample_progress by blast
  from releases_pass_gates [OF d(1), of r "fr_Clusters sample_rollout ! 1"] d show ?thesis
    by (simp add: sample_input_fields sample_rollout_fields)
qed

theorem rollback_budget_witness:
  "\<exists>d. Scheduler_Evaluate sample_lib sample_json sample_djson sample_rolling_back = Inr d \<and> de_Releases d \<noteq> []
     \<and> rolling_back (released_runtime d (rs_Clusters (ei_Snapshot sample_rolling_back))) \<le> 1"
proof -
  obtain d r where d: "Scheduler_Evaluate sample_lib sample_json sample_djson sample_rolling_back = Inr d"
    "de_Releases d = [r]" using sample_rollback by blast
  from rollback_budget [OF d(1)] d show ?thesis
    by (simp add: sample_input_fields sample_rollout_fields sample_strategy_def)
qed

theorem rollback_restores_previous_witness:
  "\<exists>d r. Scheduler_Evaluate sample_lib sample_json sample_djson sample_rolling_back = Inr d \<and> de_Releases d = [r]
     \<and> rl_Version r = pv_Version sample_previous \<and> rl_ToState r = RolloutClusterRollingBack \<and> rl_Generation r = 2"
proof -
  obtain d r where d: "Scheduler_Evaluate sample_lib sample_json sample_djson sample_rolling_back = Inr d"
    "de_Releases d = [r]" using sample_rollback by blast
  from rollback_restores_previous [OF d(1), of r] d show ?thesis
    by (auto simp: sample_input_fields sample_rollout_fields sample_row_def)
qed

theorem decisions_are_legal_witness:
  "\<exists>d r. Scheduler_Evaluate sample_lib sample_json sample_djson sample_progressing = Inr d \<and> de_Releases d = [r]
     \<and> decision_legal (ei_Snapshot sample_progressing) d"
proof -
  obtain d r where d: "Scheduler_Evaluate sample_lib sample_json sample_djson sample_progressing = Inr d"
    "de_Releases d = [r]" using sample_progress by blast
  from decisions_are_legal [OF d(1)] d show ?thesis by blast
qed

theorem decision_order_free_witness:
  "result_of (Scheduler_Evaluate sample_lib sample_json sample_djson
       (sample_input RolloutProgressing [sample_row 1 RolloutClusterReady, sample_row 2 RolloutClusterPending]))
     = result_of (Scheduler_Evaluate sample_lib sample_json sample_djson sample_progressing)"
  using decision_order_free [of "[sample_row 1 RolloutClusterReady, sample_row 2 RolloutClusterPending]" sample_progressing]
  by (simp add: sample_input_def)

theorem no_silent_stall_witness:
  "\<exists>d. Scheduler_Evaluate sample_lib sample_json sample_djson sample_waiting = Inr d \<and> nothing_decided d
     \<and> (\<exists>c. c \<in> set (rs_Clusters (ei_Snapshot sample_waiting))
          \<and> (consumesConcurrency c 0 1050
             \<or> ru_State c \<in> {RolloutClusterAborted, RolloutClusterRollbackFailed, RolloutClusterReadyPrevious}))"
proof -
  obtain d where d: "Scheduler_Evaluate sample_lib sample_json sample_djson sample_waiting = Inr d" "nothing_decided d"
    using sample_wait by blast
  from no_silent_stall [OF d(1) _ d(2)]
  have "\<exists>c \<in> set (rs_Clusters (ei_Snapshot sample_waiting)). consumesConcurrency c 0 1050
      \<or> ru_State c \<in> {RolloutClusterAborted, RolloutClusterRollbackFailed, RolloutClusterReadyPrevious}"
    by (simp add: sample_input_fields sample_rollout_fields sample_strategy_def)
  with d show ?thesis by blast
qed

end
