(* ===== verification/Maintenance.thy ===== *)
theory Maintenance
  imports Model_Core
begin

text \<open>
  Maintenance windows (\<open>internal/maintenance/window.go\<close>): when a window is open, which
  operations it gates, and when it closes.

  The cron library and the time-zone database are not part of the repository.  They are the
  fields of \<open>cron_lib\<close>; \<open>schedule_ok\<close> states what the library documents of
  \<open>Schedule.Next\<close>: it gives the first activation after the given time, or the zero time when
  there is none within five years.
\<close>

section \<open>Windows\<close>

record cron_lib =
  lib_LoadLocation :: "string \<Rightarrow> bool"
  lib_cronParse :: "string \<Rightarrow> bool"
  lib_cronNext :: "string \<Rightarrow> string \<Rightarrow> gotime \<Rightarrow> gotime"
  lib_jsonSelector :: "string \<Rightarrow> (string, string) gomap option"
  lib_jsonStrings :: "string \<Rightarrow> string list option"

definition ModeBlackout :: string where "ModeBlackout = ''blackout''"
definition ModePermitted :: string where "ModePermitted = ''permitted''"
definition OpDeliveryRollout :: string where "OpDeliveryRollout = ''delivery.rollout''"

record MaintenanceWindow =
  row_ID :: uuid
  row_Name :: string
  row_Mode :: string
  row_CronOpen :: string
  row_DurationMinutes :: int
  row_Timezone :: string
  row_ClusterSelector :: string
  row_OperationTypes :: string
  row_OnBlock :: string
  row_Enabled :: bool

record Window =
  mw_ID :: uuid
  mw_Name :: string
  mw_Mode :: string
  mw_CronOpen :: string
  mw_DurationMinutes :: int
  mw_Timezone :: string
  mw_ClusterSelector :: "(string, string) gomap"
  mw_OperationTypes :: "string list"
  mw_OnBlock :: string
  mw_Enabled :: bool

datatype MaintenanceError = WindowDecodeErr | WindowLocationErr | WindowCronErr | WindowStoreErr

definition FromSQLC :: "cron_lib \<Rightarrow> MaintenanceWindow \<Rightarrow> MaintenanceError + Window" where
  "FromSQLC C row =
     sbind (if row_ClusterSelector row \<noteq> [] \<and> row_ClusterSelector row \<noteq> ''{}''
            then (case lib_jsonSelector C (row_ClusterSelector row) of None \<Rightarrow> Inl WindowDecodeErr | Some m \<Rightarrow> Inr m)
            else Inr fmempty) (\<lambda>sel.
     sbind (if row_OperationTypes row \<noteq> [] \<and> row_OperationTypes row \<noteq> ''[]''
            then (case lib_jsonStrings C (row_OperationTypes row) of None \<Rightarrow> Inl WindowDecodeErr | Some l \<Rightarrow> Inr l)
            else Inr []) (\<lambda>ops.
     Inr \<lparr>mw_ID = row_ID row, mw_Name = row_Name row, mw_Mode = row_Mode row, mw_CronOpen = row_CronOpen row,
          mw_DurationMinutes = row_DurationMinutes row, mw_Timezone = row_Timezone row, mw_ClusterSelector = sel,
          mw_OperationTypes = ops, mw_OnBlock = row_OnBlock row, mw_Enabled = row_Enabled row\<rparr>))"

section \<open>The cache of windows\<close>

record Evaluator =
  ev_ttl :: duration
  ev_cached :: "Window list"
  ev_cachedAt :: gotime

definition NewEvaluator :: Evaluator where
  "NewEvaluator = \<lparr>ev_ttl = 30000000000, ev_cached = [], ev_cachedAt = 0\<rparr>"

text \<open>\<open>now\<close> is the clock at the test of the cache, \<open>stored\<close> at its update; \<open>query\<close> is the
  answer of the database, where it is asked.\<close>

definition Evaluator_Windows ::
    "cron_lib \<Rightarrow> gotime \<Rightarrow> gotime \<Rightarrow> MaintenanceWindow list option \<Rightarrow> Evaluator
     \<Rightarrow> (MaintenanceError + Window list) \<times> Evaluator" where
  "Evaluator_Windows C now stored query e =
     (if \<not> is_zero_time (ev_cachedAt e) \<and> now - ev_cachedAt e < ev_ttl e then (Inr (ev_cached e), e)
      else case query of
          None \<Rightarrow> (Inl WindowStoreErr, e)
        | Some rows \<Rightarrow>
            let out = List.map_filter (\<lambda>row. case FromSQLC C row of Inl _ \<Rightarrow> None | Inr w \<Rightarrow> Some w) rows in
            (Inr out, e\<lparr>ev_cached := out, ev_cachedAt := stored\<rparr>))"

definition Invalidate :: "Evaluator \<Rightarrow> Evaluator" where
  "Invalidate e = e\<lparr>ev_cached := [], ev_cachedAt := 0\<rparr>"

section \<open>When a window is open\<close>

definition loadLocation :: "cron_lib \<Rightarrow> string \<Rightarrow> MaintenanceError + string" where
  "loadLocation C name =
     (if name = [] then Inr ''UTC'' else if lib_LoadLocation C name then Inr name else Inl WindowLocationErr)"

definition window_duration :: "Window \<Rightarrow> duration" where
  "window_duration w = to_sint 64 (mw_DurationMinutes w * 60000000000)"

definition schedule :: "cron_lib \<Rightarrow> Window \<Rightarrow> MaintenanceError + (gotime \<Rightarrow> gotime)" where
  "schedule C w =
     sbind (loadLocation C (mw_Timezone w)) (\<lambda>loc.
     if \<not> lib_cronParse C (trim_space (mw_CronOpen w)) then Inl WindowCronErr
     else Inr (lib_cronNext C loc (trim_space (mw_CronOpen w))))"

definition IsActive :: "cron_lib \<Rightarrow> Window \<Rightarrow> gotime \<Rightarrow> MaintenanceError + bool" where
  "IsActive C w now =
     sbind (schedule C w) (\<lambda>expr_Next.
     let dur = window_duration w in
     if dur \<le> 0 then Inr False
     else let opened = expr_Next (now - dur) in
       if is_zero_time opened then Inr False else Inr (\<not> after opened now))"

definition NextOpen :: "cron_lib \<Rightarrow> Window \<Rightarrow> gotime \<Rightarrow> gotime" where
  "NextOpen C w now = (case schedule C w of Inl _ \<Rightarrow> 0 | Inr expr_Next \<Rightarrow> expr_Next now)"

partial_function (option) last_open :: "(gotime \<Rightarrow> gotime) \<Rightarrow> gotime \<Rightarrow> gotime \<Rightarrow> gotime \<Rightarrow> gotime option" where
  "last_open expr_Next now cursor lastOpen =
     (let opened = expr_Next cursor in
      if is_zero_time opened \<or> after opened now then Some lastOpen
      else last_open expr_Next now opened opened)"

declare last_open.simps [code]

definition NextClose :: "cron_lib \<Rightarrow> Window \<Rightarrow> gotime \<Rightarrow> gotime option" where
  "NextClose C w now =
     (case schedule C w of
        Inl _ \<Rightarrow> Some 0
      | Inr expr_Next \<Rightarrow>
          let dur = window_duration w in
          (case last_open expr_Next now (now - dur) 0 of
             None \<Rightarrow> None
           | Some lastOpen \<Rightarrow> Some (if is_zero_time lastOpen then 0 else lastOpen + dur)))"

section \<open>What a window gates\<close>

definition appliesToOp :: "Window \<Rightarrow> string \<Rightarrow> bool" where
  "appliesToOp w opType \<longleftrightarrow> mw_OperationTypes w = [] \<or> list_ex (\<lambda>t. t = opType) (mw_OperationTypes w)"

definition map_get :: "(string, string) gomap \<Rightarrow> string \<Rightarrow> string" where
  "map_get m k = (case fmlookup m k of None \<Rightarrow> [] | Some v \<Rightarrow> v)"

definition appliesToCluster :: "Window \<Rightarrow> (string, string) gomap \<Rightarrow> bool" where
  "appliesToCluster w clusterLabels \<longleftrightarrow>
     (if map_len (mw_ClusterSelector w) = 0 then True
      else if map_len clusterLabels = 0 then False
      else list_all (\<lambda>k. map_get clusterLabels k = map_get (mw_ClusterSelector w) k) (map_keys (mw_ClusterSelector w)))"

definition concerns :: "string \<Rightarrow> string \<Rightarrow> (string, string) gomap \<Rightarrow> Window \<Rightarrow> bool" where
  "concerns mode opType labels w \<longleftrightarrow>
     mw_Enabled w \<and> mw_Mode w = mode \<and> appliesToOp w opType \<and> appliesToCluster w labels"

definition blackout_hit :: "cron_lib \<Rightarrow> string \<Rightarrow> (string, string) gomap \<Rightarrow> gotime \<Rightarrow> Window \<Rightarrow> bool" where
  "blackout_hit C opType labels now w \<longleftrightarrow> concerns ModeBlackout opType labels w \<and> IsActive C w now = Inr True"

definition permitted_step ::
    "cron_lib \<Rightarrow> string \<Rightarrow> (string, string) gomap \<Rightarrow> gotime \<Rightarrow> Window \<Rightarrow> nat \<times> nat \<times> Window option
     \<Rightarrow> nat \<times> nat \<times> Window option" where
  "permitted_step C opType labels now w acc =
     (case acc of (matched, activeCount, firstInactive) \<Rightarrow>
        if \<not> concerns ModePermitted opType labels w then acc
        else case IsActive C w now of
            Inl _ \<Rightarrow> acc
          | Inr active \<Rightarrow>
              if active then (matched + 1, activeCount + 1, firstInactive)
              else (matched + 1, activeCount, if firstInactive = None then Some w else firstInactive))"

text \<open>The evaluator is nil, or gives the windows or an error.\<close>

definition IsBlocked ::
    "cron_lib \<Rightarrow> (MaintenanceError + Window list) option \<Rightarrow> string \<Rightarrow> (string, string) gomap \<Rightarrow> gotime
     \<Rightarrow> MaintenanceError + bool \<times> Window option" where
  "IsBlocked C ev opType labels now =
     (case ev of
        None \<Rightarrow> Inr (False, None)
      | Some answer \<Rightarrow>
          sbind answer (\<lambda>windows.
            case find (blackout_hit C opType labels now) windows of
              Some w \<Rightarrow> Inr (True, Some w)
            | None \<Rightarrow>
                (case fold (permitted_step C opType labels now) windows (0, 0, None) of
                   (matched, activeCount, firstInactive) \<Rightarrow>
                     if matched > 0 \<and> activeCount = 0 then Inr (True, firstInactive) else Inr (False, None))))"

section \<open>The schedule of a window\<close>

text \<open>Five years, the horizon of \<open>Schedule.Next\<close>.\<close>

definition cron_horizon :: duration where
  "cron_horizon = 5 * 365 * 24 * 3600 * 1000000000"

definition schedule_ok :: "(gotime \<Rightarrow> bool) \<Rightarrow> (gotime \<Rightarrow> gotime) \<Rightarrow> bool" where
  "schedule_ok fires expr_Next \<longleftrightarrow>
     (\<forall>t. expr_Next t \<noteq> 0 \<longrightarrow> t < expr_Next t \<and> fires (expr_Next t) \<and> (\<forall>f. fires f \<and> t < f \<longrightarrow> expr_Next t \<le> f))
   \<and> (\<forall>t f. fires f \<and> t < f \<and> f \<le> t + cron_horizon \<longrightarrow> expr_Next t \<noteq> 0)"

definition open_at :: "(gotime \<Rightarrow> bool) \<Rightarrow> Window \<Rightarrow> gotime \<Rightarrow> bool" where
  "open_at fires w now \<longleftrightarrow> (\<exists>opened. fires opened \<and> opened \<le> now \<and> now < opened + window_duration w)"

definition evaluable :: "cron_lib \<Rightarrow> Window \<Rightarrow> bool" where
  "evaluable C w \<longleftrightarrow> (\<exists>expr_Next. schedule C w = Inr expr_Next)"

lemma IsActive_iff:
  assumes "schedule C w = Inr expr_Next" and "schedule_ok fires expr_Next" and "window_duration w \<le> cron_horizon"
  shows "IsActive C w now = Inr (open_at fires w now)"
proof (cases "window_duration w \<le> 0")
  case True
  then have "\<not> open_at fires w now" by (force simp: open_at_def)
  with True assms(1) show ?thesis by (simp add: IsActive_def Let_def)
next
  case False
  let ?opened = "expr_Next (now - window_duration w)"
  have "open_at fires w now \<longleftrightarrow> ?opened \<noteq> 0 \<and> ?opened \<le> now"
  proof
    assume "open_at fires w now"
    then obtain f where "fires f" "f \<le> now" "now - window_duration w < f" by (auto simp: open_at_def)
    moreover from this assms(3) have "f \<le> now - window_duration w + cron_horizon" by simp
    ultimately show "?opened \<noteq> 0 \<and> ?opened \<le> now"
      using assms(2) unfolding schedule_ok_def by (meson order_trans)
  next
    assume "?opened \<noteq> 0 \<and> ?opened \<le> now"
    with assms(2) have "fires ?opened \<and> now - window_duration w < ?opened \<and> ?opened \<le> now"
      unfolding schedule_ok_def by blast
    then show "open_at fires w now" unfolding open_at_def by (intro exI [of _ ?opened]) auto
  qed
  with False assms(1) show ?thesis by (auto simp: IsActive_def Let_def)
qed

lemma IsActive_Inr: "IsActive C w now = Inr b \<Longrightarrow> evaluable C w"
  by (auto simp: IsActive_def evaluable_def sbind_Inr_iff)

lemma evaluable_IsActive: "evaluable C w \<Longrightarrow> \<exists>b. IsActive C w now = Inr b"
  by (auto simp: IsActive_def evaluable_def Let_def)

lemma permitted_fold:
  "fold (permitted_step C opType labels now) ws (m, a, first) = (m', a', first') \<Longrightarrow>
   (0 < m' \<longleftrightarrow> 0 < m \<or> (\<exists>w \<in> set ws. concerns ModePermitted opType labels w \<and> evaluable C w))
   \<and> (a' = 0 \<longleftrightarrow> a = 0 \<and> \<not> (\<exists>w \<in> set ws. concerns ModePermitted opType labels w \<and> IsActive C w now = Inr True))"
proof (induction ws arbitrary: m a first)
  case Nil
  then show ?case by simp
next
  case (Cons w ws)
  from Cons.prems obtain m1 a1 f1 where step: "permitted_step C opType labels now w (m, a, first) = (m1, a1, f1)"
    and rest: "fold (permitted_step C opType labels now) ws (m1, a1, f1) = (m', a', first')"
    by (metis comp_apply fold_Cons prod_cases3)
  show ?case
  proof (cases "concerns ModePermitted opType labels w \<and> evaluable C w")
    case True
    then obtain b where b: "IsActive C w now = Inr b" using evaluable_IsActive by blast
    from step True b have "m1 = m + 1" and "a1 = (if b then a + 1 else a)"
      by (auto simp: permitted_step_def split: if_splits)
    with Cons.IH [OF rest] True b show ?thesis by auto
  next
    case False
    then have "\<not> concerns ModePermitted opType labels w \<or> (\<exists>e. IsActive C w now = Inl e)"
      using IsActive_Inr by (metis sum.exhaust)
    with step have "(m1, a1, f1) = (m, a, first)" by (auto simp: permitted_step_def split: if_splits)
    with Cons.IH [OF rest] False show ?thesis using IsActive_Inr by fastforce
  qed
qed

lemma IsBlocked_windows:
  "\<exists>w. IsBlocked C (Some (Inr ws)) opType labels now = Inr
     ((\<exists>w \<in> set ws. concerns ModeBlackout opType labels w \<and> IsActive C w now = Inr True)
      \<or> (\<exists>w \<in> set ws. concerns ModePermitted opType labels w \<and> evaluable C w)
        \<and> \<not> (\<exists>w \<in> set ws. concerns ModePermitted opType labels w \<and> IsActive C w now = Inr True), w)"
proof (cases "find (blackout_hit C opType labels now) ws")
  case (Some w)
  then have "w \<in> set ws \<and> blackout_hit C opType labels now w" by (rule find_SomeD)
  with Some show ?thesis by (auto simp: IsBlocked_def blackout_hit_def)
next
  case None
  obtain m a f where fold: "fold (permitted_step C opType labels now) ws (0, 0, None) = (m, a, f)"
    by (metis prod_cases3)
  from None have "\<not> (\<exists>w \<in> set ws. concerns ModeBlackout opType labels w \<and> IsActive C w now = Inr True)"
    by (auto simp: find_None_iff blackout_hit_def)
  with None fold permitted_fold [OF fold] show ?thesis by (auto simp: IsBlocked_def)
qed

lemma open_walk:
  assumes "schedule_ok fires expr_Next"
  shows "\<exists>f. last_open expr_Next now cursor lastOpen = Some f
     \<and> (f = lastOpen \<or> cursor < f \<and> f \<le> now \<and> fires f \<and> f \<noteq> 0)
     \<and> (expr_Next cursor \<noteq> 0 \<and> expr_Next cursor \<le> now \<longrightarrow> cursor < f \<and> f \<le> now \<and> fires f \<and> f \<noteq> 0)"
proof (induction "nat (now - cursor)" arbitrary: cursor lastOpen rule: less_induct)
  case less
  let ?opened = "expr_Next cursor"
  show ?case
  proof (cases "?opened = 0 \<or> now < ?opened")
    case True
    then show ?thesis by (subst last_open.simps) (auto simp: Let_def)
  next
    case False
    with assms have next_open: "cursor < ?opened" "fires ?opened" "?opened \<le> now" "?opened \<noteq> 0"
      by (auto simp: schedule_ok_def)
    then have "nat (now - ?opened) < nat (now - cursor)" by simp
    from less [OF this, of ?opened] next_open False show ?thesis
      by (subst last_open.simps) (auto simp: Let_def intro: order.strict_trans)
  qed
qed

section \<open>Properties\<close>

text \<open>C38. What the gate decides.  For windows whose cron expressions fire as the cron library
  documents, an operation is blocked exactly when an enabled blackout window for the operation
  and the cluster is open, or when there are enabled permitted windows for them and none of
  these is open.  A window is open from each firing of its expression for its duration.\<close>

theorem blocked_exactly:
  assumes "\<forall>w \<in> set windows. \<forall>expr_Next. schedule C w = Inr expr_Next \<longrightarrow> schedule_ok (fires w) expr_Next"
    and "\<forall>w \<in> set windows. window_duration w \<le> cron_horizon"
  shows "\<exists>w. IsBlocked C (Some (Inr windows)) opType labels now = Inr
     ((\<exists>w \<in> set windows. concerns ModeBlackout opType labels w \<and> evaluable C w \<and> open_at (fires w) w now)
      \<or> (\<exists>w \<in> set windows. concerns ModePermitted opType labels w \<and> evaluable C w)
        \<and> \<not> (\<exists>w \<in> set windows. concerns ModePermitted opType labels w \<and> evaluable C w \<and> open_at (fires w) w now), w)"
proof -
  have active: "IsActive C w now = Inr True \<longleftrightarrow> evaluable C w \<and> open_at (fires w) w now" if "w \<in> set windows" for w
  proof (cases "evaluable C w")
    case True
    then obtain n where "schedule C w = Inr n" by (auto simp: evaluable_def)
    with that assms True show ?thesis by (simp add: IsActive_iff [of C w n "fires w" now])
  next
    case False
    then show ?thesis using IsActive_Inr by blast
  qed
  show ?thesis using IsBlocked_windows [of C windows opType labels now] by (simp add: active cong: conj_cong)
qed

text \<open>C39. The closing time: the walk over the firings of the expression always ends, and for a
  window that is open now it gives a time in the future until which the window stays open.\<close>

theorem next_close_returns:
  assumes "schedule C w = Inr expr_Next" and "schedule_ok fires expr_Next" and "window_duration w \<le> cron_horizon"
  shows "\<exists>closes. NextClose C w now = Some closes
     \<and> (IsActive C w now = Inr True \<longrightarrow>
          now < closes \<and> (\<forall>t. now \<le> t \<and> t < closes \<longrightarrow> IsActive C w t = Inr True))"
proof -
  let ?dur = "window_duration w"
  obtain f where walk: "last_open expr_Next now (now - ?dur) 0 = Some f"
    and found: "expr_Next (now - ?dur) \<noteq> 0 \<and> expr_Next (now - ?dur) \<le> now \<Longrightarrow>
      now - ?dur < f \<and> f \<le> now \<and> fires f \<and> f \<noteq> 0"
    using open_walk [OF assms(2), of now "now - ?dur" 0] by blast
  have "now < f + ?dur \<and> (\<forall>t. now \<le> t \<and> t < f + ?dur \<longrightarrow> IsActive C w t = Inr True) \<and> f \<noteq> 0"
    if "IsActive C w now = Inr True"
  proof -
    from that assms(1) have "expr_Next (now - ?dur) \<noteq> 0 \<and> expr_Next (now - ?dur) \<le> now"
      by (auto simp: IsActive_def Let_def split: if_splits)
    from found [OF this] show ?thesis
      by (auto simp: IsActive_iff [OF assms] open_at_def)
  qed
  with walk assms(1) show ?thesis by (auto simp: NextClose_def Let_def)
qed

section \<open>A sample schedule\<close>

text \<open>A library whose only expression fires once, at 5000, and a window of thirty minutes on it.\<close>

definition once :: "gotime \<Rightarrow> bool" where
  "once t \<longleftrightarrow> t = 5000"

definition once_next :: "gotime \<Rightarrow> gotime" where
  "once_next t = (if t < 5000 then 5000 else 0)"

definition sample_cron :: cron_lib where
  "sample_cron = \<lparr>lib_LoadLocation = \<lambda>_. True, lib_cronParse = \<lambda>_. True, lib_cronNext = \<lambda>_ _. once_next,
     lib_jsonSelector = \<lambda>_. None, lib_jsonStrings = \<lambda>_. None\<rparr>"

definition sample_window :: "string \<Rightarrow> Window" where
  "sample_window mode =
     \<lparr>mw_ID = 1, mw_Name = ''w'', mw_Mode = mode, mw_CronOpen = ''0'', mw_DurationMinutes = 30, mw_Timezone = [],
      mw_ClusterSelector = fmempty, mw_OperationTypes = [], mw_OnBlock = ''refuse'', mw_Enabled = True\<rparr>"

lemma once_schedule: "schedule_ok once once_next"
  by (auto simp: schedule_ok_def once_def once_next_def)

lemma sample_window_schedule:
  "schedule sample_cron (sample_window mode) = Inr once_next"
  "window_duration (sample_window mode) = 1800000000000"
  by (simp_all add: schedule_def loadLocation_def sample_window_def sample_cron_def window_duration_def to_sint_id)

theorem blocked_exactly_witness:
  "\<exists>w. IsBlocked sample_cron (Some (Inr [sample_window ModePermitted])) OpDeliveryRollout fmempty 4000 = Inr (True, w)"
proof -
  have "\<not> open_at once (sample_window ModePermitted) 4000"
    by (simp add: open_at_def once_def)
  moreover have "concerns ModePermitted OpDeliveryRollout fmempty (sample_window ModePermitted)"
    by (simp add: concerns_def appliesToOp_def appliesToCluster_def sample_window_def)
  moreover have "evaluable sample_cron (sample_window ModePermitted)"
    by (simp add: evaluable_def sample_window_schedule)
  ultimately show ?thesis
    using blocked_exactly [of "[sample_window ModePermitted]" sample_cron "\<lambda>_. once" OpDeliveryRollout fmempty 4000]
    by (simp add: sample_window_schedule once_schedule cron_horizon_def)
qed

theorem next_close_returns_witness:
  "\<exists>closes. NextClose sample_cron (sample_window ModeBlackout) 6000 = Some closes \<and> 6000 < closes"
proof -
  have "IsActive sample_cron (sample_window ModeBlackout) 6000 = Inr True"
    by (simp add: IsActive_def sample_window_schedule Let_def once_next_def)
  with next_close_returns [OF sample_window_schedule(1) once_schedule, of ModeBlackout 6000]
  show ?thesis by (auto simp: sample_window_schedule cron_horizon_def)
qed

end
