(* ===== verification/Rollout_Db.thy ===== *)
theory Rollout_Db
  imports Scheduler Maintenance
begin

text \<open>
  The tables behind a rollout and the statements on them: the queries of
  \<open>internal/db/sqlc/delivery.sql.go\<close> that the planner, the controller, the reconciler and the
  status ingester run, with the triggers of the migrations, and the planner's store on top of
  them (\<open>internal/delivery/rollout/postgres_store.go\<close>).

  A table is the list of its rows, in the order of insertion.  A statement that returns one row
  gives \<open>Inl NoRows\<close> where \<open>pgx\<close> returns \<open>ErrNoRows\<close>.  \<open>now\<close> is the time of the transaction.
  Columns that hold a state, a phase or an action are kept at the enumeration the code converts
  them to, which has a constructor for every other string.  The columns that are written and
  never read (placement snapshot, approval policy, creation time, messages) are left out; so is
  the time of the last update of a rollout, which only orders the rows a sweep claims.

  Writing the plan to its \<open>jsonb\<close> column and reading it back are fields of \<open>store_json\<close>.
\<close>

section \<open>Rows\<close>

record DeliveryRollout =
  dr_ID :: uuid
  dr_TargetID :: uuid
  dr_TargetGeneration :: int
  dr_FromVersion :: "uuid option"
  dr_ToVersion :: uuid
  dr_PlacementDigest :: digest
  dr_OnFailure :: FailureAction
  dr_StrategyDigest :: digest
  dr_RequestDigest :: digest
  dr_PlanDigest :: digest
  dr_FrozenPlan :: string
  dr_State :: RolloutState
  dr_IdempotencyKey :: string
  dr_ProgressDeadline :: "gotime option"
  dr_InitiatedBy :: "uuid option"
  dr_Fence :: int
  dr_LeaseOwner :: string
  dr_LeaseExpiresAt :: "gotime option"
  dr_RuntimeGeneration :: int
  dr_LastDecision :: digest
  dr_LastError :: string
  dr_StartedAt :: "gotime option"
  dr_CompletedAt :: "gotime option"
  dr_Total :: int
  dr_Ready :: int
  dr_Failed :: int
  dr_Blocked :: int
  dr_Released :: int

record DeliveryRolloutCluster =
  rc_ID :: uuid
  rc_RolloutID :: uuid
  rc_ClusterID :: uuid
  rc_Cohort :: int
  rc_ReleaseOrder :: int
  rc_PreviousVersion :: "uuid option"
  rc_DesiredVersion :: uuid
  rc_DesiredDigest :: digest
  rc_State :: RolloutClusterState
  rc_Action :: AssignmentAction
  rc_Attempt :: int
  rc_Fence :: int
  rc_ReleasedAt :: "gotime option"
  rc_AcknowledgedAt :: "gotime option"
  rc_ReadyAt :: "gotime option"
  rc_CompletedAt :: "gotime option"
  rc_Deadline :: "gotime option"
  rc_LastError :: string
  rc_UpdatedAt :: gotime

record ClusterDeployment =
  cd_ID :: uuid
  cd_TargetID :: uuid
  cd_ClusterID :: uuid
  cd_CurrentRolloutID :: "uuid option"
  cd_DesiredVersion :: "uuid option"
  cd_PreviousVersion :: "uuid option"
  cd_DesiredGeneration :: int
  cd_DesiredDigest :: digest
  cd_DesiredOverrides :: string
  cd_PreviousOverrides :: "string option"
  cd_DesiredRevision :: string
  cd_DesiredRenderer :: "string option"
  cd_ConfigurationDigest :: "digest option"
  cd_Action :: string
  cd_Phase :: DeploymentPhase
  cd_ObservedGeneration :: int
  cd_ObservedDigest :: digest
  cd_SessionID :: string
  cd_Sequence :: int
  cd_LastError :: string

record DeliveryRolloutApproval =
  ra_ID :: uuid
  ra_RolloutID :: uuid
  ra_Cohort :: int
  ra_BindingDigest :: digest
  ra_Decision :: string
  ra_DecidedBy :: "uuid option"
  ra_DecidedAt :: gotime
  ra_ExpiresAt :: gotime

record DeliveryRolloutEvent =
  re_ID :: uuid
  re_RolloutID :: uuid
  re_ClusterID :: "uuid option"
  re_DecisionDigest :: digest
  re_Type :: string
  re_From :: string
  re_To :: string
  re_Reason :: string
  re_Fence :: int
  re_OccurredAt :: gotime

text \<open>The phase before a release is empty where the cluster has no deployment yet.\<close>

record ClusterDeploymentEvent =
  ve_DeploymentID :: uuid
  ve_RolloutID :: "uuid option"
  ve_Type :: string
  ve_From :: "DeploymentPhase option"
  ve_To :: DeploymentPhase
  ve_Generation :: int
  ve_SpecDigest :: digest
  ve_Reason :: string
  ve_ObservedAt :: gotime

record OutboxTask =
  ot_DedupeKey :: string
  ot_RolloutID :: uuid
  ot_NextAttemptAt :: gotime
  ot_Delivered :: bool

record OperationIdempotencyKey =
  ok_Scope :: string
  ok_Key :: string
  ok_Table :: string
  ok_OperationID :: "uuid option"
  ok_Response :: string

record Db =
  db_TargetProject :: "uuid \<Rightarrow> uuid option"
  db_DeletionState :: "uuid \<Rightarrow> string"
  db_Rollouts :: "DeliveryRollout list"
  db_Clusters :: "DeliveryRolloutCluster list"
  db_Deployments :: "ClusterDeployment list"
  db_Connected :: "uuid \<Rightarrow> bool"
  db_Labels :: "uuid \<Rightarrow> string"
  db_Approvals :: "DeliveryRolloutApproval list"
  db_Events :: "DeliveryRolloutEvent list"
  db_DeploymentEvents :: "ClusterDeploymentEvent list"
  db_Outbox :: "OutboxTask list"
  db_Keys :: "OperationIdempotencyKey list"
  db_Audit :: "(uuid \<times> RolloutState \<times> int) list"

datatype StoreError = Refused RolloutError | NoRows | StoreFailed | UniqueViolation | JsonTooLarge
  | KeyConflict | KeyCorrupt | AuditUnavailable

record store_json =
  js_storedPlan :: "FrozenRollout \<Rightarrow> string option"
  js_readPlan :: "string \<Rightarrow> FrozenRollout option"
  js_overrides :: "TargetOverrides \<Rightarrow> string option"
  js_renderer :: "RendererSpec \<Rightarrow> string option"
  js_labels :: "string \<Rightarrow> (string, string) gomap option"
  js_uuidParse :: "string \<Rightarrow> uuid option"

section \<open>Updates and triggers\<close>

definition update_where :: "('a \<Rightarrow> bool) \<Rightarrow> ('a \<Rightarrow> 'a) \<Rightarrow> 'a list \<Rightarrow> 'a list" where
  "update_where P f = map (\<lambda>x. if P x then f x else x)"

text \<open>\<open>UPDATE \<dots> WHERE P RETURNING *\<close> on the rollouts.\<close>

definition update_rollout ::
    "(DeliveryRollout \<Rightarrow> bool) \<Rightarrow> (DeliveryRollout \<Rightarrow> DeliveryRollout) \<Rightarrow> Db \<Rightarrow> StoreError + DeliveryRollout \<times> Db" where
  "update_rollout P f db =
     (case find P (db_Rollouts db) of
        None \<Rightarrow> Inl NoRows
      | Some r \<Rightarrow> Inr (f r, db\<lparr>db_Rollouts := update_where P f (db_Rollouts db)\<rparr>))"

definition bump_runtime :: "(DeliveryRollout \<Rightarrow> nat) \<Rightarrow> Db \<Rightarrow> Db" where
  "bump_runtime n db =
     db\<lparr>db_Rollouts := map (\<lambda>r. r\<lparr>dr_RuntimeGeneration := dr_RuntimeGeneration r + int (n r)\<rparr>) (db_Rollouts db)\<rparr>"

text \<open>The trigger on the clusters of a rollout runs once for each updated row.\<close>

definition bump_delivery_rollout_runtime_for_cluster_row :: "DeliveryRolloutCluster list \<Rightarrow> Db \<Rightarrow> Db" where
  "bump_delivery_rollout_runtime_for_cluster_row updated =
     bump_runtime (\<lambda>r. length (filter (\<lambda>c. rc_RolloutID c = dr_ID r) updated))"

text \<open>Updates of the rows of the clusters: every statement sets the state and the fence, so
  that the trigger fires.\<close>

definition update_clusters ::
    "gotime \<Rightarrow> (DeliveryRolloutCluster \<Rightarrow> bool) \<Rightarrow> (DeliveryRolloutCluster \<Rightarrow> DeliveryRolloutCluster) \<Rightarrow> Db \<Rightarrow> Db" where
  "update_clusters now P f db =
     bump_delivery_rollout_runtime_for_cluster_row (filter P (db_Clusters db))
       (db\<lparr>db_Clusters := update_where P (\<lambda>c. (f c)\<lparr>rc_UpdatedAt := now\<rparr>) (db_Clusters db)\<rparr>)"

definition update_cluster ::
    "gotime \<Rightarrow> (DeliveryRolloutCluster \<Rightarrow> bool) \<Rightarrow> (DeliveryRolloutCluster \<Rightarrow> DeliveryRolloutCluster) \<Rightarrow> Db
     \<Rightarrow> StoreError + DeliveryRolloutCluster \<times> Db" where
  "update_cluster now P f db =
     (case find P (db_Clusters db) of
        None \<Rightarrow> Inl NoRows
      | Some c \<Rightarrow> Inr ((f c)\<lparr>rc_UpdatedAt := now\<rparr>, update_clusters now P f db))"

definition bump_delivery_rollout_runtime_for_deployment :: "uuid option \<Rightarrow> uuid option \<Rightarrow> Db \<Rightarrow> Db" where
  "bump_delivery_rollout_runtime_for_deployment old new =
     bump_runtime (\<lambda>r. if Some (dr_ID r) = (if new = None then old else new)
                           \<or> Some (dr_ID r) = (if old = None then new else old) then 1 else 0)"

definition runtime_active :: "RolloutState \<Rightarrow> bool" where
  "runtime_active s \<longleftrightarrow>
     s = RolloutResolving \<or> s = RolloutAwaitingApproval \<or> s = RolloutQueued \<or> s = RolloutProgressing \<or> s = RolloutRollingBack"

definition has_cluster :: "Db \<Rightarrow> uuid \<Rightarrow> DeliveryRollout \<Rightarrow> bool" where
  "has_cluster db cluster r \<longleftrightarrow>
     list_ex (\<lambda>c. rc_RolloutID c = dr_ID r \<and> rc_ClusterID c = cluster) (db_Clusters db)"

definition bump_delivery_rollout_runtime_for_connection :: "uuid \<Rightarrow> bool \<Rightarrow> Db \<Rightarrow> Db" where
  "bump_delivery_rollout_runtime_for_connection cluster connected db =
     bump_runtime (\<lambda>r. if runtime_active (dr_State r) \<and> has_cluster db cluster r then 1 else 0)
       (db\<lparr>db_Connected := (db_Connected db)(cluster := connected)\<rparr>)"

definition bump_delivery_rollout_runtime_for_labels :: "uuid \<Rightarrow> string \<Rightarrow> Db \<Rightarrow> Db" where
  "bump_delivery_rollout_runtime_for_labels cluster labels db =
     (if db_Labels db cluster = labels then db
      else bump_runtime (\<lambda>r. if runtime_active (dr_State r) \<and> has_cluster db cluster r then 1 else 0)
             (db\<lparr>db_Labels := (db_Labels db)(cluster := labels)\<rparr>))"

section \<open>Statements on rollouts\<close>

definition GetDeliveryRolloutByIdempotency :: "uuid \<Rightarrow> string \<Rightarrow> Db \<Rightarrow> DeliveryRollout option" where
  "GetDeliveryRolloutByIdempotency target key db =
     find (\<lambda>r. dr_TargetID r = target \<and> dr_IdempotencyKey r = key) (db_Rollouts db)"

definition GetDeliveryRolloutForAction :: "uuid \<Rightarrow> uuid \<Rightarrow> Db \<Rightarrow> StoreError + DeliveryRollout" where
  "GetDeliveryRolloutForAction rid project db =
     (case find (\<lambda>r. dr_ID r = rid \<and> db_TargetProject db (dr_TargetID r) = Some project) (db_Rollouts db) of
        None \<Rightarrow> Inl NoRows | Some r \<Rightarrow> Inr r)"

definition CreateDeliveryRollout :: "DeliveryRollout \<Rightarrow> Db \<Rightarrow> StoreError + Db" where
  "CreateDeliveryRollout row db =
     (if list_ex (\<lambda>r. dr_ID r = dr_ID row \<or> dr_TargetID r = dr_TargetID row \<and> dr_IdempotencyKey r = dr_IdempotencyKey row)
           (db_Rollouts db) then Inl UniqueViolation
      else if length (dr_FrozenPlan row) > 16777216 then Inl JsonTooLarge
      else Inr (db\<lparr>db_Rollouts := db_Rollouts db @ [row]\<rparr>))"

definition TransitionDeliveryRolloutCAS ::
    "gotime \<Rightarrow> RolloutState \<Rightarrow> string \<Rightarrow> uuid \<Rightarrow> int \<Rightarrow> RolloutState list \<Rightarrow> Db \<Rightarrow> StoreError + DeliveryRollout \<times> Db" where
  "TransitionDeliveryRolloutCAS now toState reason rid expectedFence allowedStates =
     update_rollout (\<lambda>r. dr_ID r = rid \<and> dr_Fence r = expectedFence \<and> contains allowedStates (dr_State r))
       (\<lambda>r. r\<lparr>dr_State := toState, dr_Fence := dr_Fence r + 1, dr_LeaseOwner := [], dr_LeaseExpiresAt := None,
              dr_StartedAt := (if toState = RolloutProgressing \<and> dr_StartedAt r = None then Some now else dr_StartedAt r),
              dr_CompletedAt := (if toState = RolloutAborted \<or> toState = RolloutRejected \<or> toState = RolloutRolledBack
                                 then Some now else None),
              dr_LastError := reason\<rparr>)"

definition claimable :: "gotime \<Rightarrow> DeliveryRollout \<Rightarrow> bool" where
  "claimable now r \<longleftrightarrow>
     (runtime_active (dr_State r) \<or> dr_State r = RolloutFailed \<and> dr_OnFailure r = FailureRollback)
     \<and> (case dr_LeaseExpiresAt r of None \<Rightarrow> True | Some t \<Rightarrow> t \<le> now)"

definition ClaimDeliveryRollout :: "gotime \<Rightarrow> string \<Rightarrow> duration \<Rightarrow> uuid \<Rightarrow> Db \<Rightarrow> StoreError + DeliveryRollout \<times> Db" where
  "ClaimDeliveryRollout now owner lease rid =
     update_rollout (\<lambda>r. dr_ID r = rid \<and> claimable now r)
       (\<lambda>r. r\<lparr>dr_LeaseOwner := owner, dr_LeaseExpiresAt := Some (now + lease), dr_Fence := dr_Fence r + 1\<rparr>)"

text \<open>A sweep claims several rollouts: \<open>order\<close> lists the rows that no other transaction has
  locked, in the order of their last update.\<close>

definition ClaimDeliveryRollouts ::
    "gotime \<Rightarrow> string \<Rightarrow> duration \<Rightarrow> nat \<Rightarrow> uuid list \<Rightarrow> Db \<Rightarrow> DeliveryRollout list \<times> Db" where
  "ClaimDeliveryRollouts now owner lease limit order db =
     (let candidates = take limit (filter (\<lambda>rid. list_ex (\<lambda>r. dr_ID r = rid \<and> claimable now r) (db_Rollouts db)) order);
          P = (\<lambda>r. contains candidates (dr_ID r));
          f = (\<lambda>r. r\<lparr>dr_LeaseOwner := owner, dr_LeaseExpiresAt := Some (now + lease), dr_Fence := dr_Fence r + 1\<rparr>) in
      (map f (filter P (db_Rollouts db)), db\<lparr>db_Rollouts := update_where P f (db_Rollouts db)\<rparr>))"

definition lease_held :: "gotime \<Rightarrow> string \<Rightarrow> int \<Rightarrow> DeliveryRollout \<Rightarrow> bool" where
  "lease_held now owner fence r \<longleftrightarrow>
     dr_LeaseOwner r = owner \<and> dr_Fence r = fence
     \<and> (case dr_LeaseExpiresAt r of None \<Rightarrow> False | Some t \<Rightarrow> now < t)"

definition GetClaimedDeliveryRolloutForUpdate ::
    "gotime \<Rightarrow> uuid \<Rightarrow> string \<Rightarrow> int \<Rightarrow> int \<Rightarrow> Db \<Rightarrow> StoreError + DeliveryRollout" where
  "GetClaimedDeliveryRolloutForUpdate now rid owner expectedFence expectedGeneration db =
     (case find (\<lambda>r. dr_ID r = rid \<and> lease_held now owner expectedFence r \<and> dr_RuntimeGeneration r = expectedGeneration)
             (db_Rollouts db) of
        None \<Rightarrow> Inl NoRows | Some r \<Rightarrow> Inr r)"

definition finished_state :: "RolloutState \<Rightarrow> bool" where
  "finished_state s \<longleftrightarrow>
     s = RolloutRejected \<or> s = RolloutAborted \<or> s = RolloutSucceeded \<or> s = RolloutFailed \<or> s = RolloutRolledBack
     \<or> s = RolloutRollbackFailed"

definition ApplyDeliveryRolloutTransitionCAS ::
    "gotime \<Rightarrow> RolloutState \<Rightarrow> digest \<Rightarrow> string \<Rightarrow> uuid \<Rightarrow> RolloutState \<Rightarrow> string \<Rightarrow> int \<Rightarrow> Db
     \<Rightarrow> StoreError + DeliveryRollout \<times> Db" where
  "ApplyDeliveryRolloutTransitionCAS now toState decision code rid fromState owner expectedFence =
     update_rollout (\<lambda>r. dr_ID r = rid \<and> dr_State r = fromState \<and> lease_held now owner expectedFence r)
       (\<lambda>r. r\<lparr>dr_State := toState, dr_LastDecision := decision, dr_LeaseOwner := [], dr_LeaseExpiresAt := None,
              dr_StartedAt := (if toState = RolloutProgressing \<and> dr_StartedAt r = None then Some now else dr_StartedAt r),
              dr_CompletedAt := (if finished_state toState then Some now else dr_CompletedAt r),
              dr_LastError := code\<rparr>)"

definition ReleaseDeliveryRolloutLease ::
    "digest \<Rightarrow> uuid \<Rightarrow> string \<Rightarrow> int \<Rightarrow> Db \<Rightarrow> StoreError + DeliveryRollout \<times> Db" where
  "ReleaseDeliveryRolloutLease decision rid owner expectedFence =
     update_rollout (\<lambda>r. dr_ID r = rid \<and> dr_LeaseOwner r = owner \<and> dr_Fence r = expectedFence)
       (\<lambda>r. r\<lparr>dr_LeaseOwner := [], dr_LeaseExpiresAt := None, dr_LastDecision := decision\<rparr>)"

definition count_rows :: "(RolloutClusterState \<Rightarrow> bool) \<Rightarrow> DeliveryRolloutCluster list \<Rightarrow> int" where
  "count_rows P rows = int (length (filter (\<lambda>c. P (rc_State c)) rows))"

definition rollout_rows :: "uuid \<Rightarrow> Db \<Rightarrow> DeliveryRolloutCluster list" where
  "rollout_rows rid db = filter (\<lambda>c. rc_RolloutID c = rid) (db_Clusters db)"

definition RecomputeDeliveryRolloutCounters :: "uuid \<Rightarrow> Db \<Rightarrow> StoreError + DeliveryRollout \<times> Db" where
  "RecomputeDeliveryRolloutCounters rid db =
     (let rows = rollout_rows rid db in
      update_rollout (\<lambda>r. dr_ID r = rid \<and> rows \<noteq> [])
        (\<lambda>r. r\<lparr>dr_Total := int (length rows),
               dr_Ready := count_rows (\<lambda>s. s = RolloutClusterReady \<or> s = RolloutClusterReadyPrevious) rows,
               dr_Failed := count_rows (\<lambda>s. s = RolloutClusterFailed \<or> s = RolloutClusterTimedOut
                                            \<or> s = RolloutClusterRollbackFailed) rows,
               dr_Blocked := count_rows (\<lambda>s. s = RolloutClusterBlocked) rows,
               dr_Released := count_rows (\<lambda>s. \<not> (s = RolloutClusterPending \<or> s = RolloutClusterBlocked
                                              \<or> s = RolloutClusterSkipped)) rows\<rparr>) db)"

section \<open>Statements on the clusters of a rollout\<close>

definition CreateDeliveryRolloutCluster :: "DeliveryRolloutCluster \<Rightarrow> Db \<Rightarrow> StoreError + Db" where
  "CreateDeliveryRolloutCluster row db =
     (if list_ex (\<lambda>c. rc_RolloutID c = rc_RolloutID row \<and> rc_ClusterID c = rc_ClusterID row) (db_Clusters db) then Inl NoRows
      else if list_ex (\<lambda>c. rc_ID c = rc_ID row) (db_Clusters db) then Inl UniqueViolation
      else Inr (db\<lparr>db_Clusters := db_Clusters db @ [row]\<rparr>))"

definition retryable :: "RolloutClusterState \<Rightarrow> bool" where
  "retryable s \<longleftrightarrow> s = RolloutClusterFailed \<or> s = RolloutClusterTimedOut \<or> s = RolloutClusterBlocked"

definition ResetRetryableDeliveryRolloutClusters :: "gotime \<Rightarrow> uuid \<Rightarrow> Db \<Rightarrow> nat \<times> Db" where
  "ResetRetryableDeliveryRolloutClusters now rid db =
     (let P = (\<lambda>c. rc_RolloutID c = rid \<and> retryable (rc_State c)) in
      (length (filter P (db_Clusters db)),
       update_clusters now P
         (\<lambda>c. c\<lparr>rc_State := RolloutClusterPending, rc_Action := AssignmentApply, rc_Attempt := rc_Attempt c + 1,
                rc_Fence := rc_Fence c + 1, rc_ReleasedAt := None, rc_AcknowledgedAt := None, rc_ReadyAt := None,
                rc_CompletedAt := None, rc_LastError := []\<rparr>) db))"

definition rollout_leased :: "gotime \<Rightarrow> string \<Rightarrow> int \<Rightarrow> Db \<Rightarrow> uuid \<Rightarrow> bool" where
  "rollout_leased now owner fence db rid \<longleftrightarrow> list_ex (\<lambda>r. dr_ID r = rid \<and> lease_held now owner fence r) (db_Rollouts db)"

definition ApplyDeliveryRolloutClusterTransitionCAS ::
    "gotime \<Rightarrow> RolloutClusterState \<Rightarrow> string \<Rightarrow> uuid \<Rightarrow> RolloutClusterState \<Rightarrow> int \<Rightarrow> string \<Rightarrow> int \<Rightarrow> Db
     \<Rightarrow> StoreError + DeliveryRolloutCluster \<times> Db" where
  "ApplyDeliveryRolloutClusterTransitionCAS now toState code cid fromState expectedFence owner rolloutFence db =
     update_cluster now
       (\<lambda>c. rc_ID c = cid \<and> rc_State c = fromState \<and> rc_Fence c = expectedFence
            \<and> rollout_leased now owner rolloutFence db (rc_RolloutID c))
       (\<lambda>c. c\<lparr>rc_State := toState, rc_Fence := rc_Fence c + 1,
              rc_ReadyAt := (if (toState = RolloutClusterReady \<or> toState = RolloutClusterReadyPrevious) \<and> rc_ReadyAt c = None
                             then Some now else rc_ReadyAt c),
              rc_CompletedAt := (if toState = RolloutClusterReady \<or> toState = RolloutClusterFailed \<or> toState = RolloutClusterSkipped
                                    \<or> toState = RolloutClusterTimedOut \<or> toState = RolloutClusterReadyPrevious
                                 then Some now else rc_CompletedAt c),
              rc_LastError := code\<rparr>) db"

definition ReleaseDeliveryRolloutClusterCAS ::
    "gotime \<Rightarrow> RolloutClusterState \<Rightarrow> AssignmentAction \<Rightarrow> gotime option \<Rightarrow> uuid \<Rightarrow> RolloutClusterState \<Rightarrow> int \<Rightarrow> string
     \<Rightarrow> int \<Rightarrow> Db \<Rightarrow> StoreError + DeliveryRolloutCluster \<times> Db" where
  "ReleaseDeliveryRolloutClusterCAS now toState action deadline cid fromState expectedFence owner rolloutFence db =
     update_cluster now
       (\<lambda>c. rc_ID c = cid \<and> rc_State c = fromState \<and> rc_Fence c = expectedFence
            \<and> rollout_leased now owner rolloutFence db (rc_RolloutID c))
       (\<lambda>c. c\<lparr>rc_State := toState, rc_Action := action, rc_Attempt := rc_Attempt c + 1, rc_Fence := rc_Fence c + 1,
              rc_Deadline := deadline,
              rc_ReleasedAt := (if rc_ReleasedAt c = None then Some now else rc_ReleasedAt c),
              rc_LastError := []\<rparr>) db"

section \<open>Statements on deployments\<close>

definition UpsertClusterDeploymentDesired :: "ClusterDeployment \<Rightarrow> Db \<Rightarrow> StoreError + ClusterDeployment \<times> Db" where
  "UpsertClusterDeploymentDesired row db =
     (let P = (\<lambda>d. cd_TargetID d = cd_TargetID row \<and> cd_ClusterID d = cd_ClusterID row);
          f = (\<lambda>d. d\<lparr>cd_CurrentRolloutID := cd_CurrentRolloutID row, cd_PreviousVersion := cd_DesiredVersion d,
                     cd_PreviousOverrides := Some (cd_DesiredOverrides d), cd_DesiredVersion := cd_DesiredVersion row,
                     cd_DesiredGeneration := cd_DesiredGeneration row, cd_DesiredDigest := cd_DesiredDigest row,
                     cd_DesiredOverrides := cd_DesiredOverrides row, cd_DesiredRevision := cd_DesiredRevision row,
                     cd_DesiredRenderer := cd_DesiredRenderer row, cd_ConfigurationDigest := cd_ConfigurationDigest row,
                     cd_Action := cd_Action row, cd_Phase := cd_Phase row, cd_LastError := []\<rparr>) in
      case find P (db_Deployments db) of
        None \<Rightarrow>
          Inr (row, bump_delivery_rollout_runtime_for_deployment None (cd_CurrentRolloutID row)
                      (db\<lparr>db_Deployments := db_Deployments db @ [row]\<rparr>))
      | Some d \<Rightarrow>
          if cd_DesiredGeneration row > cd_DesiredGeneration d then
            Inr (f d, bump_delivery_rollout_runtime_for_deployment (cd_CurrentRolloutID d) (cd_CurrentRolloutID row)
                        (db\<lparr>db_Deployments := update_where P f (db_Deployments db)\<rparr>))
          else Inl NoRows)"

definition UpdateClusterDeploymentObservedCAS ::
    "int \<Rightarrow> digest \<Rightarrow> DeploymentPhase \<Rightarrow> string \<Rightarrow> int \<Rightarrow> string \<Rightarrow> uuid \<Rightarrow> Db \<Rightarrow> StoreError + ClusterDeployment \<times> Db" where
  "UpdateClusterDeploymentObservedCAS generation spec phase session sequence code did db =
     (let P = (\<lambda>d. cd_ID d = did \<and> cd_DesiredGeneration d = generation \<and> cd_DesiredDigest d = spec
                 \<and> (cd_SessionID d \<noteq> session \<or> cd_Sequence d < sequence));
          f = (\<lambda>d. d\<lparr>cd_ObservedGeneration := generation, cd_ObservedDigest := spec, cd_Phase := phase,
                     cd_SessionID := session, cd_Sequence := sequence, cd_LastError := code\<rparr>) in
      case find P (db_Deployments db) of
        None \<Rightarrow> Inl NoRows
      | Some d \<Rightarrow>
          Inr (f d, bump_delivery_rollout_runtime_for_deployment (cd_CurrentRolloutID d) (cd_CurrentRolloutID d)
                      (db\<lparr>db_Deployments := update_where P f (db_Deployments db)\<rparr>)))"

text \<open>A status report moves the row of the cluster in the rollout the deployment belongs to.\<close>

definition status_state :: "DeploymentPhase \<Rightarrow> AssignmentAction \<Rightarrow> RolloutClusterState" where
  "status_state phase action =
     (if phase = DeploymentReady then (if action = AssignmentRollback then RolloutClusterReadyPrevious else RolloutClusterReady)
      else if phase = DeploymentFailed \<or> phase = DeploymentDegraded then RolloutClusterFailed
      else if phase = DeploymentApplying
      then (if action = AssignmentRollback then RolloutClusterRollingBack else RolloutClusterReconciling)
      else RolloutClusterAcknowledged)"

definition status_applies :: "DeploymentPhase \<Rightarrow> RolloutClusterState \<Rightarrow> bool" where
  "status_applies phase s \<longleftrightarrow>
     (if phase = DeploymentReady
      then s = RolloutClusterReleased \<or> s = RolloutClusterAcknowledged \<or> s = RolloutClusterReconciling \<or> s = RolloutClusterRollingBack
      else if phase = DeploymentFailed \<or> phase = DeploymentDegraded
      then s = RolloutClusterReleased \<or> s = RolloutClusterAcknowledged \<or> s = RolloutClusterReconciling \<or> s = RolloutClusterReady
           \<or> s = RolloutClusterRollingBack \<or> s = RolloutClusterReadyPrevious
      else if phase = DeploymentApplying
      then s = RolloutClusterReleased \<or> s = RolloutClusterAcknowledged \<or> s = RolloutClusterReady \<or> s = RolloutClusterReadyPrevious
      else s = RolloutClusterReleased)"

definition status_row ::
    "DeploymentPhase \<Rightarrow> uuid \<Rightarrow> int \<Rightarrow> digest \<Rightarrow> Db \<Rightarrow> DeliveryRolloutCluster \<Rightarrow> bool" where
  "status_row phase did generation spec db c \<longleftrightarrow>
     list_ex (\<lambda>d. cd_ID d = did \<and> cd_CurrentRolloutID d = Some (rc_RolloutID c) \<and> cd_ClusterID d = rc_ClusterID c
                \<and> cd_DesiredGeneration d = generation \<and> cd_DesiredDigest d = spec) (db_Deployments db)
     \<and> list_ex (\<lambda>r. dr_ID r = rc_RolloutID c
                \<and> (dr_State r = RolloutProgressing \<and> rc_Action c = AssignmentApply
                   \<or> dr_State r = RolloutRollingBack \<and> rc_Action c = AssignmentRollback)) (db_Rollouts db)
     \<and> status_applies phase (rc_State c)"

definition AdvanceDeliveryRolloutClusterFromStatus ::
    "gotime \<Rightarrow> DeploymentPhase \<Rightarrow> string \<Rightarrow> uuid \<Rightarrow> int \<Rightarrow> digest \<Rightarrow> Db
     \<Rightarrow> StoreError + (DeliveryRolloutCluster \<times> RolloutClusterState) \<times> Db" where
  "AdvanceDeliveryRolloutClusterFromStatus now phase code did generation spec db =
     (let settling = (phase = DeploymentFailed \<or> phase = DeploymentDegraded);
          from = (case find (status_row phase did generation spec db) (db_Clusters db) of
                    None \<Rightarrow> RolloutClusterPending | Some c \<Rightarrow> rc_State c) in
      sbind (update_cluster now (status_row phase did generation spec db)
        (\<lambda>c. c\<lparr>rc_State := status_state phase (rc_Action c), rc_Fence := rc_Fence c + 1,
               rc_AcknowledgedAt := (if rc_AcknowledgedAt c = None then Some now else rc_AcknowledgedAt c),
               rc_ReadyAt := (if phase = DeploymentReady then (if rc_ReadyAt c = None then Some now else rc_ReadyAt c)
                              else if phase = DeploymentApplying \<or> settling then None else rc_ReadyAt c),
               rc_CompletedAt := (if phase = DeploymentReady \<or> settling then Some now
                                  else if phase = DeploymentApplying then None else rc_CompletedAt c),
               rc_LastError := code\<rparr>) db) (\<lambda>(advanced, db). Inr ((advanced, from), db)))"

definition GetClusterDeploymentForDeliveryStatus :: "uuid \<Rightarrow> uuid \<Rightarrow> Db \<Rightarrow> StoreError + ClusterDeployment" where
  "GetClusterDeploymentForDeliveryStatus did cluster db =
     (case find (\<lambda>d. cd_ID d = did \<and> cd_ClusterID d = cluster) (db_Deployments db) of None \<Rightarrow> Inl NoRows | Some d \<Rightarrow> Inr d)"

definition CreateClusterDeploymentEvent :: "ClusterDeploymentEvent \<Rightarrow> Db \<Rightarrow> Db" where
  "CreateClusterDeploymentEvent row db = db\<lparr>db_DeploymentEvents := db_DeploymentEvents db @ [row]\<rparr>"

definition FinalizeDeliveryTargetDeletionIfComplete :: "uuid \<Rightarrow> Db \<Rightarrow> StoreError + Db" where
  "FinalizeDeliveryTargetDeletionIfComplete target db =
     (if db_DeletionState db target = ''deleting''
         \<and> \<not> list_ex (\<lambda>d. cd_TargetID d = target \<and> cd_Phase d \<noteq> DeploymentRemoved) (db_Deployments db)
      then Inr (db\<lparr>db_DeletionState := (db_DeletionState db)(target := ''deleted'')\<rparr>)
      else Inl NoRows)"

section \<open>Other statements\<close>

record RuntimeRow =
  rt_Cluster :: DeliveryRolloutCluster
  rt_Labels :: string
  rt_Generation :: int
  rt_Connected :: bool
  rt_DeploymentID :: "uuid option"
  rt_DesiredGeneration :: "int option"
  rt_Phase :: "DeploymentPhase option"

definition runtime_row :: "Db \<Rightarrow> DeliveryRollout \<Rightarrow> DeliveryRolloutCluster \<Rightarrow> RuntimeRow" where
  "runtime_row db r c =
     (let d = find (\<lambda>d. cd_TargetID d = dr_TargetID r \<and> cd_ClusterID d = rc_ClusterID c) (db_Deployments db) in
      \<lparr>rt_Cluster = c, rt_Labels = db_Labels db (rc_ClusterID c), rt_Generation = dr_RuntimeGeneration r,
       rt_Connected = db_Connected db (rc_ClusterID c), rt_DeploymentID = map_option cd_ID d,
       rt_DesiredGeneration = map_option cd_DesiredGeneration d, rt_Phase = map_option cd_Phase d\<rparr>)"

definition ListDeliveryRolloutRuntime :: "uuid \<Rightarrow> nat \<Rightarrow> Db \<Rightarrow> RuntimeRow list" where
  "ListDeliveryRolloutRuntime rid limit db =
     (case find (\<lambda>r. dr_ID r = rid) (db_Rollouts db) of
        None \<Rightarrow> []
      | Some r \<Rightarrow>
          take limit (map (runtime_row db r)
            (sort_key (\<lambda>c. rc_ReleaseOrder c) (sort_key (\<lambda>c. rc_ClusterID c) (rollout_rows rid db)))))"

definition ListDeliveryRolloutApprovals :: "uuid \<Rightarrow> Db \<Rightarrow> DeliveryRolloutApproval list" where
  "ListDeliveryRolloutApprovals rid db =
     sort_key (\<lambda>a. ra_Cohort a) (sort_key (\<lambda>a. ra_DecidedAt a) (sort_key (\<lambda>a. ra_ID a)
       (filter (\<lambda>a. ra_RolloutID a = rid) (db_Approvals db))))"

definition CreateDeliveryRolloutApproval :: "DeliveryRolloutApproval \<Rightarrow> Db \<Rightarrow> Db" where
  "CreateDeliveryRolloutApproval row db = db\<lparr>db_Approvals := db_Approvals db @ [row]\<rparr>"

definition CreateDeliveryRolloutEvent :: "DeliveryRolloutEvent \<Rightarrow> Db \<Rightarrow> Db" where
  "CreateDeliveryRolloutEvent row db = db\<lparr>db_Events := db_Events db @ [row]\<rparr>"

text \<open>A task that was delivered stays delivered; another one is due again.\<close>

definition UpsertTaskOutbox :: "string \<Rightarrow> uuid \<Rightarrow> gotime \<Rightarrow> Db \<Rightarrow> Db" where
  "UpsertTaskOutbox key rid at db =
     (if list_ex (\<lambda>t. ot_DedupeKey t = key) (db_Outbox db)
      then db\<lparr>db_Outbox := update_where (\<lambda>t. ot_DedupeKey t = key)
             (\<lambda>t. t\<lparr>ot_RolloutID := rid, ot_NextAttemptAt := (if ot_Delivered t then ot_NextAttemptAt t else at)\<rparr>) (db_Outbox db)\<rparr>
      else db\<lparr>db_Outbox := db_Outbox db @
             [\<lparr>ot_DedupeKey = key, ot_RolloutID = rid, ot_NextAttemptAt = at, ot_Delivered = False\<rparr>]\<rparr>)"

section \<open>The planner's store\<close>

definition timestamptz :: "gotime \<Rightarrow> gotime option" where
  "timestamptz t = (if is_zero_time t then None else Some t)"

definition ReadFrozenRolloutV1 ::
    "ext_lib \<Rightarrow> json_lib \<Rightarrow> store_json \<Rightarrow> string \<Rightarrow> RolloutError + FrozenRollout" where
  "ReadFrozenRolloutV1 E J S raw =
     (if length raw > 16777216 then Inl (RolloutErr RErrInvariant ''frozen_plan'')
      else case js_readPlan S raw of
          None \<Rightarrow> Inl (RolloutErr RErrInvariant ''frozen_plan'')
        | Some plan \<Rightarrow>
            (case FrozenRollout_Validate E J plan of
               Inl _ \<Rightarrow> Inl (RolloutErr RErrInvariant ''frozen_plan'')
             | Inr _ \<Rightarrow> Inr plan))"

definition decodeFrozenPlan ::
    "ext_lib \<Rightarrow> json_lib \<Rightarrow> store_json \<Rightarrow> DeliveryRollout \<Rightarrow> RolloutError + FrozenRollout" where
  "decodeFrozenPlan E J S row =
     sbind (ReadFrozenRolloutV1 E J S (dr_FrozenPlan row)) (\<lambda>plan.
     if fr_ID plan \<noteq> dr_ID row \<or> fr_TargetID plan \<noteq> dr_TargetID row
        \<or> safe_Int64 (uint (fr_TargetGeneration plan)) \<noteq> dr_TargetGeneration row
        \<or> vi_BundleVersionID (fr_Desired plan) \<noteq> dr_ToVersion row \<or> fr_PlacementDigest plan \<noteq> dr_PlacementDigest row
        \<or> fr_StrategyDigest plan \<noteq> dr_StrategyDigest row \<or> fr_PlanDigest plan \<noteq> dr_PlanDigest row
        \<or> fr_RequestDigest plan \<noteq> dr_RequestDigest row \<or> fr_IdempotencyKey plan \<noteq> dr_IdempotencyKey row
     then Inl (RolloutErr RErrInvariant ''frozen_plan'')
     else Inr plan)"

definition Postgres_FindByIdempotency ::
    "ext_lib \<Rightarrow> json_lib \<Rightarrow> store_json \<Rightarrow> uuid \<Rightarrow> string \<Rightarrow> Db \<Rightarrow> RolloutError + FrozenRollout option" where
  "Postgres_FindByIdempotency E J S target key db =
     (case GetDeliveryRolloutByIdempotency target key db of
        None \<Rightarrow> Inr None
      | Some row \<Rightarrow> sbind (decodeFrozenPlan E J S row) (\<lambda>plan. Inr (Some plan)))"

definition common_step :: "PlannedCluster \<Rightarrow> uuid \<Rightarrow> unit + uuid" where
  "common_step c common =
     (case pc_Previous c of
        None \<Rightarrow> Inl ()
      | Some p \<Rightarrow>
          if common = uuid_nil then Inr (vi_BundleVersionID (pv_Version p))
          else if common \<noteq> vi_BundleVersionID (pv_Version p) then Inl ()
          else Inr common)"

definition commonPreviousVersion :: "PlannedCluster list \<Rightarrow> uuid option" where
  "commonPreviousVersion clusters =
     (case for_each common_step clusters uuid_nil of
        Inl _ \<Rightarrow> None | Inr common \<Rightarrow> if common = uuid_nil then None else Some common)"

definition rollout_insert :: "store_json \<Rightarrow> string \<Rightarrow> FrozenRollout \<Rightarrow> DeliveryRollout" where
  "rollout_insert S frozen plan =
     \<lparr>dr_ID = fr_ID plan, dr_TargetID = fr_TargetID plan,
      dr_TargetGeneration = safe_Int64 (uint (fr_TargetGeneration plan)),
      dr_FromVersion = commonPreviousVersion (fr_Clusters plan), dr_ToVersion = vi_BundleVersionID (fr_Desired plan),
      dr_PlacementDigest = fr_PlacementDigest plan, dr_OnFailure = st_OnFailure (fr_Strategy plan),
      dr_StrategyDigest = fr_StrategyDigest plan, dr_RequestDigest = fr_RequestDigest plan,
      dr_PlanDigest = fr_PlanDigest plan, dr_FrozenPlan = frozen, dr_State = RolloutResolving,
      dr_IdempotencyKey = fr_IdempotencyKey plan, dr_ProgressDeadline = timestamptz (fr_Deadline plan),
      dr_InitiatedBy = js_uuidParse S (fr_Actor plan), dr_Fence = 1, dr_LeaseOwner = [], dr_LeaseExpiresAt = None,
      dr_RuntimeGeneration = 1, dr_LastDecision = [], dr_LastError = [], dr_StartedAt = None, dr_CompletedAt = None,
      dr_Total = 0, dr_Ready = 0, dr_Failed = 0, dr_Blocked = 0, dr_Released = 0\<rparr>"

definition cluster_insert :: "(uuid \<Rightarrow> uuid) \<Rightarrow> gotime \<Rightarrow> FrozenRollout \<Rightarrow> PlannedCluster \<Rightarrow> DeliveryRolloutCluster" where
  "cluster_insert newID now plan c =
     (let desired = (case pc_Desired c of None \<Rightarrow> fr_Desired plan | Some d \<Rightarrow> d) in
      \<lparr>rc_ID = newID (pc_ClusterID c), rc_RolloutID = fr_ID plan, rc_ClusterID = pc_ClusterID c,
       rc_Cohort = safe_Int32 (int (pc_Cohort c)), rc_ReleaseOrder = safe_Int32 (int (pc_Order c)),
       rc_PreviousVersion = map_option (\<lambda>p. vi_BundleVersionID (pv_Version p)) (pc_Previous c),
       rc_DesiredVersion = vi_BundleVersionID desired, rc_DesiredDigest = vi_SpecDigest desired,
       rc_State = RolloutClusterPending, rc_Action = AssignmentApply, rc_Attempt = 0, rc_Fence = 0, rc_ReleasedAt = None,
       rc_AcknowledgedAt = None, rc_ReadyAt = None, rc_CompletedAt = None, rc_Deadline = timestamptz (fr_Deadline plan),
       rc_LastError = [], rc_UpdatedAt = now\<rparr>)"

text \<open>\<open>newID\<close> is the database's default for the identifiers of the new rows.\<close>

definition Postgres_InsertRollout ::
    "ext_lib \<Rightarrow> json_lib \<Rightarrow> store_json \<Rightarrow> (uuid \<Rightarrow> uuid) \<Rightarrow> gotime \<Rightarrow> FrozenRollout \<Rightarrow> Db \<Rightarrow> StoreError + Db" where
  "Postgres_InsertRollout E J S newID now plan db =
     sbind (case FrozenRollout_Validate E J plan of Inl e \<Rightarrow> Inl (Refused e) | Inr u \<Rightarrow> Inr u) (\<lambda>_.
     sbind (case js_storedPlan S plan of None \<Rightarrow> Inl StoreFailed | Some raw \<Rightarrow> Inr raw) (\<lambda>frozen.
     sbind (case TargetOverrides_Canonical E (vi_Overrides (fr_Desired plan)) of
              Inl _ \<Rightarrow> Inl StoreFailed
            | Inr canonical \<Rightarrow>
                (case CanonicalDigest (js_overrides S) canonical of None \<Rightarrow> Inl StoreFailed | Some d \<Rightarrow> Inr d)) (\<lambda>overrideDigest.
     sbind (CreateDeliveryRollout (rollout_insert S frozen plan) db) (\<lambda>db.
     sbind (for_each (\<lambda>c db. CreateDeliveryRolloutCluster (cluster_insert newID now plan c) db) (fr_Clusters plan) db) (\<lambda>db.
     sbind (RecomputeDeliveryRolloutCounters (fr_ID plan) db) (\<lambda>(_, db). Inr db))))))"

definition Postgres_AppendRolloutCreated :: "uuid \<Rightarrow> FrozenRollout \<Rightarrow> Db \<Rightarrow> Db" where
  "Postgres_AppendRolloutCreated newID plan =
     CreateDeliveryRolloutEvent
       \<lparr>re_ID = newID, re_RolloutID = fr_ID plan, re_ClusterID = None, re_DecisionDigest = fr_PlanDigest plan,
        re_Type = ''rollout_created'', re_From = [], re_To = rollout_string RolloutResolving, re_Reason = ''plan_frozen'',
        re_Fence = 1, re_OccurredAt = fr_CreatedAt plan\<rparr>"

definition Postgres_EnqueueRollout :: "ext_lib \<Rightarrow> gotime \<Rightarrow> uuid \<Rightarrow> Db \<Rightarrow> Db" where
  "Postgres_EnqueueRollout E now rid =
     UpsertTaskOutbox (''delivery-rollout-initial:'' @ lib_uuidString E rid) rid now"

end
