(* ===== verification/Rollout_Control.thy ===== *)
theory Rollout_Control
  imports Rollout_Db
begin

text \<open>
  Operator control of a rollout: idempotency receipts
  (\<open>internal/delivery/asyncop/receipt.go\<close>) and the actions and approvals of
  \<open>internal/delivery/rollout/control.go\<close>.

  Each operation is one serializable transaction: its body returns the changed database or an
  error, and \<open>in_transaction\<close> keeps the old database on an error or a failed commit.
  \<open>fails\<close> says which statements the database refuses, by their name.
\<close>

section \<open>Idempotency keys\<close>

abbreviation MaxIdempotencyKeyBytes :: nat where "MaxIdempotencyKeyBytes \<equiv> 128"

text \<open>\<open>utf8.ValidString\<close>: the number of continuation bytes of a leading byte and the range of
  the first of them.\<close>

definition utf8_lead :: "nat \<Rightarrow> (nat \<times> nat \<times> nat) option" where
  "utf8_lead b =
     (if b < 0x80 then Some (0, 0, 0)
      else if 0xC2 \<le> b \<and> b \<le> 0xDF then Some (1, 0x80, 0xBF)
      else if b = 0xE0 then Some (2, 0xA0, 0xBF)
      else if b = 0xED then Some (2, 0x80, 0x9F)
      else if 0xE1 \<le> b \<and> b \<le> 0xEF then Some (2, 0x80, 0xBF)
      else if b = 0xF0 then Some (3, 0x90, 0xBF)
      else if 0xF1 \<le> b \<and> b \<le> 0xF3 then Some (3, 0x80, 0xBF)
      else if b = 0xF4 then Some (3, 0x80, 0x8F)
      else None)"

fun utf8_valid :: "nat list \<Rightarrow> bool" where
  "utf8_valid [] = True"
| "utf8_valid (b # bs) =
     (case utf8_lead b of
        None \<Rightarrow> False
      | Some (k, lo, hi) \<Rightarrow>
          k \<le> length bs
          \<and> (k = 0 \<or> lo \<le> hd bs \<and> hd bs \<le> hi)
          \<and> list_all (\<lambda>c. 0x80 \<le> c \<and> c \<le> 0xBF) (take k bs)
          \<and> utf8_valid (drop k bs))"

text \<open>\<open>unicode.IsControl\<close> on the runes of a valid string: U+0000 to U+001F and U+007F to U+009F.\<close>

fun has_control :: "nat list \<Rightarrow> bool" where
  "has_control [] = False"
| "has_control [b] = (b < 0x20 \<or> b = 0x7F)"
| "has_control (b # c # bs) = (b < 0x20 \<or> b = 0x7F \<or> b = 0xC2 \<and> c \<le> 0x9F \<or> has_control (c # bs))"

definition ValidateKey :: "string \<Rightarrow> bool" where
  "ValidateKey key \<longleftrightarrow>
     \<not> (key = [] \<or> key \<noteq> trim_space key \<or> length key > MaxIdempotencyKeyBytes
        \<or> \<not> utf8_valid (map of_char key) \<or> has_control (map of_char key))"

record Receipt =
  rp_OperationID :: uuid
  rp_Operation :: string
  rp_Resource :: string
  rp_ResourceID :: uuid
  rp_ProjectID :: uuid
  rp_Status :: string
  rp_StatusURL :: string
  rp_AcceptedAt :: gotime

definition NewReceipt :: "uuid \<Rightarrow> string \<Rightarrow> string \<Rightarrow> uuid \<Rightarrow> uuid \<Rightarrow> string \<Rightarrow> gotime \<Rightarrow> Receipt" where
  "NewReceipt operationID operation resource resourceID projectID statusURL acceptedAt =
     \<lparr>rp_OperationID = operationID, rp_Operation = operation, rp_Resource = resource, rp_ResourceID = resourceID,
      rp_ProjectID = projectID, rp_Status = ''accepted'', rp_StatusURL = statusURL, rp_AcceptedAt = acceptedAt\<rparr>"

record ClaimRequest =
  cq_ActorID :: uuid
  cq_ProjectID :: uuid
  cq_Operation :: string
  cq_Resource :: string
  cq_TargetID :: uuid
  cq_Key :: string
  cq_RequestDigest :: digest
  cq_Table :: string

record Claim =
  cl_Scope :: string
  cl_Key :: string
  cl_RequestDigest :: digest
  cl_Table :: string
  cl_Replay :: "Receipt option"

record persistedEnvelope =
  pe_RequestDigest :: digest
  pe_Receipt :: Receipt

datatype Action = ActionPause | ActionResume | ActionAbort | ActionRetry | ActionRollback | ActionOther string

record control_json =
  js_envelope :: "persistedEnvelope \<Rightarrow> string option"
  js_readEnvelope :: "string \<Rightarrow> persistedEnvelope option"
  js_actRequest :: "uuid \<times> uuid \<times> int \<times> Action \<times> string \<Rightarrow> string option"
  js_approveRequest :: "uuid \<times> uuid \<times> int \<times> int \<times> digest \<times> string \<times> gotime \<Rightarrow> string option"
  js_actionEvent :: "uuid \<times> int \<times> Action \<times> string \<times> string \<Rightarrow> string option"

definition ReserveOperationIdempotencyKey :: "string \<Rightarrow> string \<Rightarrow> Db \<Rightarrow> OperationIdempotencyKey \<times> Db" where
  "ReserveOperationIdempotencyKey scope key db =
     (case find (\<lambda>k. ok_Scope k = scope \<and> ok_Key k = key) (db_Keys db) of
        Some k \<Rightarrow> (k, db)
      | None \<Rightarrow>
          let k = \<lparr>ok_Scope = scope, ok_Key = key, ok_Table = [], ok_OperationID = None, ok_Response = ''{}''\<rparr> in
          (k, db\<lparr>db_Keys := db_Keys db @ [k]\<rparr>))"

definition AttachOperationIdempotencyKey :: "string \<Rightarrow> string \<Rightarrow> string \<Rightarrow> uuid \<Rightarrow> string \<Rightarrow> Db \<Rightarrow> StoreError + Db" where
  "AttachOperationIdempotencyKey scope key table operationID response db =
     (let P = (\<lambda>k. ok_Scope k = scope \<and> ok_Key k = key \<and> (ok_OperationID k = None \<or> ok_OperationID k = Some operationID)) in
      if list_ex P (db_Keys db)
      then Inr (db\<lparr>db_Keys := update_where P
             (\<lambda>k. k\<lparr>ok_Table := table, ok_OperationID := Some operationID, ok_Response := response\<rparr>) (db_Keys db)\<rparr>)
      else Inl NoRows)"

definition claim_scope :: "ext_lib \<Rightarrow> ClaimRequest \<Rightarrow> string" where
  "claim_scope E q =
     ''delivery:actor:'' @ lib_uuidString E (cq_ActorID q) @ '':operation:'' @ cq_Operation q @ '':target:''
     @ lib_uuidString E (cq_TargetID q)"

definition receipt_fits :: "ClaimRequest \<Rightarrow> persistedEnvelope \<Rightarrow> bool" where
  "receipt_fits q p \<longleftrightarrow>
     (let r = pe_Receipt p in
      pe_RequestDigest p \<noteq> [] \<and> rp_OperationID r \<noteq> uuid_nil \<and> rp_StatusURL r \<noteq> [] \<and> rp_Operation r = cq_Operation q
      \<and> rp_Resource r = cq_Resource q \<and> rp_ResourceID r = cq_TargetID q \<and> rp_ProjectID r = cq_ProjectID q
      \<and> rp_Status r = ''accepted'')"

definition ClaimKey :: "ext_lib \<Rightarrow> control_json \<Rightarrow> ClaimRequest \<Rightarrow> Db \<Rightarrow> StoreError + Claim \<times> Db" where
  "ClaimKey E K q db =
     (if cq_ActorID q = uuid_nil \<or> cq_ProjectID q = uuid_nil \<or> cq_TargetID q = uuid_nil \<or> trim_space (cq_Operation q) = []
         \<or> trim_space (cq_Resource q) = [] \<or> trim_space (cq_Table q) = [] \<or> trim_space (cq_RequestDigest q) = []
      then Inl KeyCorrupt
      else if \<not> ValidateKey (cq_Key q) then Inl (Refused (RolloutErr RErrInvalidInput ''idempotency_key''))
      else case ReserveOperationIdempotencyKey (claim_scope E q) (cq_Key q) db of
          (row, db) \<Rightarrow>
            let claim = \<lparr>cl_Scope = claim_scope E q, cl_Key = cq_Key q, cl_RequestDigest = cq_RequestDigest q,
                         cl_Table = cq_Table q, cl_Replay = None\<rparr> in
            if ok_OperationID row = None then Inr (claim, db)
            else if ok_Table row \<noteq> cq_Table q then Inl KeyConflict
            else case js_readEnvelope K (ok_Response row) of
                None \<Rightarrow> Inl KeyCorrupt
              | Some p \<Rightarrow>
                  if \<not> receipt_fits q p then Inl KeyCorrupt
                  else if pe_RequestDigest p \<noteq> cq_RequestDigest q then Inl KeyConflict
                  else Inr (claim\<lparr>cl_Replay := Some (pe_Receipt p)\<rparr>, db))"

definition Attach :: "control_json \<Rightarrow> Claim \<Rightarrow> Receipt \<Rightarrow> Db \<Rightarrow> StoreError + Db" where
  "Attach K claim receipt db =
     (if cl_Replay claim \<noteq> None \<or> cl_Scope claim = [] \<or> cl_Key claim = [] \<or> cl_RequestDigest claim = [] \<or> cl_Table claim = []
         \<or> rp_OperationID receipt = uuid_nil \<or> rp_StatusURL receipt = []
      then Inl KeyCorrupt
      else case js_envelope K \<lparr>pe_RequestDigest = cl_RequestDigest claim, pe_Receipt = receipt\<rparr> of
          None \<Rightarrow> Inl StoreFailed
        | Some raw \<Rightarrow>
            AttachOperationIdempotencyKey (cl_Scope claim) (cl_Key claim) (cl_Table claim) (rp_OperationID receipt) raw db)"

section \<open>Requests\<close>

fun action_text :: "Action \<Rightarrow> string" where
  "action_text ActionPause = ''pause''"
| "action_text ActionResume = ''resume''"
| "action_text ActionAbort = ''abort''"
| "action_text ActionRetry = ''retry''"
| "action_text ActionRollback = ''rollback''"
| "action_text (ActionOther s) = s"

record ActionRequest =
  aq_ProjectID :: uuid
  aq_RolloutID :: uuid
  aq_ExpectedFence :: int
  aq_Action :: Action
  aq_ActorID :: "uuid option"
  aq_ReasonCode :: string
  aq_Key :: string
  aq_AuditIsZero :: bool

record ApprovalRequest =
  pq_ProjectID :: uuid
  pq_RolloutID :: uuid
  pq_ExpectedFence :: int
  pq_Cohort :: int
  pq_BindingDigest :: digest
  pq_Decision :: string
  pq_ActorID :: "uuid option"
  pq_ExpiresAt :: gotime
  pq_Key :: string
  pq_AuditIsZero :: bool

record ControlResult =
  cx_Rollout :: "DeliveryRollout option"
  cx_Event :: "DeliveryRolloutEvent option"
  cx_Approval :: "DeliveryRolloutApproval option"
  cx_AuditPersisted :: bool
  cx_Receipt :: Receipt
  cx_Replayed :: bool

definition requiredActor :: "uuid option \<Rightarrow> StoreError + uuid" where
  "requiredActor actor =
     (case actor of
        None \<Rightarrow> Inl (Refused (RolloutErr RErrInvalidInput ''actor''))
      | Some a \<Rightarrow> if a = uuid_nil then Inl (Refused (RolloutErr RErrInvalidInput ''actor'')) else Inr a)"

fun actionTransition :: "Action \<Rightarrow> StoreError + RolloutState list \<times> RolloutState" where
  "actionTransition ActionPause = Inr ([RolloutResolving, RolloutQueued, RolloutProgressing], RolloutPaused)"
| "actionTransition ActionResume = Inr ([RolloutPaused], RolloutQueued)"
| "actionTransition ActionAbort =
     Inr ([RolloutResolving, RolloutAwaitingApproval, RolloutQueued, RolloutProgressing, RolloutPaused, RolloutFailed],
          RolloutAborted)"
| "actionTransition ActionRetry = Inr ([RolloutFailed, RolloutPaused], RolloutQueued)"
| "actionTransition ActionRollback = Inr ([RolloutSucceeded, RolloutFailed, RolloutPaused], RolloutRollingBack)"
| "actionTransition (ActionOther s) = Inl (Refused (RolloutErr RErrInvalidInput ''action''))"

definition actionDigest ::
    "ext_lib \<Rightarrow> control_json \<Rightarrow> uuid \<Rightarrow> int \<Rightarrow> Action \<Rightarrow> uuid option \<Rightarrow> string \<Rightarrow> StoreError + digest" where
  "actionDigest E K rid fence action actor reason =
     (case CanonicalDigest (js_actionEvent K)
             (rid, fence, action, case actor of None \<Rightarrow> [] | Some a \<Rightarrow> lib_uuidString E a, reason) of
        None \<Rightarrow> Inl StoreFailed | Some d \<Rightarrow> Inr d)"

definition asyncop_Digest :: "('a \<Rightarrow> string option) \<Rightarrow> 'a \<Rightarrow> StoreError + digest" where
  "asyncop_Digest js x = (case CanonicalDigest js x of None \<Rightarrow> Inl StoreFailed | Some d \<Rightarrow> Inr d)"

definition int_text :: "int \<Rightarrow> string" where
  "int_text i = (if i < 0 then ''-'' @ itoa (nat (- i)) else itoa (nat i))"

definition enqueueControl :: "ext_lib \<Rightarrow> uuid \<Rightarrow> int \<Rightarrow> string \<Rightarrow> gotime \<Rightarrow> Db \<Rightarrow> Db" where
  "enqueueControl E rid fence action now =
     UpsertTaskOutbox (''delivery-rollout-control:'' @ lib_uuidString E rid @ '':'' @ int_text fence @ '':'' @ action) rid now"

definition persistAudit :: "DeliveryRollout \<Rightarrow> Db \<Rightarrow> Db" where
  "persistAudit updated db = db\<lparr>db_Audit := db_Audit db @ [(dr_TargetID updated, dr_State updated, dr_Fence updated)]\<rparr>"

definition status_url :: "ext_lib \<Rightarrow> uuid \<Rightarrow> uuid \<Rightarrow> string" where
  "status_url E rid project =
     ''/api/v1/delivery/rollouts/'' @ lib_uuidString E rid @ ''/?project_id='' @ lib_uuidString E project"

text \<open>A statement the database refuses, and the transaction around the statements: a body that
  returns no database returns before the commit.\<close>

definition ask :: "(string \<Rightarrow> bool) \<Rightarrow> string \<Rightarrow> StoreError + 'a \<Rightarrow> StoreError + 'a" where
  "ask fails name r = (if fails name then Inl StoreFailed else r)"

definition in_transaction ::
    "(string \<Rightarrow> bool) \<Rightarrow> StoreError + 'a \<times> Db option \<Rightarrow> Db \<Rightarrow> (StoreError + 'a) \<times> Db" where
  "in_transaction fails body db =
     (if fails ''begin'' then (Inl StoreFailed, db)
      else case body of
          Inl e \<Rightarrow> (Inl e, db)
        | Inr (x, None) \<Rightarrow> (Inr x, db)
        | Inr (x, Some db') \<Rightarrow> if fails ''commit'' then (Inl StoreFailed, db) else (Inr x, db'))"

definition refuse :: "RolloutErrorCode \<Rightarrow> string \<Rightarrow> StoreError + 'a" where
  "refuse code field = Inl (Refused (RolloutErr code field))"

definition as_refused :: "RolloutError + 'a \<Rightarrow> StoreError + 'a" where
  "as_refused r = (case r of Inl e \<Rightarrow> Inl (Refused e) | Inr x \<Rightarrow> Inr x)"

definition no_rows_as :: "string \<Rightarrow> StoreError + 'a \<Rightarrow> StoreError + 'a" where
  "no_rows_as field r = (if r = Inl NoRows then refuse RErrInvalidInput field else r)"

section \<open>Actions\<close>

definition act_claim :: "ActionRequest \<Rightarrow> uuid \<Rightarrow> digest \<Rightarrow> ClaimRequest" where
  "act_claim q actor requestDigest =
     \<lparr>cq_ActorID = actor, cq_ProjectID = aq_ProjectID q, cq_Operation = ''rollout.'' @ action_text (aq_Action q),
      cq_Resource = ''delivery_rollout'', cq_TargetID = aq_RolloutID q, cq_Key = aq_Key q,
      cq_RequestDigest = requestDigest, cq_Table = ''delivery_rollout_events''\<rparr>"

definition act_guard :: "ext_lib \<Rightarrow> json_lib \<Rightarrow> store_json \<Rightarrow> ActionRequest \<Rightarrow> DeliveryRollout \<Rightarrow> StoreError + unit" where
  "act_guard E J S q current =
     (if dr_Fence current \<noteq> aq_ExpectedFence q then refuse RErrStaleFence ''if_match''
      else if aq_Action q = ActionRollback then
        sbind (as_refused (decodeFrozenPlan E J S current)) (\<lambda>plan.
        if list_ex (\<lambda>c. pc_Previous c = None) (fr_Clusters plan) then refuse RErrInvalidInput ''rollback'' else Inr ())
      else Inr ())"

definition act_reset :: "(string \<Rightarrow> bool) \<Rightarrow> gotime \<Rightarrow> ActionRequest \<Rightarrow> Db \<Rightarrow> StoreError + Db" where
  "act_reset fails dbnow q db =
     (if aq_Action q = ActionRetry then
        ask fails ''ResetRetryableDeliveryRolloutClusters''
          (case ResetRetryableDeliveryRolloutClusters dbnow (aq_RolloutID q) db of
             (n, db) \<Rightarrow> if n = 0 then refuse RErrInvalidInput ''retry'' else Inr db)
      else Inr db)"

definition act_body ::
    "ext_lib \<Rightarrow> json_lib \<Rightarrow> store_json \<Rightarrow> control_json \<Rightarrow> (string \<Rightarrow> bool) \<Rightarrow> gotime \<Rightarrow> gotime \<Rightarrow> uuid \<Rightarrow> ActionRequest
     \<Rightarrow> uuid \<Rightarrow> string \<Rightarrow> digest \<Rightarrow> RolloutState list \<Rightarrow> RolloutState \<Rightarrow> Db \<Rightarrow> StoreError + ControlResult \<times> Db option" where
  "act_body E J S K fails dbnow clock eventID q actor reason requestDigest allowed next_state db =
     sbind (ask fails ''ClaimKey'' (ClaimKey E K (act_claim q actor requestDigest) db)) (\<lambda>(claim, db).
     case cl_Replay claim of
       Some receipt \<Rightarrow>
         Inr (\<lparr>cx_Rollout = None, cx_Event = None, cx_Approval = None, cx_AuditPersisted = False,
               cx_Receipt = receipt, cx_Replayed = True\<rparr>, None)
     | None \<Rightarrow>
         sbind (ask fails ''GetDeliveryRolloutForAction''
                  (GetDeliveryRolloutForAction (aq_RolloutID q) (aq_ProjectID q) db)) (\<lambda>current.
         sbind (act_guard E J S q current) (\<lambda>_.
         sbind (act_reset fails dbnow q db) (\<lambda>db.
         sbind (ask fails ''TransitionDeliveryRolloutCAS'' (no_rows_as ''state''
                  (TransitionDeliveryRolloutCAS dbnow next_state reason (aq_RolloutID q) (aq_ExpectedFence q) allowed db)))
           (\<lambda>(updated, db).
         sbind (actionDigest E K (aq_RolloutID q) (aq_ExpectedFence q) (aq_Action q) (aq_ActorID q) reason) (\<lambda>digest.
         let event = \<lparr>re_ID = eventID, re_RolloutID = aq_RolloutID q, re_ClusterID = None, re_DecisionDigest = digest,
                      re_Type = ''rollout_'' @ action_text (aq_Action q), re_From = rollout_string (dr_State current),
                      re_To = rollout_string (dr_State updated), re_Reason = reason, re_Fence = dr_Fence updated,
                      re_OccurredAt = clock\<rparr> in
         sbind (ask fails ''CreateDeliveryRolloutEvent'' (Inr (CreateDeliveryRolloutEvent event db))) (\<lambda>db.
         sbind (ask fails ''UpsertTaskOutbox''
                  (Inr (enqueueControl E (aq_RolloutID q) (dr_Fence updated) (action_text (aq_Action q)) clock db))) (\<lambda>db.
         sbind (ask fails ''RecordOutbox'' (Inr (persistAudit updated db))) (\<lambda>db.
         let receipt = NewReceipt eventID (''rollout.'' @ action_text (aq_Action q)) ''delivery_rollout'' (aq_RolloutID q)
                         (aq_ProjectID q) (status_url E (aq_RolloutID q) (aq_ProjectID q)) clock in
         sbind (ask fails ''AttachOperationIdempotencyKey'' (Attach K claim receipt db)) (\<lambda>db.
         Inr (\<lparr>cx_Rollout = Some updated, cx_Event = Some event, cx_Approval = None, cx_AuditPersisted = True,
               cx_Receipt = receipt, cx_Replayed = False\<rparr>, Some db)))))))))))"

definition act_reason :: "ActionRequest \<Rightarrow> string" where
  "act_reason q =
     (let reason = trim_space (aq_ReasonCode q) in if reason = [] then ''user_'' @ action_text (aq_Action q) else reason)"

definition act_digest :: "control_json \<Rightarrow> ActionRequest \<Rightarrow> StoreError + digest" where
  "act_digest K q =
     asyncop_Digest (js_actRequest K) (aq_ProjectID q, aq_RolloutID q, aq_ExpectedFence q, aq_Action q, act_reason q)"

definition act_checks :: "control_json \<Rightarrow> ActionRequest \<Rightarrow> StoreError + uuid \<times> digest \<times> RolloutState list \<times> RolloutState" where
  "act_checks K q =
     (if aq_AuditIsZero q then Inl AuditUnavailable
      else if aq_ProjectID q = uuid_nil \<or> aq_RolloutID q = uuid_nil \<or> aq_ExpectedFence q < 1
      then refuse RErrInvalidInput ''action''
      else if length (aq_ReasonCode q) > 96 \<or> contains_any (aq_ReasonCode q) line_breakers
      then refuse RErrInvalidInput ''reason_code''
      else
        sbind (actionTransition (aq_Action q)) (\<lambda>(allowed, next_state).
        sbind (requiredActor (aq_ActorID q)) (\<lambda>actor.
        if \<not> ValidateKey (aq_Key q) then refuse RErrInvalidInput ''idempotency_key''
        else sbind (act_digest K q) (\<lambda>requestDigest. Inr (actor, requestDigest, allowed, next_state)))))"

text \<open>\<open>dbnow\<close> is the time of the database, \<open>clock\<close> the controller's; \<open>eventID\<close> the identifier
  the database gives the event.\<close>

definition Controller_Act ::
    "ext_lib \<Rightarrow> json_lib \<Rightarrow> store_json \<Rightarrow> control_json \<Rightarrow> (string \<Rightarrow> bool) \<Rightarrow> gotime \<Rightarrow> gotime \<Rightarrow> uuid \<Rightarrow> ActionRequest
     \<Rightarrow> Db \<Rightarrow> (StoreError + ControlResult) \<times> Db" where
  "Controller_Act E J S K fails dbnow clock eventID q db =
     (case act_checks K q of
        Inl e \<Rightarrow> (Inl e, db)
      | Inr (actor, requestDigest, allowed, next_state) \<Rightarrow>
          in_transaction fails
            (act_body E J S K fails dbnow clock eventID q actor (act_reason q) requestDigest allowed next_state db) db)"

section \<open>Approvals\<close>

definition approve_checks :: "control_json \<Rightarrow> ApprovalRequest \<Rightarrow> StoreError + uuid \<times> digest" where
  "approve_checks K q =
     (if pq_AuditIsZero q then Inl AuditUnavailable
      else if pq_ProjectID q = uuid_nil \<or> pq_RolloutID q = uuid_nil \<or> pq_ExpectedFence q < 1 \<or> pq_Cohort q < - 1
      then refuse RErrInvalidInput ''approval''
      else if Digest_Validate (pq_BindingDigest q) \<noteq> [] then refuse RErrInvalidInput ''binding_digest''
      else if pq_Decision q \<noteq> ''approved'' \<and> pq_Decision q \<noteq> ''rejected'' then refuse RErrInvalidInput ''decision''
      else
        sbind (requiredActor (pq_ActorID q)) (\<lambda>actor.
        if \<not> ValidateKey (pq_Key q) then refuse RErrInvalidInput ''idempotency_key''
        else sbind (asyncop_Digest (js_approveRequest K)
               (pq_ProjectID q, pq_RolloutID q, pq_ExpectedFence q, pq_Cohort q, pq_BindingDigest q, pq_Decision q, pq_ExpiresAt q))
             (\<lambda>requestDigest. Inr (actor, requestDigest))))"

definition approve_claim :: "ApprovalRequest \<Rightarrow> uuid \<Rightarrow> digest \<Rightarrow> ClaimRequest" where
  "approve_claim q actor requestDigest =
     \<lparr>cq_ActorID = actor, cq_ProjectID = pq_ProjectID q, cq_Operation = ''rollout.approve'', cq_Resource = ''delivery_rollout'',
      cq_TargetID = pq_RolloutID q, cq_Key = pq_Key q, cq_RequestDigest = requestDigest,
      cq_Table = ''delivery_rollout_approvals''\<rparr>"

text \<open>The gate an approval names, and the digest it must carry.\<close>

definition approval_gate :: "FrozenRollout \<Rightarrow> int \<Rightarrow> StoreError + digest" where
  "approval_gate plan cohort =
     (if cohort \<ge> 0 then
        (if nat cohort \<ge> length (fr_Cohorts plan) \<or> int (co_Index (fr_Cohorts plan ! nat cohort)) \<noteq> cohort
            \<or> \<not> co_ApprovalRequired (fr_Cohorts plan ! nat cohort)
         then refuse RErrInvalidInput ''cohort''
         else Inr (co_ApprovalDigest (fr_Cohorts plan ! nat cohort)))
      else if \<not> ab_Required (fr_Approval plan) then refuse RErrInvalidInput ''cohort''
      else Inr (ab_Digest (fr_Approval plan)))"

definition approve_transition ::
    "(string \<Rightarrow> bool) \<Rightarrow> gotime \<Rightarrow> ApprovalRequest \<Rightarrow> DeliveryRollout \<Rightarrow> Db \<Rightarrow> StoreError + DeliveryRollout \<times> Db" where
  "approve_transition fails dbnow q current db =
     (if pq_Cohort q = - 1 then
        ask fails ''TransitionDeliveryRolloutCAS'' (no_rows_as ''state''
          (TransitionDeliveryRolloutCAS dbnow (if pq_Decision q = ''rejected'' then RolloutRejected else RolloutQueued)
             (''approval_'' @ pq_Decision q) (pq_RolloutID q) (pq_ExpectedFence q) [RolloutAwaitingApproval] db))
      else Inr (current, db))"

definition approve_body ::
    "ext_lib \<Rightarrow> json_lib \<Rightarrow> store_json \<Rightarrow> control_json \<Rightarrow> (string \<Rightarrow> bool) \<Rightarrow> gotime \<Rightarrow> gotime \<Rightarrow> uuid \<Rightarrow> uuid \<Rightarrow> ApprovalRequest
     \<Rightarrow> uuid \<Rightarrow> digest \<Rightarrow> Db \<Rightarrow> StoreError + ControlResult \<times> Db option" where
  "approve_body E J S K fails dbnow clock approvalID eventID q actor requestDigest db =
     sbind (ask fails ''ClaimKey'' (ClaimKey E K (approve_claim q actor requestDigest) db)) (\<lambda>(claim, db).
     case cl_Replay claim of
       Some receipt \<Rightarrow>
         Inr (\<lparr>cx_Rollout = None, cx_Event = None, cx_Approval = None, cx_AuditPersisted = False,
               cx_Receipt = receipt, cx_Replayed = True\<rparr>, None)
     | None \<Rightarrow>
         if \<not> after (pq_ExpiresAt q) clock \<or> after (pq_ExpiresAt q) (clock + 86400000000000)
         then refuse RErrInvalidInput ''expires_at''
         else
         sbind (ask fails ''GetDeliveryRolloutForAction''
                  (GetDeliveryRolloutForAction (pq_RolloutID q) (pq_ProjectID q) db)) (\<lambda>current.
         if dr_Fence current \<noteq> pq_ExpectedFence q then refuse RErrStaleFence ''if_match''
         else
         sbind (as_refused (decodeFrozenPlan E J S current)) (\<lambda>plan.
         sbind (approval_gate plan (pq_Cohort q)) (\<lambda>expectedDigest.
         if pq_BindingDigest q \<noteq> expectedDigest then refuse RErrInvalidInput ''binding_digest''
         else
         let approval = \<lparr>ra_ID = approvalID, ra_RolloutID = pq_RolloutID q, ra_Cohort = pq_Cohort q,
                         ra_BindingDigest = pq_BindingDigest q, ra_Decision = pq_Decision q, ra_DecidedBy = pq_ActorID q,
                         ra_DecidedAt = dbnow, ra_ExpiresAt = pq_ExpiresAt q\<rparr> in
         sbind (ask fails ''CreateDeliveryRolloutApproval'' (Inr (CreateDeliveryRolloutApproval approval db))) (\<lambda>db.
         sbind (approve_transition fails dbnow q current db) (\<lambda>(updated, db).
         let event = \<lparr>re_ID = eventID, re_RolloutID = pq_RolloutID q, re_ClusterID = None,
                      re_DecisionDigest = pq_BindingDigest q, re_Type = ''rollout_'' @ pq_Decision q,
                      re_From = rollout_string (dr_State current), re_To = rollout_string (dr_State updated),
                      re_Reason = ''cohort_'' @ int_text (pq_Cohort q), re_Fence = dr_Fence updated, re_OccurredAt = clock\<rparr> in
         sbind (ask fails ''CreateDeliveryRolloutEvent'' (Inr (CreateDeliveryRolloutEvent event db))) (\<lambda>db.
         sbind (if pq_Decision q = ''approved''
                then ask fails ''UpsertTaskOutbox''
                       (Inr (enqueueControl E (pq_RolloutID q) (dr_Fence updated) ''approve'' clock db))
                else Inr db) (\<lambda>db.
         sbind (ask fails ''RecordOutbox'' (Inr (persistAudit updated db))) (\<lambda>db.
         let receipt = NewReceipt approvalID ''rollout.approve'' ''delivery_rollout'' (pq_RolloutID q) (pq_ProjectID q)
                         (status_url E (pq_RolloutID q) (pq_ProjectID q)) clock in
         sbind (ask fails ''AttachOperationIdempotencyKey'' (Attach K claim receipt db)) (\<lambda>db.
         Inr (\<lparr>cx_Rollout = Some updated, cx_Event = Some event, cx_Approval = Some approval, cx_AuditPersisted = True,
               cx_Receipt = receipt, cx_Replayed = False\<rparr>, Some db)))))))))))"

definition Controller_Approve ::
    "ext_lib \<Rightarrow> json_lib \<Rightarrow> store_json \<Rightarrow> control_json \<Rightarrow> (string \<Rightarrow> bool) \<Rightarrow> gotime \<Rightarrow> gotime \<Rightarrow> uuid \<Rightarrow> uuid \<Rightarrow> ApprovalRequest
     \<Rightarrow> Db \<Rightarrow> (StoreError + ControlResult) \<times> Db" where
  "Controller_Approve E J S K fails dbnow clock approvalID eventID q db =
     (case approve_checks K q of
        Inl e \<Rightarrow> (Inl e, db)
      | Inr (actor, requestDigest) \<Rightarrow>
          in_transaction fails (approve_body E J S K fails dbnow clock approvalID eventID q actor requestDigest db) db)"

section \<open>Outcomes\<close>

lemma ask_Inr [simp]: "ask fails name r = Inr x \<longleftrightarrow> \<not> fails name \<and> r = Inr x"
  by (simp add: ask_def)

lemma refuse_Inr [simp]: "refuse code field = Inr x \<longleftrightarrow> False"
  by (simp add: refuse_def)

lemma no_rows_as_Inr [simp]: "no_rows_as field r = Inr x \<longleftrightarrow> r = Inr x"
  by (simp add: no_rows_as_def)

lemma as_refused_Inr [simp]: "as_refused r = Inr x \<longleftrightarrow> r = Inr x"
  by (simp add: as_refused_def split: sum.split)

lemma other_tables [simp]:
  "db_Rollouts (CreateDeliveryRolloutEvent e db) = db_Rollouts db" "db_Clusters (CreateDeliveryRolloutEvent e db) = db_Clusters db"
  "db_Rollouts (UpsertTaskOutbox k rid t db) = db_Rollouts db" "db_Clusters (UpsertTaskOutbox k rid t db) = db_Clusters db"
  "db_Rollouts (CreateClusterDeploymentEvent v db) = db_Rollouts db" "db_Clusters (CreateClusterDeploymentEvent v db) = db_Clusters db"
  "db_Rollouts (CreateDeliveryRolloutApproval p db) = db_Rollouts db" "db_Clusters (CreateDeliveryRolloutApproval p db) = db_Clusters db"
  "db_Rollouts (persistAudit u db) = db_Rollouts db" "db_Clusters (persistAudit u db) = db_Clusters db"
  by (simp_all add: CreateDeliveryRolloutEvent_def UpsertTaskOutbox_def CreateClusterDeploymentEvent_def
      CreateDeliveryRolloutApproval_def persistAudit_def)

lemma key_tables:
  "ClaimKey E K q db = Inr (claim, db') \<Longrightarrow> db_Rollouts db' = db_Rollouts db"
  "ClaimKey E K q db = Inr (claim, db') \<Longrightarrow> db_Clusters db' = db_Clusters db"
  "Attach K claim receipt db = Inr db' \<Longrightarrow> db_Rollouts db' = db_Rollouts db"
  "Attach K claim receipt db = Inr db' \<Longrightarrow> db_Clusters db' = db_Clusters db"
  by (auto simp: ClaimKey_def ReserveOperationIdempotencyKey_def Attach_def AttachOperationIdempotencyKey_def Let_def
      split: if_splits option.splits prod.splits)

lemma in_transaction_cases:
  assumes "in_transaction fails body db = (r, db')"
  obtains "db' = db" | x where "body = Inr (x, Some db')" and "r = Inr x"
  using assms by (auto simp: in_transaction_def split: if_splits sum.splits option.splits prod.splits)

section \<open>Replays\<close>

lemma find_map_same: "(\<And>x. Q (h x) = Q x) \<Longrightarrow> find Q (map h xs) = map_option h (find Q xs)"
  by (induction xs) simp_all

text \<open>The row of a key after its receipt was attached.\<close>

lemma claim_attach_replay:
  assumes claim: "ClaimKey E K q db = Inr (claim, a)" and new: "cl_Replay claim = None"
    and attach: "Attach K claim receipt f = Inr b" and keys: "db_Keys f = db_Keys a" "db_Keys db' = db_Keys b"
    and receipt: "rp_Operation receipt = cq_Operation q" "rp_Resource receipt = cq_Resource q"
      "rp_ResourceID receipt = cq_TargetID q" "rp_ProjectID receipt = cq_ProjectID q" "rp_Status receipt = ''accepted''"
    and json: "\<And>d raw. js_envelope K \<lparr>pe_RequestDigest = d, pe_Receipt = receipt\<rparr> = Some raw
      \<Longrightarrow> js_readEnvelope K raw = Some \<lparr>pe_RequestDigest = d, pe_Receipt = receipt\<rparr>"
  shows "ClaimKey E K q db' = Inr (claim\<lparr>cl_Replay := Some receipt\<rparr>, db')"
proof -
  let ?Q = "\<lambda>k. ok_Scope k = claim_scope E q \<and> ok_Key k = cq_Key q"
  from claim new obtain row where row: "find ?Q (db_Keys a) = Some row" "ok_OperationID row = None"
    and c: "claim = \<lparr>cl_Scope = claim_scope E q, cl_Key = cq_Key q, cl_RequestDigest = cq_RequestDigest q,
                     cl_Table = cq_Table q, cl_Replay = None\<rparr>"
    and valid: "ValidateKey (cq_Key q)" "cq_ActorID q \<noteq> uuid_nil" "cq_ProjectID q \<noteq> uuid_nil" "cq_TargetID q \<noteq> uuid_nil"
      "trim_space (cq_Operation q) \<noteq> []" "trim_space (cq_Resource q) \<noteq> []" "trim_space (cq_Table q) \<noteq> []"
      "trim_space (cq_RequestDigest q) \<noteq> []"
    by (auto simp: ClaimKey_def ReserveOperationIdempotencyKey_def Let_def find_append split: if_splits option.splits prod.splits)
  let ?P = "\<lambda>k. ok_Scope k = claim_scope E q \<and> ok_Key k = cq_Key q
      \<and> (ok_OperationID k = None \<or> ok_OperationID k = Some (rp_OperationID receipt))"
  from attach obtain raw where raw: "js_envelope K \<lparr>pe_RequestDigest = cq_RequestDigest q, pe_Receipt = receipt\<rparr> = Some raw"
    and id: "rp_OperationID receipt \<noteq> uuid_nil" "rp_StatusURL receipt \<noteq> []"
    and b: "db_Keys b = update_where ?P (\<lambda>k. k\<lparr>ok_Table := cq_Table q, ok_OperationID := Some (rp_OperationID receipt),
        ok_Response := raw\<rparr>) (db_Keys a)"
    by (auto simp: Attach_def AttachOperationIdempotencyKey_def c Let_def keys(1) split: if_splits option.splits)
  have "find ?Q (db_Keys db') = Some (row\<lparr>ok_Table := cq_Table q, ok_OperationID := Some (rp_OperationID receipt), ok_Response := raw\<rparr>)"
    unfolding keys(2) b update_where_def
    by (subst find_map_same) (use row in \<open>auto simp: find_Some_iff\<close>)
  moreover have "receipt_fits q \<lparr>pe_RequestDigest = cq_RequestDigest q, pe_Receipt = receipt\<rparr>"
    using receipt id valid(8) by (auto simp: receipt_fits_def Let_def)
  ultimately show ?thesis
    using valid json [OF raw] by (simp add: ClaimKey_def ReserveOperationIdempotencyKey_def Let_def c)
qed

lemma keys_kept [simp]:
  "db_Keys (CreateDeliveryRolloutEvent e db) = db_Keys db" "db_Keys (UpsertTaskOutbox k rid t db) = db_Keys db"
  "db_Keys (persistAudit u db) = db_Keys db" "db_Keys (update_clusters now P f db) = db_Keys db"
  by (simp_all add: CreateDeliveryRolloutEvent_def UpsertTaskOutbox_def persistAudit_def update_clusters_def
      bump_delivery_rollout_runtime_for_cluster_row_def bump_runtime_def)

lemma act_keys:
  "act_reset fails dbnow q db = Inr db' \<Longrightarrow> db_Keys db' = db_Keys db"
  "TransitionDeliveryRolloutCAS dbnow t reason rid fence allowed db = Inr (u, db') \<Longrightarrow> db_Keys db' = db_Keys db"
  by (auto simp: act_reset_def ResetRetryableDeliveryRolloutClusters_def Let_def TransitionDeliveryRolloutCAS_def
      update_rollout_def split: if_splits option.splits)

lemma act_body_attached:
  assumes "act_body E J S K fails dbnow clock eventID q actor reason digest allowed t db = Inr (res, d)" and "\<not> cx_Replayed res"
  obtains claim a f db' where "ClaimKey E K (act_claim q actor digest) db = Inr (claim, a)" and "cl_Replay claim = None"
    and "db_Keys f = db_Keys a" and "d = Some db'" and "Attach K claim (cx_Receipt res) f = Inr db'"
    and "cx_Receipt res = NewReceipt eventID (''rollout.'' @ action_text (aq_Action q)) ''delivery_rollout'' (aq_RolloutID q)
           (aq_ProjectID q) (status_url E (aq_RolloutID q) (aq_ProjectID q)) clock"
proof -
  have "\<exists>claim a f db'. ClaimKey E K (act_claim q actor digest) db = Inr (claim, a) \<and> cl_Replay claim = None
      \<and> db_Keys f = db_Keys a \<and> d = Some db' \<and> Attach K claim (cx_Receipt res) f = Inr db'
      \<and> cx_Receipt res = NewReceipt eventID (''rollout.'' @ action_text (aq_Action q)) ''delivery_rollout'' (aq_RolloutID q)
           (aq_ProjectID q) (status_url E (aq_RolloutID q) (aq_ProjectID q)) clock"
    using assms unfolding act_body_def Let_def enqueueControl_def
    by (auto simp: sbind_Inr_iff split: option.splits dest!: act_keys) (rule exI, rule conjI [rotated], assumption, simp)
  then show thesis using that by blast
qed

end
