(* ===== verification/Rollout_Reconciler.thy ===== *)
theory Rollout_Reconciler
  imports Rollout_Control
begin

text \<open>
  The worker that drives a rollout (\<open>internal/delivery/rollout/postgres_reconciler.go\<close>): it
  claims the rollout with a new fence, reads the runtime rows (or takes them from its cache),
  asks the scheduler for a decision, and applies the decision in one transaction that is refused
  when the fence, the lease or the runtime generation has changed.  The theory also holds the
  effect of a status report on a rollout (\<open>internal/delivery/status/ingester.go\<close>).

  The second half puts the parts together: a system of workers, operators, agents and the
  planner on one database, whose steps interleave in any order.

  The order in which the cache is searched for its oldest entry is that of \<open>map_keys\<close>; with
  equal times of use the source may evict another entry.
\<close>

section \<open>The runtime cache\<close>

record runtimeCacheEntry =
  ce_generation :: int
  ce_rows :: "RuntimeRow list"
  ce_usedAt :: gotime

type_synonym runtimeCache = "(uuid, runtimeCacheEntry) gomap"

abbreviation maxRuntimeCacheEntries :: nat where "maxRuntimeCacheEntries \<equiv> 1024"
abbreviation MaxRolloutClusters :: nat where "MaxRolloutClusters \<equiv> 10000"
abbreviation defaultReconcileLease :: duration where "defaultReconcileLease \<equiv> 30000000000"

definition cachedRuntime :: "gotime \<Rightarrow> uuid \<Rightarrow> int \<Rightarrow> runtimeCache \<Rightarrow> RuntimeRow list option \<times> runtimeCache" where
  "cachedRuntime now rid generation cache =
     (case fmlookup cache rid of
        None \<Rightarrow> (None, cache)
      | Some e \<Rightarrow>
          if ce_generation e = generation then (Some (ce_rows e), fmupd rid (e\<lparr>ce_usedAt := now\<rparr>) cache)
          else (None, cache))"

definition oldest_step :: "runtimeCache \<Rightarrow> uuid \<Rightarrow> uuid \<times> gotime \<Rightarrow> uuid \<times> gotime" where
  "oldest_step cache k acc =
     (case acc of (oldestID, oldest) \<Rightarrow>
        let used = ce_usedAt (the (fmlookup cache k)) in
        if oldestID = uuid_nil \<or> used < oldest then (k, used) else acc)"

definition storeRuntime :: "gotime \<Rightarrow> uuid \<Rightarrow> int \<Rightarrow> RuntimeRow list \<Rightarrow> runtimeCache \<Rightarrow> runtimeCache" where
  "storeRuntime now rid generation rows cache =
     (let cache = (if fmlookup cache rid = None \<and> map_len cache \<ge> maxRuntimeCacheEntries
                   then fmdrop (fst (fold (oldest_step cache) (map_keys cache) (uuid_nil, 0))) cache else cache) in
      fmupd rid \<lparr>ce_generation = generation, ce_rows = rows, ce_usedAt = now\<rparr> cache)"

definition loadRuntime ::
    "(string \<Rightarrow> bool) \<Rightarrow> gotime \<Rightarrow> DeliveryRollout \<Rightarrow> Db \<Rightarrow> runtimeCache
     \<Rightarrow> (StoreError + RuntimeRow list \<times> int) \<times> runtimeCache" where
  "loadRuntime fails now claimed db cache =
     (if dr_Total claimed > int MaxRolloutClusters then (refuse RErrInvariant ''rollout.total_clusters'', cache)
      else case cachedRuntime now (dr_ID claimed) (dr_RuntimeGeneration claimed) cache of
          (Some rows, cache) \<Rightarrow> (Inr (rows, dr_RuntimeGeneration claimed), cache)
        | (None, cache) \<Rightarrow>
            let rows = ListDeliveryRolloutRuntime (dr_ID claimed) (MaxRolloutClusters + 1) db in
            if fails ''ListDeliveryRolloutRuntime'' then (Inl StoreFailed, cache)
            else if length rows > MaxRolloutClusters then (refuse RErrInvariant ''rollout.runtime'', cache)
            else (case rows of
                [] \<Rightarrow> (Inr (rows, dr_RuntimeGeneration claimed), cache)
              | row # rest \<Rightarrow>
                  if list_ex (\<lambda>r. rt_Generation r \<noteq> rt_Generation row) rest
                  then (refuse RErrInvariant ''runtime_generation'', cache)
                  else (Inr (rows, rt_Generation row), storeRuntime now (dr_ID claimed) (rt_Generation row) rows cache)))"

section \<open>From rows to the scheduler's input\<close>

definition cluster_runtime :: "RuntimeRow \<Rightarrow> ClusterRuntime" where
  "cluster_runtime row =
     (let c = rt_Cluster row in
      \<lparr>ru_ClusterID = rc_ClusterID c, ru_State = rc_State c, ru_Fence = rc_Fence c, ru_Connected = rt_Connected row,
       ru_Available = (case rt_Phase row of None \<Rightarrow> True | Some p \<Rightarrow> p = DeploymentReady),
       ru_ReadySince = rc_ReadyAt c, ru_StateChangedAt = rc_UpdatedAt c,
       ru_Deadline = (case rc_Deadline c of None \<Rightarrow> 0 | Some t \<Rightarrow> t),
       ru_CurrentGeneration = (case rt_DesiredGeneration row of None \<Rightarrow> 0 | Some g \<Rightarrow> g),
       ru_EverReleased = (rc_ReleasedAt c \<noteq> None), ru_LastAction = rc_Action c\<rparr>)"

definition runtime_rows_step ::
    "RuntimeRow \<Rightarrow> ClusterRuntime list \<times> (uuid, RuntimeRow) gomap
     \<Rightarrow> StoreError + ClusterRuntime list \<times> (uuid, RuntimeRow) gomap" where
  "runtime_rows_step row acc =
     (case acc of (clusters, byCluster) \<Rightarrow>
        if \<not> cluster_valid (rc_State (rt_Cluster row)) then refuse RErrInvariant ''rollout_cluster.state''
        else if rc_Action (rt_Cluster row) \<noteq> AssignmentApply \<and> rc_Action (rt_Cluster row) \<noteq> AssignmentRollback
        then refuse RErrInvariant ''rollout_cluster.assignment_action''
        else Inr (clusters @ [cluster_runtime row], fmupd (rc_ClusterID (rt_Cluster row)) row byCluster))"

definition runtimeFromRows ::
    "FrozenRollout \<Rightarrow> DeliveryRollout \<Rightarrow> RuntimeRow list \<Rightarrow> StoreError + RuntimeSnapshot \<times> (uuid, RuntimeRow) gomap" where
  "runtimeFromRows plan claimed rows =
     sbind (for_each runtime_rows_step rows ([], fmempty)) (\<lambda>(clusters, byCluster).
     if \<not> rollout_valid (dr_State claimed) then refuse RErrInvariant ''rollout.state''
     else Inr (\<lparr>rs_Plan = plan, rs_State = dr_State claimed, rs_Fence = dr_Fence claimed, rs_Clusters = clusters\<rparr>, byCluster))"

definition approval_decision :: "DeliveryRolloutApproval \<Rightarrow> ApprovalDecision" where
  "approval_decision row =
     \<lparr>ad_ID = ra_ID row, ad_BindingDigest = ra_BindingDigest row, ad_Approved = (ra_Decision row = ''approved''),
      ad_DecidedAt = ra_DecidedAt row, ad_ExpiresAt = ra_ExpiresAt row\<rparr>"

definition approvals_step ::
    "DeliveryRolloutApproval \<Rightarrow> ApprovalDecision option \<times> (nat, ApprovalDecision) gomap
     \<Rightarrow> ApprovalDecision option \<times> (nat, ApprovalDecision) gomap" where
  "approvals_step row acc =
     (case acc of (initial, cohorts) \<Rightarrow>
        if ra_Cohort row = - 1 then (Some (approval_decision row), cohorts)
        else (initial, fmupd (nat (ra_Cohort row)) (approval_decision row) cohorts))"

definition approvalsFromRows ::
    "DeliveryRolloutApproval list \<Rightarrow> ApprovalDecision option \<times> (nat, ApprovalDecision) gomap" where
  "approvalsFromRows rows = fold approvals_step rows (None, fmempty)"

definition gate_step ::
    "store_json \<Rightarrow> cron_lib \<Rightarrow> (MaintenanceError + Window list) option \<Rightarrow> gotime \<Rightarrow> RuntimeRow \<Rightarrow> unit
     \<Rightarrow> (StoreError + MaintenanceGate) + unit" where
  "gate_step S C ev now row u =
     (let s = rc_State (rt_Cluster row) in
      if s \<noteq> RolloutClusterPending \<and> s \<noteq> RolloutClusterBlocked then Inr ()
      else case js_labels S (rt_Labels row) of
          None \<Rightarrow> Inl (refuse RErrInvariant ''cluster.labels'')
        | Some labels \<Rightarrow>
            (case IsBlocked C ev OpDeliveryRollout labels now of
               Inl _ \<Rightarrow> Inl (Inl StoreFailed)
             | Inr (blocked, _) \<Rightarrow>
                 if blocked then Inl (Inr \<lparr>mg_Open = False, mg_OverrideAuthorized = False, mg_OverrideReason = []\<rparr>)
                 else Inr ()))"

definition maintenanceGate ::
    "store_json \<Rightarrow> cron_lib \<Rightarrow> (MaintenanceError + Window list) option \<Rightarrow> FrozenRollout \<Rightarrow> RuntimeRow list \<Rightarrow> gotime
     \<Rightarrow> StoreError + MaintenanceGate" where
  "maintenanceGate S C ev plan rows now =
     (let opened = Inr \<lparr>mg_Open = True, mg_OverrideAuthorized = False, mg_OverrideReason = []\<rparr> in
      if \<not> st_RespectMaintenanceWindows (fr_Strategy plan) then opened
      else case for_each (gate_step S C ev now) rows () of Inl result \<Rightarrow> result | Inr _ \<Rightarrow> opened)"

text \<open>The decision on a claimed rollout, from the rows and the approvals that were read.\<close>

definition evaluate_claimed ::
    "ext_lib \<Rightarrow> json_lib \<Rightarrow> decision_json \<Rightarrow> store_json \<Rightarrow> cron_lib \<Rightarrow> (MaintenanceError + Window list) option \<Rightarrow> gotime
     \<Rightarrow> string \<Rightarrow> DeliveryRollout \<Rightarrow> FrozenRollout \<Rightarrow> RuntimeRow list \<Rightarrow> RuntimeSnapshot \<Rightarrow> DeliveryRolloutApproval list
     \<Rightarrow> StoreError + Decision" where
  "evaluate_claimed E J D S C ev now owner claimed plan rows snapshot approvals =
     (case approvalsFromRows approvals of (initial, cohorts) \<Rightarrow>
      sbind (maintenanceGate S C ev plan rows now) (\<lambda>gate.
      as_refused (Scheduler_Evaluate E J D
        \<lparr>ei_Now = now, ei_Snapshot = snapshot,
         ei_Lease = \<lparr>ls_Owner = owner, ls_Fence = dr_Fence claimed,
                     ls_ExpiresAt = (case dr_LeaseExpiresAt claimed of None \<Rightarrow> 0 | Some t \<Rightarrow> t)\<rparr>,
         ei_InitialApproval = initial, ei_CohortApprovals = cohorts, ei_Maintenance = gate\<rparr>)))"

section \<open>Applying a decision\<close>

definition appendRolloutEvent ::
    "uuid \<Rightarrow> uuid \<Rightarrow> uuid \<Rightarrow> digest \<Rightarrow> string \<Rightarrow> string \<Rightarrow> string \<Rightarrow> string \<Rightarrow> int \<Rightarrow> gotime \<Rightarrow> Db \<Rightarrow> Db" where
  "appendRolloutEvent newID rid cluster decision kind from to reason fence now =
     CreateDeliveryRolloutEvent
       \<lparr>re_ID = newID, re_RolloutID = rid, re_ClusterID = (if cluster \<noteq> uuid_nil then Some cluster else None),
        re_DecisionDigest = decision, re_Type = kind, re_From = from, re_To = to, re_Reason = reason, re_Fence = fence,
        re_OccurredAt = now\<rparr>"

definition nullableDigest :: "digest \<Rightarrow> digest option" where
  "nullableDigest d = (if d \<noteq> [] then Some d else None)"

fun assignment_text :: "AssignmentAction \<Rightarrow> string" where
  "assignment_text AssignmentApply = ''apply''"
| "assignment_text AssignmentRollback = ''rollback''"
| "assignment_text (AssignmentOther s) = s"

text \<open>What the transaction knows besides the decision: \<open>ax_DbNow\<close> is the time of the
  transaction, \<open>ax_NewID\<close> the identifiers the database gives the rows it inserts.\<close>

record apply_context =
  ax_Owner :: string
  ax_Claimed :: DeliveryRollout
  ax_Plan :: FrozenRollout
  ax_Rows :: "(uuid, RuntimeRow) gomap"
  ax_DecisionID :: digest
  ax_Now :: gotime
  ax_DbNow :: gotime
  ax_NewID :: "uuid \<Rightarrow> uuid"

definition apply_transition_step ::
    "(string \<Rightarrow> bool) \<Rightarrow> apply_context \<Rightarrow> ClusterTransition \<Rightarrow> Db \<Rightarrow> StoreError + Db" where
  "apply_transition_step fails X t db =
     (case fmlookup (ax_Rows X) (tr_ClusterID t) of
        None \<Rightarrow> refuse RErrInvariant ''cluster_transition''
      | Some row \<Rightarrow>
          sbind (ask fails ''ApplyDeliveryRolloutClusterTransitionCAS''
                   (ApplyDeliveryRolloutClusterTransitionCAS (ax_DbNow X) (tr_To t) (tr_Code t) (rc_ID (rt_Cluster row))
                      (tr_From t) (tr_ExpectedFence t) (ax_Owner X) (dr_Fence (ax_Claimed X)) db)) (\<lambda>(transitioned, db).
          ask fails ''CreateDeliveryRolloutEvent'' (Inr
            (appendRolloutEvent (ax_NewID X (tr_ClusterID t)) (dr_ID (ax_Claimed X)) (tr_ClusterID t) (ax_DecisionID X)
               ''cluster_transition'' (cluster_string (tr_From t)) (cluster_string (tr_To t)) (tr_Code t)
               (rc_Fence transitioned) (ax_Now X) db))))"

definition desired_deployment ::
    "apply_context \<Rightarrow> PlannedCluster \<Rightarrow> Release \<Rightarrow> string \<Rightarrow> string option \<Rightarrow> ClusterDeployment" where
  "desired_deployment X planned release overrides renderer =
     (let v = rl_Version release in
      \<lparr>cd_ID = ax_NewID X (rl_ClusterID release), cd_TargetID = fr_TargetID (ax_Plan X), cd_ClusterID = rl_ClusterID release,
       cd_CurrentRolloutID = Some (fr_ID (ax_Plan X)), cd_DesiredVersion = Some (vi_BundleVersionID v),
       cd_PreviousVersion = map_option (\<lambda>p. vi_BundleVersionID (pv_Version p)) (pc_Previous planned),
       cd_DesiredGeneration = rl_Generation release, cd_DesiredDigest = vi_SpecDigest v, cd_DesiredOverrides = overrides,
       cd_PreviousOverrides = None, cd_DesiredRevision = rev_Value (rss_Revision (vi_Source v)),
       cd_DesiredRenderer = renderer, cd_ConfigurationDigest = nullableDigest (vi_ConfigurationDigest v),
       cd_Action = ''apply'', cd_Phase = DeploymentPending, cd_ObservedGeneration = 0, cd_ObservedDigest = [],
       cd_SessionID = [], cd_Sequence = 0, cd_LastError = []\<rparr>)"

definition apply_release_step ::
    "store_json \<Rightarrow> (string \<Rightarrow> bool) \<Rightarrow> apply_context \<Rightarrow> Release \<Rightarrow> Db \<Rightarrow> StoreError + Db" where
  "apply_release_step S fails X release db =
     (case fmlookup (ax_Rows X) (rl_ClusterID release) of
        None \<Rightarrow> refuse RErrInvariant ''release''
      | Some row \<Rightarrow>
          let c = rt_Cluster row in
          if rc_ReleaseOrder c < 0 \<or> nat (rc_ReleaseOrder c) \<ge> length (fr_Clusters (ax_Plan X))
          then refuse RErrInvariant ''release_order''
          else let planned = fr_Clusters (ax_Plan X) ! nat (rc_ReleaseOrder c) in
          if pc_ClusterID planned \<noteq> rl_ClusterID release then refuse RErrInvariant ''release_order''
          else
          sbind (case js_overrides S (vi_Overrides (rl_Version release)) of None \<Rightarrow> Inl StoreFailed | Some raw \<Rightarrow> Inr raw)
            (\<lambda>overrides.
          sbind (case vi_Renderer (rl_Version release) of
                   None \<Rightarrow> Inr None
                 | Some r \<Rightarrow> (case js_renderer S r of None \<Rightarrow> refuse RErrInvariant ''renderer'' | Some raw \<Rightarrow> Inr (Some raw))) (\<lambda>renderer.
          sbind (ask fails ''UpsertClusterDeploymentDesired''
                   (UpsertClusterDeploymentDesired (desired_deployment X planned release overrides renderer) db))
            (\<lambda>(deployment, db).
          sbind (ask fails ''ReleaseDeliveryRolloutClusterCAS''
                   (ReleaseDeliveryRolloutClusterCAS (ax_DbNow X) (rl_ToState release) (rl_Action release)
                      (timestamptz (rl_Deadline release)) (rc_ID c) (rl_FromState release) (rl_ExpectedFence release)
                      (ax_Owner X) (dr_Fence (ax_Claimed X)) db)) (\<lambda>(released, db).
          sbind (ask fails ''CreateClusterDeploymentEvent'' (Inr (CreateClusterDeploymentEvent
                   \<lparr>ve_DeploymentID = cd_ID deployment, ve_RolloutID = Some (fr_ID (ax_Plan X)), ve_Type = ''desired_release'',
                    ve_From = rt_Phase row, ve_To = DeploymentPending, ve_Generation = rl_Generation release,
                    ve_SpecDigest = vi_SpecDigest (rl_Version release), ve_Reason = assignment_text (rl_Action release),
                    ve_ObservedAt = ax_Now X\<rparr> db))) (\<lambda>db.
          ask fails ''CreateDeliveryRolloutEvent'' (Inr
            (appendRolloutEvent (ax_NewID X (rl_ClusterID release)) (dr_ID (ax_Claimed X)) (rl_ClusterID release)
               (ax_DecisionID X) ''cluster_released'' (cluster_string (rl_FromState release))
               (cluster_string (rl_ToState release)) (assignment_text (rl_Action release)) (rc_Fence released) (ax_Now X) db))))))))"

definition shouldWakeAgain :: "FrozenRollout \<Rightarrow> Decision \<Rightarrow> bool" where
  "shouldWakeAgain plan d \<longleftrightarrow>
     (if de_Releases d \<noteq> [] \<or> de_ClusterTransitions d \<noteq> [] then True
      else case de_RolloutTransition d of
          None \<Rightarrow> False
        | Some t \<Rightarrow>
            rt_To t = RolloutQueued \<or> rt_To t = RolloutProgressing \<or> rt_To t = RolloutRollingBack
            \<or> rt_To t = RolloutFailed \<and> st_OnFailure (fr_Strategy plan) = FailureRollback)"

definition enqueueRolloutWake :: "ext_lib \<Rightarrow> uuid \<Rightarrow> digest \<Rightarrow> gotime \<Rightarrow> Db \<Rightarrow> Db" where
  "enqueueRolloutWake E rid decision at =
     UpsertTaskOutbox (''delivery-rollout:'' @ lib_uuidString E rid @ '':'' @ decision) rid at"

definition apply_rollout ::
    "(string \<Rightarrow> bool) \<Rightarrow> apply_context \<Rightarrow> Decision \<Rightarrow> Db \<Rightarrow> StoreError + Db" where
  "apply_rollout fails X d db =
     (case de_RolloutTransition d of
        Some t \<Rightarrow>
          sbind (ask fails ''ApplyDeliveryRolloutTransitionCAS''
                   (ApplyDeliveryRolloutTransitionCAS (ax_DbNow X) (rt_To t) (ax_DecisionID X) (rt_Code t)
                      (dr_ID (ax_Claimed X)) (rt_From t) (ax_Owner X) (rt_ExpectedFence t) db)) (\<lambda>(_, db).
          ask fails ''CreateDeliveryRolloutEvent'' (Inr
            (appendRolloutEvent (ax_NewID X uuid_nil) (dr_ID (ax_Claimed X)) uuid_nil (ax_DecisionID X) ''rollout_transition''
               (rollout_string (rt_From t)) (rollout_string (rt_To t)) (rt_Code t) (rt_ExpectedFence t) (ax_Now X) db)))
      | None \<Rightarrow>
          sbind (ask fails ''ReleaseDeliveryRolloutLease''
                   (ReleaseDeliveryRolloutLease (ax_DecisionID X) (dr_ID (ax_Claimed X)) (ax_Owner X)
                      (dr_Fence (ax_Claimed X)) db)) (\<lambda>(_, db). Inr db))"

definition apply_counters ::
    "(string \<Rightarrow> bool) \<Rightarrow> apply_context \<Rightarrow> Decision \<Rightarrow> Db \<Rightarrow> StoreError + Db" where
  "apply_counters fails X d db =
     (if de_ClusterTransitions d \<noteq> [] \<or> de_Releases d \<noteq> []
      then sbind (ask fails ''RecomputeDeliveryRolloutCounters'' (RecomputeDeliveryRolloutCounters (dr_ID (ax_Claimed X)) db))
             (\<lambda>(_, db). Inr db)
      else Inr db)"

definition apply_wake ::
    "ext_lib \<Rightarrow> (string \<Rightarrow> bool) \<Rightarrow> apply_context \<Rightarrow> Decision \<Rightarrow> Db \<Rightarrow> StoreError + Db" where
  "apply_wake E fails X d db =
     (if shouldWakeAgain (ax_Plan X) d
      then ask fails ''UpsertTaskOutbox''
             (Inr (enqueueRolloutWake E (dr_ID (ax_Claimed X)) (ax_DecisionID X) (ax_Now X + 1000000000) db))
      else Inr db)"

definition apply_body ::
    "ext_lib \<Rightarrow> store_json \<Rightarrow> (string \<Rightarrow> bool) \<Rightarrow> apply_context \<Rightarrow> Decision \<Rightarrow> int \<Rightarrow> Db \<Rightarrow> StoreError + Db" where
  "apply_body E S fails X d generation db =
     (let claimed = ax_Claimed X in
      sbind (ask fails ''GetClaimedDeliveryRolloutForUpdate''
               (GetClaimedDeliveryRolloutForUpdate (ax_DbNow X) (dr_ID claimed) (ax_Owner X) (dr_Fence claimed) generation db))
        (\<lambda>locked.
      if dr_State locked \<noteq> dr_State claimed \<or> dr_PlanDigest locked \<noteq> dr_PlanDigest claimed
      then refuse RErrStaleFence ''rollout''
      else
      sbind (for_each (apply_transition_step fails X) (de_ClusterTransitions d) db) (\<lambda>db.
      sbind (for_each (apply_release_step S fails X) (de_Releases d) db) (\<lambda>db.
      sbind (apply_counters fails X d db) (\<lambda>db.
      sbind (apply_rollout fails X d db) (\<lambda>db.
      apply_wake E fails X d db))))))"

definition applyDecision ::
    "ext_lib \<Rightarrow> store_json \<Rightarrow> (string \<Rightarrow> bool) \<Rightarrow> apply_context \<Rightarrow> Decision \<Rightarrow> int \<Rightarrow> Db \<Rightarrow> (StoreError + unit) \<times> Db" where
  "applyDecision E S fails X d generation db =
     in_transaction fails (sbind (apply_body E S fails X d generation db) (\<lambda>db'. Inr ((), Some db'))) db"

section \<open>One reconciliation\<close>

text \<open>The work before the transaction.  The rows and the approvals are read by two statements
  that may see different states of the database.\<close>

record Job =
  jb_Owner :: string
  jb_Claimed :: DeliveryRollout
  jb_Plan :: FrozenRollout
  jb_Rows :: "(uuid, RuntimeRow) gomap"
  jb_Decision :: Decision
  jb_Generation :: int
  jb_Now :: gotime

definition prepare_decision ::
    "ext_lib \<Rightarrow> json_lib \<Rightarrow> decision_json \<Rightarrow> store_json \<Rightarrow> cron_lib \<Rightarrow> (MaintenanceError + Window list) option
     \<Rightarrow> (string \<Rightarrow> bool) \<Rightarrow> gotime \<Rightarrow> string \<Rightarrow> DeliveryRollout \<Rightarrow> runtimeCache \<Rightarrow> Db \<Rightarrow> Db
     \<Rightarrow> (StoreError + Job) \<times> runtimeCache" where
  "prepare_decision E J D S C ev fails now owner claimed cache atRows atApprovals =
     (case as_refused (decodeFrozenPlan E J S claimed) of
        Inl e \<Rightarrow> (Inl e, cache)
      | Inr plan \<Rightarrow>
          (case loadRuntime fails now claimed atRows cache of
             (Inl e, cache) \<Rightarrow> (Inl e, cache)
           | (Inr (rows, generation), cache) \<Rightarrow>
               (sbind (runtimeFromRows plan claimed rows) (\<lambda>(snapshot, byCluster).
                sbind (ask fails ''ListDeliveryRolloutApprovals''
                         (Inr (ListDeliveryRolloutApprovals (dr_ID claimed) atApprovals))) (\<lambda>approvals.
                sbind (evaluate_claimed E J D S C ev now owner claimed plan rows snapshot approvals) (\<lambda>d.
                Inr \<lparr>jb_Owner = owner, jb_Claimed = claimed, jb_Plan = plan, jb_Rows = byCluster, jb_Decision = d,
                     jb_Generation = generation, jb_Now = now\<rparr>))), cache)))"

definition job_context :: "gotime \<Rightarrow> (uuid \<Rightarrow> uuid) \<Rightarrow> Job \<Rightarrow> apply_context" where
  "job_context dbnow newID j =
     \<lparr>ax_Owner = jb_Owner j, ax_Claimed = jb_Claimed j, ax_Plan = jb_Plan j, ax_Rows = jb_Rows j,
      ax_DecisionID = de_ID (jb_Decision j), ax_Now = jb_Now j, ax_DbNow = dbnow, ax_NewID = newID\<rparr>"

definition apply_job ::
    "ext_lib \<Rightarrow> store_json \<Rightarrow> (string \<Rightarrow> bool) \<Rightarrow> gotime \<Rightarrow> (uuid \<Rightarrow> uuid) \<Rightarrow> Job \<Rightarrow> Db \<Rightarrow> (StoreError + unit) \<times> Db" where
  "apply_job E S fails dbnow newID j =
     applyDecision E S fails (job_context dbnow newID j) (jb_Decision j) (jb_Generation j)"

definition reconcileClaimed ::
    "ext_lib \<Rightarrow> json_lib \<Rightarrow> decision_json \<Rightarrow> store_json \<Rightarrow> cron_lib \<Rightarrow> (MaintenanceError + Window list) option
     \<Rightarrow> (string \<Rightarrow> bool) \<Rightarrow> gotime \<Rightarrow> gotime \<Rightarrow> (uuid \<Rightarrow> uuid) \<Rightarrow> string \<Rightarrow> DeliveryRollout \<Rightarrow> runtimeCache \<Rightarrow> Db
     \<Rightarrow> (StoreError + unit) \<times> runtimeCache \<times> Db" where
  "reconcileClaimed E J D S C ev fails now dbnow newID owner claimed cache db =
     (case prepare_decision E J D S C ev fails now owner claimed cache db db of
        (Inl e, cache) \<Rightarrow> (Inl e, cache, db)
      | (Inr j, cache) \<Rightarrow> (case apply_job E S fails dbnow newID j db of (result, db) \<Rightarrow> (result, cache, db)))"

definition ReconcileOne ::
    "ext_lib \<Rightarrow> json_lib \<Rightarrow> decision_json \<Rightarrow> store_json \<Rightarrow> cron_lib \<Rightarrow> (MaintenanceError + Window list) option
     \<Rightarrow> (string \<Rightarrow> bool) \<Rightarrow> gotime \<Rightarrow> gotime \<Rightarrow> (uuid \<Rightarrow> uuid) \<Rightarrow> string \<Rightarrow> uuid \<Rightarrow> runtimeCache \<Rightarrow> Db
     \<Rightarrow> (StoreError + unit) \<times> runtimeCache \<times> Db" where
  "ReconcileOne E J D S C ev fails now dbnow newID owner rid cache db =
     (if rid = uuid_nil then (refuse RErrInvalidInput ''rollout_id'', cache, db)
      else case ask fails ''ClaimDeliveryRollout'' (ClaimDeliveryRollout dbnow owner defaultReconcileLease rid db) of
          Inl e \<Rightarrow> (if e = NoRows then Inr () else Inl e, cache, db)
        | Inr (claimed, db) \<Rightarrow> reconcileClaimed E J D S C ev fails now dbnow newID owner claimed cache db)"

abbreviation defaultSweepLimit :: int where "defaultSweepLimit \<equiv> 16"

definition sweep_step ::
    "(DeliveryRollout \<Rightarrow> runtimeCache \<Rightarrow> Db \<Rightarrow> (StoreError + unit) \<times> runtimeCache \<times> Db) \<Rightarrow> DeliveryRollout
     \<Rightarrow> (uuid \<times> StoreError) list \<times> runtimeCache \<times> Db \<Rightarrow> (uuid \<times> StoreError) list \<times> runtimeCache \<times> Db" where
  "sweep_step reconcile row acc =
     (case acc of (errors, cache, db) \<Rightarrow>
        case reconcile row cache db of
          (Inl e, cache, db) \<Rightarrow> (errors @ [(dr_ID row, e)], cache, db)
        | (Inr _, cache, db) \<Rightarrow> (errors, cache, db))"

text \<open>The errors of the rollouts of a sweep are joined; one of them does not stop the others.\<close>

definition Sweep ::
    "ext_lib \<Rightarrow> json_lib \<Rightarrow> decision_json \<Rightarrow> store_json \<Rightarrow> cron_lib \<Rightarrow> (MaintenanceError + Window list) option
     \<Rightarrow> (string \<Rightarrow> bool) \<Rightarrow> gotime \<Rightarrow> gotime \<Rightarrow> (uuid \<Rightarrow> uuid) \<Rightarrow> string \<Rightarrow> int \<Rightarrow> uuid list \<Rightarrow> runtimeCache \<Rightarrow> Db
     \<Rightarrow> (StoreError + (uuid \<times> StoreError) list) \<times> runtimeCache \<times> Db" where
  "Sweep E J D S C ev fails now dbnow newID owner limit order cache db =
     (let limit = (if limit \<le> 0 \<or> limit > 256 then defaultSweepLimit else limit) in
      if fails ''ClaimDeliveryRollouts'' then (Inl StoreFailed, cache, db)
      else case ClaimDeliveryRollouts dbnow owner defaultReconcileLease (nat limit) order db of
          (rows, db) \<Rightarrow>
            (case fold (sweep_step (reconcileClaimed E J D S C ev fails now dbnow newID owner)) rows ([], cache, db) of
               (errors, cache, db) \<Rightarrow> (Inr errors, cache, db)))"

section \<open>Status reports\<close>

record DeliveryDeploymentStatus =
  ob_DeploymentID :: string
  ob_Generation :: int
  ob_SpecDigest :: digest
  ob_Phase :: DeploymentPhase
  ob_ErrorCode :: string
  ob_WarningCodes :: "string list"
  ob_ObservedAt :: gotime

type_synonym advance_input = "uuid \<times> uuid \<times> uuid \<times> int \<times> digest \<times> DeploymentPhase \<times> int"

definition observed_code :: "DeliveryDeploymentStatus \<Rightarrow> string" where
  "observed_code o' = (if ob_ErrorCode o' = [] \<and> ob_WarningCodes o' \<noteq> [] then hd (ob_WarningCodes o') else ob_ErrorCode o')"

definition deploymentEventTime :: "DeliveryDeploymentStatus \<Rightarrow> bool \<Rightarrow> gotime \<Rightarrow> gotime" where
  "deploymentEventTime o' modern receivedAt = (if modern then receivedAt else ob_ObservedAt o')"

text \<open>A statement whose \<open>ErrNoRows\<close> is not an error.\<close>

definition unless_no_rows :: "StoreError + 'b \<Rightarrow> StoreError + 'a \<Rightarrow> ('a \<Rightarrow> StoreError + 'b) \<Rightarrow> StoreError + 'b" where
  "unless_no_rows none r f = (case r of Inl e \<Rightarrow> if e = NoRows then none else Inl e | Inr x \<Rightarrow> f x)"

text \<open>The event and the wake-up of a report that moved the row of its cluster.\<close>

definition status_advanced ::
    "(advance_input \<Rightarrow> string option) \<Rightarrow> (string \<Rightarrow> bool) \<Rightarrow> gotime \<Rightarrow> gotime \<Rightarrow> uuid \<Rightarrow> int \<Rightarrow> ClusterDeployment
     \<Rightarrow> DeliveryRolloutCluster \<Rightarrow> RolloutClusterState \<Rightarrow> Db \<Rightarrow> StoreError + Db" where
  "status_advanced js fails clock eventTime eventID sequence updated advanced from db =
     (case CanonicalDigest js (rc_RolloutID advanced, rc_ClusterID advanced, cd_ID updated, cd_ObservedGeneration updated,
                               cd_ObservedDigest updated, cd_Phase updated, sequence) of
        None \<Rightarrow> Inl StoreFailed
      | Some decision \<Rightarrow>
          sbind (ask fails ''CreateDeliveryRolloutEvent'' (Inr (CreateDeliveryRolloutEvent
                   \<lparr>re_ID = eventID, re_RolloutID = rc_RolloutID advanced, re_ClusterID = Some (rc_ClusterID advanced),
                    re_DecisionDigest = decision, re_Type = ''status_advance'', re_From = cluster_string from,
                    re_To = cluster_string (rc_State advanced), re_Reason = cd_LastError updated,
                    re_Fence = rc_Fence advanced, re_OccurredAt = eventTime\<rparr> db))) (\<lambda>db.
          ask fails ''UpsertTaskOutbox''
            (Inr (UpsertTaskOutbox (''delivery-rollout-status:'' @ decision) (rc_RolloutID advanced) clock db))))"

definition observe_event ::
    "(string \<Rightarrow> bool) \<Rightarrow> DeliveryDeploymentStatus \<Rightarrow> gotime \<Rightarrow> ClusterDeployment \<Rightarrow> ClusterDeployment \<Rightarrow> Db \<Rightarrow> StoreError + Db" where
  "observe_event fails o' eventTime current updated db =
     (if cd_Phase current \<noteq> cd_Phase updated \<or> cd_LastError current \<noteq> cd_LastError updated
      then ask fails ''CreateClusterDeploymentEvent'' (Inr (CreateClusterDeploymentEvent
             \<lparr>ve_DeploymentID = cd_ID current, ve_RolloutID = cd_CurrentRolloutID current, ve_Type = ''status_transition'',
              ve_From = Some (cd_Phase current), ve_To = cd_Phase updated, ve_Generation = ob_Generation o',
              ve_SpecDigest = ob_SpecDigest o', ve_Reason = observed_code o', ve_ObservedAt = eventTime\<rparr> db))
      else Inr db)"

definition observe_removed :: "(string \<Rightarrow> bool) \<Rightarrow> ClusterDeployment \<Rightarrow> Db \<Rightarrow> StoreError + Db" where
  "observe_removed fails updated db =
     (if cd_Phase updated = DeploymentRemoved
      then unless_no_rows (Inr db) (ask fails ''FinalizeDeliveryTargetDeletionIfComplete''
             (FinalizeDeliveryTargetDeletionIfComplete (cd_TargetID updated) db)) Inr
      else Inr db)"

definition observe_rollout ::
    "(advance_input \<Rightarrow> string option) \<Rightarrow> (string \<Rightarrow> bool) \<Rightarrow> gotime \<Rightarrow> gotime \<Rightarrow> gotime \<Rightarrow> (uuid \<Rightarrow> uuid) \<Rightarrow> int
     \<Rightarrow> ClusterDeployment \<Rightarrow> Db \<Rightarrow> StoreError + Db" where
  "observe_rollout js fails dbnow clock eventTime newID sequence updated db =
     unless_no_rows (Inr db) (ask fails ''AdvanceDeliveryRolloutClusterFromStatus''
       (AdvanceDeliveryRolloutClusterFromStatus dbnow (cd_Phase updated) (cd_LastError updated) (cd_ID updated)
          (cd_ObservedGeneration updated) (cd_ObservedDigest updated) db)) (\<lambda>((advanced, from), db).
     status_advanced js fails clock eventTime (newID (rc_ID advanced)) sequence updated advanced from db)"

text \<open>One observation: a report for a deployment that is gone or for another generation is
  dropped, and so is one whose sequence was seen; another one updates the deployment and, where
  it concerns the rollout that released it, the row of the cluster.  The rows that are read and
  returned carry the identifier of the report.\<close>

definition observe_deployment ::
    "store_json \<Rightarrow> (advance_input \<Rightarrow> string option) \<Rightarrow> (string \<Rightarrow> bool) \<Rightarrow> gotime \<Rightarrow> gotime \<Rightarrow> (uuid \<Rightarrow> uuid) \<Rightarrow> uuid
     \<Rightarrow> string \<Rightarrow> int \<Rightarrow> bool \<Rightarrow> DeliveryDeploymentStatus \<Rightarrow> Db \<Rightarrow> StoreError + Db" where
  "observe_deployment S js fails dbnow clock newID cluster session sequence modern o' db =
     (let eventTime = deploymentEventTime o' modern clock;
          did = (case js_uuidParse S (ob_DeploymentID o') of None \<Rightarrow> uuid_nil | Some u \<Rightarrow> u) in
      unless_no_rows (Inr db) (ask fails ''GetClusterDeploymentForDeliveryStatus''
                                 (GetClusterDeploymentForDeliveryStatus did cluster db)) (\<lambda>current.
      if cd_DesiredGeneration current \<noteq> ob_Generation o' \<or> cd_DesiredDigest current \<noteq> ob_SpecDigest o' then Inr db
      else
      unless_no_rows (Inr db) (ask fails ''UpdateClusterDeploymentObservedCAS''
                                 (UpdateClusterDeploymentObservedCAS (ob_Generation o') (ob_SpecDigest o') (ob_Phase o')
                                    session sequence (observed_code o') did db)) (\<lambda>(updated, db).
      sbind (observe_event fails o' eventTime current updated db) (\<lambda>db.
      sbind (observe_removed fails updated db) (\<lambda>db.
      observe_rollout js fails dbnow clock eventTime newID sequence updated db)))))"

text \<open>The loop over the observations of a report, in the transaction of the report.\<close>

definition ingest_deployments ::
    "store_json \<Rightarrow> (advance_input \<Rightarrow> string option) \<Rightarrow> (string \<Rightarrow> bool) \<Rightarrow> gotime \<Rightarrow> gotime \<Rightarrow> (uuid \<Rightarrow> uuid) \<Rightarrow> uuid
     \<Rightarrow> string \<Rightarrow> int \<Rightarrow> bool \<Rightarrow> DeliveryDeploymentStatus list \<Rightarrow> Db \<Rightarrow> (StoreError + unit) \<times> Db" where
  "ingest_deployments S js fails dbnow clock newID cluster session sequence modern observations db =
     in_transaction fails
       (sbind (for_each (observe_deployment S js fails dbnow clock newID cluster session sequence modern) observations db)
          (\<lambda>db'. Inr ((), Some db'))) db"

lemma unless_no_rows_Inr:
  "unless_no_rows none r f = Inr y \<longleftrightarrow> (\<exists>x. r = Inr x \<and> f x = Inr y) \<or> r = Inl NoRows \<and> none = Inr y"
  by (auto simp: unless_no_rows_def split: sum.splits)

end
