(* ===== verification/Rollout_System.thy ===== *)
theory Rollout_System
  imports Rollout_Reconciler
begin

text \<open>
  The planner, the workers, the operators and the agents on one database.  \<open>sys_step\<close> is one
  transaction or one read of any of them, so that the runs of \<open>sys_steps\<close> are their
  interleavings; the caches of the workers, the rollouts they claimed and the decisions they
  have not applied yet are part of the state.

  The locale \<open>db_relation\<close> collects what every statement respects: a relation between the
  database before and after that holds for an update of rollouts, for an update of cluster rows,
  for the insertion of a rollout and for a change of the other tables holds for every
  transaction.  It is interpreted three times: for the uniqueness of identifiers, for what a
  rollout never changes, and for what the runtime generation says about the cluster rows.
\<close>

section \<open>Steps\<close>

text \<open>The last calls of \<open>Planner.Create\<close> (\<open>internal/delivery/rollout/planner.go\<close>).\<close>

definition persist_plan ::
    "ext_lib \<Rightarrow> json_lib \<Rightarrow> store_json \<Rightarrow> (uuid \<Rightarrow> uuid) \<Rightarrow> uuid \<Rightarrow> gotime \<Rightarrow> gotime \<Rightarrow> FrozenRollout \<Rightarrow> Db \<Rightarrow> StoreError + Db" where
  "persist_plan E J S newID eventID dbnow now plan db =
     sbind (Postgres_InsertRollout E J S newID dbnow plan db) (\<lambda>db.
     Inr (Postgres_EnqueueRollout E now (fr_ID plan) (Postgres_AppendRolloutCreated eventID plan db)))"

record Sys =
  sy_Db :: Db
  sy_Cache :: "string \<Rightarrow> runtimeCache"
  sy_Claims :: "(string \<times> DeliveryRollout) list"
  sy_Jobs :: "Job list"

inductive sys_step ::
    "ext_lib \<Rightarrow> json_lib \<Rightarrow> decision_json \<Rightarrow> store_json \<Rightarrow> control_json \<Rightarrow> (advance_input \<Rightarrow> string option) \<Rightarrow> cron_lib \<Rightarrow> Sys \<Rightarrow> Sys \<Rightarrow> bool"
  for E J D S K js C where
  create: "persist_plan E J S newID eventID dbnow now plan (sy_Db s) = Inr db
     \<Longrightarrow> sys_step E J D S K js C s (s\<lparr>sy_Db := db\<rparr>)"
| claim: "ClaimDeliveryRollout dbnow owner defaultReconcileLease rid (sy_Db s) = Inr (claimed, db)
     \<Longrightarrow> sys_step E J D S K js C s (s\<lparr>sy_Db := db, sy_Claims := (owner, claimed) # sy_Claims s\<rparr>)"
| sweep: "ClaimDeliveryRollouts dbnow owner defaultReconcileLease limit order (sy_Db s) = (rows, db)
     \<Longrightarrow> sys_step E J D S K js C s (s\<lparr>sy_Db := db, sy_Claims := map (Pair owner) rows @ sy_Claims s\<rparr>)"
| evaluate: "(owner, claimed) \<in> set (sy_Claims s)
     \<Longrightarrow> prepare_decision E J D S C ev fails now owner claimed (sy_Cache s owner) (sy_Db s) atApprovals = (result, cache)
     \<Longrightarrow> sys_step E J D S K js C s
           (s\<lparr>sy_Cache := (sy_Cache s)(owner := cache),
              sy_Jobs := (case result of Inl _ \<Rightarrow> sy_Jobs s | Inr j \<Rightarrow> j # sy_Jobs s)\<rparr>)"
| apply_job: "j \<in> set (sy_Jobs s) \<Longrightarrow> apply_job E S fails dbnow newID j (sy_Db s) = (result, db)
     \<Longrightarrow> sys_step E J D S K js C s (s\<lparr>sy_Db := db\<rparr>)"
| act: "Controller_Act E J S K fails dbnow clock eventID q (sy_Db s) = (answer, db)
     \<Longrightarrow> sys_step E J D S K js C s (s\<lparr>sy_Db := db\<rparr>)"
| approve: "Controller_Approve E J S K fails dbnow clock approvalID eventID p (sy_Db s) = (answer, db)
     \<Longrightarrow> sys_step E J D S K js C s (s\<lparr>sy_Db := db\<rparr>)"
| report: "ingest_deployments S js fails dbnow clock newID cluster session sequence modern observations (sy_Db s) = (result, db)
     \<Longrightarrow> sys_step E J D S K js C s (s\<lparr>sy_Db := db\<rparr>)"
| connection: "sys_step E J D S K js C s
     (s\<lparr>sy_Db := bump_delivery_rollout_runtime_for_connection cluster connected (sy_Db s)\<rparr>)"
| labels: "sys_step E J D S K js C s
     (s\<lparr>sy_Db := bump_delivery_rollout_runtime_for_labels cluster new_labels (sy_Db s)\<rparr>)"

text \<open>A start on a database whose keys are unique: the workers have empty caches.\<close>

definition rollout_key :: "DeliveryRollout \<Rightarrow> uuid \<times> string" where
  "rollout_key r = (dr_TargetID r, dr_IdempotencyKey r)"

definition keys_unique :: "Db \<Rightarrow> bool" where
  "keys_unique db \<longleftrightarrow>
     distinct (map dr_ID (db_Rollouts db)) \<and> distinct (map rollout_key (db_Rollouts db))
     \<and> distinct (map rc_ID (db_Clusters db))"

definition sys_start :: "Sys \<Rightarrow> bool" where
  "sys_start s \<longleftrightarrow> keys_unique (sy_Db s) \<and> (\<forall>w. sy_Cache s w = fmempty) \<and> sy_Claims s = [] \<and> sy_Jobs s = []"

definition sys_steps ::
    "ext_lib \<Rightarrow> json_lib \<Rightarrow> decision_json \<Rightarrow> store_json \<Rightarrow> control_json \<Rightarrow> (advance_input \<Rightarrow> string option) \<Rightarrow> cron_lib \<Rightarrow> Sys \<Rightarrow> Sys \<Rightarrow> bool" where
  "sys_steps E J D S K js C = (sys_step E J D S K js C)\<^sup>*\<^sup>*"

section \<open>What every statement respects\<close>

definition rollout_kept :: "DeliveryRollout \<Rightarrow> DeliveryRollout \<Rightarrow> bool" where
  "rollout_kept r r' \<longleftrightarrow>
     dr_ID r' = dr_ID r \<and> dr_TargetID r' = dr_TargetID r \<and> dr_TargetGeneration r' = dr_TargetGeneration r
     \<and> dr_ToVersion r' = dr_ToVersion r \<and> dr_PlacementDigest r' = dr_PlacementDigest r
     \<and> dr_StrategyDigest r' = dr_StrategyDigest r
     \<and> dr_FrozenPlan r' = dr_FrozenPlan r \<and> dr_PlanDigest r' = dr_PlanDigest r \<and> dr_RequestDigest r' = dr_RequestDigest r
     \<and> dr_IdempotencyKey r' = dr_IdempotencyKey r \<and> dr_Fence r \<le> dr_Fence r'
     \<and> dr_RuntimeGeneration r \<le> dr_RuntimeGeneration r'"

definition cluster_changed :: "DeliveryRolloutCluster \<Rightarrow> DeliveryRolloutCluster \<Rightarrow> bool" where
  "cluster_changed c c' \<longleftrightarrow>
     rc_ID c' = rc_ID c \<and> rc_RolloutID c' = rc_RolloutID c \<and> rc_ClusterID c' = rc_ClusterID c \<and> rc_Cohort c' = rc_Cohort c
     \<and> rc_ReleaseOrder c' = rc_ReleaseOrder c \<and> rc_DesiredVersion c' = rc_DesiredVersion c
     \<and> rc_PreviousVersion c' = rc_PreviousVersion c \<and> rc_Fence c < rc_Fence c'"

definition rollout_inserted :: "Db \<Rightarrow> Db \<Rightarrow> bool" where
  "rollout_inserted db db' \<longleftrightarrow>
     (\<exists>r cs. (\<forall>q \<in> set (db_Rollouts db). dr_ID q \<noteq> dr_ID r \<and> rollout_key q \<noteq> rollout_key r) \<and> (\<forall>c \<in> set cs. rc_RolloutID c = dr_ID r)
        \<and> (distinct (map rc_ID (db_Clusters db)) \<longrightarrow> distinct (map rc_ID (db_Clusters db @ cs)))
        \<and> db_Rollouts db' = db_Rollouts db @ [r] \<and> db_Clusters db' = db_Clusters db @ cs)"

lemma rollout_kept_refl [simp]: "rollout_kept r r"
  by (simp add: rollout_kept_def)

lemma rollout_kept_trans: "rollout_kept a b \<Longrightarrow> rollout_kept b c \<Longrightarrow> rollout_kept a c"
  by (auto simp: rollout_kept_def)

lemma cluster_changed_trans: "cluster_changed a b \<Longrightarrow> cluster_changed b c \<Longrightarrow> cluster_changed a c"
  by (auto simp: cluster_changed_def)

locale db_relation =
  fixes R :: "Db \<Rightarrow> Db \<Rightarrow> bool"
  assumes R_refl: "R db db"
    and R_trans: "R a b \<Longrightarrow> R b c \<Longrightarrow> R a c"
    and R_rollouts: "(\<And>r. rollout_kept r (f r)) \<Longrightarrow> R db (db\<lparr>db_Rollouts := map f (db_Rollouts db)\<rparr>)"
    and R_clusters: "(\<And>c. cluster_changed c (h c)) \<Longrightarrow> R db (update_clusters now P h db)"
    and R_inserted: "rollout_inserted db db' \<Longrightarrow> R db db'"
    and R_other: "db_Rollouts db' = db_Rollouts db \<Longrightarrow> db_Clusters db' = db_Clusters db \<Longrightarrow> R db db'"
begin

lemma R_after: "R a b \<Longrightarrow> db_Rollouts c = db_Rollouts b \<Longrightarrow> db_Clusters c = db_Clusters b \<Longrightarrow> R a c"
  by (blast intro: R_trans R_other)

lemma R_update_rollout:
  assumes "update_rollout P f db = Inr (x, db')" and "\<And>r. rollout_kept r (f r)"
  shows "R db db'"
  using assms(1) R_rollouts [of "\<lambda>r. if P r then f r else r" db] assms(2)
  by (auto simp: update_rollout_def update_where_def split: option.splits)

lemma R_update_cluster:
  assumes "update_cluster now P f db = Inr (x, db')" and "\<And>c. cluster_changed c (f c)"
  shows "R db db'"
  using assms(1) R_clusters [OF assms(2)] by (auto simp: update_cluster_def split: option.splits)

lemma R_bump: "db_Rollouts b = db_Rollouts a \<Longrightarrow> db_Clusters b = db_Clusters a \<Longrightarrow> R a (bump_runtime n b)"
  unfolding bump_runtime_def by (rule R_trans [OF R_other R_rollouts]) (simp_all add: rollout_kept_def)

lemma R_claim: "ClaimDeliveryRollout now owner lease rid db = Inr (x, db') \<Longrightarrow> R db db'"
  unfolding ClaimDeliveryRollout_def by (erule R_update_rollout) (simp add: rollout_kept_def)

lemma R_sweep: "ClaimDeliveryRollouts now owner lease limit order db = (rows, db') \<Longrightarrow> R db db'"
  unfolding ClaimDeliveryRollouts_def Let_def update_where_def
  by (auto intro!: R_rollouts simp: rollout_kept_def)

lemma R_transition: "TransitionDeliveryRolloutCAS now t reason rid fence allowed db = Inr (x, db') \<Longrightarrow> R db db'"
  unfolding TransitionDeliveryRolloutCAS_def by (erule R_update_rollout) (simp add: rollout_kept_def)

lemma R_apply_transition: "ApplyDeliveryRolloutTransitionCAS now t d code rid from owner fence db = Inr (x, db') \<Longrightarrow> R db db'"
  unfolding ApplyDeliveryRolloutTransitionCAS_def by (erule R_update_rollout) (simp add: rollout_kept_def)

lemma R_release_lease: "ReleaseDeliveryRolloutLease d rid owner fence db = Inr (x, db') \<Longrightarrow> R db db'"
  unfolding ReleaseDeliveryRolloutLease_def by (erule R_update_rollout) (simp add: rollout_kept_def)

lemma R_recompute: "RecomputeDeliveryRolloutCounters rid db = Inr (x, db') \<Longrightarrow> R db db'"
  unfolding RecomputeDeliveryRolloutCounters_def Let_def by (erule R_update_rollout) (simp add: rollout_kept_def)

lemma R_reset: "R db (snd (ResetRetryableDeliveryRolloutClusters now rid db))"
  unfolding ResetRetryableDeliveryRolloutClusters_def Let_def snd_conv
  by (rule R_clusters) (simp add: cluster_changed_def)

lemma R_cluster_transition:
  "ApplyDeliveryRolloutClusterTransitionCAS now t code cid from fence owner rf db = Inr (x, db') \<Longrightarrow> R db db'"
  unfolding ApplyDeliveryRolloutClusterTransitionCAS_def by (erule R_update_cluster) (simp add: cluster_changed_def)

lemma R_cluster_release:
  "ReleaseDeliveryRolloutClusterCAS now t act deadline cid from fence owner rf db = Inr (x, db') \<Longrightarrow> R db db'"
  unfolding ReleaseDeliveryRolloutClusterCAS_def by (erule R_update_cluster) (simp add: cluster_changed_def)

lemma R_advance:
  "AdvanceDeliveryRolloutClusterFromStatus now phase code did generation spec db = Inr (x, db') \<Longrightarrow> R db db'"
  unfolding AdvanceDeliveryRolloutClusterFromStatus_def Let_def
  by (auto simp: sbind_Inr_iff elim!: R_update_cluster simp: cluster_changed_def)

lemma R_upsert: "UpsertClusterDeploymentDesired row db = Inr (x, db') \<Longrightarrow> R db db'"
  by (auto simp: UpsertClusterDeploymentDesired_def Let_def bump_delivery_rollout_runtime_for_deployment_def
      intro!: R_bump split: option.splits if_splits)

lemma R_observed: "UpdateClusterDeploymentObservedCAS g spec phase session sequence code did db = Inr (x, db') \<Longrightarrow> R db db'"
  by (auto simp: UpdateClusterDeploymentObservedCAS_def Let_def bump_delivery_rollout_runtime_for_deployment_def
      intro!: R_bump split: option.splits)

lemma R_connection: "R db (bump_delivery_rollout_runtime_for_connection cluster connected db)"
  unfolding bump_delivery_rollout_runtime_for_connection_def by (rule R_bump) simp_all

lemma R_labels: "R db (bump_delivery_rollout_runtime_for_labels cluster l db)"
  unfolding bump_delivery_rollout_runtime_for_labels_def by (auto intro: R_bump R_refl)

lemma R_for_each:
  assumes "for_each f xs db = Inr db'" and "\<And>x a b. f x a = Inr b \<Longrightarrow> R a b"
  shows "R db db'"
  using assms(1) by (induction xs arbitrary: db) (auto simp: sbind_Inr_iff intro: R_refl R_trans assms(2))

end

lemma finalize_tables:
  "FinalizeDeliveryTargetDeletionIfComplete target db = Inr db' \<Longrightarrow> db_Rollouts db' = db_Rollouts db"
  "FinalizeDeliveryTargetDeletionIfComplete target db = Inr db' \<Longrightarrow> db_Clusters db' = db_Clusters db"
  by (auto simp: FinalizeDeliveryTargetDeletionIfComplete_def split: if_splits)

section \<open>Transactions\<close>

lemma create_clusters:
  assumes "for_each (\<lambda>c db. CreateDeliveryRolloutCluster (f c) db) ps db = Inr db'"
  shows "db_Rollouts db' = db_Rollouts db" and "db_Clusters db' = db_Clusters db @ map f ps"
    and "distinct (map rc_ID (db_Clusters db)) \<Longrightarrow> distinct (map rc_ID (db_Clusters db'))"
proof -
  show "db_Rollouts db' = db_Rollouts db" "db_Clusters db' = db_Clusters db @ map f ps"
    using assms by (induction ps arbitrary: db) (auto simp: sbind_Inr_iff CreateDeliveryRolloutCluster_def split: if_splits)
  show "distinct (map rc_ID (db_Clusters db'))" if "distinct (map rc_ID (db_Clusters db))"
    using assms that
    by (rule for_each_invariant) (force simp: CreateDeliveryRolloutCluster_def list_ex_iff split: if_splits)
qed

lemma InsertRollout_Inr:
  assumes "Postgres_InsertRollout E J S newID now plan db = Inr db'"
  obtains frozen x a where "FrozenRollout_Validate E J plan = Inr ()" and "js_storedPlan S plan = Some frozen"
    and "length frozen \<le> 16777216"
    and "\<forall>r \<in> set (db_Rollouts db). dr_ID r \<noteq> fr_ID plan
           \<and> (dr_TargetID r \<noteq> fr_TargetID plan \<or> dr_IdempotencyKey r \<noteq> fr_IdempotencyKey plan)"
    and "db_Rollouts a = db_Rollouts db @ [rollout_insert S frozen plan]"
    and "db_Clusters a = db_Clusters db @ map (cluster_insert newID now plan) (fr_Clusters plan)"
    and "distinct (map rc_ID (db_Clusters db)) \<Longrightarrow> distinct (map rc_ID (db_Clusters a))"
    and "RecomputeDeliveryRolloutCounters (fr_ID plan) a = Inr (x, db')"
proof -
  from assms obtain frozen b a x where 1: "FrozenRollout_Validate E J plan = Inr ()" "js_storedPlan S plan = Some frozen"
    and b: "CreateDeliveryRollout (rollout_insert S frozen plan) db = Inr b"
    and a: "for_each (\<lambda>c db. CreateDeliveryRolloutCluster (cluster_insert newID now plan c) db) (fr_Clusters plan) b = Inr a"
    and x: "RecomputeDeliveryRolloutCounters (fr_ID plan) a = Inr (x, db')"
    by (auto simp: Postgres_InsertRollout_def sbind_Inr_iff split: sum.splits option.splits)
  from b have "b = db\<lparr>db_Rollouts := db_Rollouts db @ [rollout_insert S frozen plan]\<rparr>" "length frozen \<le> 16777216"
    "\<forall>r \<in> set (db_Rollouts db). dr_ID r \<noteq> fr_ID plan
           \<and> (dr_TargetID r \<noteq> fr_TargetID plan \<or> dr_IdempotencyKey r \<noteq> fr_IdempotencyKey plan)"
    by (auto simp: CreateDeliveryRollout_def rollout_insert_def list_ex_iff split: if_splits)
  with 1 create_clusters [OF a] x show thesis by (intro that) simp_all
qed

lemma apply_body_Inr:
  assumes "apply_body E S fails X d generation db = Inr db'"
  obtains locked a b c e where
    "GetClaimedDeliveryRolloutForUpdate (ax_DbNow X) (dr_ID (ax_Claimed X)) (ax_Owner X) (dr_Fence (ax_Claimed X)) generation db
       = Inr locked"
    and "dr_State locked = dr_State (ax_Claimed X)" and "dr_PlanDigest locked = dr_PlanDigest (ax_Claimed X)"
    and "for_each (apply_transition_step fails X) (de_ClusterTransitions d) db = Inr a"
    and "for_each (apply_release_step S fails X) (de_Releases d) a = Inr b"
    and "apply_counters fails X d b = Inr c" and "apply_rollout fails X d c = Inr e" and "apply_wake E fails X d e = Inr db'"
proof -
  have "\<exists>locked a b c e.
      GetClaimedDeliveryRolloutForUpdate (ax_DbNow X) (dr_ID (ax_Claimed X)) (ax_Owner X) (dr_Fence (ax_Claimed X)) generation db
        = Inr locked
      \<and> dr_State locked = dr_State (ax_Claimed X) \<and> dr_PlanDigest locked = dr_PlanDigest (ax_Claimed X)
      \<and> for_each (apply_transition_step fails X) (de_ClusterTransitions d) db = Inr a
      \<and> for_each (apply_release_step S fails X) (de_Releases d) a = Inr b
      \<and> apply_counters fails X d b = Inr c \<and> apply_rollout fails X d c = Inr e \<and> apply_wake E fails X d e = Inr db'"
    using assms by (auto simp: apply_body_def Let_def sbind_Inr_iff split: if_splits)
  then show thesis using that by blast
qed

context db_relation
begin

lemma R_persist_plan:
  assumes "persist_plan E J S newID eventID dbnow now plan db = Inr db'"
  shows "R db db'"
proof -
  from assms obtain b where ins: "Postgres_InsertRollout E J S newID dbnow plan db = Inr b"
    and db': "db' = Postgres_EnqueueRollout E now (fr_ID plan) (Postgres_AppendRolloutCreated eventID plan b)"
    by (auto simp: persist_plan_def sbind_Inr_iff)
  from ins obtain frozen x a where fresh: "\<forall>r \<in> set (db_Rollouts db). dr_ID r \<noteq> fr_ID plan
           \<and> (dr_TargetID r \<noteq> fr_TargetID plan \<or> dr_IdempotencyKey r \<noteq> fr_IdempotencyKey plan)"
    and a: "db_Rollouts a = db_Rollouts db @ [rollout_insert S frozen plan]"
      "db_Clusters a = db_Clusters db @ map (cluster_insert newID dbnow plan) (fr_Clusters plan)"
      "distinct (map rc_ID (db_Clusters db)) \<Longrightarrow> distinct (map rc_ID (db_Clusters a))"
    and x: "RecomputeDeliveryRolloutCounters (fr_ID plan) a = Inr (x, b)"
    by (rule InsertRollout_Inr) (rule that)
  have "rollout_inserted db a"
    unfolding rollout_inserted_def using fresh a
    by (intro exI [of _ "rollout_insert S frozen plan"] exI [of _ "map (cluster_insert newID dbnow plan) (fr_Clusters plan)"])
      (auto simp: rollout_insert_def cluster_insert_def rollout_key_def Let_def)
  then have "R db b" by (blast intro: R_inserted R_recompute [OF x] R_trans)
  then show ?thesis
    by (rule R_after) (simp_all add: db' Postgres_EnqueueRollout_def Postgres_AppendRolloutCreated_def)
qed

lemma R_apply_transition_step: "apply_transition_step fails X t db = Inr db' \<Longrightarrow> R db db'"
  by (auto simp: apply_transition_step_def appendRolloutEvent_def sbind_Inr_iff split: option.splits
      intro: R_after [OF R_cluster_transition])

lemma R_apply_release_step: "apply_release_step S fails X release db = Inr db' \<Longrightarrow> R db db'"
  by (auto simp: apply_release_step_def appendRolloutEvent_def Let_def sbind_Inr_iff split: option.splits if_splits
      intro: R_after [OF R_trans [OF R_upsert R_cluster_release]])

lemma R_apply_rollout: "apply_rollout fails X d db = Inr db' \<Longrightarrow> R db db'"
  by (auto simp: apply_rollout_def appendRolloutEvent_def sbind_Inr_iff split: option.splits
      intro: R_after [OF R_apply_transition] R_release_lease)

lemma R_apply_counters: "apply_counters fails X d db = Inr db' \<Longrightarrow> R db db'"
  by (auto simp: apply_counters_def sbind_Inr_iff intro: R_recompute R_refl split: if_splits)

lemma R_apply_wake: "apply_wake E fails X d db = Inr db' \<Longrightarrow> R db db'"
  by (auto simp: apply_wake_def enqueueRolloutWake_def intro: R_other split: if_splits)

lemma R_apply_body:
  assumes "apply_body E S fails X d generation db = Inr db'"
  shows "R db db'"
proof -
  obtain a b c e where a: "for_each (apply_transition_step fails X) (de_ClusterTransitions d) db = Inr a"
    and b: "for_each (apply_release_step S fails X) (de_Releases d) a = Inr b"
    and rest: "apply_counters fails X d b = Inr c" "apply_rollout fails X d c = Inr e" "apply_wake E fails X d e = Inr db'"
    by (rule apply_body_Inr [OF assms]) (rule that)
  have "R db b"
    by (rule R_trans [OF R_for_each [OF a R_apply_transition_step] R_for_each [OF b R_apply_release_step]])
  then show ?thesis
    by (blast intro: R_trans R_apply_counters [OF rest(1)] R_apply_rollout [OF rest(2)] R_apply_wake [OF rest(3)])
qed

lemma R_apply_job: "apply_job E S fails dbnow newID j db = (result, db') \<Longrightarrow> R db db'"
  unfolding apply_job_def applyDecision_def
  by (erule in_transaction_cases) (auto simp: sbind_Inr_iff intro: R_refl R_apply_body)

lemma R_act_reset: "act_reset fails dbnow q db = Inr db' \<Longrightarrow> R db db'"
  using R_reset [of db dbnow "aq_RolloutID q"]
  by (auto simp: act_reset_def intro: R_refl split: if_splits prod.splits)

lemma R_act_chain:
  assumes "ClaimKey E K q' db = Inr (claim, a)" and "act_reset fails dbnow q a = Inr b"
    and "TransitionDeliveryRolloutCAS dbnow t reason rid fence allowed b = Inr (u, e)"
    and "Attach K claim g f = Inr db'" and "db_Rollouts f = db_Rollouts e" and "db_Clusters f = db_Clusters e"
  shows "R db db'"
proof -
  have "R db b" by (rule R_trans [OF R_other R_act_reset [OF assms(2)]]) (rule key_tables(1,2) [OF assms(1)])+
  then have "R db e" by (rule R_trans) (rule R_transition [OF assms(3)])
  then show ?thesis by (rule R_after) (simp_all add: key_tables(3,4) [OF assms(4)] assms(5,6))
qed

lemma R_act_body:
  "act_body E J S K fails dbnow clock eventID q actor reason digest allowed t db = Inr (x, Some db') \<Longrightarrow> R db db'"
  unfolding act_body_def Let_def enqueueControl_def
  by (auto simp: sbind_Inr_iff split: option.splits intro: R_act_chain)

lemma R_act: "Controller_Act E J S K fails dbnow clock eventID q db = (answer, db') \<Longrightarrow> R db db'"
  unfolding Controller_Act_def
  by (auto intro: R_refl R_act_body elim!: in_transaction_cases split: sum.splits prod.splits)

lemma R_approve_transition: "approve_transition fails dbnow q current db = Inr (u, db') \<Longrightarrow> R db db'"
  by (auto simp: approve_transition_def intro: R_transition R_refl split: if_splits)

lemma R_approve_chain:
  assumes "ClaimKey E K q' db = Inr (claim, a)"
    and "approve_transition fails dbnow q current (CreateDeliveryRolloutApproval p a) = Inr (u, e)"
    and "Attach K claim g f = Inr db'" and "db_Rollouts f = db_Rollouts e" and "db_Clusters f = db_Clusters e"
  shows "R db db'"
proof -
  have "R db e" by (rule R_trans [OF R_other R_approve_transition [OF assms(2)]]) (simp_all add: key_tables(1,2) [OF assms(1)])
  then show ?thesis by (rule R_after) (simp_all add: key_tables(3,4) [OF assms(3)] assms(4,5))
qed

lemma R_approve_body:
  "approve_body E J S K fails dbnow clock approvalID eventID q actor digest db = Inr (x, Some db') \<Longrightarrow> R db db'"
  unfolding approve_body_def Let_def enqueueControl_def
  by (auto simp: sbind_Inr_iff split: option.splits if_splits intro: R_approve_chain)

lemma R_approve: "Controller_Approve E J S K fails dbnow clock approvalID eventID q db = (answer, db') \<Longrightarrow> R db db'"
  unfolding Controller_Approve_def
  by (auto intro: R_refl R_approve_body elim!: in_transaction_cases split: sum.splits prod.splits)

lemma R_observe_parts:
  "observe_event fails o' t current updated db = Inr db' \<Longrightarrow> R db db'"
  "observe_removed fails updated db = Inr db' \<Longrightarrow> R db db'"
  by (auto simp: observe_event_def observe_removed_def unless_no_rows_Inr intro: R_other R_refl finalize_tables split: if_splits)

lemma R_status_advanced: "status_advanced js fails clock t eventID sequence updated advanced from db = Inr db' \<Longrightarrow> R db db'"
  unfolding status_advanced_def by (rule R_other) (auto simp: sbind_Inr_iff split: option.splits)

lemma R_observe_rollout: "observe_rollout js fails dbnow clock t newID sequence updated db = Inr db' \<Longrightarrow> R db db'"
  by (auto simp: observe_rollout_def unless_no_rows_Inr
      intro: R_refl R_trans [OF R_advance R_status_advanced] split: prod.splits)

lemma R_observe:
  assumes "observe_deployment S js fails dbnow clock newID cluster session sequence modern o' db = Inr db'"
  shows "R db db'"
  using assms unfolding observe_deployment_def Let_def
  by (auto simp: unless_no_rows_Inr sbind_Inr_iff split: if_splits
      intro: R_refl R_trans [OF R_observed R_trans [OF R_observe_parts(1) R_trans [OF R_observe_parts(2) R_observe_rollout]]])

lemma R_report:
  "ingest_deployments S js fails dbnow clock newID cluster session sequence modern os db = (result, db') \<Longrightarrow> R db db'"
  unfolding ingest_deployments_def
  by (erule in_transaction_cases) (auto simp: sbind_Inr_iff intro: R_refl R_for_each R_observe)

lemma R_step: "sys_step E J D S K js C s s' \<Longrightarrow> R (sy_Db s) (sy_Db s')"
  by (induction rule: sys_step.induct)
    (auto intro: R_persist_plan R_claim R_sweep R_refl R_apply_job R_act R_approve R_report R_connection R_labels)

lemma R_steps: "sys_steps E J D S K js C s s' \<Longrightarrow> R (sy_Db s) (sy_Db s')"
  unfolding sys_steps_def by (induction rule: rtranclp_induct) (blast intro: R_refl R_trans R_step)+

end

section \<open>What no transaction breaks\<close>

definition cluster_kept :: "DeliveryRolloutCluster \<Rightarrow> DeliveryRolloutCluster \<Rightarrow> bool" where
  "cluster_kept c c' \<longleftrightarrow> c' = c \<or> cluster_changed c c'"

definition nothing_lost :: "Db \<Rightarrow> Db \<Rightarrow> bool" where
  "nothing_lost a b \<longleftrightarrow>
     (\<forall>r \<in> set (db_Rollouts a). \<exists>r' \<in> set (db_Rollouts b). rollout_kept r r')
     \<and> (\<forall>c \<in> set (db_Clusters a). \<exists>c' \<in> set (db_Clusters b). cluster_kept c c')"

text \<open>The runtime generation of a rollout never decreases, and its cluster rows are the same as
  long as it is the same.\<close>

definition has_rollout :: "uuid \<Rightarrow> Db \<Rightarrow> bool" where
  "has_rollout rid db \<longleftrightarrow> (\<exists>r \<in> set (db_Rollouts db). dr_ID r = rid)"

definition evolves :: "uuid \<Rightarrow> Db \<Rightarrow> Db \<Rightarrow> bool" where
  "evolves rid a b \<longleftrightarrow>
     (has_rollout rid a \<longrightarrow> has_rollout rid b
        \<and> (\<forall>r' \<in> set (db_Rollouts b). dr_ID r' = rid \<longrightarrow>
              (\<exists>r \<in> set (db_Rollouts a). dr_ID r = rid \<and> dr_RuntimeGeneration r \<le> dr_RuntimeGeneration r'
                 \<and> (dr_RuntimeGeneration r = dr_RuntimeGeneration r' \<longrightarrow> rollout_rows rid b = rollout_rows rid a))))"

lemma update_clusters_tables:
  "db_Rollouts (update_clusters now P f db)
     = map (\<lambda>r. r\<lparr>dr_RuntimeGeneration := dr_RuntimeGeneration r
         + int (length (filter (\<lambda>c. rc_RolloutID c = dr_ID r) (filter P (db_Clusters db))))\<rparr>) (db_Rollouts db)"
  "db_Clusters (update_clusters now P f db) = update_where P (\<lambda>c. (f c)\<lparr>rc_UpdatedAt := now\<rparr>) (db_Clusters db)"
  by (simp_all add: update_clusters_def bump_delivery_rollout_runtime_for_cluster_row_def bump_runtime_def)

lemma cluster_changedD:
  assumes "cluster_changed c c'"
  shows "rc_ID c' = rc_ID c" and "rc_RolloutID c' = rc_RolloutID c"
  using assms by (simp_all add: cluster_changed_def)

lemma keys_unique_clusters:
  assumes "\<And>c. cluster_changed c (f c)" and "keys_unique db"
  shows "keys_unique (update_clusters now P f db)"
proof -
  have "map rc_ID (update_where P (\<lambda>c. (f c)\<lparr>rc_UpdatedAt := now\<rparr>) cs) = map rc_ID cs" for cs
    using cluster_changedD(1) [OF assms(1)] by (simp add: update_where_def)
  then show ?thesis using assms(2) by (simp add: keys_unique_def update_clusters_tables comp_def rollout_key_def [abs_def])
qed

lemma keys_unique_rollouts:
  assumes "\<And>r. rollout_kept r (f r)" and "keys_unique db"
  shows "keys_unique (db\<lparr>db_Rollouts := map f (db_Rollouts db)\<rparr>)"
proof -
  have "dr_ID \<circ> f = dr_ID" "rollout_key \<circ> f = rollout_key"
    using assms(1) by (auto simp: rollout_kept_def rollout_key_def)
  then show ?thesis using assms(2) by (simp add: keys_unique_def)
qed

lemma keys_unique_other: "db_Rollouts b = db_Rollouts a \<Longrightarrow> db_Clusters b = db_Clusters a \<Longrightarrow> keys_unique b = keys_unique a"
  by (simp add: keys_unique_def)

lemma keys_unique_inserted: "rollout_inserted a b \<Longrightarrow> keys_unique a \<Longrightarrow> keys_unique b"
  by (force simp: rollout_inserted_def keys_unique_def)

interpretation unique: db_relation "\<lambda>a b. keys_unique a \<longrightarrow> keys_unique b"
  by unfold_locales
    (auto intro: keys_unique_rollouts keys_unique_clusters keys_unique_inserted dest: keys_unique_other)

lemma cluster_kept_trans: "cluster_kept a b \<Longrightarrow> cluster_kept b c \<Longrightarrow> cluster_kept a c"
  by (auto simp: cluster_kept_def dest: cluster_changed_trans)

lemma nothing_lost_trans: "nothing_lost a b \<Longrightarrow> nothing_lost b c \<Longrightarrow> nothing_lost a c"
  unfolding nothing_lost_def by (meson rollout_kept_trans cluster_kept_trans)

lemma nothing_lost_clusters:
  assumes "\<And>c. cluster_changed c (f c)"
  shows "nothing_lost db (update_clusters now P f db)"
proof -
  have "cluster_changed c ((f c)\<lparr>rc_UpdatedAt := now\<rparr>)" for c using assms [of c] by (simp add: cluster_changed_def)
  then show ?thesis
    by (auto simp: nothing_lost_def update_clusters_tables update_where_def rollout_kept_def cluster_kept_def)
qed

lemma nothing_lost_rollouts:
  assumes "\<And>r. rollout_kept r (f r)"
  shows "nothing_lost db (db\<lparr>db_Rollouts := map f (db_Rollouts db)\<rparr>)"
  using assms by (auto simp: nothing_lost_def cluster_kept_def)

lemma nothing_lost_other: "db_Rollouts b = db_Rollouts a \<Longrightarrow> db_Clusters b = db_Clusters a \<Longrightarrow> nothing_lost a b"
  unfolding nothing_lost_def cluster_kept_def using rollout_kept_refl by (simp, blast)

lemma nothing_lost_inserted: "rollout_inserted a b \<Longrightarrow> nothing_lost a b"
  unfolding nothing_lost_def cluster_kept_def rollout_inserted_def using rollout_kept_refl by (metis UnI1 set_append)

interpretation kept: db_relation nothing_lost
  by unfold_locales
    (blast intro: nothing_lost_other nothing_lost_trans nothing_lost_rollouts nothing_lost_clusters nothing_lost_inserted)+

lemma evolves_trans:
  assumes "evolves rid a b" and "evolves rid b c"
  shows "evolves rid a c"
  unfolding evolves_def
proof (intro impI conjI ballI)
  assume a: "has_rollout rid a"
  then have b: "has_rollout rid b" using assms(1) by (simp add: evolves_def)
  then show "has_rollout rid c" using assms(2) by (simp add: evolves_def)
  fix r' assume "r' \<in> set (db_Rollouts c)" and "dr_ID r' = rid"
  with b assms(2) obtain q where q: "q \<in> set (db_Rollouts b)" "dr_ID q = rid" "dr_RuntimeGeneration q \<le> dr_RuntimeGeneration r'"
    "dr_RuntimeGeneration q = dr_RuntimeGeneration r' \<longrightarrow> rollout_rows rid c = rollout_rows rid b"
    unfolding evolves_def by blast
  with a assms(1) obtain r where "r \<in> set (db_Rollouts a)" "dr_ID r = rid" "dr_RuntimeGeneration r \<le> dr_RuntimeGeneration q"
    "dr_RuntimeGeneration r = dr_RuntimeGeneration q \<longrightarrow> rollout_rows rid b = rollout_rows rid a"
    unfolding evolves_def by blast
  with q show "\<exists>r \<in> set (db_Rollouts a). dr_ID r = rid \<and> dr_RuntimeGeneration r \<le> dr_RuntimeGeneration r'
      \<and> (dr_RuntimeGeneration r = dr_RuntimeGeneration r' \<longrightarrow> rollout_rows rid c = rollout_rows rid a)"
    by (intro bexI [of _ r]) auto
qed

lemma rollout_rows_kept:
  assumes "\<And>c. c \<in> set cs \<Longrightarrow> P c \<Longrightarrow> rc_RolloutID c \<noteq> rid" and "\<And>c. rc_RolloutID (g c) = rc_RolloutID c"
  shows "filter (\<lambda>c. rc_RolloutID c = rid) (update_where P g cs) = filter (\<lambda>c. rc_RolloutID c = rid) cs"
  using assms by (induction cs) (auto simp: update_where_def)

lemma evolves_clusters:
  assumes "\<And>c. cluster_changed c (f c)"
  shows "evolves rid db (update_clusters now P f db)"
proof -
  have same: "rollout_rows rid (update_clusters now P f db) = rollout_rows rid db"
    if "filter (\<lambda>c. rc_RolloutID c = rid) (filter P (db_Clusters db)) = []"
    unfolding rollout_rows_def update_clusters_tables
    by (rule rollout_rows_kept) (use that cluster_changedD(2) [OF assms] in \<open>auto simp: filter_empty_conv\<close>)
  then show ?thesis by (auto simp: evolves_def has_rollout_def update_clusters_tables(1) simp del: filter_filter)
qed

lemma evolves_inserted:
  assumes "rollout_inserted a b"
  shows "evolves rid a b"
proof -
  from assms obtain r cs where new: "\<forall>q \<in> set (db_Rollouts a). dr_ID q \<noteq> dr_ID r \<and> rollout_key q \<noteq> rollout_key r" "\<forall>c \<in> set cs. rc_RolloutID c = dr_ID r"
    and b: "db_Rollouts b = db_Rollouts a @ [r]" "db_Clusters b = db_Clusters a @ cs"
    unfolding rollout_inserted_def by blast
  show ?thesis
    unfolding evolves_def
  proof (intro impI conjI ballI)
    assume "has_rollout rid a"
    then have rid: "rid \<noteq> dr_ID r" using new(1) by (auto simp: has_rollout_def)
    then have same: "rollout_rows rid b = rollout_rows rid a"
      using new(2) by (auto simp: rollout_rows_def b filter_empty_conv)
    show "has_rollout rid b" using \<open>has_rollout rid a\<close> by (auto simp: has_rollout_def b)
    fix r' assume "r' \<in> set (db_Rollouts b)" and "dr_ID r' = rid"
    then have "r' \<in> set (db_Rollouts a)" using rid by (auto simp: b)
    with same \<open>dr_ID r' = rid\<close> show "\<exists>r \<in> set (db_Rollouts a). dr_ID r = rid \<and> dr_RuntimeGeneration r \<le> dr_RuntimeGeneration r'
        \<and> (dr_RuntimeGeneration r = dr_RuntimeGeneration r' \<longrightarrow> rollout_rows rid b = rollout_rows rid a)"
      by (intro bexI [of _ r']) simp_all
  qed
qed

lemma evolves_rollouts:
  assumes "\<And>r. rollout_kept r (f r)"
  shows "evolves rid db (db\<lparr>db_Rollouts := map f (db_Rollouts db)\<rparr>)"
  using assms by (auto simp: evolves_def has_rollout_def rollout_kept_def rollout_rows_def)

lemma evolves_other: "db_Rollouts b = db_Rollouts a \<Longrightarrow> db_Clusters b = db_Clusters a \<Longrightarrow> evolves rid a b"
  by (auto simp: evolves_def has_rollout_def rollout_rows_def)

interpretation gen: db_relation "evolves rid" for rid
  by unfold_locales
    (blast intro: evolves_other evolves_trans evolves_rollouts evolves_clusters evolves_inserted)+

section \<open>Decisions are made on the rows they are applied to\<close>

text \<open>Rows read at a generation: as long as the rollout is at that generation, they are its rows.\<close>

definition snapshot_of :: "Db \<Rightarrow> uuid \<Rightarrow> int \<Rightarrow> DeliveryRolloutCluster list \<Rightarrow> bool" where
  "snapshot_of db rid generation cs \<longleftrightarrow>
     has_rollout rid db
     \<and> (\<forall>r \<in> set (db_Rollouts db). dr_ID r = rid \<longrightarrow> generation \<le> dr_RuntimeGeneration r
          \<and> (dr_RuntimeGeneration r = generation \<longrightarrow> mset cs = mset (rollout_rows rid db)))"

definition cache_ok :: "Db \<Rightarrow> runtimeCache \<Rightarrow> bool" where
  "cache_ok db cache \<longleftrightarrow>
     (\<forall>rid e. fmlookup cache rid = Some e \<longrightarrow> snapshot_of db rid (ce_generation e) (map rt_Cluster (ce_rows e)))"

definition claim_ok :: "Db \<Rightarrow> DeliveryRollout \<Rightarrow> bool" where
  "claim_ok db claimed \<longleftrightarrow>
     has_rollout (dr_ID claimed) db
     \<and> (\<forall>r \<in> set (db_Rollouts db). dr_ID r = dr_ID claimed \<longrightarrow> dr_RuntimeGeneration claimed \<le> dr_RuntimeGeneration r)"

definition job_input :: "Job \<Rightarrow> RuntimeRow list \<Rightarrow> EvaluateInput \<Rightarrow> bool" where
  "job_input j rows input \<longleftrightarrow>
     ei_Now input = jb_Now j
     \<and> ei_Snapshot input = \<lparr>rs_Plan = jb_Plan j, rs_State = dr_State (jb_Claimed j), rs_Fence = dr_Fence (jb_Claimed j),
                            rs_Clusters = map cluster_runtime rows\<rparr>"

definition job_ok :: "ext_lib \<Rightarrow> json_lib \<Rightarrow> decision_json \<Rightarrow> store_json \<Rightarrow> Db \<Rightarrow> Job \<Rightarrow> bool" where
  "job_ok E J D S db j \<longleftrightarrow>
     decodeFrozenPlan E J S (jb_Claimed j) = Inr (jb_Plan j)
     \<and> (\<exists>rows input. job_input j rows input \<and> Scheduler_Evaluate E J D input = Inr (jb_Decision j)
          \<and> snapshot_of db (dr_ID (jb_Claimed j)) (jb_Generation j) (map rt_Cluster rows))"

definition sys_ok :: "ext_lib \<Rightarrow> json_lib \<Rightarrow> decision_json \<Rightarrow> store_json \<Rightarrow> Sys \<Rightarrow> bool" where
  "sys_ok E J D S s \<longleftrightarrow>
     keys_unique (sy_Db s) \<and> (\<forall>w. cache_ok (sy_Db s) (sy_Cache s w))
     \<and> (\<forall>c \<in> set (sy_Claims s). claim_ok (sy_Db s) (snd c)) \<and> (\<forall>j \<in> set (sy_Jobs s). job_ok E J D S (sy_Db s) j)"

lemma snapshot_evolves:
  assumes "snapshot_of a rid generation cs" and "evolves rid a b"
  shows "snapshot_of b rid generation cs"
  unfolding snapshot_of_def
proof (intro conjI ballI impI)
  have a: "has_rollout rid a" using assms(1) by (simp add: snapshot_of_def)
  then show "has_rollout rid b" using assms(2) by (simp add: evolves_def)
  fix r' assume "r' \<in> set (db_Rollouts b)" and "dr_ID r' = rid"
  with a assms(2) obtain r where r: "r \<in> set (db_Rollouts a)" "dr_ID r = rid" "dr_RuntimeGeneration r \<le> dr_RuntimeGeneration r'"
    and same: "dr_RuntimeGeneration r = dr_RuntimeGeneration r' \<longrightarrow> rollout_rows rid b = rollout_rows rid a"
    unfolding evolves_def by blast
  from assms(1) r(1,2) have seen: "generation \<le> dr_RuntimeGeneration r"
    "dr_RuntimeGeneration r = generation \<longrightarrow> mset cs = mset (rollout_rows rid a)"
    by (simp_all add: snapshot_of_def)
  then show "generation \<le> dr_RuntimeGeneration r'" using r(3) by simp
  assume "dr_RuntimeGeneration r' = generation"
  then show "mset cs = mset (rollout_rows rid b)" using r(3) seen same by simp
qed

lemma claim_evolves: "claim_ok a claimed \<Longrightarrow> evolves (dr_ID claimed) a b \<Longrightarrow> claim_ok b claimed"
  unfolding claim_ok_def evolves_def by (meson order.trans)

lemma sys_ok_db:
  assumes "sys_ok E J D S s" and "keys_unique (sy_Db s) \<longrightarrow> keys_unique db" and "\<And>rid. evolves rid (sy_Db s) db"
  shows "sys_ok E J D S (s\<lparr>sy_Db := db\<rparr>)"
  using assms(1,2) snapshot_evolves [OF _ assms(3)] claim_evolves [OF _ assms(3)]
  by (simp add: sys_ok_def cache_ok_def job_ok_def) blast

lemma same_rollout:
  assumes "keys_unique db" and "r \<in> set (db_Rollouts db)" and "r' \<in> set (db_Rollouts db)" and "dr_ID r = dr_ID r'"
  shows "r = r'"
  using assms by (auto simp: keys_unique_def distinct_map dest: inj_onD)

lemma claim_ok_row: "keys_unique db \<Longrightarrow> r \<in> set (db_Rollouts db) \<Longrightarrow> claim_ok db r"
  unfolding claim_ok_def has_rollout_def by (auto dest: same_rollout)

lemma claimed_in_db:
  assumes "ClaimDeliveryRollout now owner lease rid db = Inr (claimed, db')"
  shows "claimed \<in> set (db_Rollouts db')"
  using assms
  by (auto simp: ClaimDeliveryRollout_def update_rollout_def update_where_def find_Some_iff split: option.splits
      intro!: rev_image_eqI)

lemma swept_in_db:
  assumes "ClaimDeliveryRollouts now owner lease limit order db = (rows, db')"
  shows "set rows \<subseteq> set (db_Rollouts db')"
  using assms by (auto simp: ClaimDeliveryRollouts_def Let_def update_where_def)

lemma listed_rows:
  assumes "length (ListDeliveryRolloutRuntime rid n db) < n" and "find (\<lambda>r. dr_ID r = rid) (db_Rollouts db) = Some r"
  shows "mset (map rt_Cluster (ListDeliveryRolloutRuntime rid n db)) = mset (rollout_rows rid db)"
    and "\<forall>row \<in> set (ListDeliveryRolloutRuntime rid n db). rt_Generation row = dr_RuntimeGeneration r"
proof -
  have whole: "ListDeliveryRolloutRuntime rid n db = map (runtime_row db r)
      (sort_key (\<lambda>c. rc_ReleaseOrder c) (sort_key (\<lambda>c. rc_ClusterID c) (rollout_rows rid db)))"
    using assms by (simp add: ListDeliveryRolloutRuntime_def)
  have "rt_Cluster \<circ> runtime_row db r = id" by (auto simp: runtime_row_def Let_def)
  then show "mset (map rt_Cluster (ListDeliveryRolloutRuntime rid n db)) = mset (rollout_rows rid db)"
    by (simp add: whole)
  show "\<forall>row \<in> set (ListDeliveryRolloutRuntime rid n db). rt_Generation row = dr_RuntimeGeneration r"
    by (simp add: whole runtime_row_def Let_def)
qed

lemma cache_ok_hit:
  assumes "cache_ok db cache" and "cachedRuntime now rid generation cache = (found, cache')"
  shows "cache_ok db cache'" and "\<And>rows. found = Some rows \<Longrightarrow> snapshot_of db rid generation (map rt_Cluster rows)"
  using assms by (auto simp: cachedRuntime_def cache_ok_def split: option.splits if_splits)

lemma cache_ok_store:
  assumes "cache_ok db cache" and "snapshot_of db rid generation (map rt_Cluster rows)"
  shows "cache_ok db (storeRuntime now rid generation rows cache)"
  using assms by (auto simp: storeRuntime_def Let_def cache_ok_def split: if_splits)

definition read_runtime ::
    "(string \<Rightarrow> bool) \<Rightarrow> gotime \<Rightarrow> DeliveryRollout \<Rightarrow> nat \<Rightarrow> RuntimeRow list \<Rightarrow> runtimeCache
     \<Rightarrow> (StoreError + RuntimeRow list \<times> int) \<times> runtimeCache" where
  "read_runtime fails now claimed limit rows cache =
     (if fails ''ListDeliveryRolloutRuntime'' then (Inl StoreFailed, cache)
      else if length rows > limit then (refuse RErrInvariant ''rollout.runtime'', cache)
      else (case rows of
          [] \<Rightarrow> (Inr (rows, dr_RuntimeGeneration claimed), cache)
        | row # rest \<Rightarrow>
            if list_ex (\<lambda>r. rt_Generation r \<noteq> rt_Generation row) rest
            then (refuse RErrInvariant ''runtime_generation'', cache)
            else (Inr (rows, rt_Generation row), storeRuntime now (dr_ID claimed) (rt_Generation row) rows cache)))"

lemma loadRuntime_read:
  "loadRuntime fails now claimed db cache =
     (if dr_Total claimed > int MaxRolloutClusters then (refuse RErrInvariant ''rollout.total_clusters'', cache)
      else case cachedRuntime now (dr_ID claimed) (dr_RuntimeGeneration claimed) cache of
          (Some rows, cache) \<Rightarrow> (Inr (rows, dr_RuntimeGeneration claimed), cache)
        | (None, cache) \<Rightarrow>
            read_runtime fails now claimed MaxRolloutClusters
              (ListDeliveryRolloutRuntime (dr_ID claimed) (MaxRolloutClusters + 1) db) cache)"
  unfolding loadRuntime_def read_runtime_def Let_def ..

lemma read_runtime_cases:
  assumes "read_runtime fails now claimed limit rows cache = (result, cache')"
  obtains e where "result = Inl e" and "cache' = cache"
  | "length rows \<le> limit" and "result = Inr (rows, dr_RuntimeGeneration claimed)" and "cache' = cache"
  | row where "length rows \<le> limit" and "row \<in> set rows" and "result = Inr (rows, rt_Generation row)"
      and "cache' = storeRuntime now (dr_ID claimed) (rt_Generation row) rows cache"
  using assms by (auto simp: read_runtime_def refuse_def not_less split: if_splits list.splits)

lemma loadRuntime_ok:
  assumes "loadRuntime fails now claimed db cache = (result, cache')" and "keys_unique db" and "cache_ok db cache"
    and "claim_ok db claimed"
  shows "cache_ok db cache'"
    and "\<And>rows generation. result = Inr (rows, generation) \<Longrightarrow> snapshot_of db (dr_ID claimed) generation (map rt_Cluster rows)"
proof -
  let ?rid = "dr_ID claimed" and ?rows = "ListDeliveryRolloutRuntime (dr_ID claimed) (MaxRolloutClusters + 1) db"
  obtain found cache1 where hit: "cachedRuntime now ?rid (dr_RuntimeGeneration claimed) cache = (found, cache1)" by fastforce
  note hit_ok = cache_ok_hit [OF assms(3) hit]
  from assms(4) obtain r where r: "find (\<lambda>r. dr_ID r = ?rid) (db_Rollouts db) = Some r"
    by (cases "find (\<lambda>r. dr_ID r = ?rid) (db_Rollouts db)") (auto simp: claim_ok_def has_rollout_def find_None_iff)
  then have row: "r \<in> set (db_Rollouts db)" "dr_ID r = ?rid" by (auto simp: find_Some_iff)
  have le: "dr_RuntimeGeneration claimed \<le> dr_RuntimeGeneration r" using assms(4) row by (simp add: claim_ok_def)
  have at: "snapshot_of db ?rid generation cs"
    if "generation \<le> dr_RuntimeGeneration r" and "mset cs = mset (rollout_rows ?rid db)" for generation cs
  proof -
    have "q = r" if "q \<in> set (db_Rollouts db)" and "dr_ID q = ?rid" for q
      using same_rollout [OF assms(2) that(1) row(1)] that(2) row(2) by simp
    then show ?thesis using that row unfolding snapshot_of_def has_rollout_def by blast
  qed
  have read: "snapshot_of db ?rid (dr_RuntimeGeneration claimed) (map rt_Cluster ?rows)"
    "\<And>x. x \<in> set ?rows \<Longrightarrow> snapshot_of db ?rid (rt_Generation x) (map rt_Cluster ?rows)" if "length ?rows \<le> MaxRolloutClusters"
  proof -
    have short: "length ?rows < MaxRolloutClusters + 1" using that by linarith
    show "snapshot_of db ?rid (dr_RuntimeGeneration claimed) (map rt_Cluster ?rows)"
      by (rule at [OF le listed_rows(1) [OF short r]])
    show "snapshot_of db ?rid (rt_Generation x) (map rt_Cluster ?rows)" if "x \<in> set ?rows" for x
      using listed_rows(2) [OF short r] that by (intro at [OF _ listed_rows(1) [OF short r]]) simp
  qed
  have "cache_ok db cache' \<and> (\<forall>rows generation. result = Inr (rows, generation)
      \<longrightarrow> snapshot_of db ?rid generation (map rt_Cluster rows))"
  proof (cases "dr_Total claimed > int MaxRolloutClusters")
    case True
    with assms(1,3) show ?thesis by (auto simp: loadRuntime_read refuse_def)
  next
    case False
    show ?thesis
    proof (cases found)
      case (Some rows)
      with False assms(1) hit hit_ok show ?thesis by (auto simp: loadRuntime_read)
    next
      case None
      with False assms(1) hit have "read_runtime fails now claimed MaxRolloutClusters ?rows cache1 = (result, cache')"
        by (simp only: loadRuntime_read if_False prod.case option.case)
      then show ?thesis
        by (cases rule: read_runtime_cases) (simp_all add: hit_ok(1) read [simplified] cache_ok_store)
    qed
  qed
  then show "cache_ok db cache'"
    and "\<And>rows generation. result = Inr (rows, generation) \<Longrightarrow> snapshot_of db ?rid generation (map rt_Cluster rows)"
    by blast+
qed

lemma runtimeFromRows_Inr:
  assumes "runtimeFromRows plan claimed rows = Inr (snapshot, byCluster)"
  shows "snapshot = \<lparr>rs_Plan = plan, rs_State = dr_State claimed, rs_Fence = dr_Fence claimed,
      rs_Clusters = map cluster_runtime rows\<rparr>"
proof -
  have "cs' = cs @ map cluster_runtime rows" if "for_each runtime_rows_step rows (cs, m) = Inr (cs', m')" for cs m cs' m'
    using that
    by (induction rows arbitrary: cs m) (fastforce simp: sbind_Inr_iff runtime_rows_step_def split: if_splits)+
  from this [of "[]" fmempty] assms show ?thesis
    by (auto simp: runtimeFromRows_def sbind_Inr_iff split: if_splits)
qed

lemma prepare_decision_ok:
  assumes "prepare_decision E J D S C ev fails now owner claimed cache db atApprovals = (result, cache')"
    and "keys_unique db" and "cache_ok db cache" and "claim_ok db claimed"
  shows "cache_ok db cache'" and "\<And>j. result = Inr j \<Longrightarrow> job_ok E J D S db j"
proof -
  obtain loaded cache1 where load: "loadRuntime fails now claimed db cache = (loaded, cache1)" by fastforce
  note ok = loadRuntime_ok [OF load assms(2-4)]
  show "cache_ok db cache'"
    using assms(1,3) load ok(1) by (auto simp: prepare_decision_def split: sum.splits prod.splits)
  fix j assume "result = Inr j"
  with assms(1) load obtain plan rows generation snapshot byCluster approvals d where
    plan: "decodeFrozenPlan E J S claimed = Inr plan" and rows: "loaded = Inr (rows, generation)"
    and snap: "runtimeFromRows plan claimed rows = Inr (snapshot, byCluster)"
    and d: "evaluate_claimed E J D S C ev now owner claimed plan rows snapshot approvals = Inr d"
    and j: "j = \<lparr>jb_Owner = owner, jb_Claimed = claimed, jb_Plan = plan, jb_Rows = byCluster, jb_Decision = d,
      jb_Generation = generation, jb_Now = now\<rparr>"
    unfolding prepare_decision_def by (auto simp: sbind_Inr_iff split: sum.splits prod.splits)
  from d obtain input where "Scheduler_Evaluate E J D input = Inr d" "ei_Now input = now" "ei_Snapshot input = snapshot"
    by (auto simp: evaluate_claimed_def sbind_Inr_iff split: prod.splits)
  with plan ok(2) [OF rows] show "job_ok E J D S db j"
    unfolding job_ok_def job_input_def j runtimeFromRows_Inr [OF snap] by auto
qed

lemma sys_ok_step:
  assumes "sys_step E J D S K js C s s'" and "sys_ok E J D S s"
  shows "sys_ok E J D S s'"
proof -
  have db: "sys_ok E J D S (s\<lparr>sy_Db := sy_Db s'\<rparr>)"
    using unique.R_step [OF assms(1)] gen.R_step [OF assms(1)] by (rule sys_ok_db [OF assms(2)])
  from assms(1) show ?thesis
  proof cases
    case (claim dbnow owner rid claimed db)
    then show ?thesis using db claim_ok_row [OF _ claimed_in_db [OF claim(2)]] by (simp add: sys_ok_def)
  next
    case (sweep dbnow owner limit order rows db)
    then show ?thesis using db claim_ok_row subsetD [OF swept_in_db [OF sweep(2)]] by (auto simp: sys_ok_def)
  next
    case (evaluate owner claimed ev fails now atApprovals result cache)
    then have ok: "keys_unique (sy_Db s)" "cache_ok (sy_Db s) (sy_Cache s owner)" "claim_ok (sy_Db s) claimed"
      using assms(2) by (auto simp: sys_ok_def)
    show ?thesis
      using assms(2) prepare_decision_ok [OF evaluate(3) ok] by (auto simp: evaluate(1) sys_ok_def split: sum.splits)
  qed (use db in \<open>simp_all add: sys_ok_def\<close>)
qed

lemma sys_ok_reachable:
  assumes "sys_start s0" and "sys_steps E J D S K js C s0 s"
  shows "sys_ok E J D S s"
  using assms(2) unfolding sys_steps_def
proof (induction rule: rtranclp_induct)
  case base
  then show ?case using assms(1) by (simp add: sys_start_def sys_ok_def cache_ok_def)
qed (rule sys_ok_step)

section \<open>The effect of a commit\<close>

definition row_in_flight :: "duration \<Rightarrow> gotime \<Rightarrow> DeliveryRolloutCluster \<Rightarrow> bool" where
  "row_in_flight minReady now c \<longleftrightarrow>
     rc_State c = RolloutClusterReleased \<or> rc_State c = RolloutClusterAcknowledged \<or> rc_State c = RolloutClusterReconciling
     \<or> rc_State c = RolloutClusterRollingBack \<or> rc_State c = RolloutClusterReady \<and> now < the (rc_ReadyAt c) + minReady"

text \<open>The clusters of a rollout that are in flight in the database.\<close>

definition db_in_flight :: "FrozenRollout \<Rightarrow> gotime \<Rightarrow> uuid \<Rightarrow> Db \<Rightarrow> int" where
  "db_in_flight plan now rid db =
     int (length (filter (row_in_flight (st_MinReady (fr_Strategy plan)) now) (rollout_rows rid db)))"

lemma consumes_row: "consumesConcurrency (cluster_runtime row) minReady now = row_in_flight minReady now (rt_Cluster row)"
  by (auto simp: consumesConcurrency_def cluster_runtime_def row_in_flight_def matureAt_def Let_def
      split: RolloutClusterState.splits)

lemma in_flight_rows:
  assumes "mset (map rt_Cluster rows) = mset (rollout_rows rid db)"
  shows "in_flight plan now (map cluster_runtime rows) = db_in_flight plan now rid db"
proof -
  have "in_flight plan now (map cluster_runtime rows)
      = int (length (filter (row_in_flight (st_MinReady (fr_Strategy plan)) now) (map rt_Cluster rows)))"
    by (simp add: in_flight_def filter_map comp_def consumes_row)
  then show ?thesis using length_filter_mset [OF assms] by (simp add: db_in_flight_def)
qed

lemma count_update_where:
  "length (filter Q (update_where P g cs)) \<le> length (filter Q cs) + length (filter P cs)"
  by (induction cs) (auto simp: update_where_def)

lemma one_row:
  assumes "distinct (map rc_ID cs)" and "\<And>c. P c \<Longrightarrow> rc_ID c = cid"
  shows "length (filter P cs) \<le> 1"
proof -
  have "distinct (map rc_ID (filter P cs))" using assms(1) by (simp add: distinct_map_filter)
  moreover have "set (map rc_ID (filter P cs)) \<subseteq> {cid}" using assms(2) by auto
  ultimately show ?thesis by (metis card_mono card_insert_disjoint card.empty distinct_card empty_iff finite.emptyI
      finite.insertI length_map One_nat_def)
qed

lemma release_in_flight:
  assumes "keys_unique db"
    and "ReleaseDeliveryRolloutClusterCAS dbnow t act deadline cid from fence owner rf db = Inr (x, db')"
  shows "db_in_flight plan now rid db' \<le> db_in_flight plan now rid db + 1"
proof -
  from assms(2) obtain P g where upd: "db_Clusters db' = update_where P g (db_Clusters db)" and P: "\<And>c. P c \<Longrightarrow> rc_ID c = cid"
    by (auto simp: ReleaseDeliveryRolloutClusterCAS_def update_cluster_def update_clusters_tables split: option.splits)
  have "length (filter P (db_Clusters db)) \<le> 1" using assms(1) P by (intro one_row) (simp_all add: keys_unique_def)
  then show ?thesis
    using count_update_where [of "\<lambda>c. rc_RolloutID c = rid \<and> row_in_flight (st_MinReady (fr_Strategy plan)) now c" P g "db_Clusters db"]
    by (simp add: db_in_flight_def rollout_rows_def upd)
qed

lemma upsert_clusters: "UpsertClusterDeploymentDesired row db = Inr (x, db') \<Longrightarrow> db_Clusters db' = db_Clusters db"
  by (auto simp: UpsertClusterDeploymentDesired_def Let_def bump_delivery_rollout_runtime_for_deployment_def bump_runtime_def
      split: option.splits if_splits)

lemma release_step_in_flight:
  assumes "apply_release_step S fails X release db = Inr db'" and "keys_unique db"
  shows "db_in_flight plan now rid db' \<le> db_in_flight plan now rid db + 1"
proof -
  from assms(1) obtain row x a cid y b where up: "UpsertClusterDeploymentDesired row db = Inr (x, a)"
    and rel: "ReleaseDeliveryRolloutClusterCAS (ax_DbNow X) (rl_ToState release) (rl_Action release)
        (timestamptz (rl_Deadline release)) cid (rl_FromState release) (rl_ExpectedFence release)
        (ax_Owner X) (dr_Fence (ax_Claimed X)) a = Inr (y, b)"
    and same: "db_Clusters db' = db_Clusters b"
    unfolding apply_release_step_def Let_def appendRolloutEvent_def
    by (auto simp: sbind_Inr_iff split: option.splits if_splits)
  have "keys_unique a" using unique.R_upsert [OF up] assms(2) by blast
  from release_in_flight [OF this rel] upsert_clusters [OF up] same show ?thesis
    by (simp add: db_in_flight_def rollout_rows_def)
qed

lemma releases_in_flight:
  assumes "for_each (apply_release_step S fails X) rs db = Inr db'" and "keys_unique db"
  shows "db_in_flight plan now rid db' \<le> db_in_flight plan now rid db + int (length rs)"
  using assms
proof (induction rs arbitrary: db)
  case (Cons r rs)
  then obtain a where a: "apply_release_step S fails X r db = Inr a" "for_each (apply_release_step S fails X) rs a = Inr db'"
    by (auto simp: sbind_Inr_iff)
  have "keys_unique a" using unique.R_apply_release_step [OF a(1)] Cons.prems(2) by blast
  from Cons.IH [OF a(2) this] release_step_in_flight [OF a(1) Cons.prems(2), of plan now rid] show ?case by simp
qed simp

lemma update_rollout_clusters: "update_rollout P f db = Inr (x, db') \<Longrightarrow> db_Clusters db' = db_Clusters db"
  by (auto simp: update_rollout_def split: option.splits)

lemma after_releases_clusters:
  "apply_counters fails X d db = Inr db' \<Longrightarrow> db_Clusters db' = db_Clusters db"
  "apply_rollout fails X d db = Inr db' \<Longrightarrow> db_Clusters db' = db_Clusters db"
  "apply_wake E fails X d db = Inr db' \<Longrightarrow> db_Clusters db' = db_Clusters db"
  by (auto simp: apply_counters_def apply_rollout_def apply_wake_def RecomputeDeliveryRolloutCounters_def
      ApplyDeliveryRolloutTransitionCAS_def ReleaseDeliveryRolloutLease_def appendRolloutEvent_def enqueueRolloutWake_def
      Let_def sbind_Inr_iff dest: update_rollout_clusters split: if_splits option.splits)

lemma apply_job_Inr:
  "apply_job E S fails dbnow newID j db = (Inr (), db')
    \<Longrightarrow> apply_body E S fails (job_context dbnow newID j) (jb_Decision j) (jb_Generation j) db = Inr db'"
  by (auto simp: apply_job_def applyDecision_def in_transaction_def sbind_Inr_iff split: if_splits sum.splits option.splits)

lemma job_context_simps [simp]:
  "ax_Owner (job_context dbnow newID j) = jb_Owner j" "ax_Claimed (job_context dbnow newID j) = jb_Claimed j"
  "ax_Plan (job_context dbnow newID j) = jb_Plan j" "ax_Rows (job_context dbnow newID j) = jb_Rows j"
  "ax_DbNow (job_context dbnow newID j) = dbnow" "ax_Now (job_context dbnow newID j) = jb_Now j"
  by (simp_all add: job_context_def)

lemma GetClaimed_Inr:
  assumes "GetClaimedDeliveryRolloutForUpdate now rid owner fence generation db = Inr r"
  shows "r \<in> set (db_Rollouts db)" and "dr_ID r = rid" and "dr_RuntimeGeneration r = generation" and "dr_Fence r = fence"
  using assms by (auto simp: GetClaimedDeliveryRolloutForUpdate_def lease_held_def find_Some_iff split: option.splits)

lemma job_snapshot:
  assumes "sys_ok E J D S s" and "j \<in> set (sy_Jobs s)"
    and "apply_body E S fails (job_context dbnow newID j) (jb_Decision j) (jb_Generation j) (sy_Db s) = Inr db'"
  obtains rows input where "job_input j rows input" and "Scheduler_Evaluate E J D input = Inr (jb_Decision j)"
    and "mset (map rt_Cluster rows) = mset (rollout_rows (dr_ID (jb_Claimed j)) (sy_Db s))"
proof -
  from assms(1,2) obtain rows input where job: "job_input j rows input" "Scheduler_Evaluate E J D input = Inr (jb_Decision j)"
    and snap: "snapshot_of (sy_Db s) (dr_ID (jb_Claimed j)) (jb_Generation j) (map rt_Cluster rows)"
    unfolding sys_ok_def job_ok_def by blast
  obtain locked where "GetClaimedDeliveryRolloutForUpdate dbnow (dr_ID (jb_Claimed j)) (jb_Owner j) (dr_Fence (jb_Claimed j))
      (jb_Generation j) (sy_Db s) = Inr locked"
    by (rule apply_body_Inr [OF assms(3)]) (simp add: that)
  from GetClaimed_Inr [OF this] snap have "mset (map rt_Cluster rows) = mset (rollout_rows (dr_ID (jb_Claimed j)) (sy_Db s))"
    unfolding snapshot_of_def by blast
  with job show thesis by (rule that)
qed

section \<open>Properties of the whole system\<close>

text \<open>C1. The concurrency limit holds in the database, for every interleaving of workers,
  operators, agents and planner, whatever the caches of the workers hold: after a worker has
  committed a decision with releases on a progressing rollout, at most \<open>max_concurrent\<close> of its
  clusters are in flight.\<close>

theorem commit_keeps_concurrency:
  assumes "sys_start s0" and "sys_steps E J D S K js C s0 s" and "j \<in> set (sy_Jobs s)"
    and "dr_State (jb_Claimed j) = RolloutProgressing" and "de_Releases (jb_Decision j) \<noteq> []"
    and "apply_job E S fails dbnow newID j (sy_Db s) = (Inr (), db')"
  shows "db_in_flight (jb_Plan j) (jb_Now j) (dr_ID (jb_Claimed j)) db' \<le> uint (st_MaxConcurrent (fr_Strategy (jb_Plan j)))"
proof -
  let ?n = "db_in_flight (jb_Plan j) (jb_Now j) (dr_ID (jb_Claimed j))"
  have ok: "sys_ok E J D S s" by (rule sys_ok_reachable [OF assms(1,2)])
  note body = apply_job_Inr [OF assms(6)]
  obtain rows input where input: "job_input j rows input" and d: "Scheduler_Evaluate E J D input = Inr (jb_Decision j)"
    and rows: "mset (map rt_Cluster rows) = mset (rollout_rows (dr_ID (jb_Claimed j)) (sy_Db s))"
    by (rule job_snapshot [OF ok assms(3) body]) (rule that)
  have "rs_State (ei_Snapshot input) = RolloutProgressing" using input assms(4) by (simp add: job_input_def)
  from release_fits_slots [OF d this assms(5)]
  have slots: "?n (sy_Db s) + int (length (de_Releases (jb_Decision j))) \<le> uint (st_MaxConcurrent (fr_Strategy (jb_Plan j)))"
    and none: "de_ClusterTransitions (jb_Decision j) = []"
    using input by (simp_all add: job_input_def in_flight_rows [OF rows])
  obtain a b c e where a: "for_each (apply_transition_step fails (job_context dbnow newID j)) [] (sy_Db s) = Inr a"
    and b: "for_each (apply_release_step S fails (job_context dbnow newID j)) (de_Releases (jb_Decision j)) a = Inr b"
    and rest: "apply_counters fails (job_context dbnow newID j) (jb_Decision j) b = Inr c"
      "apply_rollout fails (job_context dbnow newID j) (jb_Decision j) c = Inr e"
      "apply_wake E fails (job_context dbnow newID j) (jb_Decision j) e = Inr db'"
    by (rule apply_body_Inr [OF body, unfolded none]) (rule that)
  have "?n db' = ?n b" using after_releases_clusters(1) [OF rest(1)] after_releases_clusters(2) [OF rest(2)]
    after_releases_clusters(3) [OF rest(3)] by (simp add: db_in_flight_def rollout_rows_def)
  also have "\<dots> \<le> ?n (sy_Db s) + int (length (de_Releases (jb_Decision j)))"
    using releases_in_flight [OF b] a ok by (simp add: sys_ok_def)
  finally show ?thesis using slots by simp
qed

text \<open>C2. A claim that was superseded never commits: once the fence of a rollout has passed the
  fence of a worker's claim, by another claim or by an operator's action, every later attempt to
  apply a decision of that claim is refused and changes nothing, whatever happens in between.\<close>

theorem superseded_claim_never_commits:
  assumes "sys_start s0" and "sys_steps E J D S K js C s0 s" and "sys_steps E J D S K js C s s'"
    and "r \<in> set (db_Rollouts (sy_Db s))" and "dr_ID r = dr_ID (jb_Claimed j)" and "dr_Fence (jb_Claimed j) < dr_Fence r"
  shows "\<exists>e. apply_job E S fails dbnow newID j (sy_Db s') = (Inl e, sy_Db s')"
proof -
  have "sys_steps E J D S K js C s0 s'" using assms(2,3) by (simp add: sys_steps_def)
  then have unique: "keys_unique (sy_Db s')" using sys_ok_reachable [OF assms(1)] by (simp add: sys_ok_def)
  from kept.R_steps [OF assms(3)] assms(4) obtain r' where r': "r' \<in> set (db_Rollouts (sy_Db s'))" "rollout_kept r r'"
    unfolding nothing_lost_def by blast
  have refused: "apply_body E S fails (job_context dbnow newID j) (jb_Decision j) (jb_Generation j) (sy_Db s') \<noteq> Inr db" for db
  proof
    assume "apply_body E S fails (job_context dbnow newID j) (jb_Decision j) (jb_Generation j) (sy_Db s') = Inr db"
    then obtain q where "GetClaimedDeliveryRolloutForUpdate dbnow (dr_ID (jb_Claimed j)) (jb_Owner j) (dr_Fence (jb_Claimed j))
        (jb_Generation j) (sy_Db s') = Inr q"
      by (rule apply_body_Inr) simp
    note q = GetClaimed_Inr [OF this]
    have "q = r'" using q(2) r'(2) assms(5) by (intro same_rollout [OF unique q(1) r'(1)]) (simp add: rollout_kept_def)
    with q(4) r'(2) assms(6) show False by (simp add: rollout_kept_def)
  qed
  show ?thesis
    unfolding apply_job_def applyDecision_def in_transaction_def
    using refused by (auto split: sum.splits option.splits simp: sbind_Inr_iff)
qed

text \<open>C4. Whatever happens, nothing a rollout has frozen changes and no fence goes back: every
  rollout is still there, with the same plan, target, versions, digests and key, and its fence and
  runtime generation have not decreased; every cluster row is still there in the same cohort, order
  and versions, and either unchanged or with a larger fence.\<close>

theorem frozen_stays_frozen:
  assumes "sys_steps E J D S K js C s s'"
  shows "(\<forall>r \<in> set (db_Rollouts (sy_Db s)). \<exists>r' \<in> set (db_Rollouts (sy_Db s')). rollout_kept r r')
    \<and> (\<forall>c \<in> set (db_Clusters (sy_Db s)). \<exists>c' \<in> set (db_Clusters (sy_Db s')). c' = c \<or> cluster_changed c c')"
  using kept.R_steps [OF assms] by (simp add: nothing_lost_def cluster_kept_def)

lemma decode_kept:
  assumes "rollout_kept r r'"
  shows "decodeFrozenPlan E J S r' = decodeFrozenPlan E J S r"
  using assms by (simp add: decodeFrozenPlan_def rollout_kept_def)

lemma find_unique_key:
  assumes "distinct (map rollout_key rs)" and "r \<in> set rs"
  shows "find (\<lambda>q. dr_TargetID q = dr_TargetID r \<and> dr_IdempotencyKey q = dr_IdempotencyKey r) rs = Some r"
  using assms by (induction rs) (force simp: rollout_key_def)+

lemma find_by_key:
  assumes "keys_unique db" and "r \<in> set (db_Rollouts db)" and "decodeFrozenPlan E J S r = Inr plan"
  shows "Postgres_FindByIdempotency E J S (dr_TargetID r) (dr_IdempotencyKey r) db = Inr (Some plan)"
  using assms find_unique_key [of "db_Rollouts db" r]
  by (simp add: Postgres_FindByIdempotency_def GetDeliveryRolloutByIdempotency_def keys_unique_def)

lemma decode_inserted:
  assumes "FrozenRollout_Validate E J plan = Inr ()" and "js_readPlan S frozen = Some plan" and "length frozen \<le> 16777216"
  shows "decodeFrozenPlan E J S (rollout_insert S frozen plan) = Inr plan"
  using assms by (simp add: decodeFrozenPlan_def ReadFrozenRolloutV1_def rollout_insert_def)

text \<open>C3. The frozen plan makes the round trip through the database: a plan that was stored is
  found again under its target and idempotency key, exactly as it was frozen, after any run of the
  system.  The one hypothesis is that decoding the plan's own JSON gives the plan.\<close>

theorem stored_plan_round_trip:
  assumes "sys_start s0" and "sys_steps E J D S K js C s0 s"
    and "persist_plan E J S newID eventID dbnow now plan (sy_Db s) = Inr db"
    and "\<And>raw. js_storedPlan S plan = Some raw \<Longrightarrow> js_readPlan S raw = Some plan"
    and "sys_steps E J D S K js C (s\<lparr>sy_Db := db\<rparr>) s'"
  shows "Postgres_FindByIdempotency E J S (fr_TargetID plan) (fr_IdempotencyKey plan) (sy_Db s') = Inr (Some plan)"
proof -
  have "sys_step E J D S K js C s (s\<lparr>sy_Db := db\<rparr>)" using assms(3) by (rule sys_step.create)
  with assms(2,5) have "sys_steps E J D S K js C s0 s'"
    unfolding sys_steps_def by (meson rtranclp.rtrancl_into_rtrancl rtranclp_trans)
  then have unique: "keys_unique (sy_Db s')" using sys_ok_reachable [OF assms(1)] by (simp add: sys_ok_def)
  from assms(3) obtain b where ins: "Postgres_InsertRollout E J S newID dbnow plan (sy_Db s) = Inr b"
    and tables: "db_Rollouts db = db_Rollouts b" "db_Clusters db = db_Clusters b"
    by (auto simp: persist_plan_def sbind_Inr_iff Postgres_EnqueueRollout_def Postgres_AppendRolloutCreated_def)
  obtain frozen x a where valid: "FrozenRollout_Validate E J plan = Inr ()" and raw: "js_storedPlan S plan = Some frozen"
    and len: "length frozen \<le> 16777216" and a: "db_Rollouts a = db_Rollouts (sy_Db s) @ [rollout_insert S frozen plan]"
    and x: "RecomputeDeliveryRolloutCounters (fr_ID plan) a = Inr (x, b)"
    by (rule InsertRollout_Inr [OF ins]) (rule that)
  let ?r = "rollout_insert S frozen plan"
  have "nothing_lost b (sy_Db s')"
    using nothing_lost_trans [OF nothing_lost_other [OF tables] kept.R_steps [OF assms(5), simplified]] .
  with kept.R_recompute [OF x] have "nothing_lost a (sy_Db s')" by (rule nothing_lost_trans)
  then obtain r' where r': "r' \<in> set (db_Rollouts (sy_Db s'))" "rollout_kept ?r r'"
    unfolding nothing_lost_def a by fastforce
  have "decodeFrozenPlan E J S r' = Inr plan"
    using decode_inserted [OF valid assms(4) [OF raw] len] decode_kept [OF r'(2)] by simp
  from find_by_key [OF unique r'(1) this] r'(2) show ?thesis by (simp add: rollout_kept_def rollout_insert_def)
qed

section \<open>Actions and approvals\<close>

text \<open>C5. An action is performed at most once per idempotency key: when the request is repeated
  with the same key, whatever happened to the rest of the database in between, the answer is the
  receipt of the first execution and nothing changes.  The hypothesis on the receipt's JSON is that
  decoding what was encoded gives it back.\<close>

theorem action_replayed:
  assumes "Controller_Act E J S K fails dbnow clock eventID q db = (Inr res, db1)" and "\<not> cx_Replayed res"
    and "\<And>d raw. js_envelope K \<lparr>pe_RequestDigest = d, pe_Receipt = cx_Receipt res\<rparr> = Some raw
      \<Longrightarrow> js_readEnvelope K raw = Some \<lparr>pe_RequestDigest = d, pe_Receipt = cx_Receipt res\<rparr>"
    and "db_Keys db2 = db_Keys db1" and "\<not> fails2 ''begin''" and "\<not> fails2 ''ClaimKey''"
  shows "Controller_Act E J S K fails2 dbnow2 clock2 eventID2 q db2
    = (Inr \<lparr>cx_Rollout = None, cx_Event = None, cx_Approval = None, cx_AuditPersisted = False,
            cx_Receipt = cx_Receipt res, cx_Replayed = True\<rparr>, db2)"
proof -
  from assms(1) obtain actor digest allowed t d where checks: "act_checks K q = Inr (actor, digest, allowed, t)"
    and body: "act_body E J S K fails dbnow clock eventID q actor (act_reason q) digest allowed t db = Inr (res, d)"
    and d: "d \<noteq> None \<Longrightarrow> d = Some db1"
    by (auto simp: Controller_Act_def in_transaction_def split: sum.splits prod.splits if_splits option.splits)
  obtain claim a f db' where claim: "ClaimKey E K (act_claim q actor digest) db = Inr (claim, a)" "cl_Replay claim = None"
    and f: "db_Keys f = db_Keys a" and some: "d = Some db'" and attach: "Attach K claim (cx_Receipt res) f = Inr db'"
    and receipt: "cx_Receipt res = NewReceipt eventID (''rollout.'' @ action_text (aq_Action q)) ''delivery_rollout''
      (aq_RolloutID q) (aq_ProjectID q) (status_url E (aq_RolloutID q) (aq_ProjectID q)) clock"
    by (rule act_body_attached [OF body assms(2)]) (rule that)
  have "db_Keys db2 = db_Keys db'" using assms(4) d some by simp
  from claim_attach_replay [OF claim attach f this _ _ _ _ _ assms(3)]
  have "ClaimKey E K (act_claim q actor digest) db2 = Inr (claim\<lparr>cl_Replay := Some (cx_Receipt res)\<rparr>, db2)"
    by (simp add: receipt NewReceipt_def act_claim_def)
  then show ?thesis using assms(5,6) checks by (simp add: Controller_Act_def in_transaction_def act_body_def ask_def)
qed

lemma approvals_kept:
  "ClaimKey E K q db = Inr (claim, db') \<Longrightarrow> db_Approvals db' = db_Approvals db"
  "ClaimKey E K q db = Inr (claim, db') \<Longrightarrow> db_TargetProject db' = db_TargetProject db"
  "approve_transition fails dbnow p current db = Inr (u, db') \<Longrightarrow> db_Approvals db' = db_Approvals db"
  "Attach K claim receipt db = Inr db' \<Longrightarrow> db_Approvals db' = db_Approvals db"
  by (auto simp: ClaimKey_def ReserveOperationIdempotencyKey_def Attach_def AttachOperationIdempotencyKey_def
      approve_transition_def TransitionDeliveryRolloutCAS_def update_rollout_def Let_def
      split: if_splits option.splits prod.splits)

lemma approvals_other [simp]:
  "db_Approvals (CreateDeliveryRolloutEvent e db) = db_Approvals db" "db_Approvals (UpsertTaskOutbox k rid t db) = db_Approvals db"
  "db_Approvals (persistAudit u db) = db_Approvals db"
  "db_Approvals (CreateDeliveryRolloutApproval p db) = db_Approvals db @ [p]"
  by (simp_all add: CreateDeliveryRolloutEvent_def UpsertTaskOutbox_def persistAudit_def CreateDeliveryRolloutApproval_def)

lemma action_row_kept:
  assumes "ClaimKey E K q db = Inr (claim, db')"
  shows "GetDeliveryRolloutForAction rid project db' = GetDeliveryRolloutForAction rid project db"
  by (simp add: GetDeliveryRolloutForAction_def key_tables(1) [OF assms] approvals_kept(2) [OF assms])

lemma approve_body_Inr:
  assumes "approve_body E J S K fails dbnow clock approvalID eventID q actor digest db = Inr (res, d)" and "\<not> cx_Replayed res"
  defines "approval \<equiv> \<lparr>ra_ID = approvalID, ra_RolloutID = pq_RolloutID q, ra_Cohort = pq_Cohort q,
      ra_BindingDigest = pq_BindingDigest q, ra_Decision = pq_Decision q, ra_DecidedBy = pq_ActorID q,
      ra_DecidedAt = dbnow, ra_ExpiresAt = pq_ExpiresAt q\<rparr>"
  shows "\<exists>current plan db'. GetDeliveryRolloutForAction (pq_RolloutID q) (pq_ProjectID q) db = Inr current
    \<and> dr_Fence current = pq_ExpectedFence q \<and> decodeFrozenPlan E J S current = Inr plan
    \<and> approval_gate plan (pq_Cohort q) = Inr (pq_BindingDigest q) \<and> d = Some db'
    \<and> db_Approvals db' = db_Approvals db @ [approval] \<and> cx_Approval res = Some approval \<and> approvalID \<noteq> uuid_nil
    \<and> clock < pq_ExpiresAt q \<and> pq_ExpiresAt q \<le> clock + 86400000000000"
proof -
  have id: "approvalID \<noteq> uuid_nil" if "Attach K claim (NewReceipt approvalID a b c e f g) x = Inr y" for claim a b c e f g x y
    using that by (auto simp: Attach_def NewReceipt_def split: if_splits)
  show ?thesis
    using assms(1,2) unfolding approve_body_def Let_def enqueueControl_def approval_def [symmetric]
    by (auto simp: sbind_Inr_iff action_row_kept approvals_kept id not_less split: option.splits if_splits)
qed

text \<open>C6. An approval is bound to the gate it names: it is stored only for the current fence of
  the rollout, under the digest the frozen plan has for that gate, by a known actor, for at most a
  day, and it is added to the approvals that exist.  The scheduler then accepts it for exactly that
  gate, from the time it was decided until it expires.\<close>

theorem approval_bound_to_gate:
  assumes "Controller_Approve E J S K fails dbnow clock approvalID eventID q db = (Inr res, db')" and "\<not> cx_Replayed res"
    and "dbnow \<noteq> 0"
  shows "\<exists>current plan a. GetDeliveryRolloutForAction (pq_RolloutID q) (pq_ProjectID q) db = Inr current
    \<and> dr_Fence current = pq_ExpectedFence q \<and> decodeFrozenPlan E J S current = Inr plan
    \<and> db_Approvals db' = db_Approvals db @ [a] \<and> cx_Approval res = Some a
    \<and> approval_gate plan (ra_Cohort a) = Inr (ra_BindingDigest a) \<and> ra_Cohort a = pq_Cohort q
    \<and> (\<exists>actor. ra_DecidedBy a = Some actor \<and> actor \<noteq> uuid_nil)
    \<and> clock < ra_ExpiresAt a \<and> ra_ExpiresAt a \<le> clock + 86400000000000
    \<and> ad_Approved (approval_decision a) = (pq_Decision q = ''approved'')
    \<and> (\<forall>digest now. validFor (approval_decision a) digest now
         = (digest = ra_BindingDigest a \<and> dbnow \<le> now \<and> now < ra_ExpiresAt a))"
proof -
  from assms(1) obtain actor digest d where checks: "approve_checks K q = Inr (actor, digest)"
    and body: "approve_body E J S K fails dbnow clock approvalID eventID q actor digest db = Inr (res, d)"
    and d: "d \<noteq> None \<Longrightarrow> d = Some db'"
    by (auto simp: Controller_Approve_def in_transaction_def split: sum.splits prod.splits if_splits option.splits)
  have "\<exists>actor. pq_ActorID q = Some actor \<and> actor \<noteq> uuid_nil"
    using checks by (auto simp: approve_checks_def requiredActor_def sbind_Inr_iff refuse_def split: if_splits option.splits)
  with approve_body_Inr [OF body assms(2)] d assms(3) show ?thesis
    by (fastforce simp: validFor_def approval_decision_def)
qed

section \<open>An example system\<close>

definition sample_stored :: store_json where
  "sample_stored = \<lparr>js_storedPlan = \<lambda>_. Some ''p'', js_readPlan = \<lambda>_. Some sample_rollout, js_overrides = \<lambda>_. Some ''{}'',
     js_renderer = \<lambda>_. None, js_labels = \<lambda>_. Some fmempty, js_uuidParse = \<lambda>s. if s = ''d'' then Some 32 else None\<rparr>"

definition sample_progress_row :: DeliveryRollout where
  "sample_progress_row = (rollout_insert sample_stored ''p'' sample_rollout)\<lparr>dr_State := RolloutProgressing, dr_Fence := 3\<rparr>"

definition sample_cluster :: "uuid \<Rightarrow> uuid \<Rightarrow> int \<Rightarrow> RolloutClusterState \<Rightarrow> gotime option \<Rightarrow> DeliveryRolloutCluster" where
  "sample_cluster i cid order state released =
     (cluster_insert (\<lambda>_. i) 1000 sample_rollout
        \<lparr>pc_ClusterID = cid, pc_Cohort = nat order, pc_Order = nat order, pc_Desired = None, pc_Previous = Some sample_previous\<rparr>)
     \<lparr>rc_State := state, rc_Fence := 3, rc_ReadyAt := Some 1000, rc_Deadline := None, rc_ReleasedAt := released,
       rc_ReleaseOrder := order\<rparr>"

definition sample_deployment :: "uuid \<Rightarrow> uuid \<Rightarrow> uuid \<Rightarrow> ClusterDeployment" where
  "sample_deployment i cid rid =
     \<lparr>cd_ID = i, cd_TargetID = 7, cd_ClusterID = cid, cd_CurrentRolloutID = Some rid, cd_DesiredVersion = Some 5,
      cd_PreviousVersion = None, cd_DesiredGeneration = 1, cd_DesiredDigest = sample_digest, cd_DesiredOverrides = ''{}'',
      cd_PreviousOverrides = None, cd_DesiredRevision = [], cd_DesiredRenderer = None, cd_ConfigurationDigest = None,
      cd_Action = ''apply'', cd_Phase = DeploymentReady, cd_ObservedGeneration = 1, cd_ObservedDigest = sample_digest,
      cd_SessionID = ''s'', cd_Sequence = 1, cd_LastError = []\<rparr>"

text \<open>Rollout 9 has reached cluster 1; cluster 2 still runs what an older rollout 8 of the same
  target deployed.\<close>

definition sample_db :: Db where
  "sample_db =
     \<lparr>db_TargetProject = \<lambda>_. Some 10, db_DeletionState = \<lambda>_. ''active'', db_Rollouts = [sample_progress_row],
      db_Clusters = [sample_cluster 21 1 0 RolloutClusterReady (Some 1000), sample_cluster 22 2 1 RolloutClusterPending None],
      db_Deployments = [sample_deployment 31 1 9, sample_deployment 32 2 8], db_Connected = \<lambda>_. True, db_Labels = \<lambda>_. ''{}'',
      db_Approvals = [], db_Events = [], db_DeploymentEvents = [], db_Outbox = [], db_Keys = [], db_Audit = []\<rparr>"

definition sample_claimed :: DeliveryRollout where
  "sample_claimed = sample_progress_row\<lparr>dr_LeaseOwner := ''w'', dr_LeaseExpiresAt := Some (1020 + defaultReconcileLease), dr_Fence := 4\<rparr>"

lemma sample_row_fields [simp]:
  "dr_ID sample_progress_row = 9" "dr_TargetID sample_progress_row = 7" "dr_State sample_progress_row = RolloutProgressing"
  "dr_Fence sample_progress_row = 3" "dr_LeaseExpiresAt sample_progress_row = None" "dr_RuntimeGeneration sample_progress_row = 1"
  "dr_Total sample_progress_row = 0" "dr_OnFailure sample_progress_row = FailureRollback" "dr_IdempotencyKey sample_progress_row = ''k''"
  by (simp_all add: sample_progress_row_def rollout_insert_def sample_rollout_fields sample_strategy_def)
    (simp_all add: sample_rollout_def sample_open_def open_plan_def sample_base_def sample_snapshot_def sample_create_def)

lemma sample_cluster_fields [simp]:
  "rc_ID (sample_cluster i cid order state released) = i" "rc_RolloutID (sample_cluster i cid order state released) = 9"
  "rc_ClusterID (sample_cluster i cid order state released) = cid" "rc_State (sample_cluster i cid order state released) = state"
  "rc_ReleaseOrder (sample_cluster i cid order state released) = order" "rc_Fence (sample_cluster i cid order state released) = 3"
  "rc_ReadyAt (sample_cluster i cid order state released) = Some 1000" "rc_Deadline (sample_cluster i cid order state released) = None"
  "rc_ReleasedAt (sample_cluster i cid order state released) = released"
  "rc_Action (sample_cluster i cid order state released) = AssignmentApply"
  "rc_UpdatedAt (sample_cluster i cid order state released) = 1000"
  by (simp_all add: sample_cluster_def cluster_insert_def sample_rollout_fields Let_def)

definition sample_receipt :: Receipt where
  "sample_receipt = NewReceipt 40 ''rollout.pause'' ''delivery_rollout'' 9 10 (status_url sample_lib 9 10) 1030"

definition sample_control :: control_json where
  "sample_control = \<lparr>js_envelope = \<lambda>p. Some (pe_RequestDigest p),
     js_readEnvelope = \<lambda>raw. Some \<lparr>pe_RequestDigest = raw, pe_Receipt = sample_receipt\<rparr>,
     js_actRequest = \<lambda>_. Some ''{}'', js_approveRequest = \<lambda>_. Some ''{}'', js_actionEvent = \<lambda>_. Some ''{}''\<rparr>"

definition sample_report :: DeliveryDeploymentStatus where
  "sample_report = \<lparr>ob_DeploymentID = ''d'', ob_Generation = 1, ob_SpecDigest = sample_digest, ob_Phase = DeploymentDegraded,
     ob_ErrorCode = ''x'', ob_WarningCodes = [], ob_ObservedAt = 1040\<rparr>"

section \<open>A run of the example\<close>

lemma sample_keys_unique: "keys_unique sample_db"
  by (simp add: keys_unique_def sample_db_def)

lemma sample_claim:
  "ClaimDeliveryRollout 1020 ''w'' defaultReconcileLease 9 sample_db = Inr (sample_claimed, sample_db\<lparr>db_Rollouts := [sample_claimed]\<rparr>)"
  by (simp add: ClaimDeliveryRollout_def update_rollout_def update_where_def claimable_def runtime_active_def sample_db_def
      sample_claimed_def)

lemma sample_claimed_fields [simp]:
  "dr_ID sample_claimed = 9" "dr_TargetID sample_claimed = 7" "dr_State sample_claimed = RolloutProgressing" "dr_Fence sample_claimed = 4"
  "dr_LeaseOwner sample_claimed = ''w''" "dr_LeaseExpiresAt sample_claimed = Some 30000001020"
  "dr_RuntimeGeneration sample_claimed = 1" "dr_Total sample_claimed = 0"
  by (simp_all add: sample_claimed_def)

lemma sample_decoded: "decodeFrozenPlan sample_lib sample_json sample_stored sample_claimed = Inr sample_rollout"
proof -
  have "decodeFrozenPlan sample_lib sample_json sample_stored (rollout_insert sample_stored ''p'' sample_rollout) = Inr sample_rollout"
    by (rule decode_inserted [OF sample_rollout_valid]) (simp_all add: sample_stored_def)
  then show ?thesis by (simp add: decodeFrozenPlan_def sample_claimed_def sample_progress_row_def)
qed

definition sample_runtime :: "uuid \<Rightarrow> uuid \<Rightarrow> uuid \<Rightarrow> int \<Rightarrow> RolloutClusterState \<Rightarrow> gotime option \<Rightarrow> RuntimeRow" where
  "sample_runtime i did cid order state released =
     \<lparr>rt_Cluster = sample_cluster i cid order state released, rt_Labels = ''{}'', rt_Generation = 1, rt_Connected = True,
      rt_DeploymentID = Some did, rt_DesiredGeneration = Some 1, rt_Phase = Some DeploymentReady\<rparr>"

abbreviation sample_rows :: "RuntimeRow list" where
  "sample_rows \<equiv> [sample_runtime 21 31 1 0 RolloutClusterReady (Some 1000), sample_runtime 22 32 2 1 RolloutClusterPending None]"

lemma sample_listed:
  "ListDeliveryRolloutRuntime 9 10001 (sample_db\<lparr>db_Rollouts := [sample_claimed]\<rparr>) = sample_rows"
  "ListDeliveryRolloutRuntime 9 10001 sample_db = sample_rows"
  by (simp_all add: ListDeliveryRolloutRuntime_def rollout_rows_def sample_db_def runtime_row_def sample_deployment_def
      sample_runtime_def Let_def)

lemma sample_loaded:
  "loadRuntime (\<lambda>_. False) 1050 sample_claimed (sample_db\<lparr>db_Rollouts := [sample_claimed]\<rparr>) fmempty
    = (Inr (sample_rows, 1), storeRuntime 1050 9 1 sample_rows fmempty)"
  by (simp add: loadRuntime_read cachedRuntime_def read_runtime_def sample_listed) (simp add: sample_runtime_def)

lemma sample_snapshot_rows:
  "runtimeFromRows sample_rollout sample_claimed sample_rows
    = Inr (\<lparr>rs_Plan = sample_rollout, rs_State = RolloutProgressing, rs_Fence = 4,
            rs_Clusters = [sample_row 1 RolloutClusterReady, sample_row 2 RolloutClusterPending]\<rparr>,
           fmupd 2 (sample_rows ! 1) (fmupd 1 (sample_rows ! 0) fmempty))"
  by (simp add: runtimeFromRows_def runtime_rows_step_def cluster_runtime_def sample_runtime_def sample_row_def valid_defs Let_def)

definition sample_live_input :: EvaluateInput where
  "sample_live_input =
     (sample_input RolloutProgressing [sample_row 1 RolloutClusterReady, sample_row 2 RolloutClusterPending])
     \<lparr>ei_Lease := \<lparr>ls_Owner = ''w'', ls_Fence = 4, ls_ExpiresAt = 30000001020\<rparr>\<rparr>"

text \<open>The release of cluster 2.\<close>

definition sample_release :: "Decision \<Rightarrow> bool" where
  "sample_release d \<longleftrightarrow>
     de_RolloutTransition d = None \<and> de_ClusterTransitions d = []
     \<and> (\<exists>r. de_Releases d = [r] \<and> rl_ClusterID r = 2 \<and> rl_Version r = sample_version \<and> rl_Generation r = 2
          \<and> rl_ExpectedFence r = 3 \<and> rl_FromState r = RolloutClusterPending \<and> rl_ToState r = RolloutClusterReleased)"

lemma sample_live_decision:
  "\<exists>d. Scheduler_Evaluate sample_lib sample_json sample_djson sample_live_input = Inr d \<and> sample_release d"
proof -
  let ?clusters = "[sample_row 1 RolloutClusterReady, sample_row 2 RolloutClusterPending]"
  have run: "validateRuntime sample_rollout ?clusters = Inr ?clusters"
    by (simp add: validateRuntime_def runtime_step_def sample_rollout_fields sample_row_def valid_defs)
  obtain n where n: "DeriveRolloutCounters (map ru_State ?clusters) = Inr n" and failed: "ct_Failed n = 0"
    by (simp add: DeriveRolloutCounters_def count_state_def sample_row_def valid_defs zero_counters_def Let_def)
  have "activeCohort sample_rollout ?clusters 1050 = Inr (1, 1000, False)"
    by (simp add: activeCohort_def sample_rollout_fields sample_cohort_list_def newCohort_def cohort_step_def
        sample_row_def matureAt_def sample_strategy_def)
  then have "\<exists>e. decide sample_djson sample_live_input ?clusters (initial_decision 4 n) = Inr e \<and> sample_release e"
    using failed
    by (simp add: decide_def sample_live_input_def sample_input_def Let_def evaluateProgressing_def reconnect_step_def
        sample_row_def isApplyActive_def sample_rollout_fields failureBudgetExceeded_def amountLimit_def sample_strategy_def
        release_cohort_def sample_cohort_list_def newCohort_def allowsRelease_def release_batch_def budget_step_def
        consumesConcurrency_def matureAt_def apply_step_def newRelease_def TransitionRolloutCluster_def valid_defs
        CanonicalDigest_def sample_djson_def sample_release_def initial_decision_def)
  then obtain e where e: "decide sample_djson sample_live_input ?clusters (initial_decision 4 n) = Inr e" "sample_release e"
    by blast
  have "Scheduler_Evaluate sample_lib sample_json sample_djson sample_live_input
      = Inr ((sorted_decision sample_lib e)\<lparr>de_ID := DigestBytes ''{}''\<rparr>)"
    using run n e(1) sample_rollout_valid
    by (simp add: Scheduler_Evaluate_def sample_live_input_def sample_input_def Let_def Lease_validate_def contains_any_def
        line_breakers_def decisionDigest_def CanonicalDigest_def sample_djson_def valid_defs)
  moreover have "sample_release ((sorted_decision sample_lib e)\<lparr>de_ID := DigestBytes ''{}''\<rparr>)"
    using e(2) by (auto simp: sample_release_def sorted_decision_def)
  ultimately show ?thesis by blast
qed

definition sample_job :: "Decision \<Rightarrow> Job" where
  "sample_job d =
     \<lparr>jb_Owner = ''w'', jb_Claimed = sample_claimed, jb_Plan = sample_rollout,
      jb_Rows = fmupd 2 (sample_rows ! 1) (fmupd 1 (sample_rows ! 0) fmempty), jb_Decision = d, jb_Generation = 1, jb_Now = 1050\<rparr>"

lemma sample_prepared:
  assumes "Scheduler_Evaluate sample_lib sample_json sample_djson sample_live_input = Inr d"
  shows "prepare_decision sample_lib sample_json sample_djson sample_stored sample_cron None (\<lambda>_. False) 1050 ''w''
      sample_claimed fmempty (sample_db\<lparr>db_Rollouts := [sample_claimed]\<rparr>) sample_db
    = (Inr (sample_job d), storeRuntime 1050 9 1 sample_rows fmempty)"
proof -
  have gate: "maintenanceGate sample_stored sample_cron None sample_rollout sample_rows 1050
      = Inr \<lparr>mg_Open = True, mg_OverrideAuthorized = False, mg_OverrideReason = []\<rparr>"
    by (simp add: maintenanceGate_def sample_rollout_fields sample_strategy_def gate_step_def sample_runtime_def IsBlocked_def
        sample_stored_def Let_def)
  have none: "approvalsFromRows (ListDeliveryRolloutApprovals 9 sample_db) = (None, fmempty)"
    by (simp add: approvalsFromRows_def ListDeliveryRolloutApprovals_def sample_db_def)
  show ?thesis
    using assms
    by (simp add: prepare_decision_def as_refused_def sample_decoded sample_loaded sample_snapshot_rows ask_def evaluate_claimed_def
        gate none sample_live_input_def sample_input_def sample_job_def del: nth_Cons_0 nth_Cons_Suc One_nat_def)
qed

lemma sample_applied:
  assumes "sample_release d"
  shows "\<exists>db'. apply_job sample_lib sample_stored (\<lambda>_. False) 1050 id (sample_job d) (sample_db\<lparr>db_Rollouts := [sample_claimed]\<rparr>)
    = (Inr (), db')"
proof -
  from assms obtain r where d: "de_RolloutTransition d = None" "de_ClusterTransitions d = []" "de_Releases d = [r]"
    and r: "rl_ClusterID r = 2" "rl_Version r = sample_version" "rl_Generation r = 2" "rl_ExpectedFence r = 3"
      "rl_FromState r = RolloutClusterPending" "rl_ToState r = RolloutClusterReleased"
    unfolding sample_release_def by blast
  have v: "vi_Renderer sample_version = None" by (simp add: sample_version_def)
  show ?thesis
    by (simp add: apply_job_def applyDecision_def in_transaction_def apply_body_def Let_def ask_def d r v
        GetClaimedDeliveryRolloutForUpdate_def lease_held_def sample_job_def job_context_def sample_db_def
        apply_release_step_def sample_rollout_fields sample_runtime_def sample_stored_def desired_deployment_def
        UpsertClusterDeploymentDesired_def sample_deployment_def bump_delivery_rollout_runtime_for_deployment_def
        bump_runtime_def update_where_def ReleaseDeliveryRolloutClusterCAS_def update_cluster_def rollout_leased_def
        update_clusters_def bump_delivery_rollout_runtime_for_cluster_row_def apply_counters_def
        RecomputeDeliveryRolloutCounters_def rollout_rows_def update_rollout_def apply_rollout_def
        ReleaseDeliveryRolloutLease_def apply_wake_def shouldWakeAgain_def CreateClusterDeploymentEvent_def
        appendRolloutEvent_def CreateDeliveryRolloutEvent_def)
qed

definition sample_sys :: Sys where
  "sample_sys = \<lparr>sy_Db = sample_db, sy_Cache = \<lambda>_. fmempty, sy_Claims = [], sy_Jobs = []\<rparr>"

definition sample_sys_claimed :: Sys where
  "sample_sys_claimed =
     sample_sys\<lparr>sy_Db := sample_db\<lparr>db_Rollouts := [sample_claimed]\<rparr>, sy_Claims := [(''w'', sample_claimed)]\<rparr>"

definition sample_sys_decided :: "Decision \<Rightarrow> Sys" where
  "sample_sys_decided d =
     sample_sys_claimed\<lparr>sy_Cache := (\<lambda>_. fmempty)(''w'' := storeRuntime 1050 9 1 sample_rows fmempty), sy_Jobs := [sample_job d]\<rparr>"

abbreviation sample_run :: "Sys \<Rightarrow> Sys \<Rightarrow> bool" where
  "sample_run \<equiv> sys_steps sample_lib sample_json sample_djson sample_stored sample_control (\<lambda>_. None) sample_cron"

lemma sample_started: "sys_start sample_sys"
  by (simp add: sys_start_def sample_sys_def sample_keys_unique)

lemma sample_run_claimed: "sample_run sample_sys sample_sys_claimed"
proof -
  have "sys_step sample_lib sample_json sample_djson sample_stored sample_control (\<lambda>_. None) sample_cron sample_sys sample_sys_claimed"
    using sys_step.claim [of 1020 "''w''" 9 sample_sys sample_claimed "sample_db\<lparr>db_Rollouts := [sample_claimed]\<rparr>"] sample_claim
    by (simp add: sample_sys_claimed_def sample_sys_def)
  then show ?thesis by (simp add: sys_steps_def)
qed

lemma sample_run_decided:
  assumes "Scheduler_Evaluate sample_lib sample_json sample_djson sample_live_input = Inr d"
  shows "sample_run sample_sys (sample_sys_decided d)"
proof -
  have "sys_step sample_lib sample_json sample_djson sample_stored sample_control (\<lambda>_. None) sample_cron
      sample_sys_claimed (sample_sys_decided d)"
    using sys_step.evaluate [of "''w''" sample_claimed sample_sys_claimed sample_lib sample_json sample_djson sample_stored
        sample_cron None "\<lambda>_. False" 1050 sample_db "Inr (sample_job d)" "storeRuntime 1050 9 1 sample_rows fmempty"]
      sample_prepared [OF assms]
    by (simp add: sample_sys_decided_def sample_sys_claimed_def sample_sys_def)
  with sample_run_claimed show ?thesis unfolding sys_steps_def by (rule rtranclp.rtrancl_into_rtrancl)
qed

section \<open>Witnesses\<close>

theorem commit_keeps_concurrency_witness:
  "\<exists>d db'. sample_run sample_sys (sample_sys_decided d) \<and> de_Releases d \<noteq> []
     \<and> apply_job sample_lib sample_stored (\<lambda>_. False) 1050 id (sample_job d) (sy_Db (sample_sys_decided d)) = (Inr (), db')
     \<and> db_in_flight sample_rollout 1050 9 db' \<le> 1"
proof -
  obtain d where d: "Scheduler_Evaluate sample_lib sample_json sample_djson sample_live_input = Inr d" "sample_release d"
    using sample_live_decision by blast
  have job: "jb_Claimed (sample_job d) = sample_claimed" "jb_Plan (sample_job d) = sample_rollout" "jb_Now (sample_job d) = 1050"
    "jb_Decision (sample_job d) = d" by (simp_all add: sample_job_def)
  have db: "sy_Db (sample_sys_decided d) = sample_db\<lparr>db_Rollouts := [sample_claimed]\<rparr>"
    by (simp add: sample_sys_decided_def sample_sys_claimed_def)
  obtain db' where app: "apply_job sample_lib sample_stored (\<lambda>_. False) 1050 id (sample_job d) (sy_Db (sample_sys_decided d)) = (Inr (), db')"
    using sample_applied [OF d(2)] by (auto simp: db)
  have rel: "de_Releases d \<noteq> []" using d(2) by (auto simp: sample_release_def)
  from commit_keeps_concurrency [OF sample_started sample_run_decided [OF d(1)] _ _ _ app] rel
  have "db_in_flight sample_rollout 1050 9 db' \<le> 1"
    by (simp add: job) (simp add: sample_sys_decided_def sample_rollout_fields sample_strategy_def)
  with sample_run_decided [OF d(1)] rel app show ?thesis by blast
qed

theorem superseded_claim_never_commits_witness:
  "\<exists>e. apply_job sample_lib sample_stored (\<lambda>_. False) 1050 id
      ((sample_job (initial_decision 3 zero_counters))\<lparr>jb_Claimed := sample_progress_row\<rparr>) (sy_Db sample_sys_claimed)
    = (Inl e, sy_Db sample_sys_claimed)"
proof -
  have refl: "sample_run sample_sys_claimed sample_sys_claimed" by (simp add: sys_steps_def)
  have "sample_claimed \<in> set (db_Rollouts (sy_Db sample_sys_claimed))" by (simp add: sample_sys_claimed_def)
  from superseded_claim_never_commits [OF sample_started sample_run_claimed refl this,
      of "(sample_job (initial_decision 3 zero_counters))\<lparr>jb_Claimed := sample_progress_row\<rparr>" "\<lambda>_. False" 1050 id]
  show ?thesis by simp
qed

theorem frozen_stays_frozen_witness:
  "sample_run sample_sys sample_sys_claimed \<and> rollout_kept sample_progress_row sample_claimed"
  using sample_run_claimed frozen_stays_frozen [OF sample_run_claimed]
  by (simp add: sample_sys_def sample_sys_claimed_def sample_db_def)

definition sample_empty :: Sys where
  "sample_empty = sample_sys\<lparr>sy_Db := sample_db\<lparr>db_Rollouts := [], db_Clusters := []\<rparr>\<rparr>"

lemma sample_overrides: "TargetOverrides_Canonical sample_lib (vi_Overrides sample_version) = Inr (vi_Overrides sample_version)"
  by (simp add: sample_version_def TargetOverrides_Canonical_def TargetOverrides_Validate_def sample_lib_def)

lemma sample_persisted:
  "\<exists>db. persist_plan sample_lib sample_json sample_stored id 50 1000 1000 sample_rollout (sy_Db sample_empty) = Inr db"
  by (simp add: persist_plan_def Postgres_InsertRollout_def sample_rollout_valid sample_overrides sample_rollout_fields
      sample_stored_def CanonicalDigest_def sample_empty_def sample_db_def CreateDeliveryRollout_def rollout_insert_def
      CreateDeliveryRolloutCluster_def cluster_insert_def RecomputeDeliveryRolloutCounters_def rollout_rows_def
      update_rollout_def Let_def)

theorem stored_plan_round_trip_witness:
  "\<exists>db. persist_plan sample_lib sample_json sample_stored id 50 1000 1000 sample_rollout (sy_Db sample_empty) = Inr db
     \<and> Postgres_FindByIdempotency sample_lib sample_json sample_stored 7 ''k'' db = Inr (Some sample_rollout)"
proof -
  obtain db where db: "persist_plan sample_lib sample_json sample_stored id 50 1000 1000 sample_rollout (sy_Db sample_empty) = Inr db"
    using sample_persisted by blast
  have start: "sys_start sample_empty" by (simp add: sys_start_def sample_empty_def sample_sys_def keys_unique_def)
  have refl: "sample_run s s" for s by (simp add: sys_steps_def)
  have key: "fr_TargetID sample_rollout = 7" "fr_IdempotencyKey sample_rollout = ''k''"
    by (simp_all add: sample_rollout_def sample_open_def open_plan_def sample_base_def sample_snapshot_def sample_create_def)
  have "js_readPlan sample_stored raw = Some sample_rollout" for raw by (simp add: sample_stored_def)
  from stored_plan_round_trip [OF start refl db this refl] db show ?thesis by (simp add: key)
qed

definition sample_action :: ActionRequest where
  "sample_action = \<lparr>aq_ProjectID = 10, aq_RolloutID = 9, aq_ExpectedFence = 3, aq_Action = ActionPause, aq_ActorID = Some 4,
     aq_ReasonCode = ''r'', aq_Key = ''key'', aq_AuditIsZero = False\<rparr>"

lemma sample_key_valid: "ValidateKey ''key''"
  by (simp add: ValidateKey_def trim_simps utf8_lead_def)

lemma digest_not_blank: "trim_space (DigestBytes v) = DigestBytes v" "DigestBytes v \<noteq> []"
proof -
  let ?h = "hex_EncodeToString (sha256_Sum v)"
  have "length ?h = 64" by (simp add: hex_text(1) sha256_length)
  then have ne: "?h \<noteq> []" by auto
  have "last ?h \<in> set ''0123456789abcdef''" by (rule subsetD [OF hex_text(2) last_in_set [OF ne]])
  then have "last ?h \<notin> set (map last space_runes)" by (auto simp: space_runes_def)
  with ne show "trim_space (DigestBytes v) = DigestBytes v"
    by (intro trim_space_id) (simp_all add: DigestBytes_def, simp add: space_runes_def)
  show "DigestBytes v \<noteq> []" by (simp add: DigestBytes_def)
qed

lemma sample_acted:
  "\<exists>res db'. Controller_Act sample_lib sample_json sample_stored sample_control (\<lambda>_. False) 1030 1030 40 sample_action sample_db = (Inr res, db')
     \<and> \<not> cx_Replayed res \<and> cx_Receipt res = sample_receipt"
  by (simp add: Controller_Act_def act_checks_def sample_action_def contains_any_def line_breakers_def requiredActor_def
      sample_key_valid act_digest_def asyncop_Digest_def CanonicalDigest_def sample_control_def in_transaction_def act_body_def
      ask_def ClaimKey_def act_claim_def act_reason_def trim_simps digest_not_blank ReserveOperationIdempotencyKey_def
      claim_scope_def sample_db_def Let_def GetDeliveryRolloutForAction_def act_guard_def act_reset_def
      TransitionDeliveryRolloutCAS_def update_rollout_def update_where_def no_rows_as_def actionDigest_def enqueueControl_def
      UpsertTaskOutbox_def CreateDeliveryRolloutEvent_def persistAudit_def Attach_def AttachOperationIdempotencyKey_def
      NewReceipt_def status_url_def sample_receipt_def)

theorem action_replayed_witness:
  "\<exists>res db1. Controller_Act sample_lib sample_json sample_stored sample_control (\<lambda>_. False) 1030 1030 40 sample_action sample_db = (Inr res, db1)
     \<and> Controller_Act sample_lib sample_json sample_stored sample_control (\<lambda>_. False) 1090 1090 41 sample_action db1
       = (Inr \<lparr>cx_Rollout = None, cx_Event = None, cx_Approval = None, cx_AuditPersisted = False,
               cx_Receipt = sample_receipt, cx_Replayed = True\<rparr>, db1)"
proof -
  obtain res db1 where act: "Controller_Act sample_lib sample_json sample_stored sample_control (\<lambda>_. False) 1030 1030 40 sample_action sample_db = (Inr res, db1)"
    "\<not> cx_Replayed res" and receipt: "cx_Receipt res = sample_receipt" using sample_acted by blast
  have json: "js_readEnvelope sample_control raw = Some \<lparr>pe_RequestDigest = d, pe_Receipt = cx_Receipt res\<rparr>"
    if "js_envelope sample_control \<lparr>pe_RequestDigest = d, pe_Receipt = cx_Receipt res\<rparr> = Some raw" for d raw
    using that receipt by (simp add: sample_control_def)
  show ?thesis
    using act action_replayed [OF act json refl, of "\<lambda>_. False" 1090 1090 41] by (simp add: receipt)
qed

definition sample_approval :: ApprovalRequest where
  "sample_approval = \<lparr>pq_ProjectID = 10, pq_RolloutID = 9, pq_ExpectedFence = 3, pq_Cohort = - 1,
     pq_BindingDigest = DigestBytes ''{}'', pq_Decision = ''approved'', pq_ActorID = Some 4, pq_ExpiresAt = 2000, pq_Key = ''key'',
     pq_AuditIsZero = False\<rparr>"

definition sample_waiting_db :: Db where
  "sample_waiting_db = sample_db\<lparr>db_Rollouts := [sample_progress_row\<lparr>dr_State := RolloutAwaitingApproval\<rparr>]\<rparr>"

lemma sample_waiting_decoded:
  "decodeFrozenPlan sample_lib sample_json sample_stored (sample_progress_row\<lparr>dr_State := RolloutAwaitingApproval\<rparr>) = Inr sample_rollout"
  using sample_decoded by (simp add: decodeFrozenPlan_def sample_claimed_def)

lemma sample_approved:
  "\<exists>res db'. Controller_Approve sample_lib sample_json sample_stored sample_control (\<lambda>_. False) 1030 1030 40 41 sample_approval
      sample_waiting_db = (Inr res, db') \<and> \<not> cx_Replayed res"
proof -
  have gate: "approval_gate sample_rollout (- 1) = Inr (DigestBytes ''{}'')"
    by (simp add: approval_gate_def sample_rollout_def)
  show ?thesis
    by (simp add: Controller_Approve_def approve_checks_def sample_approval_def DigestBytes_valid requiredActor_def
      sample_key_valid asyncop_Digest_def CanonicalDigest_def sample_control_def in_transaction_def approve_body_def
      ask_def ClaimKey_def approve_claim_def trim_simps digest_not_blank ReserveOperationIdempotencyKey_def
      claim_scope_def sample_db_def sample_waiting_db_def Let_def GetDeliveryRolloutForAction_def sample_waiting_decoded gate
      approve_transition_def as_refused_def
      TransitionDeliveryRolloutCAS_def update_rollout_def update_where_def no_rows_as_def enqueueControl_def
      UpsertTaskOutbox_def CreateDeliveryRolloutEvent_def CreateDeliveryRolloutApproval_def persistAudit_def Attach_def
      AttachOperationIdempotencyKey_def NewReceipt_def status_url_def)
qed

theorem approval_bound_to_gate_witness:
  "\<exists>res db' a. Controller_Approve sample_lib sample_json sample_stored sample_control (\<lambda>_. False) 1030 1030 40 41 sample_approval
      sample_waiting_db = (Inr res, db')
     \<and> cx_Approval res = Some a \<and> ad_Approved (approval_decision a) \<and> validFor (approval_decision a) (ra_BindingDigest a) 1030"
proof -
  obtain res db' where "Controller_Approve sample_lib sample_json sample_stored sample_control (\<lambda>_. False) 1030 1030 40 41
      sample_approval sample_waiting_db = (Inr res, db')" "\<not> cx_Replayed res" using sample_approved by blast
  with approval_bound_to_gate [OF this] show ?thesis
    by (simp add: sample_approval_def) blast
qed


end
