(* ===== verification/Rbac_Engine.thy ===== *)
theory Rbac_Engine
  imports Model_Core
begin

text \<open>
  \<open>internal/rbac\<close>: rules, role bindings and the engine that decides on a request
  (\<open>types.go\<close>, \<open>engine.go\<close>), the mapping of Kubernetes resource names
  (\<open>kubernetes.go\<close>), and the native rules on custom resources (\<open>native.go\<close>).

  Resources, verbs and scopes are strings, as in the source.  A set that Go keeps as
  \<open>map[T]struct{}\<close> is a finite set.  The record \<open>rbac_lib\<close> holds the code outside the
  repository: the text form of a UUID, the Unicode case tables, the JSON of a role's rules, of
  its other documents and of quota overrides, and the label syntax of Kubernetes.
\<close>

section \<open>Types\<close>

type_synonym Resource = string
type_synonym Verb = string

abbreviation ResourceClusters :: Resource where "ResourceClusters \<equiv> ''clusters''"
abbreviation ResourceWorkloads :: Resource where "ResourceWorkloads \<equiv> ''workloads''"
abbreviation ResourcePods :: Resource where "ResourcePods \<equiv> ''pods''"
abbreviation ResourceRBAC :: Resource where "ResourceRBAC \<equiv> ''rbac''"
abbreviation ResourceSecrets :: Resource where "ResourceSecrets \<equiv> ''secrets''"
abbreviation ResourceConfigMaps :: Resource where "ResourceConfigMaps \<equiv> ''configmaps''"
abbreviation ResourceServices :: Resource where "ResourceServices \<equiv> ''services''"
abbreviation ResourceIngresses :: Resource where "ResourceIngresses \<equiv> ''ingresses''"
abbreviation ResourceStorage :: Resource where "ResourceStorage \<equiv> ''storage''"
abbreviation ResourceNodes :: Resource where "ResourceNodes \<equiv> ''nodes''"
abbreviation ResourceNetworkPolicies :: Resource where "ResourceNetworkPolicies \<equiv> ''network_policies''"
abbreviation ResourceCustomResources :: Resource where "ResourceCustomResources \<equiv> ''custom_resources''"
abbreviation ResourceBackups :: Resource where "ResourceBackups \<equiv> ''backups''"

abbreviation VerbCreate :: Verb where "VerbCreate \<equiv> ''create''"
abbreviation VerbRead :: Verb where "VerbRead \<equiv> ''read''"
abbreviation VerbUpdate :: Verb where "VerbUpdate \<equiv> ''update''"
abbreviation VerbDelete :: Verb where "VerbDelete \<equiv> ''delete''"
abbreviation VerbList :: Verb where "VerbList \<equiv> ''list''"
abbreviation VerbWatch :: Verb where "VerbWatch \<equiv> ''watch''"
abbreviation VerbScale :: Verb where "VerbScale \<equiv> ''scale''"
abbreviation VerbRestart :: Verb where "VerbRestart \<equiv> ''restart''"
abbreviation VerbExec :: Verb where "VerbExec \<equiv> ''exec''"
abbreviation VerbLogs :: Verb where "VerbLogs \<equiv> ''logs''"
abbreviation VerbProxy :: Verb where "VerbProxy \<equiv> ''proxy''"
abbreviation VerbSync :: Verb where "VerbSync \<equiv> ''sync''"
abbreviation VerbManage :: Verb where "VerbManage \<equiv> ''manage''"

record Rule =
  ru_Resource :: string
  ru_Resources :: "string list"
  ru_Verbs :: "string list"
  ru_APIGroups :: "string list"
  ru_APIGroupsCamel :: "string list"

definition CRDAPIGroups :: "Rule \<Rightarrow> string list" where
  "CRDAPIGroups r = (if ru_APIGroups r \<noteq> [] then ru_APIGroups r else ru_APIGroupsCamel r)"

definition IsCRDGrant :: "Rule \<Rightarrow> bool" where
  "IsCRDGrant r \<longleftrightarrow> CRDAPIGroups r \<noteq> []"

definition ResourceNames :: "Rule \<Rightarrow> string list" where
  "ResourceNames r = (if ru_Resource r \<noteq> [] then [ru_Resource r] else ru_Resources r)"

record RoleBinding =
  rb_UserID :: string
  rb_Group :: string
  rb_RoleRules :: "Rule list"
  rb_BindingID :: string
  rb_RoleID :: string
  rb_RoleName :: string
  rb_Scope :: string
  rb_ClusterID :: string
  rb_ProjectID :: string
  rb_Namespace :: string
  rb_IsSuperuser :: bool

section \<open>Code outside the repository\<close>

record rbac_lib =
  rl_uuidString :: "uuid \<Rightarrow> string"
  rl_uuidParse :: "string \<Rightarrow> uuid option"
  rl_lowerUnicode :: "string \<Rightarrow> string"
  rl_rules :: "string \<Rightarrow> Rule list option"
  rl_jsonObject :: "string \<Rightarrow> bool"
  rl_jsonArray :: "string \<Rightarrow> bool"
  rl_override :: "string \<Rightarrow> string \<Rightarrow> int option"
  rl_IsDNS1123Label :: "string \<Rightarrow> bool"

text \<open>What the code relies on: the text of a UUID is not empty and parses to that UUID.\<close>

definition uuid_lib_ok :: "rbac_lib \<Rightarrow> bool" where
  "uuid_lib_ok L \<longleftrightarrow> (\<forall>u. rl_uuidParse L (rl_uuidString L u) = Some u \<and> rl_uuidString L u \<noteq> [])"

lemma uuid_lib_okD:
  assumes "uuid_lib_ok L"
  shows "rl_uuidParse L (rl_uuidString L u) = Some u" "rl_uuidString L u \<noteq> []"
    "rl_uuidString L u = rl_uuidString L v \<longleftrightarrow> u = v"
  using assms unfolding uuid_lib_ok_def by (auto, metis option.inject)

text \<open>\<open>strings.ToLower\<close>: a string of ASCII bytes is mapped byte by byte, any other string
  with the Unicode tables.\<close>

definition ascii_lower :: "char \<Rightarrow> char" where
  "ascii_lower c = (if CHR ''A'' \<le> c \<and> c \<le> CHR ''Z'' then char_of (of_char c + (32::nat)) else c)"

definition strings_ToLower :: "rbac_lib \<Rightarrow> string \<Rightarrow> string" where
  "strings_ToLower L s =
     (if list_all (\<lambda>c. of_char c < (128::nat)) s then map ascii_lower s else rl_lowerUnicode L s)"

section \<open>Decisions\<close>

definition matchRule :: "Rule \<Rightarrow> Resource \<Rightarrow> Verb \<Rightarrow> bool" where
  "matchRule rule resource verb =
     (if IsCRDGrant rule then False
      else if ru_Resource rule \<noteq> ''*'' \<and> ru_Resource rule \<noteq> resource then False
      else list_ex (\<lambda>v. v = ''*'' \<or> v = verb) (ru_Verbs rule))"

definition bindingApplies :: "rbac_lib \<Rightarrow> RoleBinding \<Rightarrow> uuid \<Rightarrow> uuid \<Rightarrow> string \<Rightarrow> bool" where
  "bindingApplies L b clusterID projectID namespace =
     (if rb_Namespace b \<noteq> [] \<and> rb_Namespace b \<noteq> namespace then False
      else if rb_Namespace b \<noteq> [] \<and> rb_ClusterID b = [] \<and> rb_ProjectID b = [] then False
      else if rb_ClusterID b = [] \<and> rb_ProjectID b = [] then True
      else if rb_ClusterID b \<noteq> [] \<and> rb_ClusterID b = rl_uuidString L clusterID then True
      else if rb_ProjectID b \<noteq> [] \<and> rb_ProjectID b = rl_uuidString L projectID then True
      else False)"

text \<open>The loop over the rules of one binding.\<close>

definition bindingGrants :: "RoleBinding \<Rightarrow> Resource \<Rightarrow> Verb \<Rightarrow> bool" where
  "bindingGrants b resource verb \<longleftrightarrow> list_ex (\<lambda>rule. matchRule rule resource verb) (rb_RoleRules b)"

definition CheckSuperuser :: "RoleBinding list \<Rightarrow> bool" where
  "CheckSuperuser bindings \<longleftrightarrow> list_ex rb_IsSuperuser bindings"

text \<open>The optional namespace argument of the source is the empty string when it is absent.\<close>

definition CheckExplicitPermission ::
    "rbac_lib \<Rightarrow> RoleBinding list \<Rightarrow> Resource \<Rightarrow> Verb \<Rightarrow> uuid \<Rightarrow> uuid \<Rightarrow> string \<Rightarrow> bool" where
  "CheckExplicitPermission L bindings resource verb clusterID projectID namespace \<longleftrightarrow>
     list_ex (\<lambda>b. bindingApplies L b clusterID projectID namespace \<and> bindingGrants b resource verb)
       bindings"

definition CheckPermission ::
    "rbac_lib \<Rightarrow> RoleBinding list \<Rightarrow> Resource \<Rightarrow> Verb \<Rightarrow> uuid \<Rightarrow> uuid \<Rightarrow> string \<Rightarrow> bool" where
  "CheckPermission L bindings resource verb clusterID projectID namespace =
     (if list_ex rb_IsSuperuser bindings then True
      else list_ex (\<lambda>b. bindingApplies L b clusterID projectID namespace \<and> bindingGrants b resource verb)
        bindings)"

text \<open>The namespaces of a cluster a caller may see: all of them, or the listed ones.\<close>

fun authorized_names ::
    "rbac_lib \<Rightarrow> Resource \<Rightarrow> Verb \<Rightarrow> uuid \<Rightarrow> RoleBinding list \<Rightarrow> string fset \<Rightarrow> bool \<times> string fset" where
  "authorized_names L resource verb clusterID [] names = (False, names)"
| "authorized_names L resource verb clusterID (b # bs) names =
     (let isGlobal = rb_ClusterID b = [] \<and> rb_ProjectID b = [];
          clusterMatch = rb_ClusterID b \<noteq> [] \<and> rb_ClusterID b = rl_uuidString L clusterID
      in if \<not> (isGlobal \<and> rb_Namespace b = [] \<or> clusterMatch)
         then authorized_names L resource verb clusterID bs names
         else if \<not> bindingGrants b resource verb
         then authorized_names L resource verb clusterID bs names
         else if rb_Namespace b = [] then (True, {||})
         else authorized_names L resource verb clusterID bs (finsert (rb_Namespace b) names))"

definition AuthorizedNamespaces ::
    "rbac_lib \<Rightarrow> RoleBinding list \<Rightarrow> Resource \<Rightarrow> Verb \<Rightarrow> uuid \<Rightarrow> bool \<times> string fset" where
  "AuthorizedNamespaces L bindings resource verb clusterID =
     (if list_ex rb_IsSuperuser bindings then (True, {||})
      else authorized_names L resource verb clusterID bindings {||})"

definition HasAnyNamespaceAccess ::
    "rbac_lib \<Rightarrow> RoleBinding list \<Rightarrow> Resource \<Rightarrow> Verb \<Rightarrow> uuid \<Rightarrow> bool" where
  "HasAnyNamespaceAccess L bindings resource verb clusterID =
     (case AuthorizedNamespaces L bindings resource verb clusterID of
        (everything, names) \<Rightarrow> everything \<or> names \<noteq> {||})"

datatype NarrowedClusterPolicy = NarrowedClustersWiden | NarrowedClustersExcluded

text \<open>The clusters and projects a caller may see in a collection.\<close>

fun authorized_scopes ::
    "rbac_lib \<Rightarrow> Resource \<Rightarrow> Verb \<Rightarrow> NarrowedClusterPolicy \<Rightarrow> RoleBinding list \<Rightarrow> uuid fset \<Rightarrow> uuid fset
     \<Rightarrow> bool \<times> uuid fset \<times> uuid fset" where
  "authorized_scopes L resource verb narrowed [] clusterIDs projectIDs = (False, clusterIDs, projectIDs)"
| "authorized_scopes L resource verb narrowed (b # bs) clusterIDs projectIDs =
     (if \<not> bindingGrants b resource verb
      then authorized_scopes L resource verb narrowed bs clusterIDs projectIDs
      else if (rb_ClusterID b = [] \<and> rb_ProjectID b = []) \<and> rb_Namespace b = [] then (True, {||}, {||})
      else if rb_ClusterID b \<noteq> []
      then if rb_Namespace b \<noteq> [] \<and> narrowed = NarrowedClustersExcluded
           then authorized_scopes L resource verb narrowed bs clusterIDs projectIDs
           else (case rl_uuidParse L (rb_ClusterID b) of
               Some i \<Rightarrow> authorized_scopes L resource verb narrowed bs (finsert i clusterIDs) projectIDs
             | None \<Rightarrow> authorized_scopes L resource verb narrowed bs clusterIDs projectIDs)
      else if rb_ProjectID b \<noteq> []
      then (case rl_uuidParse L (rb_ProjectID b) of
               Some i \<Rightarrow> authorized_scopes L resource verb narrowed bs clusterIDs (finsert i projectIDs)
             | None \<Rightarrow> authorized_scopes L resource verb narrowed bs clusterIDs projectIDs)
      else authorized_scopes L resource verb narrowed bs clusterIDs projectIDs)"

definition AuthorizedScopeIDs ::
    "rbac_lib \<Rightarrow> RoleBinding list \<Rightarrow> Resource \<Rightarrow> Verb \<Rightarrow> NarrowedClusterPolicy
     \<Rightarrow> bool \<times> uuid fset \<times> uuid fset" where
  "AuthorizedScopeIDs L bindings resource verb narrowed =
     (if list_ex rb_IsSuperuser bindings then (True, {||}, {||})
      else authorized_scopes L resource verb narrowed bindings {||} {||})"

definition HasAnyScopedAccess :: "rbac_lib \<Rightarrow> RoleBinding list \<Rightarrow> Resource \<Rightarrow> Verb \<Rightarrow> bool" where
  "HasAnyScopedAccess L bindings resource verb =
     (case AuthorizedScopeIDs L bindings resource verb NarrowedClustersWiden of
        (everything, clusterIDs, projectIDs) \<Rightarrow> everything \<or> clusterIDs \<noteq> {||} \<or> projectIDs \<noteq> {||})"

section \<open>Kubernetes resources\<close>

definition kubernetes_families :: "(string list \<times> Resource) list" where
  "kubernetes_families =
     [([''services'', ''service'', ''endpoints'', ''endpoint''], ResourceServices),
      ([''ingresses'', ''ingress'', ''gateways'', ''gateway'', ''httproutes'', ''httproute'',
        ''gatewayclasses'', ''gatewayclass'', ''grpcroutes'', ''grpcroute'', ''tcproutes'', ''tcproute'',
        ''udproutes'', ''udproute'', ''tlsroutes'', ''tlsroute'', ''referencegrants'', ''referencegrant''],
        ResourceIngresses),
      ([''networkpolicies'', ''networkpolicy''], ResourceNetworkPolicies),
      ([''persistentvolumes'', ''persistentvolume'', ''pv'', ''persistentvolumeclaims'',
        ''persistentvolumeclaim'', ''pvc'', ''storageclasses'', ''storageclass''], ResourceStorage),
      ([''configmaps'', ''configmap''], ResourceConfigMaps),
      ([''secrets'', ''secret''], ResourceSecrets),
      ([''pods'', ''pod''], ResourcePods),
      ([''nodes'', ''node''], ResourceNodes),
      ([''deployments'', ''deployment'', ''daemonsets'', ''daemonset'', ''statefulsets'', ''statefulset'',
        ''replicasets'', ''replicaset'', ''jobs'', ''job'', ''cronjobs'', ''cronjob'', ''hpa'',
        ''horizontalpodautoscalers'', ''horizontalpodautoscaler'', ''poddisruptionbudgets'',
        ''poddisruptionbudget''], ResourceWorkloads)]"

definition KubernetesResource :: "rbac_lib \<Rightarrow> string \<Rightarrow> Resource option" where
  "KubernetesResource L resourceType =
     map_option snd (find (\<lambda>(names, _). contains names (strings_ToLower L (trim_space resourceType)))
       kubernetes_families)"

section \<open>Native rules\<close>

record NativeRule =
  nr_ClusterID :: string
  nr_Namespace :: string
  nr_APIGroup :: string
  nr_Resource :: string
  nr_Verbs :: "string list"

definition isPrivilegeEscalationGroup :: "rbac_lib \<Rightarrow> string \<Rightarrow> bool" where
  "isPrivilegeEscalationGroup L grp \<longleftrightarrow>
     contains [''rbac.authorization.k8s.io'', ''admissionregistration.k8s.io'', ''apiregistration.k8s.io'',
       ''apiextensions.k8s.io'', ''certificates.k8s.io'', ''authentication.k8s.io'']
       (strings_ToLower L (trim_space grp))"

definition verbMatches :: "string list \<Rightarrow> string \<Rightarrow> bool" where
  "verbMatches verbs verb \<longleftrightarrow> list_ex (\<lambda>v. v = ''*'' \<or> v = verb) verbs"

definition NativeAllow ::
    "rbac_lib \<Rightarrow> NativeRule list \<Rightarrow> string \<Rightarrow> string \<Rightarrow> string \<Rightarrow> string \<Rightarrow> string \<Rightarrow> bool" where
  "NativeAllow L rules clusterID namespace apiGroup resource verb =
     (if isPrivilegeEscalationGroup L apiGroup then False
      else if verb = VerbExec \<or> verb = VerbLogs then False
      else list_ex (\<lambda>r.
          \<not> (nr_ClusterID r \<noteq> [] \<and> nr_ClusterID r \<noteq> clusterID)
          \<and> \<not> (nr_Namespace r \<noteq> [] \<and> nr_Namespace r \<noteq> namespace)
          \<and> \<not> nr_APIGroup r \<noteq> apiGroup
          \<and> \<not> (nr_Resource r \<noteq> ''*'' \<and> nr_Resource r \<noteq> resource)
          \<and> verbMatches (nr_Verbs r) verb) rules)"

definition native_verb :: "rbac_lib \<Rightarrow> string \<Rightarrow> string option" where
  "native_verb L raw =
     (let v = strings_ToLower L (trim_space raw) in
      if v = ''get'' then Some VerbRead
      else if v = ''patch'' then Some VerbUpdate
      else if v = VerbExec \<or> v = VerbLogs \<or> v = ''proxy'' then None
      else if v = [] then None else Some v)"

definition NormalizeNativeVerbs :: "rbac_lib \<Rightarrow> string list \<Rightarrow> string list" where
  "NormalizeNativeVerbs L verbs =
     foldl (\<lambda>out raw. case native_verb L raw of
         None \<Rightarrow> out
       | Some v \<Rightarrow> if contains out v then out else out @ [v]) [] verbs"

definition binding_native_rules :: "rbac_lib \<Rightarrow> RoleBinding \<Rightarrow> Rule \<Rightarrow> NativeRule list" where
  "binding_native_rules L b rule =
     (if \<not> IsCRDGrant rule then []
      else let verbs = NormalizeNativeVerbs L (ru_Verbs rule) in
        if verbs = [] then []
        else concat (map (\<lambda>grp. map (\<lambda>resource.
            \<lparr>nr_ClusterID = rb_ClusterID b, nr_Namespace = rb_Namespace b, nr_APIGroup = grp,
             nr_Resource = resource, nr_Verbs = verbs\<rparr>)
          (filter (\<lambda>resource. resource \<noteq> []) (ResourceNames rule))) (CRDAPIGroups rule)))"

definition NativeRulesFromBindings :: "rbac_lib \<Rightarrow> RoleBinding list \<Rightarrow> NativeRule list" where
  "NativeRulesFromBindings L bindings =
     concat (map (\<lambda>b. if rb_IsSuperuser b then []
        else concat (map (binding_native_rules L b) (rb_RoleRules b))) bindings)"

section \<open>Lemmas on decisions\<close>

lemma CheckPermission_iff:
  "CheckPermission L bs r v c p ns \<longleftrightarrow>
     (\<exists>b \<in> set bs. rb_IsSuperuser b \<or> bindingApplies L b c p ns \<and> bindingGrants b r v)"
  by (auto simp: CheckPermission_def list_ex_iff)

lemma bindingApplies_iff:
  assumes "uuid_lib_ok L"
  shows "bindingApplies L b c p ns \<longleftrightarrow>
     (rb_Namespace b = [] \<or> rb_Namespace b = ns) \<and>
     (if rb_ClusterID b = [] \<and> rb_ProjectID b = [] then rb_Namespace b = []
      else rb_ClusterID b = rl_uuidString L c \<or> rb_ProjectID b = rl_uuidString L p)"
  using uuid_lib_okD(2) [OF assms, of c] uuid_lib_okD(2) [OF assms, of p]
  by (auto simp: bindingApplies_def)

text \<open>The bindings that say something about the namespaces of a cluster.\<close>

definition covers_cluster :: "rbac_lib \<Rightarrow> uuid \<Rightarrow> RoleBinding \<Rightarrow> bool" where
  "covers_cluster L c b \<longleftrightarrow>
     (if rb_ClusterID b = [] \<and> rb_ProjectID b = [] then rb_Namespace b = []
      else rb_ClusterID b \<noteq> [] \<and> rb_ClusterID b = rl_uuidString L c)"

lemma authorized_names_all:
  "fst (authorized_names L r v c bs names) \<longleftrightarrow>
     (\<exists>b \<in> set bs. covers_cluster L c b \<and> bindingGrants b r v \<and> rb_Namespace b = [])"
  by (induction bs arbitrary: names) (auto simp: covers_cluster_def Let_def)

lemma authorized_names_some:
  assumes "\<not> fst (authorized_names L r v c bs names)"
  shows "ns |\<in>| snd (authorized_names L r v c bs names) \<longleftrightarrow>
     ns |\<in>| names \<or> (\<exists>b \<in> set bs. covers_cluster L c b \<and> bindingGrants b r v \<and> rb_Namespace b = ns)"
  using assms
proof (induction bs arbitrary: names)
  case (Cons b bs)
  then show ?case by (auto simp: covers_cluster_def Let_def split: if_splits)
qed simp

lemma authorized_scopes_all:
  "fst (authorized_scopes L r v n bs cs ps) \<longleftrightarrow>
     (\<exists>b \<in> set bs. bindingGrants b r v \<and> rb_ClusterID b = [] \<and> rb_ProjectID b = [] \<and> rb_Namespace b = [])"
  by (induction bs arbitrary: cs ps) (auto split: option.split)

lemma authorized_scopes_clusters:
  assumes "\<not> fst (authorized_scopes L r v n bs cs ps)"
  shows "c |\<in>| fst (snd (authorized_scopes L r v n bs cs ps)) \<longleftrightarrow>
     c |\<in>| cs \<or> (\<exists>b \<in> set bs. bindingGrants b r v \<and> rb_ClusterID b \<noteq> []
       \<and> (rb_Namespace b = [] \<or> n = NarrowedClustersWiden) \<and> rl_uuidParse L (rb_ClusterID b) = Some c)"
  using assms
proof (induction bs arbitrary: cs ps)
  case (Cons b bs)
  then show ?case by (cases n) (auto split: if_splits option.splits)
qed simp

lemma authorized_scopes_projects:
  assumes "\<not> fst (authorized_scopes L r v n bs cs ps)"
  shows "p |\<in>| snd (snd (authorized_scopes L r v n bs cs ps)) \<longleftrightarrow>
     p |\<in>| ps \<or> (\<exists>b \<in> set bs. bindingGrants b r v \<and> rb_ClusterID b = [] \<and> rb_ProjectID b \<noteq> []
       \<and> rl_uuidParse L (rb_ProjectID b) = Some p)"
  using assms
proof (induction bs arbitrary: cs ps)
  case (Cons b bs)
  then show ?case by (auto split: if_splits option.splits)
qed simp

lemma NormalizeNativeVerbs_set:
  "set (NormalizeNativeVerbs L verbs) = {v. \<exists>raw \<in> set verbs. native_verb L raw = Some v}"
proof -
  have "set (foldl (\<lambda>out raw. case native_verb L raw of None \<Rightarrow> out
          | Some v \<Rightarrow> if contains out v then out else out @ [v]) acc verbs)
      = set acc \<union> {v. \<exists>raw \<in> set verbs. native_verb L raw = Some v}" for acc
    by (induction verbs arbitrary: acc) (auto split: option.split)
  from this [of "[]"] show ?thesis by (simp add: NormalizeNativeVerbs_def)
qed

section \<open>A concrete library\<close>

text \<open>Reading the text of a UUID: hexadecimal digits with dashes at four places.\<close>

definition hex_value :: "char \<Rightarrow> nat option" where
  "hex_value c = map_option fst (find (\<lambda>(_, d). d = c) (enumerate 0 ''0123456789abcdef''))"

fun hex_read :: "string \<Rightarrow> nat \<Rightarrow> nat option" where
  "hex_read [] acc = Some acc"
| "hex_read (c # cs) acc =
     (if c = CHR ''-'' then hex_read cs acc
      else case hex_value c of None \<Rightarrow> None | Some d \<Rightarrow> hex_read cs (acc * 16 + d))"

definition uuid_read :: "string \<Rightarrow> uuid option" where
  "uuid_read s = (if length s = 36 then map_option word_of_nat (hex_read s 0) else None)"

definition sample_rbac_lib :: rbac_lib where
  "sample_rbac_lib = \<lparr>rl_uuidString = uuid_text, rl_uuidParse = uuid_read, rl_lowerUnicode = (\<lambda>s. s),
     rl_rules = (\<lambda>s.
       if s = ''reader'' then Some [\<lparr>ru_Resource = ResourcePods, ru_Resources = [], ru_Verbs = [VerbRead, VerbList],
         ru_APIGroups = [], ru_APIGroupsCamel = []\<rparr>]
       else if s = ''owner'' then Some [\<lparr>ru_Resource = ''*'', ru_Resources = [], ru_Verbs = [''*''],
         ru_APIGroups = [], ru_APIGroupsCamel = []\<rparr>]
       else if s = ''issuer'' then Some [\<lparr>ru_Resource = ''certificates'', ru_Resources = [], ru_Verbs = [''get''],
         ru_APIGroups = [''cert-manager.io''], ru_APIGroupsCamel = []\<rparr>]
       else None),
     rl_jsonObject = (\<lambda>s. s = ''{}''), rl_jsonArray = (\<lambda>s. s \<in> {''reader'', ''owner'', ''issuer''}),
     rl_override = (\<lambda>_ _. None), rl_IsDNS1123Label = (\<lambda>s. s \<noteq> [])\<rparr>"

lemma hex_value_digit:
  assumes "n < 16"
  shows "hex_value (hex_digit n) = Some n \<and> hex_digit n \<noteq> CHR ''-''"
proof -
  have "list_all (\<lambda>n. hex_value (hex_digit n) = Some n \<and> hex_digit n \<noteq> CHR ''-'') [0..<16]" by code_simp
  with assms show ?thesis by (simp add: list_all_iff)
qed

lemma hex_read_append: "hex_read (xs @ ys) acc = Option.bind (hex_read xs acc) (hex_read ys)"
  by (induction xs arbitrary: acc) (auto split: option.split)

lemma nibble_div: "nibble u i = unat u div 16 ^ i mod 16"
proof -
  have "(2::nat) ^ (4 * i) = 16 ^ i" by (simp add: power_mult)
  moreover have "take_bit 128 (unat u) = unat u"
    using unsigned_less [of u, where 'a = nat] by (simp add: take_bit_nat_eq_self)
  moreover have "nibble u i = take_bit 4 (drop_bit (4 * i) (take_bit 128 (unat u)))"
    by (simp only: nibble_def unsigned_take_bit_eq unsigned_drop_bit_eq) simp
  ultimately show ?thesis by (simp add: take_bit_eq_mod drop_bit_eq_div)
qed

lemma hex_read_nibbles:
  assumes "k \<le> n"
  shows "hex_read (map (\<lambda>i. hex_digit (nibble u i)) (rev [k..<n])) (unat u div 16 ^ n)
    = Some (unat u div 16 ^ k)"
  using assms
proof (induction n)
  case (Suc n)
  show ?case
  proof (cases "k = Suc n")
    case False
    with Suc.prems have k: "k \<le> n" by simp
    have "unat u div 16 ^ Suc n * 16 + nibble u n = unat u div 16 ^ n"
      unfolding nibble_div by (metis div_mult_mod_eq div_mult2_eq power_Suc2)
    with Suc.IH [OF k] k nibble_less [of u n] show ?thesis
      by (simp add: hex_value_digit)
  qed simp
qed simp

lemma uuid_read_text: "uuid_read (uuid_text u) = Some u"
proof -
  have top: "unat u div 16 ^ 32 = 0" using unsigned_less [of u, where 'a = nat] by simp
  have dash: "hex_read (''-'' @ rest) acc = hex_read rest acc" for rest acc by simp
  have part: "hex_read (map (\<lambda>i. hex_digit (nibble u i)) (rev [k..<n]) @ rest) (unat u div 16 ^ n)
      = hex_read rest (unat u div 16 ^ k)" if "k \<le> n" for k n rest
    using hex_read_nibbles [OF that, of u] by (simp add: hex_read_append)
  have le: "(24::nat) \<le> 32" "(20::nat) \<le> 24" "(16::nat) \<le> 20" "(12::nat) \<le> 16" "(0::nat) \<le> 12"
    by simp_all
  have "hex_read (uuid_text u) (unat u div 16 ^ 32) = Some (unat u div 16 ^ 0)"
    unfolding uuid_text_def Let_def
    by (simp only: part [OF le(1)] part [OF le(2)] part [OF le(3)] part [OF le(4)] dash
        hex_read_nibbles [OF le(5)])
  then have "hex_read (uuid_text u) 0 = Some (unat u)" using top by simp
  moreover have "length (uuid_text u) = 36" by (simp add: uuid_text_def)
  ultimately show ?thesis by (simp add: uuid_read_def)
qed

lemma sample_rbac_lib_ok: "uuid_lib_ok sample_rbac_lib"
proof -
  have "length (uuid_text u) = 36" for u by (simp add: uuid_text_def)
  then have "uuid_text u \<noteq> []" for u by (metis length_0_conv zero_neq_numeral)
  then show ?thesis by (simp add: uuid_lib_ok_def sample_rbac_lib_def uuid_read_text)
qed

end
