(* ===== verification/Rbac_Grants.thy ===== *)
theory Rbac_Grants
  imports Rbac_Engine
begin

text \<open>
  How bindings are stored, loaded and granted.

  The tables of roles, bindings and project namespaces; \<open>loadUserBindings\<close> and
  \<open>expandProjectBindings\<close> of \<open>internal/server/middleware/rbac_queries.go\<close>, which turn
  the rows of a user into the bindings the engine decides on; the escalation guard of
  \<open>internal/handler/rbac_guards.go\<close> with the charges for native rules of
  \<open>internal/handler/native_rbac.go\<close>; the quota checks of \<open>internal/quota/enforcer.go\<close> that a
  project binding passes; and the handlers that create, update and delete roles and bindings
  (\<open>rbac_bindings.go\<close>, \<open>rbac_roles.go\<close>).

  \<open>fails\<close> says which database calls fail.  A refusal is an HTTP status and an error code.
  Requests arrive decoded, and the handlers have their engine, binding loader, transaction runner
  and quota enforcer, as the server wires them; the branches for a missing one are left out.
  The unique and foreign keys of the tables are covered by failing statements.
\<close>

section \<open>Tables\<close>

record RoleRow =
  ro_ID :: uuid
  ro_Name :: string
  ro_DisplayName :: string
  ro_Description :: string
  ro_Permissions :: string
  ro_Rules :: string
  ro_IsBuiltin :: bool

record GlobalRoleBinding =
  bi_ID :: uuid
  bi_UserID :: "uuid option"
  bi_Group :: string
  bi_RoleID :: uuid

record ClusterRoleBinding = GlobalRoleBinding +
  bi_ClusterID :: uuid
  bi_Namespace :: string

record ProjectRoleBinding = GlobalRoleBinding +
  bi_ProjectID :: uuid

record ProjectNamespace =
  pn_ProjectID :: uuid
  pn_ClusterID :: uuid
  pn_Namespace :: string

record QuotaPlan =
  qp_Enforcement :: string
  qp_Overrides :: string
  qp_MaxMembersPerProject :: int
  qp_MaxProjectsPerUser :: int

record RbacDb =
  rd_Users :: "(uuid \<times> bool) list"
  rd_GlobalRoles :: "RoleRow list"
  rd_ClusterRoles :: "RoleRow list"
  rd_ProjectRoles :: "RoleRow list"
  rd_GlobalBindings :: "GlobalRoleBinding list"
  rd_ClusterBindings :: "ClusterRoleBinding list"
  rd_ProjectBindings :: "ProjectRoleBinding list"
  rd_ProjectNamespaces :: "ProjectNamespace list"
  rd_ProjectPlans :: "(uuid \<times> QuotaPlan) list"
  rd_UserPlans :: "(uuid \<times> QuotaPlan) list"

datatype RbacError = LoadErr string | HttpErr nat string

definition rbac_call :: "(string \<Rightarrow> bool) \<Rightarrow> string \<Rightarrow> 'a \<Rightarrow> RbacError + 'a" where
  "rbac_call fails name r = (if fails name then Inl (LoadErr name) else Inr r)"

section \<open>Loading the bindings of a user\<close>

record UserBindingRow =
  ub_Scope :: string
  ub_BindingID :: uuid
  ub_Group :: string
  ub_RoleID :: uuid
  ub_ClusterID :: "uuid option"
  ub_ProjectID :: "uuid option"
  ub_Namespace :: string
  ub_RoleName :: string
  ub_RoleRules :: string

text \<open>One branch of the union: the bindings of the user joined with their roles.\<close>

definition join_roles ::
    "string \<Rightarrow> ('b GlobalRoleBinding_scheme \<Rightarrow> uuid option) \<Rightarrow> ('b GlobalRoleBinding_scheme \<Rightarrow> uuid option)
     \<Rightarrow> ('b GlobalRoleBinding_scheme \<Rightarrow> string) \<Rightarrow> RoleRow list \<Rightarrow> 'b GlobalRoleBinding_scheme list
     \<Rightarrow> uuid \<Rightarrow> UserBindingRow list" where
  "join_roles scope clusterOf projectOf namespaceOf roles bindings uid =
     concat (map (\<lambda>b. map (\<lambda>r.
         \<lparr>ub_Scope = scope, ub_BindingID = bi_ID b, ub_Group = bi_Group b, ub_RoleID = bi_RoleID b,
          ub_ClusterID = clusterOf b, ub_ProjectID = projectOf b, ub_Namespace = namespaceOf b,
          ub_RoleName = ro_Name r, ub_RoleRules = ro_Rules r\<rparr>)
       (filter (\<lambda>r. ro_ID r = bi_RoleID b) roles)) (filter (\<lambda>b. bi_UserID b = Some uid) bindings))"

definition ListUserBindingsWithRoles :: "RbacDb \<Rightarrow> uuid \<Rightarrow> UserBindingRow list" where
  "ListUserBindingsWithRoles db uid =
     join_roles ''global'' (\<lambda>_. None) (\<lambda>_. None) (\<lambda>_. []) (rd_GlobalRoles db) (rd_GlobalBindings db) uid
   @ join_roles ''cluster'' (\<lambda>b. Some (bi_ClusterID b)) (\<lambda>_. None) bi_Namespace
       (rd_ClusterRoles db) (rd_ClusterBindings db) uid
   @ join_roles ''project'' (\<lambda>_. None) (\<lambda>b. Some (bi_ProjectID b)) (\<lambda>_. [])
       (rd_ProjectRoles db) (rd_ProjectBindings db) uid"

definition ListProjectNamespaces :: "RbacDb \<Rightarrow> uuid \<Rightarrow> ProjectNamespace list" where
  "ListProjectNamespaces db pid =
     sort_key pn_Namespace (filter (\<lambda>n. pn_ProjectID n = pid) (rd_ProjectNamespaces db))"

definition decodeRoleRules :: "rbac_lib \<Rightarrow> string \<Rightarrow> RbacError + Rule list" where
  "decodeRoleRules L raw =
     (if raw = [] then Inr []
      else case rl_rules L raw of None \<Rightarrow> Inl (LoadErr ''rules'') | Some rules \<Rightarrow> Inr rules)"

definition row_binding :: "rbac_lib \<Rightarrow> string \<Rightarrow> UserBindingRow \<Rightarrow> Rule list \<Rightarrow> RoleBinding" where
  "row_binding L userID row rules =
     (let binding = \<lparr>rb_UserID = userID, rb_Group = ub_Group row, rb_RoleRules = rules,
          rb_BindingID = rl_uuidString L (ub_BindingID row), rb_RoleID = rl_uuidString L (ub_RoleID row),
          rb_RoleName = ub_RoleName row, rb_Scope = ub_Scope row, rb_ClusterID = [], rb_ProjectID = [],
          rb_Namespace = [], rb_IsSuperuser = False\<rparr>
      in if ub_Scope row = ''cluster''
         then binding\<lparr>rb_ClusterID := (case ub_ClusterID row of Some c \<Rightarrow> rl_uuidString L c | None \<Rightarrow> []),
                      rb_Namespace := ub_Namespace row\<rparr>
         else if ub_Scope row = ''project''
         then binding\<lparr>rb_ProjectID := (case ub_ProjectID row of Some p \<Rightarrow> rl_uuidString L p | None \<Rightarrow> [])\<rparr>
         else binding)"

definition synthetic_binding :: "rbac_lib \<Rightarrow> string \<Rightarrow> RoleBinding \<Rightarrow> ProjectNamespace \<Rightarrow> RoleBinding" where
  "synthetic_binding L userID b row =
     \<lparr>rb_UserID = userID, rb_Group = rb_Group b, rb_RoleRules = rb_RoleRules b, rb_BindingID = rb_BindingID b,
      rb_RoleID = rb_RoleID b, rb_RoleName = rb_RoleName b, rb_Scope = ''cluster'',
      rb_ClusterID = rl_uuidString L (pn_ClusterID row), rb_ProjectID = [], rb_Namespace = pn_Namespace row,
      rb_IsSuperuser = False\<rparr>"

text \<open>The body of the loop.  Its state is the cache of namespaces already read and the
  bindings made so far.\<close>

definition expand_step ::
    "rbac_lib \<Rightarrow> (string \<Rightarrow> bool) \<Rightarrow> RbacDb \<Rightarrow> string \<Rightarrow> RoleBinding
     \<Rightarrow> (string, ProjectNamespace list) gomap \<times> RoleBinding list
     \<Rightarrow> RbacError + (string, ProjectNamespace list) gomap \<times> RoleBinding list" where
  "expand_step L fails db userID b s =
     (case s of (nsCache, synthetic) \<Rightarrow>
        if rb_Scope b \<noteq> ''project'' \<or> rb_ProjectID b = [] then Inr (nsCache, synthetic)
        else sbind
          (case fmlookup nsCache (rb_ProjectID b) of
             Some rows \<Rightarrow> Inr (rows, nsCache)
           | None \<Rightarrow> (case rl_uuidParse L (rb_ProjectID b) of
               None \<Rightarrow> Inr ([], fmupd (rb_ProjectID b) [] nsCache)
             | Some pid \<Rightarrow> sbind (rbac_call fails ''ListProjectNamespaces'' (ListProjectNamespaces db pid))
                 (\<lambda>rows. Inr (rows, fmupd (rb_ProjectID b) rows nsCache))))
          (\<lambda>(rows, nsCache'). Inr (nsCache', synthetic @ map (synthetic_binding L userID b)
             (filter (\<lambda>row. \<not> (pn_Namespace row = [] \<or> pn_ClusterID row = uuid_nil)) rows))))"

definition expandProjectBindings ::
    "rbac_lib \<Rightarrow> (string \<Rightarrow> bool) \<Rightarrow> RbacDb \<Rightarrow> string \<Rightarrow> RoleBinding list \<Rightarrow> RbacError + RoleBinding list" where
  "expandProjectBindings L fails db userID bindings =
     sbind (for_each (expand_step L fails db userID) bindings (fmempty, []))
       (\<lambda>(_, synthetic). Inr (bindings @ synthetic))"

definition superuser_binding :: "string \<Rightarrow> RoleBinding" where
  "superuser_binding userID =
     \<lparr>rb_UserID = userID, rb_Group = [], rb_RoleRules = [], rb_BindingID = [], rb_RoleID = [],
      rb_RoleName = [], rb_Scope = [], rb_ClusterID = [], rb_ProjectID = [], rb_Namespace = [],
      rb_IsSuperuser = True\<rparr>"

definition is_superuser :: "RbacDb \<Rightarrow> uuid \<Rightarrow> bool" where
  "is_superuser db uid = (case map_of (rd_Users db) uid of Some flag \<Rightarrow> flag | None \<Rightarrow> False)"

definition load_row ::
    "rbac_lib \<Rightarrow> string \<Rightarrow> UserBindingRow \<Rightarrow> RoleBinding list \<Rightarrow> RbacError + RoleBinding list" where
  "load_row L userID row results =
     sbind (decodeRoleRules L (ub_RoleRules row)) (\<lambda>rules. Inr (results @ [row_binding L userID row rules]))"

definition loadUserBindings ::
    "rbac_lib \<Rightarrow> (string \<Rightarrow> bool) \<Rightarrow> RbacDb \<Rightarrow> string \<Rightarrow> RbacError + RoleBinding list" where
  "loadUserBindings L fails db userID =
     (case rl_uuidParse L userID of
        None \<Rightarrow> Inl (LoadErr ''user'')
      | Some uid \<Rightarrow>
          if \<not> fails ''GetUserByID'' \<and> is_superuser db uid then Inr [superuser_binding userID]
          else sbind (rbac_call fails ''ListUserBindingsWithRoles'' (ListUserBindingsWithRoles db uid)) (\<lambda>rows.
            sbind (for_each (load_row L userID) rows [])
              (expandProjectBindings L fails db userID)))"

section \<open>The escalation guard\<close>

definition escalationGroups :: "string list" where
  "escalationGroups = [''rbac.authorization.k8s.io'', ''admissionregistration.k8s.io'',
     ''apiregistration.k8s.io'', ''apiextensions.k8s.io'', ''certificates.k8s.io'', ''authentication.k8s.io'']"

definition sensitiveNativeResources :: "Resource list" where
  "sensitiveNativeResources = [ResourceSecrets, ResourcePods, ResourceConfigMaps, ResourceStorage,
     ResourceNodes, ResourceServices, ResourceWorkloads, ResourceIngresses, ResourceNetworkPolicies]"

definition native_families :: "(string list \<times> Resource) list" where
  "native_families =
     [([''services'', ''service'', ''endpoints'', ''endpoint''], ResourceServices),
      ([''ingresses'', ''ingress'', ''gateways'', ''gateway'', ''httproutes'', ''httproute'',
        ''gatewayclasses'', ''gatewayclass'', ''grpcroutes'', ''grpcroute'', ''tcproutes'', ''tcproute'',
        ''udproutes'', ''udproute'', ''tlsroutes'', ''tlsroute'', ''referencegrants'', ''referencegrant''],
        ResourceIngresses),
      ([''networkpolicies'', ''networkpolicy''], ResourceNetworkPolicies),
      ([''persistentvolumes'', ''persistentvolume'', ''pv'', ''persistentvolumeclaims'',
        ''persistentvolumeclaim'', ''pvc'', ''storageclasses'', ''storageclass''], ResourceStorage),
      ([''configmaps'', ''configmap''], ResourceConfigMaps),
      ([''secrets'', ''secret''], ResourceSecrets),
      ([''pods'', ''pod''], ResourcePods),
      ([''nodes'', ''node''], ResourceNodes),
      ([''deployments'', ''deployment'', ''daemonsets'', ''daemonset'', ''statefulsets'', ''statefulset'',
        ''replicasets'', ''replicaset'', ''jobs'', ''job'', ''cronjobs'', ''cronjob'', ''hpa'',
        ''horizontalpodautoscalers'', ''horizontalpodautoscaler'', ''poddisruptionbudgets'',
        ''poddisruptionbudget''], ResourceWorkloads)]"

definition knownNativeK8sResource :: "rbac_lib \<Rightarrow> string \<Rightarrow> Resource option" where
  "knownNativeK8sResource L resourceType =
     map_option snd (find (\<lambda>(names, _). contains names (strings_ToLower L (trim_space resourceType)))
       native_families)"

definition nativeRuleChargedResources :: "rbac_lib \<Rightarrow> string \<Rightarrow> string \<Rightarrow> Resource list" where
  "nativeRuleChargedResources L apiGroup resource =
     (let res = strings_ToLower L (trim_space resource);
          grp = trim_space apiGroup;
          wildcardResource = res = ''*'' \<or> res = [];
          coreGroup = grp = [];
          allGroups = grp = ''*''
      in if \<not> wildcardResource
         then (case knownNativeK8sResource L res of
             Some mapped \<Rightarrow> [mapped]
           | None \<Rightarrow> if \<not> coreGroup \<and> \<not> allGroups then [ResourceCustomResources]
                    else sensitiveNativeResources @ [ResourceClusters])
         else if coreGroup then sensitiveNativeResources @ [ResourceClusters]
         else if allGroups then (sensitiveNativeResources @ [ResourceCustomResources]) @ [ResourceClusters]
         else [ResourceCustomResources])"

definition forbidden :: RbacError where
  "forbidden = HttpErr 403 ''forbidden''"

text \<open>One rule of the target role: a native rule is charged for every group, resource and verb,
  any other rule for its resource and every verb.\<close>

definition charge_group ::
    "rbac_lib \<Rightarrow> RoleBinding list \<Rightarrow> uuid \<Rightarrow> uuid \<Rightarrow> string \<Rightarrow> Rule \<Rightarrow> string \<Rightarrow> RbacError + unit" where
  "charge_group L callerBindings clusterID projectID namespace rule grp =
     (if contains escalationGroups (strings_ToLower L (trim_space grp)) then Inl forbidden
      else for_each (\<lambda>resource _. for_each (\<lambda>verb _. for_each (\<lambda>mapped _.
          reject_if (\<not> CheckPermission L callerBindings mapped verb clusterID projectID namespace) forbidden)
        (nativeRuleChargedResources L grp resource) ()) (NormalizeNativeVerbs L (ru_Verbs rule)) ())
      (ResourceNames rule) ())"

definition charge_rule ::
    "rbac_lib \<Rightarrow> RoleBinding list \<Rightarrow> uuid \<Rightarrow> uuid \<Rightarrow> string \<Rightarrow> Rule \<Rightarrow> RbacError + unit" where
  "charge_rule L callerBindings clusterID projectID namespace rule =
     (if IsCRDGrant rule
      then for_each (\<lambda>grp _. charge_group L callerBindings clusterID projectID namespace rule grp)
        (CRDAPIGroups rule) ()
      else for_each (\<lambda>verb _. reject_if
          (\<not> CheckPermission L callerBindings (ru_Resource rule) verb clusterID projectID namespace) forbidden)
        (ru_Verbs rule) ())"

text \<open>The caller is the authenticated user, if there is one; the bindings of the caller are the
  result of loading them.\<close>

definition enforceNoEscalation ::
    "rbac_lib \<Rightarrow> string option \<Rightarrow> (RbacError + RoleBinding list) \<Rightarrow> string \<Rightarrow> uuid \<Rightarrow> uuid \<Rightarrow> string
     \<Rightarrow> RbacError + unit" where
  "enforceNoEscalation L user loaded rawRules clusterID projectID namespace =
     (case decodeRoleRules L rawRules of
        Inl _ \<Rightarrow> Inl (HttpErr 500 ''internal_error'')
      | Inr targetRules \<Rightarrow>
          (case user of
             None \<Rightarrow> Inl forbidden
           | Some _ \<Rightarrow>
               (case loaded of
                  Inl _ \<Rightarrow> Inl (HttpErr 500 ''load_error'')
                | Inr callerBindings \<Rightarrow>
                    for_each (\<lambda>rule _. charge_rule L callerBindings clusterID projectID namespace rule)
                      targetRules ())))"

definition find_role ::
    "(string \<Rightarrow> bool) \<Rightarrow> string \<Rightarrow> RoleRow list \<Rightarrow> uuid \<Rightarrow> RbacError + RoleRow" where
  "find_role fails name roles roleID =
     (if fails name then Inl (HttpErr 404 ''not_found'')
      else case find (\<lambda>r. ro_ID r = roleID) roles of
          None \<Rightarrow> Inl (HttpErr 404 ''not_found'') | Some role \<Rightarrow> Inr role)"

definition rejectBuiltinRoleWrite :: "bool \<Rightarrow> RbacError + unit" where
  "rejectBuiltinRoleWrite isBuiltin = reject_if isBuiltin forbidden"

definition rejectGlobalCRDGrants :: "rbac_lib \<Rightarrow> string \<Rightarrow> RbacError + unit" where
  "rejectGlobalCRDGrants L raw =
     (case decodeRoleRules L raw of
        Inl _ \<Rightarrow> Inr ()
      | Inr rules \<Rightarrow> reject_if (list_ex IsCRDGrant rules) (HttpErr 400 ''invalid_body''))"

section \<open>Quotas of a project binding\<close>

definition effectiveLimit :: "rbac_lib \<Rightarrow> int \<Rightarrow> string \<Rightarrow> string \<Rightarrow> int" where
  "effectiveLimit L baseline overrides key =
     (if overrides = [] then baseline
      else case rl_override L overrides key of None \<Rightarrow> baseline | Some v \<Rightarrow> v)"

definition resolveLimit :: "string \<Rightarrow> int \<Rightarrow> int \<Rightarrow> RbacError + unit" where
  "resolveLimit enforcement current maximum =
     (if maximum \<le> 0 then Inr ()
      else if current < maximum then Inr ()
      else if enforcement = ''soft'' then Inr ()
      else Inl (HttpErr 429 ''quota_exceeded''))"

definition CountMembersInProject :: "RbacDb \<Rightarrow> uuid \<Rightarrow> int" where
  "CountMembersInProject db pid =
     int (length (remdups (List.map_filter bi_UserID (filter (\<lambda>b. bi_ProjectID b = pid) (rd_ProjectBindings db)))))"

definition CountProjectsForUser :: "RbacDb \<Rightarrow> uuid \<Rightarrow> int" where
  "CountProjectsForUser db uid =
     int (length (remdups (map bi_ProjectID (filter (\<lambda>b. bi_UserID b = Some uid) (rd_ProjectBindings db)))))"

definition CheckProjectMemberAdd :: "rbac_lib \<Rightarrow> (string \<Rightarrow> bool) \<Rightarrow> RbacDb \<Rightarrow> uuid \<Rightarrow> RbacError + unit" where
  "CheckProjectMemberAdd L fails db pid =
     (if fails ''GetEffectiveQuotaForProject'' then Inl (HttpErr 500 ''quota_check_error'')
      else case map_of (rd_ProjectPlans db) pid of
          None \<Rightarrow> Inr ()
        | Some plan \<Rightarrow>
            if fails ''CountMembersInProject'' then Inl (HttpErr 500 ''quota_check_error'')
            else resolveLimit (qp_Enforcement plan) (CountMembersInProject db pid)
              (effectiveLimit L (qp_MaxMembersPerProject plan) (qp_Overrides plan) ''max_members_per_project''))"

definition CheckUserProjectAdd :: "rbac_lib \<Rightarrow> (string \<Rightarrow> bool) \<Rightarrow> RbacDb \<Rightarrow> uuid \<Rightarrow> RbacError + unit" where
  "CheckUserProjectAdd L fails db uid =
     (if fails ''GetEffectiveQuotaForUser'' then Inl (HttpErr 500 ''quota_check_error'')
      else case map_of (rd_UserPlans db) uid of
          None \<Rightarrow> Inr ()
        | Some plan \<Rightarrow>
            if fails ''CountProjectsForUser'' then Inl (HttpErr 500 ''quota_check_error'')
            else resolveLimit (qp_Enforcement plan) (CountProjectsForUser db uid)
              (effectiveLimit L (qp_MaxProjectsPerUser plan) (qp_Overrides plan) ''max_projects_per_user''))"

section \<open>Handlers\<close>

record GlobalBindingRequest =
  gq_UserID :: string
  gq_Group :: string
  gq_RoleID :: string

record ClusterBindingRequest = GlobalBindingRequest +
  gq_ClusterID :: string
  gq_Namespace :: string

record ProjectBindingRequest = GlobalBindingRequest +
  gq_ProjectID :: string

record RoleRequest =
  rq_Name :: string
  rq_DisplayName :: string
  rq_DisplayNameAlt :: string
  rq_Description :: string
  rq_Permissions :: string
  rq_Rules :: string

text \<open>What a handler does to the cache of bindings after its commit.\<close>

datatype Invalidation = InvalidateUser string | InvalidateEveryone

definition rejectGroupBinding :: "string \<Rightarrow> string \<Rightarrow> RbacError + unit" where
  "rejectGroupBinding userID grp =
     reject_if (trim_space userID = [] \<or> trim_space grp \<noteq> []) (HttpErr 400 ''validation_error'')"

definition parse_id :: "rbac_lib \<Rightarrow> string \<Rightarrow> RbacError + uuid" where
  "parse_id L s = (case rl_uuidParse L s of None \<Rightarrow> Inl (HttpErr 400 ''invalid_id'') | Some i \<Rightarrow> Inr i)"

definition parseBindingRefs :: "rbac_lib \<Rightarrow> string \<Rightarrow> string \<Rightarrow> RbacError + uuid \<times> uuid option" where
  "parseBindingRefs L roleIDValue userIDValue =
     sbind (parse_id L roleIDValue) (\<lambda>roleID.
       if userIDValue = [] then Inr (roleID, None)
       else sbind (parse_id L userIDValue) (\<lambda>userID. Inr (roleID, Some userID)))"

text \<open>The transaction of a mutation: the statement, its audit record and the commit, or nothing.\<close>

definition executeMutation :: "(string \<Rightarrow> bool) \<Rightarrow> string \<Rightarrow> nat \<Rightarrow> string \<Rightarrow> 'db \<Rightarrow> RbacError + 'db" where
  "executeMutation fails statement status code changed =
     (if fails statement then Inl (HttpErr status code)
      else if fails ''UpsertAuditOutbox'' then Inl (HttpErr 503 ''audit_unavailable'')
      else if fails ''commit'' then Inl (HttpErr status code)
      else Inr changed)"

definition guardGlobalBinding ::
    "rbac_lib \<Rightarrow> (string \<Rightarrow> bool) \<Rightarrow> string option \<Rightarrow> (RbacError + RoleBinding list) \<Rightarrow> RbacDb \<Rightarrow> uuid
     \<Rightarrow> RbacError + unit" where
  "guardGlobalBinding L fails user loaded db roleID =
     sbind (find_role fails ''GetGlobalRoleByID'' (rd_GlobalRoles db) roleID) (\<lambda>role.
       enforceNoEscalation L user loaded (ro_Rules role) uuid_nil uuid_nil [])"

definition guardClusterBinding ::
    "rbac_lib \<Rightarrow> (string \<Rightarrow> bool) \<Rightarrow> string option \<Rightarrow> (RbacError + RoleBinding list) \<Rightarrow> RbacDb \<Rightarrow> uuid
     \<Rightarrow> uuid \<Rightarrow> string \<Rightarrow> RbacError + unit" where
  "guardClusterBinding L fails user loaded db roleID clusterID namespace =
     sbind (find_role fails ''GetClusterRoleByID'' (rd_ClusterRoles db) roleID) (\<lambda>role.
       enforceNoEscalation L user loaded (ro_Rules role) clusterID uuid_nil namespace)"

definition guardProjectBinding ::
    "rbac_lib \<Rightarrow> (string \<Rightarrow> bool) \<Rightarrow> string option \<Rightarrow> (RbacError + RoleBinding list) \<Rightarrow> RbacDb \<Rightarrow> uuid
     \<Rightarrow> uuid \<Rightarrow> RbacError + unit" where
  "guardProjectBinding L fails user loaded db roleID projectID =
     sbind (find_role fails ''GetProjectRoleByID'' (rd_ProjectRoles db) roleID) (\<lambda>role.
       enforceNoEscalation L user loaded (ro_Rules role) uuid_nil projectID [])"

definition CreateGlobalRoleBinding ::
    "rbac_lib \<Rightarrow> (string \<Rightarrow> bool) \<Rightarrow> uuid \<Rightarrow> string option \<Rightarrow> (RbacError + RoleBinding list)
     \<Rightarrow> GlobalBindingRequest \<Rightarrow> RbacDb \<Rightarrow> RbacError + RbacDb \<times> Invalidation" where
  "CreateGlobalRoleBinding L fails newID user loaded req db =
     sbind (rejectGroupBinding (gq_UserID req) (gq_Group req)) (\<lambda>_.
     sbind (parseBindingRefs L (gq_RoleID req) (gq_UserID req)) (\<lambda>(roleID, userID).
     sbind (guardGlobalBinding L fails user loaded db roleID) (\<lambda>_.
     sbind (executeMutation fails ''CreateGlobalRoleBinding'' 500 ''create_error''
        (db\<lparr>rd_GlobalBindings := rd_GlobalBindings db @
          [\<lparr>bi_ID = newID, bi_UserID = userID, bi_Group = gq_Group req, bi_RoleID = roleID\<rparr>]\<rparr>)) (\<lambda>db'.
     Inr (db', InvalidateUser (gq_UserID req))))))"

definition CreateClusterRoleBinding ::
    "rbac_lib \<Rightarrow> (string \<Rightarrow> bool) \<Rightarrow> uuid \<Rightarrow> string option \<Rightarrow> (RbacError + RoleBinding list)
     \<Rightarrow> ClusterBindingRequest \<Rightarrow> RbacDb \<Rightarrow> RbacError + RbacDb \<times> Invalidation" where
  "CreateClusterRoleBinding L fails newID user loaded req db =
     sbind (rejectGroupBinding (gq_UserID req) (gq_Group req)) (\<lambda>_.
     sbind (parseBindingRefs L (gq_RoleID req) (gq_UserID req)) (\<lambda>(roleID, userID).
     sbind (parse_id L (gq_ClusterID req)) (\<lambda>clusterID.
     sbind (reject_if (gq_Namespace req \<noteq> [] \<and> \<not> rl_IsDNS1123Label L (gq_Namespace req))
        (HttpErr 400 ''validation_error'')) (\<lambda>_.
     sbind (guardClusterBinding L fails user loaded db roleID clusterID (gq_Namespace req)) (\<lambda>_.
     sbind (executeMutation fails ''CreateClusterRoleBinding'' 500 ''create_error''
        (db\<lparr>rd_ClusterBindings := rd_ClusterBindings db @
          [\<lparr>bi_ID = newID, bi_UserID = userID, bi_Group = gq_Group req, bi_RoleID = roleID,
            bi_ClusterID = clusterID, bi_Namespace = gq_Namespace req\<rparr>]\<rparr>)) (\<lambda>db'.
     Inr (db', InvalidateUser (gq_UserID req))))))))"

definition CreateProjectRoleBinding ::
    "rbac_lib \<Rightarrow> (string \<Rightarrow> bool) \<Rightarrow> uuid \<Rightarrow> string option \<Rightarrow> (RbacError + RoleBinding list)
     \<Rightarrow> ProjectBindingRequest \<Rightarrow> RbacDb \<Rightarrow> RbacError + RbacDb \<times> Invalidation" where
  "CreateProjectRoleBinding L fails newID user loaded req db =
     sbind (rejectGroupBinding (gq_UserID req) (gq_Group req)) (\<lambda>_.
     sbind (parseBindingRefs L (gq_RoleID req) (gq_UserID req)) (\<lambda>(roleID, userID).
     sbind (parse_id L (gq_ProjectID req)) (\<lambda>projectID.
     sbind (guardProjectBinding L fails user loaded db roleID projectID) (\<lambda>_.
     sbind (CheckProjectMemberAdd L fails db projectID) (\<lambda>_.
     sbind (case userID of None \<Rightarrow> Inr () | Some uid \<Rightarrow> CheckUserProjectAdd L fails db uid) (\<lambda>_.
     sbind (executeMutation fails ''CreateProjectRoleBinding'' 500 ''create_error''
        (db\<lparr>rd_ProjectBindings := rd_ProjectBindings db @
          [\<lparr>bi_ID = newID, bi_UserID = userID, bi_Group = gq_Group req, bi_RoleID = roleID,
            bi_ProjectID = projectID\<rparr>]\<rparr>)) (\<lambda>db'.
     Inr (db', InvalidateUser (gq_UserID req)))))))))"

text \<open>Updates of roles.  Only the table differs between the three scopes, and global roles
  refuse native rules.\<close>

definition roleDocuments :: "rbac_lib \<Rightarrow> RoleRequest \<Rightarrow> RbacError + string \<times> string" where
  "roleDocuments L req =
     (let permissions = (if rq_Permissions req = [] then ''{}'' else rq_Permissions req);
          rules = (if rq_Rules req = [] then ''[]'' else rq_Rules req)
      in if \<not> rl_jsonObject L permissions then Inl (HttpErr 400 ''invalid_body'')
         else if \<not> rl_jsonArray L rules then Inl (HttpErr 400 ''invalid_body'')
         else Inr (permissions, rules))"

definition guardRoleRules ::
    "rbac_lib \<Rightarrow> (string \<Rightarrow> bool) \<Rightarrow> string \<Rightarrow> string option \<Rightarrow> (RbacError + RoleBinding list) \<Rightarrow> RoleRow list
     \<Rightarrow> uuid \<Rightarrow> string \<Rightarrow> RbacError + unit" where
  "guardRoleRules L fails lookup user loaded roles roleID rules =
     sbind (find_role fails lookup roles roleID) (\<lambda>existing.
     sbind (rejectBuiltinRoleWrite (ro_IsBuiltin existing)) (\<lambda>_.
       enforceNoEscalation L user loaded rules uuid_nil uuid_nil []))"

definition update_role :: "uuid \<Rightarrow> RoleRequest \<Rightarrow> string \<Rightarrow> string \<Rightarrow> RoleRow list \<Rightarrow> RoleRow list" where
  "update_role roleID req permissions rules =
     map (\<lambda>r. if ro_ID r = roleID
       then r\<lparr>ro_Name := rq_Name req,
              ro_DisplayName := (if rq_DisplayName req \<noteq> [] then rq_DisplayName req else rq_DisplayNameAlt req),
              ro_Description := rq_Description req, ro_Permissions := permissions, ro_Rules := rules\<rparr>
       else r)"

definition UpdateGlobalRole ::
    "rbac_lib \<Rightarrow> (string \<Rightarrow> bool) \<Rightarrow> string option \<Rightarrow> (RbacError + RoleBinding list) \<Rightarrow> string \<Rightarrow> RoleRequest
     \<Rightarrow> RbacDb \<Rightarrow> RbacError + RbacDb \<times> Invalidation" where
  "UpdateGlobalRole L fails user loaded param req db =
     sbind (parse_id L param) (\<lambda>roleID.
     sbind (roleDocuments L req) (\<lambda>(permissions, rules).
     sbind (rejectGlobalCRDGrants L rules) (\<lambda>_.
     sbind (guardRoleRules L fails ''GetGlobalRoleByID'' user loaded (rd_GlobalRoles db) roleID rules) (\<lambda>_.
     sbind (executeMutation fails ''UpdateGlobalRole'' 500 ''update_error''
        (db\<lparr>rd_GlobalRoles := update_role roleID req permissions rules (rd_GlobalRoles db)\<rparr>)) (\<lambda>db'.
     Inr (db', InvalidateEveryone))))))"

definition UpdateClusterRole ::
    "rbac_lib \<Rightarrow> (string \<Rightarrow> bool) \<Rightarrow> string option \<Rightarrow> (RbacError + RoleBinding list) \<Rightarrow> string \<Rightarrow> RoleRequest
     \<Rightarrow> RbacDb \<Rightarrow> RbacError + RbacDb \<times> Invalidation" where
  "UpdateClusterRole L fails user loaded param req db =
     sbind (parse_id L param) (\<lambda>roleID.
     sbind (roleDocuments L req) (\<lambda>(permissions, rules).
     sbind (guardRoleRules L fails ''GetClusterRoleByID'' user loaded (rd_ClusterRoles db) roleID rules) (\<lambda>_.
     sbind (executeMutation fails ''UpdateClusterRole'' 500 ''update_error''
        (db\<lparr>rd_ClusterRoles := update_role roleID req permissions rules (rd_ClusterRoles db)\<rparr>)) (\<lambda>db'.
     Inr (db', InvalidateEveryone)))))"

definition UpdateProjectRole ::
    "rbac_lib \<Rightarrow> (string \<Rightarrow> bool) \<Rightarrow> string option \<Rightarrow> (RbacError + RoleBinding list) \<Rightarrow> string \<Rightarrow> RoleRequest
     \<Rightarrow> RbacDb \<Rightarrow> RbacError + RbacDb \<times> Invalidation" where
  "UpdateProjectRole L fails user loaded param req db =
     sbind (parse_id L param) (\<lambda>roleID.
     sbind (roleDocuments L req) (\<lambda>(permissions, rules).
     sbind (guardRoleRules L fails ''GetProjectRoleByID'' user loaded (rd_ProjectRoles db) roleID rules) (\<lambda>_.
     sbind (executeMutation fails ''UpdateProjectRole'' 500 ''update_error''
        (db\<lparr>rd_ProjectRoles := update_role roleID req permissions rules (rd_ProjectRoles db)\<rparr>)) (\<lambda>db'.
     Inr (db', InvalidateEveryone)))))"

text \<open>Removals.  The user to invalidate is looked up first; a failed lookup invalidates no one.\<close>

definition binding_user ::
    "rbac_lib \<Rightarrow> (string \<Rightarrow> bool) \<Rightarrow> string \<Rightarrow> 'b GlobalRoleBinding_scheme list \<Rightarrow> uuid \<Rightarrow> string" where
  "binding_user L fails lookup bindings i =
     (if fails lookup then []
      else case find (\<lambda>b. bi_ID b = i) bindings of
          None \<Rightarrow> []
        | Some b \<Rightarrow> (case bi_UserID b of None \<Rightarrow> [] | Some uid \<Rightarrow> rl_uuidString L uid))"

definition DeleteGlobalRoleBinding ::
    "rbac_lib \<Rightarrow> (string \<Rightarrow> bool) \<Rightarrow> string \<Rightarrow> RbacDb \<Rightarrow> RbacError + RbacDb \<times> Invalidation" where
  "DeleteGlobalRoleBinding L fails param db =
     sbind (parse_id L param) (\<lambda>i.
     let affected = binding_user L fails ''GetGlobalRoleBindingByID'' (rd_GlobalBindings db) i in
     sbind (executeMutation fails ''DeleteGlobalRoleBinding'' 404 ''not_found''
        (db\<lparr>rd_GlobalBindings := filter (\<lambda>b. bi_ID b \<noteq> i) (rd_GlobalBindings db)\<rparr>)) (\<lambda>db'.
     Inr (db', InvalidateUser affected)))"

definition DeleteClusterRoleBinding ::
    "rbac_lib \<Rightarrow> (string \<Rightarrow> bool) \<Rightarrow> string \<Rightarrow> RbacDb \<Rightarrow> RbacError + RbacDb \<times> Invalidation" where
  "DeleteClusterRoleBinding L fails param db =
     sbind (parse_id L param) (\<lambda>i.
     let affected = binding_user L fails ''GetClusterRoleBindingByID'' (rd_ClusterBindings db) i in
     sbind (executeMutation fails ''DeleteClusterRoleBinding'' 404 ''not_found''
        (db\<lparr>rd_ClusterBindings := filter (\<lambda>b. bi_ID b \<noteq> i) (rd_ClusterBindings db)\<rparr>)) (\<lambda>db'.
     Inr (db', InvalidateUser affected)))"

definition DeleteProjectRoleBinding ::
    "rbac_lib \<Rightarrow> (string \<Rightarrow> bool) \<Rightarrow> string \<Rightarrow> RbacDb \<Rightarrow> RbacError + RbacDb \<times> Invalidation" where
  "DeleteProjectRoleBinding L fails param db =
     sbind (parse_id L param) (\<lambda>i.
     let affected = binding_user L fails ''GetProjectRoleBindingByID'' (rd_ProjectBindings db) i in
     sbind (executeMutation fails ''DeleteProjectRoleBinding'' 404 ''not_found''
        (db\<lparr>rd_ProjectBindings := filter (\<lambda>b. bi_ID b \<noteq> i) (rd_ProjectBindings db)\<rparr>)) (\<lambda>db'.
     Inr (db', InvalidateUser affected)))"

text \<open>Creation and deletion of roles.  A role is created without a check of what it grants: no
  one is bound to it yet.  The bindings of a deleted role go with it (\<open>ON DELETE CASCADE\<close>).  Every
  failure of the transaction of a deletion is answered as not found.\<close>

definition new_role :: "uuid \<Rightarrow> RoleRequest \<Rightarrow> string \<Rightarrow> string \<Rightarrow> RoleRow" where
  "new_role newID req permissions rules =
     \<lparr>ro_ID = newID, ro_Name = rq_Name req,
      ro_DisplayName = (if rq_DisplayName req \<noteq> [] then rq_DisplayName req else rq_DisplayNameAlt req),
      ro_Description = rq_Description req, ro_Permissions = permissions, ro_Rules = rules, ro_IsBuiltin = False\<rparr>"

definition CreateGlobalRole ::
    "rbac_lib \<Rightarrow> (string \<Rightarrow> bool) \<Rightarrow> uuid \<Rightarrow> RoleRequest \<Rightarrow> RbacDb \<Rightarrow> RbacError + RbacDb" where
  "CreateGlobalRole L fails newID req db =
     sbind (roleDocuments L req) (\<lambda>(permissions, rules).
     sbind (rejectGlobalCRDGrants L rules) (\<lambda>_.
     executeMutation fails ''CreateGlobalRole'' 500 ''create_error''
        (db\<lparr>rd_GlobalRoles := rd_GlobalRoles db @ [new_role newID req permissions rules]\<rparr>)))"

definition CreateClusterRole ::
    "rbac_lib \<Rightarrow> (string \<Rightarrow> bool) \<Rightarrow> uuid \<Rightarrow> RoleRequest \<Rightarrow> RbacDb \<Rightarrow> RbacError + RbacDb" where
  "CreateClusterRole L fails newID req db =
     sbind (roleDocuments L req) (\<lambda>(permissions, rules).
     executeMutation fails ''CreateClusterRole'' 500 ''create_error''
        (db\<lparr>rd_ClusterRoles := rd_ClusterRoles db @ [new_role newID req permissions rules]\<rparr>))"

definition CreateProjectRole ::
    "rbac_lib \<Rightarrow> (string \<Rightarrow> bool) \<Rightarrow> uuid \<Rightarrow> RoleRequest \<Rightarrow> RbacDb \<Rightarrow> RbacError + RbacDb" where
  "CreateProjectRole L fails newID req db =
     sbind (roleDocuments L req) (\<lambda>(permissions, rules).
     executeMutation fails ''CreateProjectRole'' 500 ''create_error''
        (db\<lparr>rd_ProjectRoles := rd_ProjectRoles db @ [new_role newID req permissions rules]\<rparr>))"

definition delete_role_answer :: "RbacError + RbacDb \<Rightarrow> RbacError + RbacDb \<times> Invalidation" where
  "delete_role_answer r =
     (case r of Inl _ \<Rightarrow> Inl (HttpErr 404 ''not_found'') | Inr db' \<Rightarrow> Inr (db', InvalidateEveryone))"

definition DeleteGlobalRole ::
    "rbac_lib \<Rightarrow> (string \<Rightarrow> bool) \<Rightarrow> string \<Rightarrow> RbacDb \<Rightarrow> RbacError + RbacDb \<times> Invalidation" where
  "DeleteGlobalRole L fails param db =
     sbind (parse_id L param) (\<lambda>i.
     sbind (find_role fails ''GetGlobalRoleByID'' (rd_GlobalRoles db) i) (\<lambda>existing.
     sbind (rejectBuiltinRoleWrite (ro_IsBuiltin existing)) (\<lambda>_.
     delete_role_answer (executeMutation fails ''DeleteGlobalRole'' 404 ''not_found''
        (db\<lparr>rd_GlobalRoles := filter (\<lambda>r. ro_ID r \<noteq> i) (rd_GlobalRoles db),
           rd_GlobalBindings := filter (\<lambda>b. bi_RoleID b \<noteq> i) (rd_GlobalBindings db)\<rparr>)))))"

definition DeleteClusterRole ::
    "rbac_lib \<Rightarrow> (string \<Rightarrow> bool) \<Rightarrow> string \<Rightarrow> RbacDb \<Rightarrow> RbacError + RbacDb \<times> Invalidation" where
  "DeleteClusterRole L fails param db =
     sbind (parse_id L param) (\<lambda>i.
     sbind (find_role fails ''GetClusterRoleByID'' (rd_ClusterRoles db) i) (\<lambda>existing.
     sbind (rejectBuiltinRoleWrite (ro_IsBuiltin existing)) (\<lambda>_.
     delete_role_answer (executeMutation fails ''DeleteClusterRole'' 404 ''not_found''
        (db\<lparr>rd_ClusterRoles := filter (\<lambda>r. ro_ID r \<noteq> i) (rd_ClusterRoles db),
           rd_ClusterBindings := filter (\<lambda>b. bi_RoleID b \<noteq> i) (rd_ClusterBindings db)\<rparr>)))))"

definition DeleteProjectRole ::
    "rbac_lib \<Rightarrow> (string \<Rightarrow> bool) \<Rightarrow> string \<Rightarrow> RbacDb \<Rightarrow> RbacError + RbacDb \<times> Invalidation" where
  "DeleteProjectRole L fails param db =
     sbind (parse_id L param) (\<lambda>i.
     sbind (find_role fails ''GetProjectRoleByID'' (rd_ProjectRoles db) i) (\<lambda>existing.
     sbind (rejectBuiltinRoleWrite (ro_IsBuiltin existing)) (\<lambda>_.
     delete_role_answer (executeMutation fails ''DeleteProjectRole'' 404 ''not_found''
        (db\<lparr>rd_ProjectRoles := filter (\<lambda>r. ro_ID r \<noteq> i) (rd_ProjectRoles db),
           rd_ProjectBindings := filter (\<lambda>b. bi_RoleID b \<noteq> i) (rd_ProjectBindings db)\<rparr>)))))"

text \<open>The constraints of the tables: the keys of the roles are unique, a binding names a role of
  its table, and no binding names the nil cluster or project.\<close>

definition rbac_db_ok :: "RbacDb \<Rightarrow> bool" where
  "rbac_db_ok db \<longleftrightarrow>
     distinct (map ro_ID (rd_GlobalRoles db)) \<and> distinct (map ro_ID (rd_ClusterRoles db))
   \<and> distinct (map ro_ID (rd_ProjectRoles db))
   \<and> list_all (\<lambda>b. bi_RoleID b \<in> set (map ro_ID (rd_GlobalRoles db))) (rd_GlobalBindings db)
   \<and> list_all (\<lambda>b. bi_RoleID b \<in> set (map ro_ID (rd_ClusterRoles db)) \<and> bi_ClusterID b \<noteq> uuid_nil)
       (rd_ClusterBindings db)
   \<and> list_all (\<lambda>b. bi_RoleID b \<in> set (map ro_ID (rd_ProjectRoles db)) \<and> bi_ProjectID b \<noteq> uuid_nil)
       (rd_ProjectBindings db)"

text \<open>Any accepted change by a caller, decided on the bindings loaded for that caller.  A commit
  keeps the constraints of the tables.\<close>

inductive rbac_step :: "rbac_lib \<Rightarrow> string \<Rightarrow> RbacDb \<Rightarrow> RbacDb \<Rightarrow> bool" for L where
  create_global_binding:
    "CreateGlobalRoleBinding L fails i (Some caller) (loadUserBindings L fails db caller) req db = Inr (db', told) \<Longrightarrow>
     rbac_db_ok db' \<Longrightarrow> rbac_step L caller db db'"
| create_cluster_binding:
    "CreateClusterRoleBinding L fails i (Some caller) (loadUserBindings L fails db caller) creq db = Inr (db', told) \<Longrightarrow>
     rbac_db_ok db' \<Longrightarrow> rbac_step L caller db db'"
| create_project_binding:
    "CreateProjectRoleBinding L fails i (Some caller) (loadUserBindings L fails db caller) preq db = Inr (db', told) \<Longrightarrow>
     rbac_db_ok db' \<Longrightarrow> rbac_step L caller db db'"
| delete_global_binding:
    "DeleteGlobalRoleBinding L fails param db = Inr (db', told) \<Longrightarrow> rbac_step L caller db db'"
| delete_cluster_binding:
    "DeleteClusterRoleBinding L fails param db = Inr (db', told) \<Longrightarrow> rbac_step L caller db db'"
| delete_project_binding:
    "DeleteProjectRoleBinding L fails param db = Inr (db', told) \<Longrightarrow> rbac_step L caller db db'"
| create_global_role:
    "CreateGlobalRole L fails i rreq db = Inr db' \<Longrightarrow> rbac_db_ok db' \<Longrightarrow> rbac_step L caller db db'"
| create_cluster_role:
    "CreateClusterRole L fails i rreq db = Inr db' \<Longrightarrow> rbac_db_ok db' \<Longrightarrow> rbac_step L caller db db'"
| create_project_role:
    "CreateProjectRole L fails i rreq db = Inr db' \<Longrightarrow> rbac_db_ok db' \<Longrightarrow> rbac_step L caller db db'"
| update_global_role:
    "UpdateGlobalRole L fails (Some caller) (loadUserBindings L fails db caller) param rreq db = Inr (db', told) \<Longrightarrow>
     rbac_step L caller db db'"
| update_cluster_role:
    "UpdateClusterRole L fails (Some caller) (loadUserBindings L fails db caller) param rreq db = Inr (db', told) \<Longrightarrow>
     rbac_step L caller db db'"
| update_project_role:
    "UpdateProjectRole L fails (Some caller) (loadUserBindings L fails db caller) param rreq db = Inr (db', told) \<Longrightarrow>
     rbac_step L caller db db'"
| delete_global_role:
    "DeleteGlobalRole L fails param db = Inr (db', told) \<Longrightarrow> rbac_step L caller db db'"
| delete_cluster_role:
    "DeleteClusterRole L fails param db = Inr (db', told) \<Longrightarrow> rbac_step L caller db db'"
| delete_project_role:
    "DeleteProjectRole L fails param db = Inr (db', told) \<Longrightarrow> rbac_step L caller db db'"

text \<open>A sequence of changes, by any callers.\<close>

inductive rbac_steps :: "rbac_lib \<Rightarrow> RbacDb \<Rightarrow> RbacDb \<Rightarrow> bool" for L where
  none: "rbac_steps L db db"
| more: "rbac_steps L db db1 \<Longrightarrow> rbac_step L caller db1 db2 \<Longrightarrow> rbac_steps L db db2"

section \<open>The meaning of the tables\<close>

text \<open>What a user may do, read off the tables: a superuser everything, and any other user what the
  rules of a role say, at the scope of its binding.  A binding on a project also reaches the
  namespaces the project owns.\<close>

definition role_allows :: "rbac_lib \<Rightarrow> RoleRow list \<Rightarrow> uuid \<Rightarrow> Resource \<Rightarrow> Verb \<Rightarrow> bool" where
  "role_allows L roles roleID r v \<longleftrightarrow>
     (\<exists>role \<in> set roles. ro_ID role = roleID \<and>
       (case decodeRoleRules L (ro_Rules role) of
          Inl _ \<Rightarrow> False | Inr rules \<Rightarrow> list_ex (\<lambda>rule. matchRule rule r v) rules))"

lemma role_allows_ex: "role_allows L roles roleID r v \<longleftrightarrow>
     (\<exists>role \<in> set roles. ro_ID role = roleID \<and>
       (\<exists>rules. decodeRoleRules L (ro_Rules role) = Inr rules \<and> list_ex (\<lambda>rule. matchRule rule r v) rules))"
  unfolding role_allows_def by (intro bex_cong refl) (auto split: sum.splits)

definition owns_namespace :: "RbacDb \<Rightarrow> uuid \<Rightarrow> uuid \<Rightarrow> string \<Rightarrow> bool" where
  "owns_namespace db pid c ns \<longleftrightarrow> c \<noteq> uuid_nil \<and> ns \<noteq> [] \<and>
     (\<exists>n \<in> set (rd_ProjectNamespaces db). pn_ProjectID n = pid \<and> pn_ClusterID n = c \<and> pn_Namespace n = ns)"

definition bound_may :: "rbac_lib \<Rightarrow> RbacDb \<Rightarrow> uuid \<Rightarrow> Resource \<Rightarrow> Verb \<Rightarrow> uuid \<Rightarrow> uuid \<Rightarrow> string \<Rightarrow> bool" where
  "bound_may L db uid r v c p ns \<longleftrightarrow>
     (\<exists>b \<in> set (rd_GlobalBindings db). bi_UserID b = Some uid
        \<and> role_allows L (rd_GlobalRoles db) (bi_RoleID b) r v)
   \<or> (\<exists>b \<in> set (rd_ClusterBindings db). bi_UserID b = Some uid
        \<and> role_allows L (rd_ClusterRoles db) (bi_RoleID b) r v
        \<and> bi_ClusterID b = c \<and> (bi_Namespace b = [] \<or> bi_Namespace b = ns))
   \<or> (\<exists>b \<in> set (rd_ProjectBindings db). bi_UserID b = Some uid
        \<and> role_allows L (rd_ProjectRoles db) (bi_RoleID b) r v
        \<and> (bi_ProjectID b = p \<or> owns_namespace db (bi_ProjectID b) c ns))"

section \<open>Loading agrees with the tables\<close>

lemma rbac_call_Inr [simp]: "rbac_call fails name r = Inr x \<longleftrightarrow> \<not> fails name \<and> x = r"
  by (auto simp: rbac_call_def)

lemma load_rows:
  "for_each (load_row L userID) rows acc = Inr out \<Longrightarrow>
     (\<forall>row \<in> set rows. \<exists>rules. decodeRoleRules L (ub_RoleRules row) = Inr rules)
   \<and> out = acc @ map (\<lambda>row. row_binding L userID row (projr (decodeRoleRules L (ub_RoleRules row)))) rows"
proof (induction rows arbitrary: acc)
  case (Cons row rows)
  from Cons.prems obtain acc' where step: "load_row L userID row acc = Inr acc'"
    and rest': "for_each (load_row L userID) rows acc' = Inr out"
    by (auto simp: sbind_Inr_iff)
  from step obtain rules where rules: "decodeRoleRules L (ub_RoleRules row) = Inr rules"
    and "acc' = acc @ [row_binding L userID row rules]"
    by (auto simp: load_row_def sbind_Inr_iff)
  with rest' have rest: "for_each (load_row L userID) rows (acc @ [row_binding L userID row rules]) = Inr out"
    by simp
  show ?case using Cons.IH [OF rest] rules by simp
qed simp

definition project_namespaces :: "rbac_lib \<Rightarrow> RbacDb \<Rightarrow> string \<Rightarrow> ProjectNamespace list" where
  "project_namespaces L db pid =
     (case rl_uuidParse L pid of None \<Rightarrow> [] | Some i \<Rightarrow> ListProjectNamespaces db i)"

definition expansion :: "rbac_lib \<Rightarrow> RbacDb \<Rightarrow> string \<Rightarrow> RoleBinding \<Rightarrow> RoleBinding list" where
  "expansion L db userID b =
     (if rb_Scope b \<noteq> ''project'' \<or> rb_ProjectID b = [] then []
      else map (synthetic_binding L userID b)
        (filter (\<lambda>row. \<not> (pn_Namespace row = [] \<or> pn_ClusterID row = uuid_nil))
          (project_namespaces L db (rb_ProjectID b))))"

definition cache_true :: "rbac_lib \<Rightarrow> RbacDb \<Rightarrow> (string, ProjectNamespace list) gomap \<Rightarrow> bool" where
  "cache_true L db cache \<longleftrightarrow> (\<forall>k rows. fmlookup cache k = Some rows \<longrightarrow> rows = project_namespaces L db k)"

lemma expand_step_Inr:
  assumes "expand_step L fails db userID b (cache, made) = Inr (cache', made')" and "cache_true L db cache"
  shows "made' = made @ expansion L db userID b \<and> cache_true L db cache'"
proof (cases "rb_Scope b \<noteq> ''project'' \<or> rb_ProjectID b = []")
  case False
  show ?thesis
  proof (cases "fmlookup cache (rb_ProjectID b)")
    case None
    define got where "got = project_namespaces L db (rb_ProjectID b)"
    from None False assms(1) have "made' = made @ expansion L db userID b"
      and "cache' = fmupd (rb_ProjectID b) got cache"
      by (auto simp: got_def expand_step_def expansion_def project_namespaces_def sbind_Inr_iff
          split: option.splits)
    with assms(2) show ?thesis by (simp add: cache_true_def got_def)
  next
    case (Some rows)
    then have "rows = project_namespaces L db (rb_ProjectID b)" using assms(2) by (simp add: cache_true_def)
    with Some False assms show ?thesis by (auto simp: expand_step_def expansion_def)
  qed
qed (use assms in \<open>auto simp: expand_step_def expansion_def\<close>)

lemma expand_loop:
  assumes "for_each (expand_step L fails db userID) bs (cache, made) = Inr (cache', made')"
    and "cache_true L db cache"
  shows "made' = made @ concat (map (expansion L db userID) bs)"
  using assms
proof (induction bs arbitrary: cache made)
  case (Cons b bs)
  from Cons.prems(1) obtain c1 m1 where step: "expand_step L fails db userID b (cache, made) = Inr (c1, m1)"
    and rest: "for_each (expand_step L fails db userID) bs (c1, m1) = Inr (cache', made')"
    by (auto simp: sbind_Inr_iff)
  from expand_step_Inr [OF step Cons.prems(2)] Cons.IH [OF rest] show ?case by auto
qed simp

lemma expandProjectBindings_Inr:
  "expandProjectBindings L fails db userID bs = Inr out \<Longrightarrow> out = bs @ concat (map (expansion L db userID) bs)"
  by (auto simp: expandProjectBindings_def sbind_Inr_iff cache_true_def dest: expand_loop)

lemma loadUserBindings_Inr:
  assumes "loadUserBindings L fails db userID = Inr bs" and "rl_uuidParse L userID = Some uid"
    and "fails ''GetUserByID'' \<or> \<not> is_superuser db uid"
  obtains direct where "\<forall>row \<in> set (ListUserBindingsWithRoles db uid).
        \<exists>rules. decodeRoleRules L (ub_RoleRules row) = Inr rules"
    and "direct = map (\<lambda>row. row_binding L userID row (projr (decodeRoleRules L (ub_RoleRules row))))
        (ListUserBindingsWithRoles db uid)"
    and "bs = direct @ concat (map (expansion L db userID) direct)"
proof -
  from assms obtain direct where
    d: "for_each (load_row L userID) (ListUserBindingsWithRoles db uid) [] = Inr direct"
    and e: "expandProjectBindings L fails db userID direct = Inr bs"
    by (auto simp: loadUserBindings_def sbind_Inr_iff split: if_splits)
  from load_rows [OF d] expandProjectBindings_Inr [OF e] show ?thesis by (intro that [of direct]) auto
qed

text \<open>A row of the union, taken apart.\<close>

lemma set_join_roles:
  "row \<in> set (join_roles scope cl pr nm roles bindings uid) \<longleftrightarrow>
     (\<exists>b \<in> set bindings. \<exists>r \<in> set roles. bi_UserID b = Some uid \<and> ro_ID r = bi_RoleID b
       \<and> row = \<lparr>ub_Scope = scope, ub_BindingID = bi_ID b, ub_Group = bi_Group b, ub_RoleID = bi_RoleID b,
          ub_ClusterID = cl b, ub_ProjectID = pr b, ub_Namespace = nm b,
          ub_RoleName = ro_Name r, ub_RoleRules = ro_Rules r\<rparr>)"
  by (auto simp: join_roles_def)

text \<open>Where the bindings made from one row apply.\<close>

definition row_reaches :: "RbacDb \<Rightarrow> UserBindingRow \<Rightarrow> uuid \<Rightarrow> uuid \<Rightarrow> string \<Rightarrow> bool" where
  "row_reaches db row c p ns \<longleftrightarrow>
     (if ub_Scope row = ''cluster''
      then ub_ClusterID row = Some c \<and> (ub_Namespace row = [] \<or> ub_Namespace row = ns)
      else if ub_Scope row = ''project''
      then ub_ProjectID row = Some p \<or> (\<exists>pid. ub_ProjectID row = Some pid \<and> owns_namespace db pid c ns)
      else True)"

lemma row_binding_grants: "bindingGrants (row_binding L userID row rules) r v \<longleftrightarrow> list_ex (\<lambda>rule. matchRule rule r v) rules"
  by (simp add: row_binding_def bindingGrants_def Let_def)

lemma row_bindings_apply:
  assumes L: "uuid_lib_ok L"
    and shape: "ub_Scope row = ''cluster'' \<Longrightarrow> ub_ClusterID row \<noteq> None"
      "ub_Scope row = ''project'' \<Longrightarrow> ub_ProjectID row \<noteq> None"
    and b_def: "b = row_binding L userID row rules"
  shows "(\<exists>b' \<in> set (b # expansion L db userID b). bindingApplies L b' c p ns \<and> bindingGrants b' r v) \<longleftrightarrow>
    row_reaches db row c p ns \<and> list_ex (\<lambda>rule. matchRule rule r v) rules"
proof -
  note ids = uuid_lib_okD [OF L] uuid_lib_okD(2) [OF L, symmetric]
  consider (cluster) cid where "ub_Scope row = ''cluster''" "ub_ClusterID row = Some cid"
    | (project) pid where "ub_Scope row = ''project''" "ub_ProjectID row = Some pid"
    | (other) "ub_Scope row \<noteq> ''cluster''" "ub_Scope row \<noteq> ''project''"
    using shape by fastforce
  then show ?thesis
  proof cases
    case cluster
    then show ?thesis
      by (auto simp: b_def row_binding_def expansion_def row_reaches_def bindingApplies_iff [OF L]
          bindingGrants_def Let_def ids)
  next
    case project
    have "bindingApplies L b c p ns \<longleftrightarrow> pid = p" and "bindingGrants b r v \<longleftrightarrow> list_ex (\<lambda>rule. matchRule rule r v) rules"
      using project by (auto simp: b_def row_binding_def bindingApplies_iff [OF L] bindingGrants_def Let_def ids)
    moreover have "(\<exists>b' \<in> set (expansion L db userID b). bindingApplies L b' c p ns \<and> bindingGrants b' r v) \<longleftrightarrow>
        owns_namespace db pid c ns \<and> list_ex (\<lambda>rule. matchRule rule r v) rules"
      using project
      by (auto simp: b_def row_binding_def expansion_def project_namespaces_def synthetic_binding_def
          ListProjectNamespaces_def bindingApplies_iff [OF L] bindingGrants_def Let_def ids owns_namespace_def)
    ultimately show ?thesis using project by (auto simp: row_reaches_def)
  next
    case other
    then show ?thesis
      by (auto simp: b_def row_binding_def expansion_def row_reaches_def bindingApplies_iff [OF L]
          bindingGrants_def Let_def)
  qed
qed

lemma rows_shape:
  assumes "row \<in> set (ListUserBindingsWithRoles db uid)"
  shows "ub_Scope row = ''cluster'' \<Longrightarrow> ub_ClusterID row \<noteq> None"
    "ub_Scope row = ''project'' \<Longrightarrow> ub_ProjectID row \<noteq> None"
  using assms by (auto simp: ListUserBindingsWithRoles_def set_join_roles)

lemma bex_join_roles:
  "(\<exists>row \<in> set (join_roles scope cl pr nm roles bindings uid). P row) \<longleftrightarrow>
     (\<exists>b \<in> set bindings. bi_UserID b = Some uid \<and> (\<exists>r \<in> set roles. ro_ID r = bi_RoleID b
       \<and> P \<lparr>ub_Scope = scope, ub_BindingID = bi_ID b, ub_Group = bi_Group b, ub_RoleID = bi_RoleID b,
          ub_ClusterID = cl b, ub_ProjectID = pr b, ub_Namespace = nm b,
          ub_RoleName = ro_Name r, ub_RoleRules = ro_Rules r\<rparr>))"
  unfolding Bex_def set_join_roles by blast

lemma rows_mean:
  "(\<exists>row \<in> set (ListUserBindingsWithRoles db uid). row_reaches db row c p ns \<and>
      (\<exists>rules. decodeRoleRules L (ub_RoleRules row) = Inr rules \<and> list_ex (\<lambda>rule. matchRule rule r v) rules))
   \<longleftrightarrow> bound_may L db uid r v c p ns"
  unfolding ListUserBindingsWithRoles_def set_append bex_Un bex_join_roles bound_may_def role_allows_ex
  by (simp add: row_reaches_def Bex_def) blast

lemma direct_not_superuser: "\<not> rb_IsSuperuser (row_binding L userID row rules)"
  by (simp add: row_binding_def Let_def)

lemma expansion_not_superuser: "b' \<in> set (expansion L db userID b) \<Longrightarrow> \<not> rb_IsSuperuser b'"
  by (auto simp: expansion_def synthetic_binding_def split: if_splits)

text \<open>The engine on loaded bindings decides exactly what the tables mean.\<close>

lemma CheckPermission_loaded:
  assumes L: "uuid_lib_ok L" and load: "loadUserBindings L fails db userID = Inr bs"
    and uid: "rl_uuidParse L userID = Some uid"
  shows "CheckPermission L bs r v c p ns \<longleftrightarrow>
    \<not> fails ''GetUserByID'' \<and> is_superuser db uid \<or> bound_may L db uid r v c p ns"
proof (cases "\<not> fails ''GetUserByID'' \<and> is_superuser db uid")
  case True
  with load uid have "bs = [superuser_binding userID]" by (simp add: loadUserBindings_def)
  with True show ?thesis by (simp add: CheckPermission_def superuser_binding_def)
next
  case False
  let ?mk = "\<lambda>row. row_binding L userID row (projr (decodeRoleRules L (ub_RoleRules row)))"
  obtain direct where rows: "\<forall>row \<in> set (ListUserBindingsWithRoles db uid).
        \<exists>rules. decodeRoleRules L (ub_RoleRules row) = Inr rules"
    and direct: "direct = map ?mk (ListUserBindingsWithRoles db uid)"
    and bs: "bs = direct @ concat (map (expansion L db userID) direct)"
    using loadUserBindings_Inr [OF load uid] False by blast
  have "CheckPermission L bs r v c p ns \<longleftrightarrow> (\<exists>row \<in> set (ListUserBindingsWithRoles db uid).
      \<exists>b' \<in> set (?mk row # expansion L db userID (?mk row)). bindingApplies L b' c p ns \<and> bindingGrants b' r v)"
    unfolding CheckPermission_iff bs direct
    by (auto dest: expansion_not_superuser simp: direct_not_superuser) 
  also have "\<dots> \<longleftrightarrow> (\<exists>row \<in> set (ListUserBindingsWithRoles db uid). row_reaches db row c p ns \<and>
      list_ex (\<lambda>rule. matchRule rule r v) (projr (decodeRoleRules L (ub_RoleRules row))))"
    by (intro bex_cong refl row_bindings_apply [OF L]) (auto dest: rows_shape)
  also have "\<dots> \<longleftrightarrow> bound_may L db uid r v c p ns"
    unfolding rows_mean [symmetric] using rows by (intro bex_cong refl) force
  finally show ?thesis using False by blast
qed

section \<open>No caller grants more than the caller holds\<close>

definition may :: "rbac_lib \<Rightarrow> RbacDb \<Rightarrow> uuid \<Rightarrow> Resource \<Rightarrow> Verb \<Rightarrow> uuid \<Rightarrow> uuid \<Rightarrow> string \<Rightarrow> bool" where
  "may L db uid r v c p ns \<longleftrightarrow> is_superuser db uid \<or> bound_may L db uid r v c p ns"

lemma for_each_unit_Inr: "for_each (\<lambda>x _. f x) xs () = Inr u \<Longrightarrow> x \<in> set xs \<Longrightarrow> f x = Inr ()"
  by (induction xs) (auto simp: sbind_Inr_iff)

lemma matchRule_wider:
  "matchRule rule res v' \<Longrightarrow> res = ''*'' \<or> res = r \<Longrightarrow> v' = ''*'' \<or> v' = v \<Longrightarrow> matchRule rule r v"
  by (auto simp: matchRule_def list_ex_iff split: if_splits)

text \<open>A caller who passes the charge for a rule may do everything the rule allows.\<close>

lemma charge_rule_covers:
  assumes "charge_rule L bs c p ns rule = Inr ()" and "matchRule rule r v"
  shows "CheckPermission L bs r v c p ns"
proof -
  from assms(2) obtain v' where rule: "\<not> IsCRDGrant rule" "ru_Resource rule = ''*'' \<or> ru_Resource rule = r"
      and v': "v' \<in> set (ru_Verbs rule)" "v' = ''*'' \<or> v' = v"
    by (auto simp: matchRule_def list_ex_iff split: if_splits)
  have "CheckPermission L bs (ru_Resource rule) v' c p ns"
    using for_each_unit_Inr [OF _ v'(1), of "\<lambda>verb. reject_if
        (\<not> CheckPermission L bs (ru_Resource rule) verb c p ns) forbidden"] assms(1) rule(1)
    by (simp add: charge_rule_def reject_if_def split: if_splits)
  then show ?thesis
    using matchRule_wider [OF _ rule(2) v'(2)] unfolding CheckPermission_iff bindingGrants_def list_ex_iff by blast
qed

lemma loadUserBindings_user: "loadUserBindings L fails db caller = Inr bs \<Longrightarrow> \<exists>k. rl_uuidParse L caller = Some k"
  by (auto simp: loadUserBindings_def split: option.splits)

definition covers_rules :: "rbac_lib \<Rightarrow> RbacDb \<Rightarrow> uuid \<Rightarrow> string \<Rightarrow> uuid \<Rightarrow> uuid \<Rightarrow> string \<Rightarrow> bool" where
  "covers_rules L db k raw c p ns \<longleftrightarrow> (\<forall>rules r v. decodeRoleRules L raw = Inr rules \<longrightarrow>
     list_ex (\<lambda>rule. matchRule rule r v) rules \<longrightarrow> may L db k r v c p ns)"

lemma enforceNoEscalation_covers:
  assumes L: "uuid_lib_ok L"
    and "enforceNoEscalation L (Some caller) (loadUserBindings L fails db caller) raw c p ns = Inr ()"
  shows "\<exists>k. rl_uuidParse L caller = Some k \<and> covers_rules L db k raw c p ns"
proof -
  from assms(2) obtain rules bs where rules: "decodeRoleRules L raw = Inr rules"
    and bs: "loadUserBindings L fails db caller = Inr bs"
    and all: "for_each (\<lambda>rule _. charge_rule L bs c p ns rule) rules () = Inr ()"
    by (auto simp: enforceNoEscalation_def split: sum.splits)
  obtain k where k: "rl_uuidParse L caller = Some k" using loadUserBindings_user [OF bs] by blast
  have "may L db k r v c p ns" if "list_ex (\<lambda>rule. matchRule rule r v) rules" for r v
  proof -
    from that obtain rule where "rule \<in> set rules" "matchRule rule r v" by (auto simp: list_ex_iff)
    then have "CheckPermission L bs r v c p ns"
      using charge_rule_covers [OF for_each_unit_Inr [OF all]] by blast
    then show ?thesis using CheckPermission_loaded [OF L bs k] by (auto simp: may_def)
  qed
  with rules k show ?thesis by (auto simp: covers_rules_def)
qed

text \<open>What is held at a scope is held below it.\<close>

lemma may_everywhere: "rbac_db_ok db \<Longrightarrow> may L db k r v uuid_nil uuid_nil [] \<Longrightarrow> may L db k r v c p ns"
  by (auto simp: may_def bound_may_def rbac_db_ok_def list_all_iff owns_namespace_def)

lemma may_in_cluster:
  "rbac_db_ok db \<Longrightarrow> may L db k r v c uuid_nil n \<Longrightarrow> n = [] \<or> n = ns \<Longrightarrow> may L db k r v c p ns"
  by (auto simp: may_def bound_may_def rbac_db_ok_def list_all_iff owns_namespace_def)

lemma may_in_project:
  "rbac_db_ok db \<Longrightarrow> may L db k r v uuid_nil q [] \<Longrightarrow> q = p \<or> owns_namespace db q c ns \<Longrightarrow> may L db k r v c p ns"
  by (auto simp: may_def bound_may_def rbac_db_ok_def list_all_iff) (auto simp: owns_namespace_def)

lemma find_role_Inr: "find_role fails name roles i = Inr role \<Longrightarrow> role \<in> set roles \<and> ro_ID role = i"
  by (auto simp: find_role_def find_Some_iff split: if_splits option.splits)

lemma role_allows_role:
  "distinct (map ro_ID roles) \<Longrightarrow> role \<in> set roles \<Longrightarrow> role_allows L roles (ro_ID role) r v \<longleftrightarrow>
     (\<exists>rules. decodeRoleRules L (ro_Rules role) = Inr rules \<and> list_ex (\<lambda>rule. matchRule rule r v) rules)"
  unfolding role_allows_ex distinct_map by (auto dest: inj_onD)

lemma executeMutation_Inr: "executeMutation fails q status code db1 = Inr db' \<Longrightarrow> db' = db1"
  by (auto simp: executeMutation_def split: if_splits)

text \<open>What each grant adds to the tables, and what its guard has established.\<close>

lemma CreateGlobalRoleBinding_Inr:
  assumes L: "uuid_lib_ok L" and ok: "rbac_db_ok db"
    and "CreateGlobalRoleBinding L fails i (Some caller) (loadUserBindings L fails db caller) req db = Inr (db', told)"
  obtains k b where "rl_uuidParse L caller = Some k" "db' = db\<lparr>rd_GlobalBindings := rd_GlobalBindings db @ [b]\<rparr>"
    "\<And>r v. role_allows L (rd_GlobalRoles db) (bi_RoleID b) r v \<Longrightarrow> may L db k r v uuid_nil uuid_nil []"
proof -
  from assms(3) obtain role roleID userID where
    "find_role fails ''GetGlobalRoleByID'' (rd_GlobalRoles db) roleID = Inr role"
    and enf: "enforceNoEscalation L (Some caller) (loadUserBindings L fails db caller) (ro_Rules role) uuid_nil uuid_nil [] = Inr ()"
    and db': "db' = db\<lparr>rd_GlobalBindings := rd_GlobalBindings db @
       [\<lparr>bi_ID = i, bi_UserID = userID, bi_Group = gq_Group req, bi_RoleID = roleID\<rparr>]\<rparr>"
    by (auto simp: CreateGlobalRoleBinding_def guardGlobalBinding_def sbind_Inr_iff dest!: executeMutation_Inr)
  moreover obtain k where "rl_uuidParse L caller = Some k" "covers_rules L db k (ro_Rules role) uuid_nil uuid_nil []"
    using enforceNoEscalation_covers [OF L enf] by blast
  ultimately show ?thesis
    using ok by (intro that [OF _ db']) (auto simp: rbac_db_ok_def role_allows_role covers_rules_def dest!: find_role_Inr)
qed

lemma CreateClusterRoleBinding_Inr:
  assumes L: "uuid_lib_ok L" and ok: "rbac_db_ok db"
    and "CreateClusterRoleBinding L fails i (Some caller) (loadUserBindings L fails db caller) req db = Inr (db', told)"
  obtains k b where "rl_uuidParse L caller = Some k" "db' = db\<lparr>rd_ClusterBindings := rd_ClusterBindings db @ [b]\<rparr>"
    "\<And>r v. role_allows L (rd_ClusterRoles db) (bi_RoleID b) r v \<Longrightarrow> may L db k r v (bi_ClusterID b) uuid_nil (bi_Namespace b)"
proof -
  from assms(3) obtain role roleID userID clusterID where
    "find_role fails ''GetClusterRoleByID'' (rd_ClusterRoles db) roleID = Inr role"
    and enf: "enforceNoEscalation L (Some caller) (loadUserBindings L fails db caller) (ro_Rules role)
        clusterID uuid_nil (gq_Namespace req) = Inr ()"
    and db': "db' = db\<lparr>rd_ClusterBindings := rd_ClusterBindings db @
       [\<lparr>bi_ID = i, bi_UserID = userID, bi_Group = gq_Group req, bi_RoleID = roleID,
            bi_ClusterID = clusterID, bi_Namespace = gq_Namespace req\<rparr>]\<rparr>"
    by (auto simp: CreateClusterRoleBinding_def guardClusterBinding_def sbind_Inr_iff dest!: executeMutation_Inr)
  moreover obtain k where "rl_uuidParse L caller = Some k"
      "covers_rules L db k (ro_Rules role) clusterID uuid_nil (gq_Namespace req)"
    using enforceNoEscalation_covers [OF L enf] by blast
  ultimately show ?thesis
    using ok by (intro that [OF _ db']) (auto simp: rbac_db_ok_def role_allows_role covers_rules_def dest!: find_role_Inr)
qed

lemma CreateProjectRoleBinding_Inr:
  assumes L: "uuid_lib_ok L" and ok: "rbac_db_ok db"
    and "CreateProjectRoleBinding L fails i (Some caller) (loadUserBindings L fails db caller) req db = Inr (db', told)"
  obtains k b where "rl_uuidParse L caller = Some k" "db' = db\<lparr>rd_ProjectBindings := rd_ProjectBindings db @ [b]\<rparr>"
    "\<And>r v. role_allows L (rd_ProjectRoles db) (bi_RoleID b) r v \<Longrightarrow> may L db k r v uuid_nil (bi_ProjectID b) []"
proof -
  from assms(3) obtain role roleID userID projectID where
    "find_role fails ''GetProjectRoleByID'' (rd_ProjectRoles db) roleID = Inr role"
    and enf: "enforceNoEscalation L (Some caller) (loadUserBindings L fails db caller) (ro_Rules role)
        uuid_nil projectID [] = Inr ()"
    and db': "db' = db\<lparr>rd_ProjectBindings := rd_ProjectBindings db @
       [\<lparr>bi_ID = i, bi_UserID = userID, bi_Group = gq_Group req, bi_RoleID = roleID,
            bi_ProjectID = projectID\<rparr>]\<rparr>"
    by (auto simp: CreateProjectRoleBinding_def guardProjectBinding_def sbind_Inr_iff dest!: executeMutation_Inr)
  moreover obtain k where "rl_uuidParse L caller = Some k"
      "covers_rules L db k (ro_Rules role) uuid_nil projectID []"
    using enforceNoEscalation_covers [OF L enf] by blast
  ultimately show ?thesis
    using ok by (intro that [OF _ db']) (auto simp: rbac_db_ok_def role_allows_role covers_rules_def dest!: find_role_Inr)
qed

lemma role_allows_update:
  "role_allows L (update_role i req pm rules roles) rid r v \<Longrightarrow>
     role_allows L roles rid r v
   \<or> (\<exists>rs. decodeRoleRules L rules = Inr rs \<and> list_ex (\<lambda>rule. matchRule rule r v) rs)"
  by (auto simp: role_allows_ex update_role_def split: if_splits)

lemma role_ids_update: "map ro_ID (update_role i req pm rules roles) = map ro_ID roles"
  by (simp add: update_role_def)

lemma guardRoleRules_covers:
  assumes "uuid_lib_ok L" "rbac_db_ok db"
    and "guardRoleRules L fails lookup (Some caller) (loadUserBindings L fails db caller) roles i rules = Inr ()"
  shows "\<exists>k. rl_uuidParse L caller = Some k \<and> (\<forall>rs r v c p ns. decodeRoleRules L rules = Inr rs \<longrightarrow>
     list_ex (\<lambda>rule. matchRule rule r v) rs \<longrightarrow> may L db k r v c p ns)"
  using assms(3) enforceNoEscalation_covers [OF assms(1), of caller fails db rules uuid_nil uuid_nil "[]"]
    may_everywhere [OF assms(2)]
  unfolding guardRoleRules_def covers_rules_def by (auto simp: sbind_Inr_iff)

text \<open>The changes, by what they do to the tables.\<close>

definition table_change :: "rbac_lib \<Rightarrow> string \<Rightarrow> RbacDb \<Rightarrow> RbacDb \<Rightarrow> bool" where
  "table_change L caller db db' \<longleftrightarrow>
     rd_Users db' = rd_Users db \<and> rd_ProjectNamespaces db' = rd_ProjectNamespaces db \<and>
     (\<forall>u r v c p ns. bound_may L db' u r v c p ns \<longrightarrow> bound_may L db u r v c p ns
       \<or> (\<exists>k. rl_uuidParse L caller = Some k \<and> may L db k r v c p ns))"

lemma table_changeI:
  assumes "rd_Users db' = rd_Users db" "rd_ProjectNamespaces db' = rd_ProjectNamespaces db"
    and "\<And>u r v c p ns. bound_may L db' u r v c p ns \<Longrightarrow> bound_may L db u r v c p ns
       \<or> (\<exists>k. rl_uuidParse L caller = Some k \<and> may L db k r v c p ns)"
  shows "table_change L caller db db'"
  using assms unfolding table_change_def by blast

lemma owns_namespace_cong:
  "rd_ProjectNamespaces db' = rd_ProjectNamespaces db \<Longrightarrow> owns_namespace db' = owns_namespace db"
  by (simp add: owns_namespace_def fun_eq_iff)

lemma create_global_change:
  assumes "uuid_lib_ok L" "rbac_db_ok db"
    and "CreateGlobalRoleBinding L fails i (Some caller) (loadUserBindings L fails db caller) req db = Inr (db', told)"
  shows "table_change L caller db db'"
proof (rule CreateGlobalRoleBinding_Inr [OF assms])
  fix k b
  assume k: "rl_uuidParse L caller = Some k" and db': "db' = db\<lparr>rd_GlobalBindings := rd_GlobalBindings db @ [b]\<rparr>"
    and held: "\<And>r v. role_allows L (rd_GlobalRoles db) (bi_RoleID b) r v \<Longrightarrow> may L db k r v uuid_nil uuid_nil []"
  show ?thesis
    unfolding db' using k may_everywhere [OF assms(2) held]
    by (intro table_changeI) (auto simp: bound_may_def owns_namespace_def)
qed

lemma create_cluster_change:
  assumes "uuid_lib_ok L" "rbac_db_ok db"
    and "CreateClusterRoleBinding L fails i (Some caller) (loadUserBindings L fails db caller) req db = Inr (db', told)"
  shows "table_change L caller db db'"
proof (rule CreateClusterRoleBinding_Inr [OF assms])
  fix k b
  assume k: "rl_uuidParse L caller = Some k" and db': "db' = db\<lparr>rd_ClusterBindings := rd_ClusterBindings db @ [b]\<rparr>"
    and held: "\<And>r v. role_allows L (rd_ClusterRoles db) (bi_RoleID b) r v \<Longrightarrow>
      may L db k r v (bi_ClusterID b) uuid_nil (bi_Namespace b)"
  show ?thesis
    unfolding db' using k may_in_cluster [OF assms(2) held]
    by (intro table_changeI) (auto simp: bound_may_def owns_namespace_def)
qed

lemma create_project_change:
  assumes "uuid_lib_ok L" "rbac_db_ok db"
    and "CreateProjectRoleBinding L fails i (Some caller) (loadUserBindings L fails db caller) req db = Inr (db', told)"
  shows "table_change L caller db db'"
proof (rule CreateProjectRoleBinding_Inr [OF assms])
  fix k b
  assume k: "rl_uuidParse L caller = Some k" and db': "db' = db\<lparr>rd_ProjectBindings := rd_ProjectBindings db @ [b]\<rparr>"
    and held: "\<And>r v. role_allows L (rd_ProjectRoles db) (bi_RoleID b) r v \<Longrightarrow> may L db k r v uuid_nil (bi_ProjectID b) []"
  have "owns_namespace (db\<lparr>rd_ProjectBindings := rd_ProjectBindings db @ [b]\<rparr>) = owns_namespace db"
    by (rule owns_namespace_cong) simp
  then show ?thesis
    unfolding db' using k may_in_project [OF assms(2) held]
    by (intro table_changeI) (auto simp: bound_may_def)
qed

lemma update_global_change:
  assumes "uuid_lib_ok L" "rbac_db_ok db"
    and "UpdateGlobalRole L fails (Some caller) (loadUserBindings L fails db caller) param req db = Inr (db', told)"
  shows "table_change L caller db db' \<and> rbac_db_ok db'"
proof -
  from assms(3) obtain i pm rules where
    g: "guardRoleRules L fails ''GetGlobalRoleByID'' (Some caller) (loadUserBindings L fails db caller)
        (rd_GlobalRoles db) i rules = Inr ()"
    and db': "db' = db\<lparr>rd_GlobalRoles := update_role i req pm rules (rd_GlobalRoles db)\<rparr>"
    by (auto simp: UpdateGlobalRole_def sbind_Inr_iff dest!: executeMutation_Inr)
  from guardRoleRules_covers [OF assms(1,2) g] obtain k where k: "rl_uuidParse L caller = Some k"
    "\<And>rs r v c p ns. decodeRoleRules L rules = Inr rs \<Longrightarrow> list_ex (\<lambda>rule. matchRule rule r v) rs \<Longrightarrow> may L db k r v c p ns"
    by blast
  have "table_change L caller db db'"
    unfolding db' using k by (intro table_changeI) (auto simp: bound_may_def owns_namespace_def dest!: role_allows_update)
  moreover have "rbac_db_ok db'"
    using assms(2) unfolding db' rbac_db_ok_def by (simp add: role_ids_update flip: set_map)
  ultimately show ?thesis by blast
qed

lemma update_cluster_change:
  assumes "uuid_lib_ok L" "rbac_db_ok db"
    and "UpdateClusterRole L fails (Some caller) (loadUserBindings L fails db caller) param req db = Inr (db', told)"
  shows "table_change L caller db db' \<and> rbac_db_ok db'"
proof -
  from assms(3) obtain i pm rules where
    g: "guardRoleRules L fails ''GetClusterRoleByID'' (Some caller) (loadUserBindings L fails db caller)
        (rd_ClusterRoles db) i rules = Inr ()"
    and db': "db' = db\<lparr>rd_ClusterRoles := update_role i req pm rules (rd_ClusterRoles db)\<rparr>"
    by (auto simp: UpdateClusterRole_def sbind_Inr_iff dest!: executeMutation_Inr)
  from guardRoleRules_covers [OF assms(1,2) g] obtain k where k: "rl_uuidParse L caller = Some k"
    "\<And>rs r v c p ns. decodeRoleRules L rules = Inr rs \<Longrightarrow> list_ex (\<lambda>rule. matchRule rule r v) rs \<Longrightarrow> may L db k r v c p ns"
    by blast
  have "table_change L caller db db'"
    unfolding db' using k by (intro table_changeI) (auto simp: bound_may_def owns_namespace_def dest!: role_allows_update)
  moreover have "rbac_db_ok db'"
    using assms(2) unfolding db' rbac_db_ok_def by (simp add: role_ids_update flip: set_map)
  ultimately show ?thesis by blast
qed

lemma update_project_change:
  assumes "uuid_lib_ok L" "rbac_db_ok db"
    and "UpdateProjectRole L fails (Some caller) (loadUserBindings L fails db caller) param req db = Inr (db', told)"
  shows "table_change L caller db db' \<and> rbac_db_ok db'"
proof -
  from assms(3) obtain i pm rules where
    g: "guardRoleRules L fails ''GetProjectRoleByID'' (Some caller) (loadUserBindings L fails db caller)
        (rd_ProjectRoles db) i rules = Inr ()"
    and db': "db' = db\<lparr>rd_ProjectRoles := update_role i req pm rules (rd_ProjectRoles db)\<rparr>"
    by (auto simp: UpdateProjectRole_def sbind_Inr_iff dest!: executeMutation_Inr)
  from guardRoleRules_covers [OF assms(1,2) g] obtain k where k: "rl_uuidParse L caller = Some k"
    "\<And>rs r v c p ns. decodeRoleRules L rules = Inr rs \<Longrightarrow> list_ex (\<lambda>rule. matchRule rule r v) rs \<Longrightarrow> may L db k r v c p ns"
    by blast
  have "table_change L caller db db'"
    unfolding db' using k by (intro table_changeI) (auto simp: bound_may_def owns_namespace_def dest!: role_allows_update)
  moreover have "rbac_db_ok db'"
    using assms(2) unfolding db' rbac_db_ok_def by (simp add: role_ids_update flip: set_map)
  ultimately show ?thesis by blast
qed

text \<open>A new role reaches no one, because every binding names a role that was there before.\<close>

lemma role_allows_new:
  "distinct (map ro_ID (roles @ [new])) \<Longrightarrow> rid \<in> set (map ro_ID roles) \<Longrightarrow>
     role_allows L (roles @ [new]) rid r v \<longleftrightarrow> role_allows L roles rid r v"
  by (auto simp: role_allows_ex)

lemma create_role_changes:
  assumes "rbac_db_ok db" "rbac_db_ok db'"
  shows "CreateGlobalRole L fails i req db = Inr db' \<Longrightarrow> table_change L caller db db'"
    and "CreateClusterRole L fails i req db = Inr db' \<Longrightarrow> table_change L caller db db'"
    and "CreateProjectRole L fails i req db = Inr db' \<Longrightarrow> table_change L caller db db'"
  using assms
  by (auto simp: CreateGlobalRole_def CreateClusterRole_def CreateProjectRole_def sbind_Inr_iff rbac_db_ok_def
      list_all_iff bound_may_def owns_namespace_def role_allows_new simp del: set_map
      intro!: table_changeI dest!: executeMutation_Inr)

lemma role_allows_filter: "role_allows L (filter P roles) rid r v \<Longrightarrow> role_allows L roles rid r v"
  by (auto simp: role_allows_ex)

lemma removal_change:
  assumes same: "rd_Users db' = rd_Users db" "rd_ProjectNamespaces db' = rd_ProjectNamespaces db"
    and sub: "set (rd_GlobalBindings db') \<subseteq> set (rd_GlobalBindings db)"
      "set (rd_ClusterBindings db') \<subseteq> set (rd_ClusterBindings db)"
      "set (rd_ProjectBindings db') \<subseteq> set (rd_ProjectBindings db)"
    and roles: "\<And>rid r v. role_allows L (rd_GlobalRoles db') rid r v \<Longrightarrow> role_allows L (rd_GlobalRoles db) rid r v"
      "\<And>rid r v. role_allows L (rd_ClusterRoles db') rid r v \<Longrightarrow> role_allows L (rd_ClusterRoles db) rid r v"
      "\<And>rid r v. role_allows L (rd_ProjectRoles db') rid r v \<Longrightarrow> role_allows L (rd_ProjectRoles db) rid r v"
  shows "table_change L caller db db'"
  using sub roles unfolding bound_may_def owns_namespace_cong [OF same(2)]
  by (intro table_changeI same disjI1) (unfold bound_may_def owns_namespace_cong [OF same(2)], blast)

lemma delete_global_binding_change:
  assumes ok: "rbac_db_ok db" and "DeleteGlobalRoleBinding L fails param db = Inr (db', told)"
  shows "table_change L caller db db' \<and> rbac_db_ok db'"
proof -
  from assms(2) obtain i where
    db': "db' = db\<lparr>rd_GlobalBindings := filter (\<lambda>b. bi_ID b \<noteq> i) (rd_GlobalBindings db)\<rparr>"
    by (auto simp: DeleteGlobalRoleBinding_def Let_def sbind_Inr_iff dest!: executeMutation_Inr)
  have "table_change L caller db db'" unfolding db' by (rule removal_change) auto
  moreover have "rbac_db_ok db'" using ok unfolding db' by (auto simp: rbac_db_ok_def list_all_iff)
  ultimately show ?thesis by blast
qed

lemma delete_cluster_binding_change:
  assumes ok: "rbac_db_ok db" and "DeleteClusterRoleBinding L fails param db = Inr (db', told)"
  shows "table_change L caller db db' \<and> rbac_db_ok db'"
proof -
  from assms(2) obtain i where
    db': "db' = db\<lparr>rd_ClusterBindings := filter (\<lambda>b. bi_ID b \<noteq> i) (rd_ClusterBindings db)\<rparr>"
    by (auto simp: DeleteClusterRoleBinding_def Let_def sbind_Inr_iff dest!: executeMutation_Inr)
  have "table_change L caller db db'" unfolding db' by (rule removal_change) auto
  moreover have "rbac_db_ok db'" using ok unfolding db' by (auto simp: rbac_db_ok_def list_all_iff)
  ultimately show ?thesis by blast
qed

lemma delete_project_binding_change:
  assumes ok: "rbac_db_ok db" and "DeleteProjectRoleBinding L fails param db = Inr (db', told)"
  shows "table_change L caller db db' \<and> rbac_db_ok db'"
proof -
  from assms(2) obtain i where
    db': "db' = db\<lparr>rd_ProjectBindings := filter (\<lambda>b. bi_ID b \<noteq> i) (rd_ProjectBindings db)\<rparr>"
    by (auto simp: DeleteProjectRoleBinding_def Let_def sbind_Inr_iff dest!: executeMutation_Inr)
  have "table_change L caller db db'" unfolding db' by (rule removal_change) auto
  moreover have "rbac_db_ok db'" using ok unfolding db' by (auto simp: rbac_db_ok_def list_all_iff)
  ultimately show ?thesis by blast
qed

lemma delete_role_answer_Inr: "delete_role_answer x = Inr (db', told) \<longleftrightarrow> x = Inr db' \<and> told = InvalidateEveryone"
  by (auto simp: delete_role_answer_def split: sum.splits)

lemma delete_global_role_change:
  assumes ok: "rbac_db_ok db" and "DeleteGlobalRole L fails param db = Inr (db', told)"
  shows "table_change L caller db db' \<and> rbac_db_ok db'"
proof -
  from assms(2) obtain i where
    db': "db' = db\<lparr>rd_GlobalRoles := filter (\<lambda>r. ro_ID r \<noteq> i) (rd_GlobalRoles db),
       rd_GlobalBindings := filter (\<lambda>b. bi_RoleID b \<noteq> i) (rd_GlobalBindings db)\<rparr>"
    by (auto simp: DeleteGlobalRole_def delete_role_answer_Inr sbind_Inr_iff dest!: executeMutation_Inr)
  have "table_change L caller db db'"
    unfolding db' by (rule removal_change) (auto dest: role_allows_filter)
  moreover have "rbac_db_ok db'" using ok unfolding db' by (auto simp: rbac_db_ok_def list_all_iff distinct_map_filter)
  ultimately show ?thesis by blast
qed

lemma delete_cluster_role_change:
  assumes ok: "rbac_db_ok db" and "DeleteClusterRole L fails param db = Inr (db', told)"
  shows "table_change L caller db db' \<and> rbac_db_ok db'"
proof -
  from assms(2) obtain i where
    db': "db' = db\<lparr>rd_ClusterRoles := filter (\<lambda>r. ro_ID r \<noteq> i) (rd_ClusterRoles db),
       rd_ClusterBindings := filter (\<lambda>b. bi_RoleID b \<noteq> i) (rd_ClusterBindings db)\<rparr>"
    by (auto simp: DeleteClusterRole_def delete_role_answer_Inr sbind_Inr_iff dest!: executeMutation_Inr)
  have "table_change L caller db db'"
    unfolding db' by (rule removal_change) (auto dest: role_allows_filter)
  moreover have "rbac_db_ok db'" using ok unfolding db' by (auto simp: rbac_db_ok_def list_all_iff distinct_map_filter)
  ultimately show ?thesis by blast
qed

lemma delete_project_role_change:
  assumes ok: "rbac_db_ok db" and "DeleteProjectRole L fails param db = Inr (db', told)"
  shows "table_change L caller db db' \<and> rbac_db_ok db'"
proof -
  from assms(2) obtain i where
    db': "db' = db\<lparr>rd_ProjectRoles := filter (\<lambda>r. ro_ID r \<noteq> i) (rd_ProjectRoles db),
       rd_ProjectBindings := filter (\<lambda>b. bi_RoleID b \<noteq> i) (rd_ProjectBindings db)\<rparr>"
    by (auto simp: DeleteProjectRole_def delete_role_answer_Inr sbind_Inr_iff dest!: executeMutation_Inr)
  have "table_change L caller db db'"
    unfolding db' by (rule removal_change) (auto dest: role_allows_filter)
  moreover have "rbac_db_ok db'" using ok unfolding db' by (auto simp: rbac_db_ok_def list_all_iff distinct_map_filter)
  ultimately show ?thesis by blast
qed

lemma rbac_step_change:
  assumes step: "rbac_step L caller db db'" and L: "uuid_lib_ok L" and ok: "rbac_db_ok db"
  shows "table_change L caller db db' \<and> rbac_db_ok db'"
  using step
proof cases
  case create_global_binding then show ?thesis using create_global_change [OF L ok] by metis
next
  case create_cluster_binding then show ?thesis using create_cluster_change [OF L ok] by metis
next
  case create_project_binding then show ?thesis using create_project_change [OF L ok] by metis
next
  case create_global_role then show ?thesis using create_role_changes(1) [OF ok] by metis
next
  case create_cluster_role then show ?thesis using create_role_changes(2) [OF ok] by metis
next
  case create_project_role then show ?thesis using create_role_changes(3) [OF ok] by metis
next
  case update_global_role then show ?thesis by (rule update_global_change [OF L ok])
next
  case update_cluster_role then show ?thesis by (rule update_cluster_change [OF L ok])
next
  case update_project_role then show ?thesis by (rule update_project_change [OF L ok])
next
  case delete_global_binding then show ?thesis by (rule delete_global_binding_change [OF ok])
next
  case delete_cluster_binding then show ?thesis by (rule delete_cluster_binding_change [OF ok])
next
  case delete_project_binding then show ?thesis by (rule delete_project_binding_change [OF ok])
next
  case delete_global_role then show ?thesis by (rule delete_global_role_change [OF ok])
next
  case delete_cluster_role then show ?thesis by (rule delete_cluster_role_change [OF ok])
next
  case delete_project_role then show ?thesis by (rule delete_project_role_change [OF ok])
qed

lemma rbac_steps_no_gain:
  assumes "rbac_steps L db db'" "uuid_lib_ok L" "rbac_db_ok db"
  shows "rbac_db_ok db' \<and> rd_Users db' = rd_Users db
    \<and> (\<forall>u r v c p ns. may L db' u r v c p ns \<longrightarrow> (\<exists>w. may L db w r v c p ns))"
  using assms
proof (induction rule: rbac_steps.induct)
  case (more db db1 caller db2)
  then have "table_change L caller db1 db2 \<and> rbac_db_ok db2" using rbac_step_change by blast
  with more show ?case unfolding table_change_def may_def is_superuser_def by (metis (no_types, lifting))
qed auto

section \<open>Collections\<close>

text \<open>The shape of a loaded binding: everywhere, on a cluster, or on a project.\<close>

definition binding_scoped :: "rbac_lib \<Rightarrow> RoleBinding \<Rightarrow> bool" where
  "binding_scoped L b \<longleftrightarrow>
     rb_ClusterID b = [] \<and> rb_ProjectID b = [] \<and> rb_Namespace b = []
   \<or> (\<exists>c. c \<noteq> uuid_nil \<and> rb_ClusterID b = rl_uuidString L c \<and> rb_ProjectID b = [])
   \<or> (\<exists>p. p \<noteq> uuid_nil \<and> rb_ProjectID b = rl_uuidString L p \<and> rb_ClusterID b = [] \<and> rb_Namespace b = [])"

lemma rows_scoped:
  assumes "rbac_db_ok db" "row \<in> set (ListUserBindingsWithRoles db uid)"
  shows "ub_Scope row = ''global''
   \<or> ub_Scope row = ''cluster'' \<and> (\<exists>c. c \<noteq> uuid_nil \<and> ub_ClusterID row = Some c)
   \<or> ub_Scope row = ''project'' \<and> (\<exists>p. p \<noteq> uuid_nil \<and> ub_ProjectID row = Some p)"
  using assms unfolding ListUserBindingsWithRoles_def set_append Un_iff set_join_roles rbac_db_ok_def list_all_iff
  by (elim disjE) auto

lemma row_binding_scoped:
  assumes "rbac_db_ok db" "row \<in> set (ListUserBindingsWithRoles db uid)"
  shows "binding_scoped L (row_binding L userID row rules)"
  using rows_scoped [OF assms] by (auto simp: row_binding_def binding_scoped_def)

lemma expansion_scoped: "b' \<in> set (expansion L db userID b) \<Longrightarrow> binding_scoped L b'"
  by (auto simp: expansion_def synthetic_binding_def binding_scoped_def split: if_splits)

lemma loaded_scoped:
  assumes load: "loadUserBindings L fails db userID = Inr bs" and ok: "rbac_db_ok db" and b: "b \<in> set bs"
  shows "binding_scoped L b"
proof -
  obtain uid where uid: "rl_uuidParse L userID = Some uid" using loadUserBindings_user [OF load] by blast
  show ?thesis
  proof (cases "fails ''GetUserByID'' \<or> \<not> is_superuser db uid")
    case True
    obtain direct where direct: "direct = map (\<lambda>row. row_binding L userID row
        (projr (decodeRoleRules L (ub_RoleRules row)))) (ListUserBindingsWithRoles db uid)"
      and "bs = direct @ concat (map (expansion L db userID) direct)"
      using loadUserBindings_Inr [OF load uid True] by blast
    with b have "b \<in> set direct \<or> (\<exists>d. b \<in> set (expansion L db userID d))" by auto
    then show ?thesis using row_binding_scoped [OF ok] expansion_scoped unfolding direct by auto
  next
    case False
    with load uid b show ?thesis by (auto simp: loadUserBindings_def superuser_binding_def binding_scoped_def)
  qed
qed

lemma scoped_covers_cluster:
  assumes "uuid_lib_ok L" "binding_scoped L b"
  shows "bindingApplies L b c uuid_nil ns \<longleftrightarrow> covers_cluster L c b \<and> (rb_Namespace b = [] \<or> rb_Namespace b = ns)"
  using assms(2) uuid_lib_okD [OF assms(1)] uuid_lib_okD(2) [OF assms(1), symmetric]
  by (auto simp: binding_scoped_def covers_cluster_def bindingApplies_iff [OF assms(1)])

lemma scoped_on_cluster:
  assumes "uuid_lib_ok L" "binding_scoped L b"
  shows "covers_cluster L c b \<longleftrightarrow>
     rb_ClusterID b = [] \<and> rb_ProjectID b = [] \<and> rb_Namespace b = []
   \<or> rb_ClusterID b \<noteq> [] \<and> rl_uuidParse L (rb_ClusterID b) = Some c"
  using assms(2) uuid_lib_okD [OF assms(1)] uuid_lib_okD(2) [OF assms(1), symmetric]
  by (auto simp: binding_scoped_def covers_cluster_def)

lemma scoped_on_project:
  assumes "uuid_lib_ok L" "binding_scoped L b"
  shows "bindingApplies L b uuid_nil p [] \<longleftrightarrow>
     rb_ClusterID b = [] \<and> rb_ProjectID b = [] \<and> rb_Namespace b = []
   \<or> rb_ClusterID b = [] \<and> rb_ProjectID b \<noteq> [] \<and> rl_uuidParse L (rb_ProjectID b) = Some p"
  using assms(2) uuid_lib_okD [OF assms(1)] uuid_lib_okD(2) [OF assms(1), symmetric]
  by (auto simp: binding_scoped_def bindingApplies_iff [OF assms(1)])

section \<open>Native rules of bindings\<close>

lemma NativeRulesFromBindings_intro:
  assumes "b \<in> set bs" "\<not> rb_IsSuperuser b" "rule \<in> set (rb_RoleRules b)"
    and "nr \<in> set (binding_native_rules L b rule)"
  shows "nr \<in> set (NativeRulesFromBindings L bs)"
proof -
  have "nr \<in> set (if rb_IsSuperuser b then [] else concat (map (binding_native_rules L b) (rb_RoleRules b)))"
    using assms(2-4) by auto
  with assms(1) show ?thesis unfolding NativeRulesFromBindings_def set_concat set_map by blast
qed

lemma NativeAllow_intro:
  assumes "nr \<in> set rules" "\<not> isPrivilegeEscalationGroup L grp" "verb \<noteq> VerbExec" "verb \<noteq> VerbLogs"
    and "nr_ClusterID nr = []" "nr_Namespace nr = []" "nr_APIGroup nr = grp" "nr_Resource nr = res"
      "verbMatches (nr_Verbs nr) verb"
  shows "NativeAllow L rules c ns grp res verb"
  using assms by (auto simp: NativeAllow_def list_ex_iff)

section \<open>A concrete installation\<close>

text \<open>User 1 owns everything through a global role, user 2 reads pods in the namespace web of
  cluster 21 and in project 31, which owns the namespace shop of that cluster.\<close>

definition sample_role :: "uuid \<Rightarrow> string \<Rightarrow> RoleRow" where
  "sample_role i rules = \<lparr>ro_ID = i, ro_Name = rules, ro_DisplayName = [], ro_Description = [],
     ro_Permissions = ''{}'', ro_Rules = rules, ro_IsBuiltin = False\<rparr>"

definition sample_rbac_db :: RbacDb where
  "sample_rbac_db =
     \<lparr>rd_Users = [(1, False), (2, False), (3, True)],
      rd_GlobalRoles = [sample_role 11 ''owner''],
      rd_ClusterRoles = [sample_role 12 ''reader''],
      rd_ProjectRoles = [sample_role 13 ''reader'', sample_role 14 ''issuer''],
      rd_GlobalBindings = [\<lparr>bi_ID = 101, bi_UserID = Some 1, bi_Group = [], bi_RoleID = 11\<rparr>],
      rd_ClusterBindings = [\<lparr>bi_ID = 102, bi_UserID = Some 2, bi_Group = [], bi_RoleID = 12,
        bi_ClusterID = 21, bi_Namespace = ''web''\<rparr>],
      rd_ProjectBindings = [\<lparr>bi_ID = 103, bi_UserID = Some 2, bi_Group = [], bi_RoleID = 13, bi_ProjectID = 31\<rparr>,
        \<lparr>bi_ID = 104, bi_UserID = Some 2, bi_Group = [], bi_RoleID = 14, bi_ProjectID = 31\<rparr>],
      rd_ProjectNamespaces = [\<lparr>pn_ProjectID = 31, pn_ClusterID = 21, pn_Namespace = ''shop''\<rparr>],
      rd_ProjectPlans = [], rd_UserPlans = []\<rparr>"

definition sample_bindings :: "RoleBinding list" where
  "sample_bindings = projr (loadUserBindings sample_rbac_lib (\<lambda>_. False) sample_rbac_db (uuid_text 2))"

text \<open>User 1 binds user 2 to the reader role on cluster 22.\<close>

definition sample_grant :: ClusterBindingRequest where
  "sample_grant = \<lparr>gq_UserID = uuid_text 2, gq_Group = [], gq_RoleID = uuid_text 12,
     gq_ClusterID = uuid_text 22, gq_Namespace = []\<rparr>"

definition sample_granted_db :: RbacDb where
  "sample_granted_db = fst (projr (CreateClusterRoleBinding sample_rbac_lib (\<lambda>_. False) 105 (Some (uuid_text 1))
     (loadUserBindings sample_rbac_lib (\<lambda>_. False) sample_rbac_db (uuid_text 1)) sample_grant sample_rbac_db))"

definition sample_granted_bindings :: "RoleBinding list" where
  "sample_granted_bindings = projr (loadUserBindings sample_rbac_lib (\<lambda>_. False) sample_granted_db (uuid_text 2))"

lemma sample_rbac_db_ok: "rbac_db_ok sample_rbac_db"
  by code_simp

lemma sample_bindings_loaded:
  "loadUserBindings sample_rbac_lib (\<lambda>_. False) sample_rbac_db (uuid_text 2) = Inr sample_bindings"
  by code_simp

lemma sample_user: "rl_uuidParse sample_rbac_lib (uuid_text u) = Some u"
  using uuid_lib_okD(1) [OF sample_rbac_lib_ok] by (simp add: sample_rbac_lib_def)

lemma sample_grant_accepted: "rbac_step sample_rbac_lib (uuid_text 1) sample_rbac_db sample_granted_db"
proof (rule rbac_step.create_cluster_binding)
  show "CreateClusterRoleBinding sample_rbac_lib (\<lambda>_. False) 105 (Some (uuid_text 1))
     (loadUserBindings sample_rbac_lib (\<lambda>_. False) sample_rbac_db (uuid_text 1)) sample_grant sample_rbac_db
     = Inr (sample_granted_db, InvalidateUser (uuid_text 2))"
    by code_simp
  show "rbac_db_ok sample_granted_db" by code_simp
qed

lemma sample_granted_bindings_loaded:
  "loadUserBindings sample_rbac_lib (\<lambda>_. False) sample_granted_db (uuid_text 2) = Inr sample_granted_bindings"
  by code_simp

section \<open>Properties of the authorization of users\<close>

text \<open>C11. When the bindings of a user load, the engine decides on them exactly what the tables mean:
  a request for a verb on a resource at a cluster, project and namespace passes if and only if the
  user is a superuser, or is bound globally, on that cluster (and, for a namespaced binding, on that
  namespace), or on that project or a project owning that namespace, to a role with a matching rule.
  The loader reads each project once and expands project bindings through a cache; the statement says
  that neither adds or loses a permission.\<close>

theorem permissions_follow_tables:
  assumes "uuid_lib_ok L" and "loadUserBindings L fails db userID = Inr bs" and "rl_uuidParse L userID = Some uid"
  shows "CheckPermission L bs r v c p ns \<longleftrightarrow>
    \<not> fails ''GetUserByID'' \<and> is_superuser db uid \<or> bound_may L db uid r v c p ns"
  by (rule CheckPermission_loaded [OF assms])

theorem permissions_follow_tables_witness:
  "CheckPermission sample_rbac_lib sample_bindings ResourcePods VerbRead 21 uuid_nil ''shop''
   \<and> \<not> CheckPermission sample_rbac_lib sample_bindings ResourcePods VerbRead 21 uuid_nil ''other''"
proof -
  have "bound_may sample_rbac_lib sample_rbac_db 2 ResourcePods VerbRead 21 uuid_nil ''shop''"
    and "\<not> bound_may sample_rbac_lib sample_rbac_db 2 ResourcePods VerbRead 21 uuid_nil ''other''"
    and "\<not> is_superuser sample_rbac_db 2"
    by code_simp+
  then show ?thesis
    unfolding permissions_follow_tables [OF sample_rbac_lib_ok sample_bindings_loaded sample_user] by blast
qed





text \<open>C12. Collections show what single requests would allow.  For a user's loaded bindings the
  namespaces listed for a cluster are those in which a request passes; the clusters listed with
  namespaced bindings excluded are those on which a request without a namespace passes, and with them
  widened those on which a request passes in some namespace; the projects listed are those on which a
  request passes.\<close>

theorem collections_match_requests:
  assumes L: "uuid_lib_ok L" and ok: "rbac_db_ok db" and load: "loadUserBindings L fails db userID = Inr bs"
  shows "(ns \<noteq> [] \<longrightarrow> (fst (AuthorizedNamespaces L bs r v c) \<or> ns |\<in>| snd (AuthorizedNamespaces L bs r v c))
        = CheckPermission L bs r v c uuid_nil ns)
    \<and> fst (AuthorizedNamespaces L bs r v c) = CheckPermission L bs r v c uuid_nil []
    \<and> (fst (AuthorizedScopeIDs L bs r v NarrowedClustersExcluded)
        \<or> c |\<in>| fst (snd (AuthorizedScopeIDs L bs r v NarrowedClustersExcluded)))
        = CheckPermission L bs r v c uuid_nil []
    \<and> (fst (AuthorizedScopeIDs L bs r v NarrowedClustersWiden)
        \<or> c |\<in>| fst (snd (AuthorizedScopeIDs L bs r v NarrowedClustersWiden)))
        = (\<exists>n. CheckPermission L bs r v c uuid_nil n)
    \<and> (fst (AuthorizedScopeIDs L bs r v narrowed) \<or> p |\<in>| snd (snd (AuthorizedScopeIDs L bs r v narrowed)))
        = CheckPermission L bs r v uuid_nil p []"
proof (cases "list_ex rb_IsSuperuser bs")
  case True
  then show ?thesis by (simp add: AuthorizedNamespaces_def AuthorizedScopeIDs_def CheckPermission_def)
next
  case False
  let ?names = "authorized_names L r v c bs {||}"
  let ?scopes = "\<lambda>n. authorized_scopes L r v n bs {||} {||}"
  note scoped = loaded_scoped [OF load ok]
  have on_cluster: "CheckPermission L bs r v c uuid_nil n \<longleftrightarrow> (\<exists>b \<in> set bs. bindingGrants b r v
      \<and> covers_cluster L c b \<and> (rb_Namespace b = [] \<or> rb_Namespace b = n))" for n
    using False scoped_covers_cluster [OF L scoped] by (auto simp: CheckPermission_iff list_ex_iff)
  have on_project: "CheckPermission L bs r v uuid_nil p [] \<longleftrightarrow> (\<exists>b \<in> set bs. bindingGrants b r v
      \<and> (rb_ClusterID b = [] \<and> rb_ProjectID b = [] \<and> rb_Namespace b = []
       \<or> rb_ClusterID b = [] \<and> rb_ProjectID b \<noteq> [] \<and> rl_uuidParse L (rb_ProjectID b) = Some p))"
    using False scoped_on_project [OF L scoped] by (auto simp: CheckPermission_iff list_ex_iff)
  have covers: "covers_cluster L c b \<longleftrightarrow> rb_ClusterID b = [] \<and> rb_ProjectID b = [] \<and> rb_Namespace b = []
      \<or> rb_ClusterID b \<noteq> [] \<and> rl_uuidParse L (rb_ClusterID b) = Some c" if "b \<in> set bs" for b
    by (rule scoped_on_cluster [OF L scoped [OF that]])
  have names: "(fst ?names \<or> ns |\<in>| snd ?names) = CheckPermission L bs r v c uuid_nil ns"
    unfolding on_cluster using authorized_names_all [of L r v c bs "{||}"] authorized_names_some [of L r v c bs "{||}" ns]
    by auto
  have every: "fst ?names = CheckPermission L bs r v c uuid_nil []"
    unfolding on_cluster authorized_names_all by auto
  have clusters: "(fst (?scopes n) \<or> c |\<in>| fst (snd (?scopes n))) = (\<exists>b \<in> set bs. bindingGrants b r v
      \<and> covers_cluster L c b \<and> (rb_Namespace b = [] \<or> n = NarrowedClustersWiden))" for n
    using authorized_scopes_all [of L r v n bs "{||}" "{||}"] authorized_scopes_clusters [of L r v n bs "{||}" "{||}" c]
      covers by auto
  have projects: "(fst (?scopes n) \<or> p |\<in>| snd (snd (?scopes n))) = CheckPermission L bs r v uuid_nil p []" for n
    unfolding on_project
    using authorized_scopes_all [of L r v n bs "{||}" "{||}"] authorized_scopes_projects [of L r v n bs "{||}" "{||}" p]
    by auto
  show ?thesis
    using False names every clusters projects
    by (auto simp: AuthorizedNamespaces_def AuthorizedScopeIDs_def on_cluster)
qed

theorem collections_match_requests_witness:
  "(fst (AuthorizedNamespaces sample_rbac_lib sample_bindings ResourcePods VerbRead 21)
     \<or> ''shop'' |\<in>| snd (AuthorizedNamespaces sample_rbac_lib sample_bindings ResourcePods VerbRead 21))
   = CheckPermission sample_rbac_lib sample_bindings ResourcePods VerbRead 21 uuid_nil ''shop''
   \<and> AuthorizedNamespaces sample_rbac_lib sample_bindings ResourcePods VerbRead 21 = (False, {|''shop'', ''web''|})"
proof -
  have "AuthorizedNamespaces sample_rbac_lib sample_bindings ResourcePods VerbRead 21 = (False, {|''shop'', ''web''|})"
    by code_simp
  then show ?thesis
    using collections_match_requests [OF sample_rbac_lib_ok sample_rbac_db_ok sample_bindings_loaded,
        of "''shop''" ResourcePods VerbRead 21] by simp
qed

text \<open>C14. A native rule on a project role is not confined to the project.  A user bound on a project to a
  role with a native rule passes the native check for its group, resource and verbs on every cluster
  and in every namespace, because the binding carries neither and an empty scope matches anything.\<close>

theorem project_native_rule_unconfined:
  assumes "uuid_lib_ok L" and "loadUserBindings L fails db userID = Inr bs" and "rl_uuidParse L userID = Some uid"
    and "\<not> is_superuser db uid"
    and "b \<in> set (rd_ProjectBindings db)" "bi_UserID b = Some uid"
    and "role \<in> set (rd_ProjectRoles db)" "ro_ID role = bi_RoleID b"
    and "decodeRoleRules L (ro_Rules role) = Inr rules" "rule \<in> set rules" "IsCRDGrant rule"
    and "grp \<in> set (CRDAPIGroups rule)" "\<not> isPrivilegeEscalationGroup L grp"
    and "res \<in> set (ResourceNames rule)" "res \<noteq> []"
    and "v \<in> set (NormalizeNativeVerbs L (ru_Verbs rule))" "v \<noteq> VerbExec" "v \<noteq> VerbLogs"
  shows "NativeAllow L (NativeRulesFromBindings L bs) anyCluster anyNamespace grp res v"
proof -
  let ?mk = "\<lambda>row. row_binding L userID row (projr (decodeRoleRules L (ub_RoleRules row)))"
  define row where "row = \<lparr>ub_Scope = ''project'', ub_BindingID = bi_ID b, ub_Group = bi_Group b,
      ub_RoleID = bi_RoleID b, ub_ClusterID = None, ub_ProjectID = Some (bi_ProjectID b), ub_Namespace = [],
      ub_RoleName = ro_Name role, ub_RoleRules = ro_Rules role\<rparr>"
  define nr where "nr = \<lparr>nr_ClusterID = [], nr_Namespace = [], nr_APIGroup = grp, nr_Resource = res,
      nr_Verbs = NormalizeNativeVerbs L (ru_Verbs rule)\<rparr>"
  have "row \<in> set (ListUserBindingsWithRoles db uid)"
    using assms(5-8) by (auto simp: ListUserBindingsWithRoles_def set_join_roles row_def)
  moreover obtain direct where "direct = map ?mk (ListUserBindingsWithRoles db uid)"
    and "bs = direct @ concat (map (expansion L db userID) direct)"
    using loadUserBindings_Inr [OF assms(2,3)] assms(4) by blast
  ultimately have "?mk row \<in> set bs" by simp
  moreover have "?mk row = row_binding L userID row rules" using assms(9) by (simp add: row_def)
  ultimately have bound: "row_binding L userID row rules \<in> set bs" by simp
  have "NormalizeNativeVerbs L (ru_Verbs rule) \<noteq> []" using assms(16) by auto
  then have "nr \<in> set (binding_native_rules L (row_binding L userID row rules) rule)"
    using assms(11,12,14,15) unfolding binding_native_rules_def
    by (simp add: row_binding_def row_def nr_def Let_def) blast
  moreover have "rb_RoleRules (row_binding L userID row rules) = rules" by (simp add: row_binding_def Let_def)
  ultimately have "nr \<in> set (NativeRulesFromBindings L bs)"
    using NativeRulesFromBindings_intro [OF bound direct_not_superuser] assms(10) by simp
  then show ?thesis
    by (rule NativeAllow_intro) (use assms(13,16-18) in \<open>auto simp: nr_def verbMatches_def list_ex_iff\<close>)
qed

theorem project_native_rule_unconfined_witness:
  "NativeAllow sample_rbac_lib (NativeRulesFromBindings sample_rbac_lib sample_bindings)
     (uuid_text 99) ''kube-system'' ''cert-manager.io'' ''certificates'' VerbRead"
  by (rule project_native_rule_unconfined [OF sample_rbac_lib_ok sample_bindings_loaded sample_user,
      where b = "rd_ProjectBindings sample_rbac_db ! 1" and role = "sample_role 14 ''issuer''"
        and rules = "the (rl_rules sample_rbac_lib ''issuer'')"
        and rule = "hd (the (rl_rules sample_rbac_lib ''issuer''))"]) code_simp+

text \<open>A deletion of a role that is rolled back because its audit record cannot be stored is answered
  as not found, while the role is still there.\<close>

theorem rolled_back_delete_answers_not_found:
  assumes "rl_uuidParse L param = Some i" and "find (\<lambda>r. ro_ID r = i) (rd_GlobalRoles db) = Some role"
    and "\<not> ro_IsBuiltin role" and "fails = (\<lambda>q. q = ''UpsertAuditOutbox'')"
  shows "DeleteGlobalRole L fails param db = Inl (HttpErr 404 ''not_found'')
    \<and> DeleteGlobalRole L (\<lambda>_. False) param db \<noteq> Inl (HttpErr 404 ''not_found'')"
  using assms by (simp add: DeleteGlobalRole_def parse_id_def find_role_def rejectBuiltinRoleWrite_def
      reject_if_def executeMutation_def delete_role_answer_def)

end
