(* ===== verification/Rbac_Cache.thy ===== *)
theory Rbac_Cache
  imports Rbac_Grants
begin

text \<open>
  The cache of bindings in front of the database: \<open>RBACCache\<close> of
  \<open>internal/server/middleware/rbac_cache.go\<close>, and \<open>GetUserBindings\<close> of
  \<open>rbac_queries.go\<close>, which answers from the cache or shares one load among concurrent requests.

  The cache is modelled with every field that decides what it returns.  An entry is named by its user,
  under which both the map and the list of recent use hold it; its identity, which the source compares
  as a pointer, is a number.  \<open>healthy\<close> says that there is no coordinator or that it is healthy.
  What runs without the lock is a step of its own, so the system of the last part has the
  interleavings of requests, shared loads, commits and invalidations.  A load reads the database in
  one step.  The broadcast of an invalidation to other servers is not modelled.
\<close>

section \<open>The cache\<close>

record CacheEntry =
  ce_id :: nat
  ce_bindings :: "RoleBinding list"
  ce_expiresAt :: gotime
  ce_lastBump :: int

record RBACCache =
  rc_generation :: "64 word"
  rc_ttl :: duration
  rc_capacity :: int
  rc_maxBindings :: int
  rc_bindingCount :: int
  rc_bumpInterval :: duration
  rc_entries :: "(string, CacheEntry) gomap"
  rc_lru :: "string list"
  rc_nextID :: nat

definition NewRBACCacheWithOptions :: "duration \<Rightarrow> int \<Rightarrow> RBACCache" where
  "NewRBACCacheWithOptions ttl capacity =
     (let ttl = (if ttl \<le> 0 then 15 * 10 ^ 9 else ttl);
          capacity = (if capacity \<le> 0 then 5000 else capacity);
          bump = ttl div 8
      in \<lparr>rc_generation = 0, rc_ttl = ttl, rc_capacity = capacity, rc_maxBindings = 100000,
          rc_bindingCount = 0, rc_bumpInterval = (if bump \<le> 0 then ttl else bump),
          rc_entries = fmempty, rc_lru = [], rc_nextID = 0\<rparr>)"

definition removeLocked :: "string \<Rightarrow> RBACCache \<Rightarrow> RBACCache" where
  "removeLocked userID c =
     (let n = rc_bindingCount c - (case fmlookup (rc_entries c) userID of
          None \<Rightarrow> 0 | Some e \<Rightarrow> int (length (ce_bindings e)))
      in c\<lparr>rc_lru := filter (\<lambda>u. u \<noteq> userID) (rc_lru c),
           rc_bindingCount := (if n < 0 then 0 else n),
           rc_entries := fmdrop userID (rc_entries c)\<rparr>)"

definition over_bound :: "RBACCache \<Rightarrow> bool" where
  "over_bound c \<longleftrightarrow> int (length (rc_lru c)) > rc_capacity c
     \<or> rc_maxBindings c > 0 \<and> rc_bindingCount c > rc_maxBindings c \<and> length (rc_lru c) > 1"

function evictLocked :: "RBACCache \<Rightarrow> RBACCache" where
  "evictLocked c =
     (if over_bound c
      then if rc_lru c = [] then c else evictLocked (removeLocked (last (rc_lru c)) c)
      else c)"
  by pat_completeness auto

termination evictLocked
proof (relation "measure (\<lambda>c. length (rc_lru c))")
  fix c :: RBACCache
  assume "\<not> rc_lru c = []"
  then have "length (filter (\<lambda>u. u \<noteq> last (rc_lru c)) (rc_lru c)) < length (rc_lru c)"
    by (intro length_filter_less [of "last (rc_lru c)"]) auto
  then show "(removeLocked (last (rc_lru c)) c, c) \<in> measure (\<lambda>c. length (rc_lru c))"
    by (simp add: removeLocked_def Let_def)
qed simp

declare evictLocked.simps [simp del]

definition RBACCache_Put ::
    "bool \<Rightarrow> gotime \<Rightarrow> string \<Rightarrow> RoleBinding list \<Rightarrow> 64 word option \<Rightarrow> RBACCache \<Rightarrow> RBACCache" where
  "RBACCache_Put healthy now userID bindings expectedGeneration c =
     (if userID = [] then c
      else if (case expectedGeneration of None \<Rightarrow> False | Some g \<Rightarrow> rc_generation c \<noteq> g) then c
      else if \<not> healthy then c
      else case fmlookup (rc_entries c) userID of
          Some existing \<Rightarrow> evictLocked
            (c\<lparr>rc_bindingCount := rc_bindingCount c + (int (length bindings) - int (length (ce_bindings existing))),
               rc_entries := fmupd userID (existing\<lparr>ce_bindings := bindings, ce_expiresAt := now + rc_ttl c,
                 ce_lastBump := now\<rparr>) (rc_entries c),
               rc_lru := userID # filter (\<lambda>u. u \<noteq> userID) (rc_lru c)\<rparr>)
        | None \<Rightarrow> evictLocked
            (c\<lparr>rc_lru := userID # rc_lru c,
               rc_entries := fmupd userID \<lparr>ce_id = rc_nextID c, ce_bindings = bindings,
                 ce_expiresAt = now + rc_ttl c, ce_lastBump = now\<rparr> (rc_entries c),
               rc_bindingCount := rc_bindingCount c + int (length bindings),
               rc_nextID := Suc (rc_nextID c)\<rparr>))"

text \<open>A lookup has a part under the read lock and, for an expired entry or a due touch, a part under
  the write lock, which acts only if the entry is still the same.\<close>

datatype CacheRead = ReadMiss | ReadExpired nat | ReadHit nat int "RoleBinding list"

definition cache_read :: "bool \<Rightarrow> gotime \<Rightarrow> string \<Rightarrow> RBACCache \<Rightarrow> CacheRead" where
  "cache_read healthy now userID c =
     (if userID = [] then ReadMiss
      else if \<not> healthy then ReadMiss
      else case fmlookup (rc_entries c) userID of
          None \<Rightarrow> ReadMiss
        | Some entry \<Rightarrow>
            if after now (ce_expiresAt entry) then ReadExpired (ce_id entry)
            else ReadHit (ce_id entry) (ce_lastBump entry) (ce_bindings entry))"

definition cache_expire :: "string \<Rightarrow> nat \<Rightarrow> RBACCache \<Rightarrow> RBACCache" where
  "cache_expire userID i c =
     (case fmlookup (rc_entries c) userID of
        None \<Rightarrow> c
      | Some cur \<Rightarrow> if ce_id cur = i then removeLocked userID c else c)"

definition cache_touch :: "gotime \<Rightarrow> string \<Rightarrow> nat \<Rightarrow> int \<Rightarrow> RBACCache \<Rightarrow> RBACCache" where
  "cache_touch now userID i last_bump c =
     (if now - last_bump \<ge> rc_bumpInterval c
      then case fmlookup (rc_entries c) userID of
          None \<Rightarrow> c
        | Some cur \<Rightarrow>
            if ce_id cur = i \<and> ce_lastBump cur = last_bump
            then c\<lparr>rc_entries := fmupd userID (cur\<lparr>ce_lastBump := now\<rparr>) (rc_entries c),
                   rc_lru := userID # filter (\<lambda>u. u \<noteq> userID) (rc_lru c)\<rparr>
            else c
      else c)"

definition RBACCache_Get :: "bool \<Rightarrow> gotime \<Rightarrow> string \<Rightarrow> RBACCache \<Rightarrow> RoleBinding list option \<times> RBACCache" where
  "RBACCache_Get healthy now userID c =
     (case cache_read healthy now userID c of
        ReadMiss \<Rightarrow> (None, c)
      | ReadExpired i \<Rightarrow> (None, cache_expire userID i c)
      | ReadHit i last_bump bindings \<Rightarrow> (Some bindings, cache_touch now userID i last_bump c))"

definition InvalidateRBACUserLocal :: "string \<Rightarrow> RBACCache \<Rightarrow> RBACCache" where
  "InvalidateRBACUserLocal userID c =
     (if userID = [] then c
      else let c = c\<lparr>rc_generation := rc_generation c + 1\<rparr> in
        case fmlookup (rc_entries c) userID of None \<Rightarrow> c | Some _ \<Rightarrow> removeLocked userID c)"

definition InvalidateRBACAllLocal :: "RBACCache \<Rightarrow> RBACCache" where
  "InvalidateRBACAllLocal c =
     c\<lparr>rc_generation := rc_generation c + 1, rc_entries := fmempty, rc_lru := [], rc_bindingCount := 0\<rparr>"

definition SetInvalidationCoordinator :: "RBACCache \<Rightarrow> RBACCache" where
  "SetInvalidationCoordinator c = c\<lparr>rc_entries := fmempty, rc_lru := [], rc_bindingCount := 0\<rparr>"

text \<open>What a handler does to the cache after its commit.\<close>

definition apply_invalidation :: "Invalidation \<Rightarrow> RBACCache \<Rightarrow> RBACCache" where
  "apply_invalidation told c =
     (case told of
        InvalidateUser userID \<Rightarrow> InvalidateRBACUserLocal userID c
      | InvalidateEveryone \<Rightarrow> InvalidateRBACAllLocal c)"

section \<open>The bounds of the cache\<close>

text \<open>The map and the list hold the same users, the running count is the number of bindings held,
  and both bounds hold: at most \<open>capacity\<close> users, and at most \<open>maxBindings\<close> bindings
  unless a single user alone has more.\<close>

definition entry_weight :: "(string, CacheEntry) gomap \<Rightarrow> string \<Rightarrow> int" where
  "entry_weight m u = (case fmlookup m u of None \<Rightarrow> 0 | Some e \<Rightarrow> int (length (ce_bindings e)))"

definition held_bindings :: "RBACCache \<Rightarrow> int" where
  "held_bindings c = sum_list (map (entry_weight (rc_entries c)) (rc_lru c))"

definition cache_agrees :: "RBACCache \<Rightarrow> bool" where
  "cache_agrees c \<longleftrightarrow> distinct (rc_lru c) \<and> set (rc_lru c) = fmdom' (rc_entries c)
     \<and> rc_bindingCount c = held_bindings c"

definition cache_bounded :: "RBACCache \<Rightarrow> bool" where
  "cache_bounded c \<longleftrightarrow> cache_agrees c \<and> \<not> over_bound c \<and> 0 \<le> rc_capacity c"

lemma entry_weight_simps:
  "entry_weight (fmupd u e m) v = (if u = v then int (length (ce_bindings e)) else entry_weight m v)"
  "u \<noteq> v \<Longrightarrow> entry_weight (fmdrop u m) v = entry_weight m v"
  "0 \<le> entry_weight m v"
  by (simp_all add: entry_weight_def split: option.split)

lemma sum_weights_nonneg: "0 \<le> sum_list (map (entry_weight m) us)"
  by (induction us) (simp_all add: entry_weight_simps)

lemma weights_without:
  assumes "distinct us" "u \<in> set us"
  shows "sum_list (map (entry_weight m) (filter (\<lambda>x. x \<noteq> u) us)) = sum_list (map (entry_weight m) us) - entry_weight m u"
  using assms
proof (induction us)
  case (Cons v us)
  show ?case
  proof (cases "v = u")
    case True
    with Cons.prems have "filter (\<lambda>x. x \<noteq> u) us = us" by (auto simp: filter_id_conv)
    with True show ?thesis by simp
  qed (use Cons in auto)
qed simp

lemma weights_cong:
  "u \<notin> set us \<Longrightarrow> sum_list (map (entry_weight (fmupd u e m)) us) = sum_list (map (entry_weight m) us)"
  "u \<notin> set us \<Longrightarrow> sum_list (map (entry_weight (fmdrop u m)) us) = sum_list (map (entry_weight m) us)"
  by (induction us) (auto simp: entry_weight_simps)

lemma removeLocked_agrees:
  assumes "cache_agrees c" "u \<in> set (rc_lru c)"
  shows "cache_agrees (removeLocked u c)"
proof -
  let ?us = "filter (\<lambda>v. v \<noteq> u) (rc_lru c)"
  have "sum_list (map (entry_weight (fmdrop u (rc_entries c))) ?us) = rc_bindingCount c - entry_weight (rc_entries c) u"
    using weights_without [of "rc_lru c" u "rc_entries c"] assms weights_cong(2) [of u ?us "rc_entries c"]
    by (simp add: cache_agrees_def held_bindings_def)
  moreover have "0 \<le> sum_list (map (entry_weight (fmdrop u (rc_entries c))) ?us)" by (rule sum_weights_nonneg)
  ultimately show ?thesis
    using assms by (auto simp: cache_agrees_def removeLocked_def held_bindings_def Let_def entry_weight_def)
qed

lemma removeLocked_fields [simp]:
  "rc_generation (removeLocked u c) = rc_generation c" "rc_capacity (removeLocked u c) = rc_capacity c"
  "rc_maxBindings (removeLocked u c) = rc_maxBindings c"
  "rc_entries (removeLocked u c) = fmdrop u (rc_entries c)"
  by (simp_all add: removeLocked_def Let_def)

lemma evictLocked_bounded:
  assumes "cache_agrees c" "0 \<le> rc_capacity c"
  shows "cache_bounded (evictLocked c)"
  using assms
proof (induction c rule: evictLocked.induct)
  case (1 c)
  show ?case
  proof (cases "over_bound c \<and> rc_lru c \<noteq> []")
    case True
    with 1 have "cache_agrees (removeLocked (last (rc_lru c)) c)" by (intro removeLocked_agrees) auto
    with 1 True show ?thesis by (subst evictLocked.simps) simp
  next
    case False
    have "\<not> over_bound c" if "rc_lru c = []" using that 1 by (simp add: over_bound_def)
    with 1 False show ?thesis by (subst evictLocked.simps) (auto simp: cache_bounded_def)
  qed
qed

lemma evictLocked_entries:
  "fmlookup (rc_entries (evictLocked c)) u = Some e \<Longrightarrow> fmlookup (rc_entries c) u = Some e"
proof (induction c rule: evictLocked.induct)
  case (1 c)
  show ?case
  proof (cases "over_bound c \<and> rc_lru c \<noteq> []")
    case True
    with 1 have "fmlookup (rc_entries (removeLocked (last (rc_lru c)) c)) u = Some e"
      by (metis evictLocked.simps)
    then show ?thesis by (simp split: if_splits)
  next
    case False
    with "1.prems" show ?thesis by (subst (asm) evictLocked.simps) (auto split: if_splits)
  qed
qed

lemma evictLocked_generation [simp]: "rc_generation (evictLocked c) = rc_generation c"
proof (induction c rule: evictLocked.induct)
  case (1 c)
  then show ?case by (subst evictLocked.simps) simp
qed

lemma moved_agrees:
  assumes "cache_agrees c" "fmlookup (rc_entries c) u = Some cur"
  shows "cache_agrees (c\<lparr>rc_bindingCount := rc_bindingCount c + (int (length (ce_bindings e)) - int (length (ce_bindings cur))),
    rc_entries := fmupd u e (rc_entries c), rc_lru := u # filter (\<lambda>v. v \<noteq> u) (rc_lru c)\<rparr>)"
proof -
  let ?us = "filter (\<lambda>v. v \<noteq> u) (rc_lru c)"
  have mem: "u \<in> set (rc_lru c)" using assms by (auto simp: cache_agrees_def fmlookup_dom'_iff)
  then have "sum_list (map (entry_weight (fmupd u e (rc_entries c))) (u # ?us))
      = rc_bindingCount c + (int (length (ce_bindings e)) - int (length (ce_bindings cur)))"
    using weights_without [of "rc_lru c" u "rc_entries c"] assms weights_cong(1) [of u ?us e "rc_entries c"]
    by (simp add: cache_agrees_def held_bindings_def entry_weight_simps entry_weight_def [of _ u])
  then show ?thesis using assms mem by (auto simp: cache_agrees_def held_bindings_def)
qed

lemma added_agrees:
  assumes "cache_agrees c" "fmlookup (rc_entries c) u = None"
  shows "cache_agrees (c\<lparr>rc_lru := u # rc_lru c, rc_entries := fmupd u e (rc_entries c),
    rc_bindingCount := rc_bindingCount c + int (length (ce_bindings e)), rc_nextID := n\<rparr>)"
proof -
  have "u \<notin> set (rc_lru c)" using assms by (auto simp: cache_agrees_def fmlookup_dom'_iff)
  then show ?thesis
    using assms weights_cong(1) [of u "rc_lru c" e "rc_entries c"]
    by (simp add: cache_agrees_def held_bindings_def entry_weight_simps)
qed

lemma Put_bounded:
  assumes "cache_bounded c"
  shows "cache_bounded (RBACCache_Put healthy now u bs g c)"
proof (cases "fmlookup (rc_entries c) u")
  case None
  with assms show ?thesis
    using evictLocked_bounded [OF added_agrees [OF _ None, where e = "\<lparr>ce_id = rc_nextID c, ce_bindings = bs,
        ce_expiresAt = now + rc_ttl c, ce_lastBump = now\<rparr>" and n = "Suc (rc_nextID c)"]]
    by (simp add: RBACCache_Put_def cache_bounded_def)
next
  case (Some cur)
  with assms show ?thesis
    using evictLocked_bounded [OF moved_agrees [OF _ Some, where e = "cur\<lparr>ce_bindings := bs,
        ce_expiresAt := now + rc_ttl c, ce_lastBump := now\<rparr>"]]
    by (simp add: RBACCache_Put_def cache_bounded_def)
qed

lemma removeLocked_bounded:
  assumes "cache_bounded c" "fmlookup (rc_entries c) u = Some e"
  shows "cache_bounded (removeLocked u c)"
proof -
  have mem: "u \<in> set (rc_lru c)" using assms by (auto simp: cache_bounded_def cache_agrees_def fmlookup_dom'_iff)
  have "length (rc_lru (removeLocked u c)) \<le> length (rc_lru c)" by (simp add: removeLocked_def Let_def)
  moreover have "rc_bindingCount (removeLocked u c) \<le> rc_bindingCount c"
    using sum_weights_nonneg [of "rc_entries c" "rc_lru c"] assms
    by (auto simp: removeLocked_def Let_def cache_bounded_def cache_agrees_def held_bindings_def)
  ultimately show ?thesis
    using assms removeLocked_agrees [OF _ mem] by (auto simp: cache_bounded_def over_bound_def)
qed

lemma expire_bounded: "cache_bounded c \<Longrightarrow> cache_bounded (cache_expire u i c)"
  using removeLocked_bounded by (auto simp: cache_expire_def split: option.split)

lemma touch_bounded:
  assumes "cache_bounded c"
  shows "cache_bounded (cache_touch now u i t c)"
proof (cases "fmlookup (rc_entries c) u")
  case (Some cur)
  then have mem: "u \<in> set (rc_lru c)" using assms by (auto simp: cache_bounded_def cache_agrees_def fmlookup_dom'_iff)
  have len: "length (u # filter (\<lambda>v. v \<noteq> u) (rc_lru c)) \<le> length (rc_lru c)"
    using length_filter_less [OF mem, of "\<lambda>v. v \<noteq> u"] by simp
  then have "filter (\<lambda>v. v \<noteq> u) (rc_lru c) = []" if "\<not> Suc 0 < length (rc_lru c)"
    using that by (simp flip: length_0_conv)
  with len show ?thesis
    using moved_agrees [OF _ Some, where e = "cur\<lparr>ce_lastBump := now\<rparr>"] assms Some
    by (auto simp: cache_touch_def cache_bounded_def over_bound_def)
qed (use assms in \<open>simp add: cache_touch_def\<close>)

lemma Invalidate_bounded: "cache_bounded c \<Longrightarrow> cache_bounded (apply_invalidation told c)"
proof (cases told)
  case (InvalidateUser u)
  assume ok: "cache_bounded c"
  then have "cache_bounded (c\<lparr>rc_generation := rc_generation c + 1\<rparr>)"
    by (simp add: cache_bounded_def cache_agrees_def held_bindings_def over_bound_def)
  with ok InvalidateUser show ?thesis
    using removeLocked_bounded [of "c\<lparr>rc_generation := rc_generation c + 1\<rparr>" u]
    by (auto simp: apply_invalidation_def InvalidateRBACUserLocal_def Let_def split: option.split)
qed (auto simp: apply_invalidation_def InvalidateRBACAllLocal_def cache_bounded_def cache_agrees_def
    held_bindings_def over_bound_def)

section \<open>Changes and their announcement\<close>

text \<open>Whom an announcement reaches, and when it reaches everyone whose bindings a change affects.  The
  cache is keyed by the text of the user's UUID.\<close>

definition told_covers :: "Invalidation \<Rightarrow> string \<Rightarrow> bool" where
  "told_covers told userID =
     (case told of InvalidateUser u \<Rightarrow> u = userID \<and> userID \<noteq> [] | InvalidateEveryone \<Rightarrow> True)"

definition announces :: "rbac_lib \<Rightarrow> RbacDb \<Rightarrow> RbacDb \<Rightarrow> Invalidation \<Rightarrow> bool" where
  "announces L db db' told \<longleftrightarrow> (\<forall>uid fails. told_covers told (rl_uuidString L uid)
     \<or> loadUserBindings L fails db' (rl_uuidString L uid) = loadUserBindings L fails db (rl_uuidString L uid))"

lemma expandProjectBindings_cong:
  assumes "rd_ProjectNamespaces db' = rd_ProjectNamespaces db"
  shows "expandProjectBindings L fails db' userID bs = expandProjectBindings L fails db userID bs"
proof -
  have "ListProjectNamespaces db' = ListProjectNamespaces db" using assms by (simp add: ListProjectNamespaces_def fun_eq_iff)
  then have "expand_step L fails db' userID = expand_step L fails db userID"
    by (intro ext) (simp only: expand_step_def)
  then show ?thesis by (simp add: expandProjectBindings_def)
qed

lemma load_cong:
  assumes "uuid_lib_ok L" "rd_Users db' = rd_Users db" "rd_ProjectNamespaces db' = rd_ProjectNamespaces db"
    and "ListUserBindingsWithRoles db' uid = ListUserBindingsWithRoles db uid"
  shows "loadUserBindings L fails db' (rl_uuidString L uid) = loadUserBindings L fails db (rl_uuidString L uid)"
proof -
  have "expandProjectBindings L fails db' u = expandProjectBindings L fails db u" for u
    by (intro ext expandProjectBindings_cong [OF assms(3)])
  with assms uuid_lib_okD(1) [OF assms(1)] show ?thesis by (simp add: loadUserBindings_def is_superuser_def)
qed

text \<open>The rows of a user do not change with a binding of another user, or with a role no binding names.\<close>

lemma join_roles_append:
  "join_roles s cl pr nm roles (bs @ [b]) uid =
     join_roles s cl pr nm roles bs uid @ (if bi_UserID b = Some uid then join_roles s cl pr nm roles [b] uid else [])"
  by (simp add: join_roles_def)

lemma join_roles_without:
  assumes "\<And>b. b \<in> set bs \<Longrightarrow> bi_UserID b = Some uid \<Longrightarrow> P b"
  shows "join_roles s cl pr nm roles (filter P bs) uid = join_roles s cl pr nm roles bs uid"
proof -
  have "filter (\<lambda>b. bi_UserID b = Some uid) (filter P bs) = filter (\<lambda>b. bi_UserID b = Some uid) bs"
    using assms by (simp add: filter_filter cong: filter_cong) (auto intro: filter_cong)
  then show ?thesis by (simp only: join_roles_def)
qed

lemma join_roles_new_role:
  assumes "ro_ID new \<notin> set (map ro_ID roles)" "\<And>b. b \<in> set bs \<Longrightarrow> bi_RoleID b \<in> set (map ro_ID roles)"
  shows "join_roles s cl pr nm (roles @ [new]) bs uid = join_roles s cl pr nm roles bs uid"
proof -
  have "filter (\<lambda>r. ro_ID r = bi_RoleID b) (roles @ [new]) = filter (\<lambda>r. ro_ID r = bi_RoleID b) roles"
    if "b \<in> set (filter (\<lambda>b. bi_UserID b = Some uid) bs)" for b
    using that assms(2) [of b] assms(1) by auto
  then show ?thesis unfolding join_roles_def by (intro arg_cong [where f = concat] map_cong refl) simp
qed

text \<open>A commit of a handler with its announcement.  The request of a creation names the user by the
  text under which the cache holds the user; the lookup before a deletion succeeds.  The creation of
  a role announces nothing.\<close>

inductive rbac_commit :: "rbac_lib \<Rightarrow> RbacDb \<Rightarrow> RbacDb \<Rightarrow> Invalidation \<Rightarrow> bool" for L where
  bind_global:
    "CreateGlobalRoleBinding L fails i user loaded req db = Inr (db', told) \<Longrightarrow> gq_UserID req = rl_uuidString L w \<Longrightarrow>
     rbac_commit L db db' told"
| bind_cluster:
    "CreateClusterRoleBinding L fails i user loaded creq db = Inr (db', told) \<Longrightarrow> gq_UserID creq = rl_uuidString L w \<Longrightarrow>
     rbac_commit L db db' told"
| bind_project:
    "CreateProjectRoleBinding L fails i user loaded preq db = Inr (db', told) \<Longrightarrow> gq_UserID preq = rl_uuidString L w \<Longrightarrow>
     rbac_commit L db db' told"
| unbind_global:
    "DeleteGlobalRoleBinding L fails param db = Inr (db', told) \<Longrightarrow> \<not> fails ''GetGlobalRoleBindingByID'' \<Longrightarrow>
     rbac_commit L db db' told"
| unbind_cluster:
    "DeleteClusterRoleBinding L fails param db = Inr (db', told) \<Longrightarrow> \<not> fails ''GetClusterRoleBindingByID'' \<Longrightarrow>
     rbac_commit L db db' told"
| unbind_project:
    "DeleteProjectRoleBinding L fails param db = Inr (db', told) \<Longrightarrow> \<not> fails ''GetProjectRoleBindingByID'' \<Longrightarrow>
     rbac_commit L db db' told"
| role_global:
    "CreateGlobalRole L fails i rreq db = Inr db' \<Longrightarrow> rbac_db_ok db' \<Longrightarrow> rbac_commit L db db' (InvalidateUser [])"
| role_cluster:
    "CreateClusterRole L fails i rreq db = Inr db' \<Longrightarrow> rbac_db_ok db' \<Longrightarrow> rbac_commit L db db' (InvalidateUser [])"
| role_project:
    "CreateProjectRole L fails i rreq db = Inr db' \<Longrightarrow> rbac_db_ok db' \<Longrightarrow> rbac_commit L db db' (InvalidateUser [])"
| change_global: "UpdateGlobalRole L fails user loaded param rreq db = Inr (db', told) \<Longrightarrow> rbac_commit L db db' told"
| change_cluster: "UpdateClusterRole L fails user loaded param rreq db = Inr (db', told) \<Longrightarrow> rbac_commit L db db' told"
| change_project: "UpdateProjectRole L fails user loaded param rreq db = Inr (db', told) \<Longrightarrow> rbac_commit L db db' told"
| drop_global: "DeleteGlobalRole L fails param db = Inr (db', told) \<Longrightarrow> rbac_commit L db db' told"
| drop_cluster: "DeleteClusterRole L fails param db = Inr (db', told) \<Longrightarrow> rbac_commit L db db' told"
| drop_project: "DeleteProjectRole L fails param db = Inr (db', told) \<Longrightarrow> rbac_commit L db db' told"

definition binding_ids_ok :: "RbacDb \<Rightarrow> bool" where
  "binding_ids_ok db \<longleftrightarrow> distinct (map bi_ID (rd_GlobalBindings db)) \<and> distinct (map bi_ID (rd_ClusterBindings db))
     \<and> distinct (map bi_ID (rd_ProjectBindings db))"

lemma announcesI:
  assumes "uuid_lib_ok L" "rd_Users db' = rd_Users db" "rd_ProjectNamespaces db' = rd_ProjectNamespaces db"
    and "\<And>uid. \<not> told_covers told (rl_uuidString L uid) \<Longrightarrow>
      ListUserBindingsWithRoles db' uid = ListUserBindingsWithRoles db uid"
  shows "announces L db db' told"
  unfolding announces_def using load_cong [OF assms(1-3)] assms(4) by blast

lemma announces_everyone: "announces L db db' InvalidateEveryone"
  by (simp add: announces_def told_covers_def)

lemma parsed_user:
  assumes "uuid_lib_ok L" "parseBindingRefs L role (rl_uuidString L w) = Inr (roleID, userID)"
  shows "userID = Some w"
  using assms(2) uuid_lib_okD(1,2) [OF assms(1)] by (auto simp: parseBindingRefs_def parse_id_def sbind_Inr_iff split: option.splits)

lemma not_covered:
  assumes "uuid_lib_ok L" "\<not> told_covers (InvalidateUser (rl_uuidString L w)) (rl_uuidString L uid)"
  shows "Some w \<noteq> Some uid"
  using assms uuid_lib_okD [OF assms(1)] by (auto simp: told_covers_def)

lemma bind_announces:
  assumes L: "uuid_lib_ok L"
  shows "CreateGlobalRoleBinding L fails i user loaded req db = Inr (db', told) \<Longrightarrow>
      gq_UserID req = rl_uuidString L w \<Longrightarrow> announces L db db' told"
    and "CreateClusterRoleBinding L fails i user loaded creq db = Inr (db', told) \<Longrightarrow>
      gq_UserID creq = rl_uuidString L w \<Longrightarrow> announces L db db' told"
    and "CreateProjectRoleBinding L fails i user loaded preq db = Inr (db', told) \<Longrightarrow>
      gq_UserID preq = rl_uuidString L w \<Longrightarrow> announces L db db' told"
  using not_covered [OF L]
  by (auto simp: CreateGlobalRoleBinding_def CreateClusterRoleBinding_def CreateProjectRoleBinding_def sbind_Inr_iff
      ListUserBindingsWithRoles_def join_roles_append
      intro!: announcesI [OF L] dest!: executeMutation_Inr parsed_user [OF L])

lemma binding_user_found:
  assumes "distinct (map bi_ID bs)" "\<not> fails lookup" "b \<in> set bs" "bi_UserID b = Some uid"
  shows "binding_user L fails lookup bs (bi_ID b) = rl_uuidString L uid"
proof -
  have "find (\<lambda>x. bi_ID x = bi_ID b) bs \<noteq> None" using assms(3) by (auto simp: find_None_iff)
  then obtain b' where b': "find (\<lambda>x. bi_ID x = bi_ID b) bs = Some b'" by blast
  then have "b' \<in> set bs" "bi_ID b' = bi_ID b" by (auto simp: find_Some_iff)
  then have "b' = b" using assms(1,3) by (auto simp: distinct_map dest: inj_onD)
  with b' assms show ?thesis by (simp add: binding_user_def)
qed

lemma join_roles_unbound:
  assumes "distinct (map bi_ID bs)" "\<not> fails lookup" "uuid_lib_ok L"
    and "\<not> told_covers (InvalidateUser (binding_user L fails lookup bs i)) (rl_uuidString L uid)"
  shows "join_roles s cl pr nm roles (filter (\<lambda>b. bi_ID b \<noteq> i) bs) uid = join_roles s cl pr nm roles bs uid"
proof (rule join_roles_without)
  fix b
  assume "b \<in> set bs" "bi_UserID b = Some uid"
  then have "binding_user L fails lookup bs (bi_ID b) = rl_uuidString L uid"
    by (intro binding_user_found assms(1,2))
  with assms(4) uuid_lib_okD(2) [OF assms(3)] show "bi_ID b \<noteq> i" by (auto simp: told_covers_def)
qed

lemma unbind_announces:
  assumes L: "uuid_lib_ok L" and ids: "binding_ids_ok db"
  shows "DeleteGlobalRoleBinding L fails param db = Inr (db', told) \<Longrightarrow> \<not> fails ''GetGlobalRoleBindingByID'' \<Longrightarrow>
      announces L db db' told"
    and "DeleteClusterRoleBinding L fails param db = Inr (db', told) \<Longrightarrow> \<not> fails ''GetClusterRoleBindingByID'' \<Longrightarrow>
      announces L db db' told"
    and "DeleteProjectRoleBinding L fails param db = Inr (db', told) \<Longrightarrow> \<not> fails ''GetProjectRoleBindingByID'' \<Longrightarrow>
      announces L db db' told"
  using ids join_roles_unbound [OF _ _ L]
  by (auto simp: DeleteGlobalRoleBinding_def DeleteClusterRoleBinding_def DeleteProjectRoleBinding_def sbind_Inr_iff
      Let_def ListUserBindingsWithRoles_def binding_ids_ok_def intro!: announcesI [OF L] dest!: executeMutation_Inr)

lemma role_announces:
  assumes L: "uuid_lib_ok L" and ok: "rbac_db_ok db" "rbac_db_ok db'"
  shows "CreateGlobalRole L fails i req db = Inr db' \<Longrightarrow> announces L db db' told"
    and "CreateClusterRole L fails i req db = Inr db' \<Longrightarrow> announces L db db' told"
    and "CreateProjectRole L fails i req db = Inr db' \<Longrightarrow> announces L db db' told"
  using ok
  by (auto simp: CreateGlobalRole_def CreateClusterRole_def CreateProjectRole_def sbind_Inr_iff rbac_db_ok_def
      list_all_iff ListUserBindingsWithRoles_def simp del: set_map
      intro!: announcesI [OF L] join_roles_new_role dest!: executeMutation_Inr)

lemma rbac_commit_announces:
  assumes "rbac_commit L db db' told" and L: "uuid_lib_ok L" and ok: "rbac_db_ok db" "binding_ids_ok db"
  shows "announces L db db' told"
  using assms(1)
proof cases
  case bind_global then show ?thesis by (rule bind_announces(1) [OF L])
next
  case bind_cluster then show ?thesis by (rule bind_announces(2) [OF L])
next
  case bind_project then show ?thesis by (rule bind_announces(3) [OF L])
next
  case unbind_global then show ?thesis by (rule unbind_announces(1) [OF L ok(2)])
next
  case unbind_cluster then show ?thesis by (rule unbind_announces(2) [OF L ok(2)])
next
  case unbind_project then show ?thesis by (rule unbind_announces(3) [OF L ok(2)])
next
  case role_global then show ?thesis using role_announces(1) [OF L ok(1)] by metis
next
  case role_cluster then show ?thesis using role_announces(2) [OF L ok(1)] by metis
next
  case role_project then show ?thesis using role_announces(3) [OF L ok(1)] by metis
next
  case change_global then show ?thesis
    using announces_everyone by (auto simp: UpdateGlobalRole_def sbind_Inr_iff)
next
  case change_cluster then show ?thesis
    using announces_everyone by (auto simp: UpdateClusterRole_def sbind_Inr_iff)
next
  case change_project then show ?thesis
    using announces_everyone by (auto simp: UpdateProjectRole_def sbind_Inr_iff)
next
  case drop_global then show ?thesis
    using announces_everyone by (auto simp: DeleteGlobalRole_def sbind_Inr_iff delete_role_answer_Inr)
next
  case drop_cluster then show ?thesis
    using announces_everyone by (auto simp: DeleteClusterRole_def sbind_Inr_iff delete_role_answer_Inr)
next
  case drop_project then show ?thesis
    using announces_everyone by (auto simp: DeleteProjectRole_def sbind_Inr_iff delete_role_answer_Inr)
qed

section \<open>Requests, loads and invalidations interleaved\<close>

text \<open>A request that misses reads the generation and joins the load of its user for that generation
  or starts it.  The source names a load by the user and the generation in decimal; the pair is the
  same name.  A request remembers the number of commits at its start and whether an announcement
  for its user was then outstanding.\<close>

record CacheRequest =
  cq_user :: string
  cq_start :: nat
  cq_quiet :: bool
  cq_generation :: "64 word option"
  cq_flight :: "nat option"

text \<open>A shared load: started, loaded from the database but not stored, or done.  The number is that
  of the commit whose tables the bindings were loaded from.\<close>

datatype FlightStage = FlightStarted | FlightLoaded nat "RoleBinding list" | FlightDone nat "RbacError + RoleBinding list"

record Flight =
  fl_user :: string
  fl_generation :: "64 word"
  fl_stage :: FlightStage

definition active :: "Flight \<Rightarrow> bool" where
  "active f = (case fl_stage f of FlightDone _ _ \<Rightarrow> False | _ \<Rightarrow> True)"

text \<open>\<open>cy_dbs\<close> are the tables after each commit, the current ones last; \<open>cy_told\<close> the
  announcement of each commit; \<open>cy_pending\<close> the commits whose announcement has not reached the
  cache; \<open>cy_from\<close> the commit each cached entry was loaded from; \<open>cy_invalidations\<close> counts
  the steps of the generation.\<close>

record CacheSystem =
  cy_dbs :: "RbacDb list"
  cy_told :: "Invalidation list"
  cy_pending :: "nat list"
  cy_cache :: RBACCache
  cy_from :: "string \<Rightarrow> nat"
  cy_invalidations :: nat
  cy_requests :: "CacheRequest list"
  cy_flights :: "Flight list"
  cy_answers :: "(CacheRequest \<times> nat \<times> RoleBinding list) list"

definition cache_start :: "RbacDb \<Rightarrow> RBACCache \<Rightarrow> CacheSystem" where
  "cache_start db c = \<lparr>cy_dbs = [db], cy_told = [], cy_pending = [], cy_cache = c, cy_from = (\<lambda>_. 0),
     cy_invalidations = 0, cy_requests = [], cy_flights = [], cy_answers = []\<rparr>"

definition new_request :: "string \<Rightarrow> CacheSystem \<Rightarrow> CacheRequest" where
  "new_request u s = \<lparr>cq_user = u, cq_start = length (cy_told s),
     cq_quiet = (\<not> list_ex (\<lambda>k. told_covers (cy_told s ! k) u) (cy_pending s)),
     cq_generation = None, cq_flight = None\<rparr>"

definition moves_generation :: "Invalidation \<Rightarrow> bool" where
  "moves_generation told = (case told of InvalidateUser u \<Rightarrow> u \<noteq> [] | InvalidateEveryone \<Rightarrow> True)"

inductive cache_step :: "rbac_lib \<Rightarrow> CacheSystem \<Rightarrow> CacheSystem \<Rightarrow> bool" for L where
  commit:
    "announces L (last (cy_dbs s)) db' told \<Longrightarrow>
     cache_step L s (s\<lparr>cy_dbs := cy_dbs s @ [db'], cy_told := cy_told s @ [told],
       cy_pending := cy_pending s @ [length (cy_told s)]\<rparr>)"
| invalidate:
    "k \<in> set (cy_pending s) \<Longrightarrow>
     cache_step L s (s\<lparr>cy_pending := filter (\<lambda>j. j \<noteq> k) (cy_pending s),
       cy_cache := apply_invalidation (cy_told s ! k) (cy_cache s),
       cy_invalidations := cy_invalidations s + (if moves_generation (cy_told s ! k) then 1 else 0)\<rparr>)"
| hit:
    "cache_read healthy now u (cy_cache s) = ReadHit i t bs \<Longrightarrow>
     cache_step L s (s\<lparr>cy_answers := (new_request u s, cy_from s u, bs) # cy_answers s\<rparr>)"
| miss:
    "cache_read healthy now (rl_uuidString L uid) (cy_cache s) \<in> {ReadMiss, ReadExpired i} \<Longrightarrow>
     cache_step L s (s\<lparr>cy_requests := new_request (rl_uuidString L uid) s # cy_requests s\<rparr>)"
| expire:
    "cache_step L s (s\<lparr>cy_cache := cache_expire u i (cy_cache s)\<rparr>)"
| touch:
    "cache_step L s (s\<lparr>cy_cache := cache_touch now u i t (cy_cache s)\<rparr>)"
| coordinator:
    "cache_step L s (s\<lparr>cy_cache := SetInvalidationCoordinator (cy_cache s)\<rparr>)"
| generation:
    "cy_requests s = as @ r # bs \<Longrightarrow> cq_generation r = None \<Longrightarrow>
     cache_step L s (s\<lparr>cy_requests := as @ r\<lparr>cq_generation := Some (rc_generation (cy_cache s))\<rparr> # bs\<rparr>)"
| join:
    "cy_requests s = as @ r # bs \<Longrightarrow> cq_generation r = Some (fl_generation (cy_flights s ! f)) \<Longrightarrow>
     cq_flight r = None \<Longrightarrow> f < length (cy_flights s) \<Longrightarrow> fl_user (cy_flights s ! f) = cq_user r \<Longrightarrow>
     active (cy_flights s ! f) \<Longrightarrow>
     cache_step L s (s\<lparr>cy_requests := as @ r\<lparr>cq_flight := Some f\<rparr> # bs\<rparr>)"
| lead:
    "cy_requests s = as @ r # bs \<Longrightarrow> cq_generation r = Some g \<Longrightarrow> cq_flight r = None \<Longrightarrow>
     (\<forall>f \<in> set (cy_flights s). fl_user f = cq_user r \<longrightarrow> fl_generation f = g \<longrightarrow> \<not> active f) \<Longrightarrow>
     cache_step L s (s\<lparr>cy_requests := as @ r\<lparr>cq_flight := Some (length (cy_flights s))\<rparr> # bs,
       cy_flights := cy_flights s @ [\<lparr>fl_user = cq_user r, fl_generation = g, fl_stage = FlightStarted\<rparr>]\<rparr>)"
| flight_hit:
    "f < length (cy_flights s) \<Longrightarrow> cy_flights s ! f = fl \<Longrightarrow> fl_stage fl = FlightStarted \<Longrightarrow>
     cache_read healthy now (fl_user fl) (cy_cache s) = ReadHit i t bs \<Longrightarrow>
     cache_step L s (s\<lparr>cy_flights := (cy_flights s)
       [f := fl\<lparr>fl_stage := FlightDone (cy_from s (fl_user fl)) (Inr bs)\<rparr>]\<rparr>)"
| flight_load:
    "f < length (cy_flights s) \<Longrightarrow> cy_flights s ! f = fl \<Longrightarrow> fl_stage fl = FlightStarted \<Longrightarrow>
     loadUserBindings L fails (last (cy_dbs s)) (fl_user fl) = Inr bs \<Longrightarrow>
     cache_step L s (s\<lparr>cy_flights := (cy_flights s)[f := fl\<lparr>fl_stage := FlightLoaded (length (cy_told s)) bs\<rparr>]\<rparr>)"
| flight_fail:
    "f < length (cy_flights s) \<Longrightarrow> cy_flights s ! f = fl \<Longrightarrow> fl_stage fl = FlightStarted \<Longrightarrow>
     loadUserBindings L fails (last (cy_dbs s)) (fl_user fl) = Inl e \<Longrightarrow>
     cache_step L s (s\<lparr>cy_flights := (cy_flights s)[f := fl\<lparr>fl_stage := FlightDone (length (cy_told s)) (Inl e)\<rparr>]\<rparr>)"
| flight_store:
    "f < length (cy_flights s) \<Longrightarrow> cy_flights s ! f = fl \<Longrightarrow> fl_stage fl = FlightLoaded k bs \<Longrightarrow>
     cache_step L s (s\<lparr>cy_flights := (cy_flights s)[f := fl\<lparr>fl_stage := FlightDone k (Inr bs)\<rparr>],
       cy_cache := RBACCache_Put healthy now (fl_user fl) bs (Some (fl_generation fl)) (cy_cache s),
       cy_from := (if rc_generation (cy_cache s) = fl_generation fl \<and> healthy
          then (cy_from s)(fl_user fl := k) else cy_from s)\<rparr>)"
| reply:
    "cy_requests s = as @ r # bs \<Longrightarrow> cq_flight r = Some f \<Longrightarrow>
     fl_stage (cy_flights s ! f) = FlightDone k (Inr x) \<Longrightarrow>
     cache_step L s (s\<lparr>cy_requests := as @ bs, cy_answers := (r, k, x) # cy_answers s\<rparr>)"

inductive cache_run :: "rbac_lib \<Rightarrow> RbacDb \<Rightarrow> RBACCache \<Rightarrow> CacheSystem \<Rightarrow> bool" for L db c where
  start: "cache_run L db c (cache_start db c)"
| step: "cache_run L db c s \<Longrightarrow> cache_step L s s' \<Longrightarrow> cache_run L db c s'"

text \<open>Nothing relevant to a user was committed after \<open>i\<close> up to \<open>n\<close>.\<close>

definition unchanged :: "CacheSystem \<Rightarrow> string \<Rightarrow> nat \<Rightarrow> nat \<Rightarrow> bool" where
  "unchanged s u i n \<longleftrightarrow> (\<forall>j. i \<le> j \<longrightarrow> j < n \<longrightarrow> \<not> told_covers (cy_told s ! j) u)"

text \<open>What was loaded at \<open>i\<close> is good as long as every later change for the user is outstanding.\<close>

definition good_from :: "CacheSystem \<Rightarrow> string \<Rightarrow> nat \<Rightarrow> bool" where
  "good_from s u i \<longleftrightarrow> (\<forall>j. i \<le> j \<longrightarrow> j < length (cy_told s) \<longrightarrow> told_covers (cy_told s ! j) u \<longrightarrow> j \<in> set (cy_pending s))"

definition loaded_at :: "rbac_lib \<Rightarrow> CacheSystem \<Rightarrow> string \<Rightarrow> nat \<Rightarrow> RoleBinding list \<Rightarrow> bool" where
  "loaded_at L s u i bs \<longleftrightarrow> i \<le> length (cy_told s) \<and> (\<exists>fails. loadUserBindings L fails (cy_dbs s ! i) u = Inr bs)"

section \<open>Every answer is current\<close>

definition named :: "rbac_lib \<Rightarrow> string \<Rightarrow> bool" where
  "named L u \<longleftrightarrow> (\<exists>uid. u = rl_uuidString L uid)"

definition shape_ok :: "rbac_lib \<Rightarrow> CacheSystem \<Rightarrow> bool" where
  "shape_ok L s \<longleftrightarrow> length (cy_dbs s) = Suc (length (cy_told s)) \<and> (\<forall>k \<in> set (cy_pending s). k < length (cy_told s))
     \<and> rc_generation (cy_cache s) = of_nat (cy_invalidations s)
     \<and> (\<forall>j < length (cy_told s). announces L (cy_dbs s ! j) (cy_dbs s ! Suc j) (cy_told s ! j))"

definition entries_ok :: "rbac_lib \<Rightarrow> CacheSystem \<Rightarrow> bool" where
  "entries_ok L s \<longleftrightarrow> (\<forall>u e. fmlookup (rc_entries (cy_cache s)) u = Some e \<longrightarrow>
     named L u \<and> good_from s u (cy_from s u) \<and> loaded_at L s u (cy_from s u) (ce_bindings e))"

definition flight_ok :: "rbac_lib \<Rightarrow> CacheSystem \<Rightarrow> Flight \<Rightarrow> bool" where
  "flight_ok L s f \<longleftrightarrow> named L (fl_user f)
     \<and> (\<exists>m \<le> cy_invalidations s. fl_generation f = of_nat m)
     \<and> (case fl_stage f of
          FlightStarted \<Rightarrow> True
        | FlightLoaded k bs \<Rightarrow> loaded_at L s (fl_user f) k bs
            \<and> (fl_generation f = rc_generation (cy_cache s) \<longrightarrow> good_from s (fl_user f) k)
        | FlightDone k x \<Rightarrow> (\<forall>bs. x = Inr bs \<longrightarrow> loaded_at L s (fl_user f) k bs))"

definition request_ok :: "rbac_lib \<Rightarrow> CacheSystem \<Rightarrow> CacheRequest \<Rightarrow> bool" where
  "request_ok L s r \<longleftrightarrow> named L (cq_user r) \<and> cq_start r \<le> length (cy_told s)
     \<and> (cq_quiet r \<longrightarrow> (\<forall>j < cq_start r. told_covers (cy_told s ! j) (cq_user r) \<longrightarrow> j \<notin> set (cy_pending s)))
     \<and> (\<forall>g. cq_generation r = Some g \<longrightarrow> (\<exists>m \<le> cy_invalidations s. g = of_nat m))
     \<and> (\<forall>f. cq_flight r = Some f \<longrightarrow> f < length (cy_flights s) \<and> fl_user (cy_flights s ! f) = cq_user r
          \<and> cq_generation r = Some (fl_generation (cy_flights s ! f)))"

definition pair_ok :: "CacheSystem \<Rightarrow> CacheRequest \<Rightarrow> nat \<Rightarrow> bool" where
  "pair_ok s r i \<longleftrightarrow> (cq_quiet r \<longrightarrow> fl_user (cy_flights s ! i) = cq_user r \<longrightarrow>
     (case fl_stage (cy_flights s ! i) of
        FlightStarted \<Rightarrow> True
      | FlightLoaded k _ \<Rightarrow> cq_generation r = Some (fl_generation (cy_flights s ! i)) \<longrightarrow>
          unchanged s (cq_user r) k (cq_start r)
      | FlightDone k _ \<Rightarrow> cq_flight r = Some i \<longrightarrow> unchanged s (cq_user r) k (cq_start r)))"

definition answer_ok :: "rbac_lib \<Rightarrow> CacheSystem \<Rightarrow> CacheRequest \<times> nat \<times> RoleBinding list \<Rightarrow> bool" where
  "answer_ok L s a \<longleftrightarrow> (case a of (r, k, bs) \<Rightarrow> named L (cq_user r) \<and> cq_start r \<le> length (cy_told s)
     \<and> loaded_at L s (cq_user r) k bs \<and> (cq_quiet r \<longrightarrow> unchanged s (cq_user r) k (cq_start r)))"

definition system_ok :: "rbac_lib \<Rightarrow> CacheSystem \<Rightarrow> bool" where
  "system_ok L s \<longleftrightarrow> shape_ok L s \<and> entries_ok L s \<and> (\<forall>f \<in> set (cy_flights s). flight_ok L s f)
     \<and> (\<forall>r \<in> set (cy_requests s). request_ok L s r)
     \<and> (\<forall>r \<in> set (cy_requests s). \<forall>i < length (cy_flights s). pair_ok s r i)
     \<and> (\<forall>a \<in> set (cy_answers s). answer_ok L s a)"

lemma same_tables:
  assumes "cy_dbs s' = cy_dbs s" "cy_told s' = cy_told s" "cy_pending s' = cy_pending s"
  shows "loaded_at L s' = loaded_at L s" "good_from s' = good_from s" "unchanged s' = unchanged s"
  using assms by (simp_all add: loaded_at_def good_from_def unchanged_def fun_eq_iff)

lemma answers_cong:
  assumes "cy_dbs s' = cy_dbs s" "cy_told s' = cy_told s" "cy_flights s' = cy_flights s"
  shows "pair_ok s' = pair_ok s" "answer_ok L s' = answer_ok L s"
proof -
  have t: "loaded_at L s' = loaded_at L s" "unchanged s' = unchanged s"
    using assms by (simp_all add: loaded_at_def unchanged_def fun_eq_iff)
  show "pair_ok s' = pair_ok s" "answer_ok L s' = answer_ok L s"
    unfolding pair_ok_def [abs_def] answer_ok_def [abs_def] assms t by simp_all
qed

lemma parts_cong:
  assumes "cy_dbs s' = cy_dbs s" "cy_told s' = cy_told s" "cy_pending s' = cy_pending s"
    and "cy_invalidations s' = cy_invalidations s" "rc_generation (cy_cache s') = rc_generation (cy_cache s)"
  shows "shape_ok L s' = shape_ok L s" "flight_ok L s' = flight_ok L s"
    and "cy_flights s' = cy_flights s \<Longrightarrow> request_ok L s' = request_ok L s"
  unfolding shape_ok_def flight_ok_def [abs_def] request_ok_def [abs_def] same_tables [OF assms(1-3)] assms by simp_all

text \<open>What was loaded from the current tables is good, and good bindings are current for a request
  that started with nothing outstanding.\<close>

lemma good_now: "good_from s u (length (cy_told s))"
  by (simp add: good_from_def)

lemma quiet_unchanged:
  assumes "good_from s u k" "cq_start r \<le> length (cy_told s)"
    and "\<forall>j < cq_start r. told_covers (cy_told s ! j) u \<longrightarrow> j \<notin> set (cy_pending s)"
  shows "unchanged s u k (cq_start r)"
  unfolding unchanged_def
proof (intro allI impI notI)
  fix j
  assume j: "k \<le> j" "j < cq_start r" "told_covers (cy_told s ! j) u"
  then have "j \<in> set (cy_pending s)" using assms(1,2) by (simp add: good_from_def)
  with assms(3) j show False by blast
qed

lemma new_request_ok:
  assumes "named L u"
  shows "request_ok L s (new_request u s)"
    and "cq_quiet (new_request u s) \<Longrightarrow> good_from s u k \<Longrightarrow> unchanged s u k (cq_start (new_request u s))"
proof -
  have quiet: "\<forall>j < length (cy_told s). told_covers (cy_told s ! j) u \<longrightarrow> j \<notin> set (cy_pending s)"
    if "cq_quiet (new_request u s)" using that by (auto simp: new_request_def list_ex_iff)
  then show "request_ok L s (new_request u s)"
    using assms unfolding request_ok_def by (simp add: new_request_def)
  show "unchanged s u k (cq_start (new_request u s))" if "cq_quiet (new_request u s)" "good_from s u k"
    by (rule quiet_unchanged [OF that(2)]) (use quiet [OF that(1)] in \<open>auto simp: new_request_def\<close>)
qed

text \<open>A commit adds an outstanding change at the end.\<close>

lemma commit_ok:
  assumes ok: "system_ok L s" and ann: "announces L (last (cy_dbs s)) db' told"
    and s': "s' = s\<lparr>cy_dbs := cy_dbs s @ [db'], cy_told := cy_told s @ [told],
       cy_pending := cy_pending s @ [length (cy_told s)]\<rparr>"
  shows "system_ok L s'"
proof -
  have shape: "shape_ok L s" using ok by (simp add: system_ok_def)
  then have len: "length (cy_dbs s) = Suc (length (cy_told s))" by (simp add: shape_ok_def)
  then have "last (cy_dbs s) = cy_dbs s ! length (cy_told s)" by (simp add: last_conv_nth flip: length_0_conv)
  with shape ann len have "shape_ok L s'"
    by (auto simp: s' shape_ok_def nth_append less_Suc_eq)
  moreover have at: "loaded_at L s u i bs \<Longrightarrow> loaded_at L s' u i bs" for u i bs
    using len by (auto simp: s' loaded_at_def nth_append)
  moreover have good: "good_from s u i \<Longrightarrow> good_from s' u i" for u i
    by (auto simp: s' good_from_def nth_append less_Suc_eq)
  moreover have un: "n \<le> length (cy_told s) \<Longrightarrow> unchanged s' u i n = unchanged s u i n" for u i n
    by (auto simp: s' unchanged_def nth_append)
  moreover have "entries_ok L s'"
    using ok at good unfolding system_ok_def entries_ok_def by (simp add: s')
  moreover have "\<forall>f \<in> set (cy_flights s'). flight_ok L s' f"
    using ok at good unfolding system_ok_def flight_ok_def by (auto simp: s' split: FlightStage.splits)
  moreover have "\<forall>r \<in> set (cy_requests s'). request_ok L s' r"
    using ok unfolding system_ok_def request_ok_def by (auto simp: s' nth_append)
  moreover have "pair_ok s' r i" if r: "r \<in> set (cy_requests s')" and i: "i < length (cy_flights s')" for r i
  proof -
    have fl: "cy_flights s' = cy_flights s" and rq: "cy_requests s' = cy_requests s" by (simp_all add: s')
    have "request_ok L s r" "pair_ok s r i" using ok r i unfolding fl rq system_ok_def by blast+
    then show ?thesis using un unfolding pair_ok_def request_ok_def fl by (simp split: FlightStage.splits)
  qed
  moreover have "\<forall>a \<in> set (cy_answers s'). answer_ok L s' a"
    using ok un at unfolding system_ok_def answer_ok_def by (auto simp: s')
  ultimately show ?thesis unfolding system_ok_def by blast
qed

text \<open>An announcement removes the entries it covers and outdates every load under way.\<close>

lemma invalidation_drops:
  assumes "fmlookup (rc_entries (apply_invalidation told c)) u = Some e"
  shows "fmlookup (rc_entries c) u = Some e" "\<not> told_covers told u"
  using assms
  by (auto simp: apply_invalidation_def InvalidateRBACUserLocal_def InvalidateRBACAllLocal_def told_covers_def Let_def
      split: Invalidation.splits option.splits if_splits)

lemma invalidation_generation:
  "rc_generation (apply_invalidation told c) = rc_generation c + (if moves_generation told then 1 else 0)"
  by (auto simp: apply_invalidation_def InvalidateRBACUserLocal_def InvalidateRBACAllLocal_def moves_generation_def Let_def
      split: Invalidation.splits option.splits)

lemma covers_moves: "told_covers told u \<Longrightarrow> moves_generation told"
  by (auto simp: told_covers_def moves_generation_def split: Invalidation.splits)

lemma generations_differ:
  assumes "m < n" "n < 2 ^ 64"
  shows "(of_nat m :: 64 word) \<noteq> of_nat n"
proof
  assume "(of_nat m :: 64 word) = of_nat n"
  then have "unat (of_nat m :: 64 word) = unat (of_nat n :: 64 word)" by simp
  then show False using assms by (simp add: unsigned_of_nat take_bit_nat_eq_self)
qed

lemma invalidate_ok:
  assumes ok: "system_ok L s" and k: "k \<in> set (cy_pending s)"
    and s': "s' = s\<lparr>cy_pending := filter (\<lambda>j. j \<noteq> k) (cy_pending s),
       cy_cache := apply_invalidation (cy_told s ! k) (cy_cache s),
       cy_invalidations := cy_invalidations s + (if moves_generation (cy_told s ! k) then 1 else 0)\<rparr>"
    and bound: "cy_invalidations s' < 2 ^ 64"
  shows "system_ok L s'"
proof -
  have at: "loaded_at L s' = loaded_at L s" and un: "unchanged s' = unchanged s"
    by (simp_all add: s' loaded_at_def unchanged_def fun_eq_iff)
  have good: "good_from s u i \<Longrightarrow> \<not> told_covers (cy_told s ! k) u \<Longrightarrow> good_from s' u i" for u i
    by (auto simp: s' good_from_def)
  have "shape_ok L s'"
    using ok unfolding system_ok_def shape_ok_def by (auto simp: s' invalidation_generation)
  moreover have "entries_ok L s'"
    unfolding entries_ok_def
  proof (intro allI impI)
    fix u e
    assume "fmlookup (rc_entries (cy_cache s')) u = Some e"
    then have "fmlookup (rc_entries (apply_invalidation (cy_told s ! k) (cy_cache s))) u = Some e" by (simp add: s')
    from invalidation_drops [OF this] ok good at
    show "named L u \<and> good_from s' u (cy_from s' u) \<and> loaded_at L s' u (cy_from s' u) (ce_bindings e)"
      by (simp add: system_ok_def entries_ok_def s')
  qed
  moreover have "flight_ok L s' f" if f: "f \<in> set (cy_flights s)" for f
  proof -
    have old: "flight_ok L s f" using ok f by (simp add: system_ok_def)
    then obtain m where m: "m \<le> cy_invalidations s" "fl_generation f = of_nat m" by (auto simp: flight_ok_def)
    have "good_from s' (fl_user f) i" if "good_from s (fl_user f) i" "\<not> moves_generation (cy_told s ! k)" for i
      using that covers_moves good by blast
    moreover have "fl_generation f \<noteq> rc_generation (cy_cache s')" if mv: "moves_generation (cy_told s ! k)"
    proof -
      have "cy_invalidations s' = cy_invalidations s + 1" using mv by (simp add: s')
      moreover have "rc_generation (cy_cache s') = of_nat (cy_invalidations s')"
        using \<open>shape_ok L s'\<close> by (simp add: shape_ok_def)
      ultimately show ?thesis using generations_differ [of m "cy_invalidations s'"] m bound by simp
    qed
    moreover have "rc_generation (cy_cache s') = rc_generation (cy_cache s)" if "\<not> moves_generation (cy_told s ! k)"
      using that by (simp add: s' invalidation_generation)
    ultimately have keep: "good_from s' (fl_user f) i"
      if "fl_generation f = rc_generation (cy_cache s) \<longrightarrow> good_from s (fl_user f) i"
        "fl_generation f = rc_generation (cy_cache s')" for i using that by metis
    have "m \<le> cy_invalidations s'" using m(1) by (simp add: s')
    with old keep m(2) show ?thesis unfolding flight_ok_def at by (auto split: FlightStage.splits)
  qed
  moreover have "request_ok L s' r" if "r \<in> set (cy_requests s)" for r
  proof -
    have "request_ok L s r" using ok that by (simp add: system_ok_def)
    then show ?thesis unfolding request_ok_def by (auto simp: s') (blast intro: le_SucI)+
  qed
  moreover have "pair_ok s' = pair_ok s" "answer_ok L s' = answer_ok L s"
    by (rule answers_cong; simp add: s')+
  ultimately show ?thesis using ok unfolding system_ok_def by (simp add: s')
qed

text \<open>Steps that only drop or reorder entries.\<close>

lemma cache_only_ok:
  assumes ok: "system_ok L s" and s': "s' = s\<lparr>cy_cache := c\<rparr>"
    and gen: "rc_generation c = rc_generation (cy_cache s)"
    and sub: "\<And>u e. fmlookup (rc_entries c) u = Some e \<Longrightarrow>
      \<exists>e'. fmlookup (rc_entries (cy_cache s)) u = Some e' \<and> ce_bindings e' = ce_bindings e"
  shows "system_ok L s'"
proof -
  have t: "loaded_at L s' = loaded_at L s" "good_from s' = good_from s" "unchanged s' = unchanged s"
    by (rule same_tables; simp add: s')+
  have "entries_ok L s'"
    unfolding entries_ok_def t
  proof (intro allI impI)
    fix u e
    assume "fmlookup (rc_entries (cy_cache s')) u = Some e"
    then obtain e' where "fmlookup (rc_entries (cy_cache s)) u = Some e'" "ce_bindings e' = ce_bindings e"
      using sub by (auto simp: s')
    moreover from this(1) ok have "named L u \<and> good_from s u (cy_from s u) \<and> loaded_at L s u (cy_from s u) (ce_bindings e')"
      by (auto simp: system_ok_def entries_ok_def)
    ultimately show "named L u \<and> good_from s u (cy_from s' u) \<and> loaded_at L s u (cy_from s' u) (ce_bindings e)"
      by (simp add: s')
  qed
  moreover have "shape_ok L s' = shape_ok L s" "flight_ok L s' = flight_ok L s" "request_ok L s' = request_ok L s"
    by (rule parts_cong; simp add: s' gen)+
  moreover have "pair_ok s' = pair_ok s" "answer_ok L s' = answer_ok L s"
    by (rule answers_cong; simp add: s')+
  ultimately show ?thesis using ok unfolding system_ok_def by (simp add: s')
qed

lemma expire_entries:
  "rc_generation (cache_expire u i c) = rc_generation c"
  "fmlookup (rc_entries (cache_expire u i c)) v = Some e \<Longrightarrow> fmlookup (rc_entries c) v = Some e"
  by (auto simp: cache_expire_def split: option.splits if_splits)

lemma touch_entries:
  "rc_generation (cache_touch now u i t c) = rc_generation c"
  "fmlookup (rc_entries (cache_touch now u i t c)) v = Some e \<Longrightarrow>
     \<exists>e'. fmlookup (rc_entries c) v = Some e' \<and> ce_bindings e' = ce_bindings e"
  by (auto simp: cache_touch_def split: option.splits if_splits)

lemma housekeeping_ok:
  assumes "system_ok L s"
  shows "system_ok L (s\<lparr>cy_cache := cache_expire u i (cy_cache s)\<rparr>)"
    and "system_ok L (s\<lparr>cy_cache := cache_touch now u i t (cy_cache s)\<rparr>)"
    and "system_ok L (s\<lparr>cy_cache := SetInvalidationCoordinator (cy_cache s)\<rparr>)"
proof -
  show "system_ok L (s\<lparr>cy_cache := cache_expire u i (cy_cache s)\<rparr>)"
    by (rule cache_only_ok [OF assms refl]) (auto simp: expire_entries(1) dest: expire_entries(2))
  show "system_ok L (s\<lparr>cy_cache := cache_touch now u i t (cy_cache s)\<rparr>)"
    by (rule cache_only_ok [OF assms refl]) (auto simp: touch_entries(1) dest: touch_entries(2))
  show "system_ok L (s\<lparr>cy_cache := SetInvalidationCoordinator (cy_cache s)\<rparr>)"
    by (rule cache_only_ok [OF assms refl]) (auto simp: SetInvalidationCoordinator_def)
qed

text \<open>A read returns the bindings of an entry.\<close>

lemma read_hit:
  "cache_read healthy now u c = ReadHit i t bs \<Longrightarrow> \<exists>e. fmlookup (rc_entries c) u = Some e \<and> ce_bindings e = bs"
  by (auto simp: cache_read_def split: if_splits option.splits)

lemma hit_entry:
  assumes "system_ok L s" "cache_read healthy now u (cy_cache s) = ReadHit i t bs"
  shows "named L u" "good_from s u (cy_from s u)" "loaded_at L s u (cy_from s u) bs"
  using assms(1) read_hit [OF assms(2)] unfolding system_ok_def entries_ok_def by auto

text \<open>Steps of requests: the tables, the cache and the loads stay.\<close>

lemma requests_ok:
  assumes ok: "system_ok L s" and s': "s' = s\<lparr>cy_requests := rs, cy_answers := as\<rparr>"
    and rs: "\<And>r. r \<in> set rs \<Longrightarrow> request_ok L s r" "\<And>r i. r \<in> set rs \<Longrightarrow> i < length (cy_flights s) \<Longrightarrow> pair_ok s r i"
    and as: "\<And>a. a \<in> set as \<Longrightarrow> answer_ok L s a"
  shows "system_ok L s'"
proof -
  have t: "loaded_at L s' = loaded_at L s" "good_from s' = good_from s" "unchanged s' = unchanged s"
    by (rule same_tables; simp add: s')+
  have "shape_ok L s' = shape_ok L s" "flight_ok L s' = flight_ok L s" "request_ok L s' = request_ok L s"
    by (rule parts_cong; simp add: s')+
  moreover have "pair_ok s' = pair_ok s" "answer_ok L s' = answer_ok L s" by (rule answers_cong; simp add: s')+
  moreover have "entries_ok L s' = entries_ok L s" unfolding entries_ok_def t by (simp add: s')
  ultimately show ?thesis using ok rs as unfolding system_ok_def by (simp add: s')
qed

lemma new_pair_ok: "pair_ok s (new_request u s) i"
  by (auto simp: pair_ok_def new_request_def split: FlightStage.splits)

lemma hit_ok:
  assumes ok: "system_ok L s" and hit: "cache_read healthy now u (cy_cache s) = ReadHit i t bs"
  shows "system_ok L (s\<lparr>cy_answers := (new_request u s, cy_from s u, bs) # cy_answers s\<rparr>)"
proof -
  note e = hit_entry [OF ok hit]
  have "cq_user (new_request u s) = u" "cq_start (new_request u s) = length (cy_told s)" by (simp_all add: new_request_def)
  with e new_request_ok(2) [OF e(1) _ e(2)] have "answer_ok L s (new_request u s, cy_from s u, bs)"
    by (simp add: answer_ok_def)
  with ok show ?thesis by (intro requests_ok [OF ok, where rs = "cy_requests s"]) (auto simp: system_ok_def)
qed

lemma miss_ok:
  assumes ok: "system_ok L s"
  shows "system_ok L (s\<lparr>cy_requests := new_request (rl_uuidString L uid) s # cy_requests s\<rparr>)"
proof -
  have "request_ok L s (new_request (rl_uuidString L uid) s)" by (rule new_request_ok(1)) (auto simp: named_def)
  with ok new_pair_ok show ?thesis
    by (intro requests_ok [OF ok, where as = "cy_answers s"]) (auto simp: system_ok_def)
qed

lemma generation_ok:
  assumes ok: "system_ok L s" and rq: "cy_requests s = as @ r # bs" and none: "cq_generation r = None"
  shows "system_ok L (s\<lparr>cy_requests := as @ r\<lparr>cq_generation := Some (rc_generation (cy_cache s))\<rparr> # bs\<rparr>)"
proof -
  let ?r = "r\<lparr>cq_generation := Some (rc_generation (cy_cache s))\<rparr>"
  have r: "request_ok L s r" and p: "\<And>i. i < length (cy_flights s) \<Longrightarrow> pair_ok s r i"
    using ok rq by (auto simp: system_ok_def)
  have shape: "shape_ok L s" using ok by (simp add: system_ok_def)
  from r none shape have "request_ok L s ?r" by (auto simp: request_ok_def shape_ok_def)
  moreover have "pair_ok s ?r i" if i: "i < length (cy_flights s)" for i
  proof -
    have f: "flight_ok L s (cy_flights s ! i)" using ok i by (simp add: system_ok_def)
    show ?thesis
      using p [OF i] f r quiet_unchanged [of s "cq_user r" _ r] none
      by (auto simp: pair_ok_def flight_ok_def request_ok_def split: FlightStage.splits)
  qed
  ultimately show ?thesis
    using ok rq by (intro requests_ok [OF ok, where as = "cy_answers s"]) (auto simp: system_ok_def)
qed

lemma join_ok:
  assumes ok: "system_ok L s" and rq: "cy_requests s = as @ r # bs"
    and f: "cq_generation r = Some (fl_generation (cy_flights s ! f))" "cq_flight r = None" "f < length (cy_flights s)"
      "fl_user (cy_flights s ! f) = cq_user r" "active (cy_flights s ! f)"
  shows "system_ok L (s\<lparr>cy_requests := as @ r\<lparr>cq_flight := Some f\<rparr> # bs\<rparr>)"
proof -
  have "request_ok L s r" and p: "\<And>i. i < length (cy_flights s) \<Longrightarrow> pair_ok s r i"
    using ok rq by (auto simp: system_ok_def)
  with f have "request_ok L s (r\<lparr>cq_flight := Some f\<rparr>)" by (auto simp: request_ok_def)
  moreover have "pair_ok s (r\<lparr>cq_flight := Some f\<rparr>) i" if i: "i < length (cy_flights s)" for i
    using p [OF i] f by (auto simp: pair_ok_def active_def split: FlightStage.splits)
  ultimately show ?thesis
    using ok rq by (intro requests_ok [OF ok, where as = "cy_answers s"]) (auto simp: system_ok_def)
qed

lemma reply_ok:
  assumes ok: "system_ok L s" and rq: "cy_requests s = as @ r # bs" and f: "cq_flight r = Some f"
    and d: "fl_stage (cy_flights s ! f) = FlightDone k (Inr x)"
  shows "system_ok L (s\<lparr>cy_requests := as @ bs, cy_answers := (r, k, x) # cy_answers s\<rparr>)"
proof -
  have r: "request_ok L s r" and p: "\<And>i. i < length (cy_flights s) \<Longrightarrow> pair_ok s r i"
    using ok rq by (auto simp: system_ok_def)
  from r f have len: "f < length (cy_flights s)" and u: "fl_user (cy_flights s ! f) = cq_user r"
    by (auto simp: request_ok_def)
  have "flight_ok L s (cy_flights s ! f)" using ok len by (simp add: system_ok_def)
  with d u r p [OF len] f have "answer_ok L s (r, k, x)"
    by (simp add: answer_ok_def flight_ok_def pair_ok_def request_ok_def)
  with ok rq show ?thesis by (intro requests_ok [OF ok]) (auto simp: system_ok_def)
qed

text \<open>Steps of loads.\<close>

lemma flight_changed_ok:
  assumes ok: "system_ok L s" and f: "f < length (cy_flights s)"
    and s': "s' = s\<lparr>cy_flights := (cy_flights s)[f := (cy_flights s ! f)\<lparr>fl_stage := st\<rparr>]\<rparr>"
    and fl: "flight_ok L s ((cy_flights s ! f)\<lparr>fl_stage := st\<rparr>)"
    and pairs: "\<And>r. r \<in> set (cy_requests s) \<Longrightarrow> cq_quiet r \<Longrightarrow> cq_user r = fl_user (cy_flights s ! f) \<Longrightarrow>
      (case st of FlightStarted \<Rightarrow> True
       | FlightLoaded k _ \<Rightarrow> unchanged s (cq_user r) k (cq_start r)
       | FlightDone k _ \<Rightarrow> cq_flight r = Some f \<longrightarrow> unchanged s (cq_user r) k (cq_start r))"
  shows "system_ok L s'"
proof -
  have t: "loaded_at L s' = loaded_at L s" "good_from s' = good_from s" "unchanged s' = unchanged s"
    by (rule same_tables; simp add: s')+
  have nth: "cy_flights s' ! i = (if i = f then (cy_flights s ! f)\<lparr>fl_stage := st\<rparr> else cy_flights s ! i)"
    and len: "length (cy_flights s') = length (cy_flights s)" and rq: "cy_requests s' = cy_requests s" for i
    using f by (simp_all add: s')
  have "shape_ok L s'" "entries_ok L s'"
    using ok unfolding system_ok_def shape_ok_def entries_ok_def t by (simp_all add: s')
  moreover have flight: "flight_ok L s' = flight_ok L s" by (rule parts_cong; simp add: s')
  moreover have "set (cy_flights s') \<subseteq> insert ((cy_flights s ! f)\<lparr>fl_stage := st\<rparr>) (set (cy_flights s))"
    by (simp add: s' set_update_subset_insert)
  then have "\<forall>x \<in> set (cy_flights s'). flight_ok L s' x"
    using ok fl unfolding flight system_ok_def by blast
  moreover have "request_ok L s' r" if "r \<in> set (cy_requests s)" for r
    using ok that nth len unfolding system_ok_def request_ok_def by (auto simp: s')
  moreover have "pair_ok s' r i" if r: "r \<in> set (cy_requests s)" and i: "i < length (cy_flights s)" for r i
  proof (cases "i = f")
    case True
    with pairs [OF r] nth [of f] t show ?thesis by (auto simp: pair_ok_def split: FlightStage.splits)
  next
    case False
    have "pair_ok s r i" using ok r i by (simp add: system_ok_def)
    moreover have "cy_flights s' ! i = cy_flights s ! i" using nth [of i] False by simp
    ultimately show ?thesis unfolding pair_ok_def t by (simp only:)
  qed
  moreover have "answer_ok L s' = answer_ok L s"
    unfolding answer_ok_def [abs_def] t by (simp add: s')
  ultimately show ?thesis
    using ok len rq unfolding system_ok_def by (simp add: s')
qed

lemma lead_ok:
  assumes ok: "system_ok L s" and rq: "cy_requests s = as @ r # bs" and r: "cq_generation r = Some g" "cq_flight r = None"
    and s': "s' = s\<lparr>cy_requests := as @ r\<lparr>cq_flight := Some (length (cy_flights s))\<rparr> # bs,
       cy_flights := cy_flights s @ [\<lparr>fl_user = cq_user r, fl_generation = g, fl_stage = FlightStarted\<rparr>]\<rparr>"
  shows "system_ok L s'"
proof -
  let ?new = "\<lparr>fl_user = cq_user r, fl_generation = g, fl_stage = FlightStarted\<rparr>"
  have t: "loaded_at L s' = loaded_at L s" "good_from s' = good_from s" "unchanged s' = unchanged s"
    by (rule same_tables; simp add: s')+
  have nth: "i < length (cy_flights s) \<Longrightarrow> cy_flights s' ! i = cy_flights s ! i" for i by (simp add: s' nth_append)
  have last: "cy_flights s' ! length (cy_flights s) = ?new" by (simp add: s' nth_append)
  have rok: "request_ok L s r" using ok rq by (auto simp: system_ok_def)
  have "shape_ok L s'" "entries_ok L s'"
    using ok unfolding system_ok_def shape_ok_def entries_ok_def t by (simp_all add: s')
  moreover have flight: "flight_ok L s' = flight_ok L s" by (rule parts_cong; simp add: s')
  moreover have "flight_ok L s ?new" using rok r by (simp add: flight_ok_def request_ok_def)
  moreover have keep: "request_ok L s' x" if "request_ok L s x" for x
    using that nth unfolding request_ok_def by (fastforce simp: s')
  moreover have "request_ok L s' (r\<lparr>cq_flight := Some (length (cy_flights s))\<rparr>)"
    using rok r last unfolding request_ok_def by (auto simp: s')
  moreover have "pair_ok s' x i" if x: "x \<in> set (cy_requests s')" and i: "i < length (cy_flights s')" for x i
  proof (cases "i = length (cy_flights s)")
    case True
    with last show ?thesis by (simp add: pair_ok_def)
  next
    case False
    with i have i': "i < length (cy_flights s)" by (simp add: s')
    from x obtain y where y: "y \<in> set (cy_requests s)" "x = y \<or> x = y\<lparr>cq_flight := Some (length (cy_flights s))\<rparr>"
      by (auto simp: s' rq)
    have "pair_ok s y i" using ok y(1) i' by (simp add: system_ok_def)
    with y(2) False show ?thesis unfolding pair_ok_def t nth [OF i'] by (auto split: FlightStage.splits)
  qed
  moreover have "answer_ok L s' = answer_ok L s" unfolding answer_ok_def [abs_def] t by (simp add: s')
  ultimately show ?thesis using ok rq unfolding system_ok_def by (simp add: s')
qed

lemma flight_hit_ok:
  assumes ok: "system_ok L s" and f: "f < length (cy_flights s)" "fl_stage (cy_flights s ! f) = FlightStarted"
    and hit: "cache_read healthy now (fl_user (cy_flights s ! f)) (cy_cache s) = ReadHit i t bs"
  shows "system_ok L (s\<lparr>cy_flights := (cy_flights s)[f := (cy_flights s ! f)
      \<lparr>fl_stage := FlightDone (cy_from s (fl_user (cy_flights s ! f))) (Inr bs)\<rparr>]\<rparr>)"
proof (rule flight_changed_ok [OF ok f(1) refl])
  note e = hit_entry [OF ok hit]
  have "flight_ok L s (cy_flights s ! f)" using ok f by (simp add: system_ok_def)
  with e show "flight_ok L s ((cy_flights s ! f)\<lparr>fl_stage := FlightDone (cy_from s (fl_user (cy_flights s ! f))) (Inr bs)\<rparr>)"
    by (simp add: flight_ok_def)
  fix r
  assume "r \<in> set (cy_requests s)" and r: "cq_quiet r" "cq_user r = fl_user (cy_flights s ! f)"
  then have "request_ok L s r" using ok by (simp add: system_ok_def)
  with r e(2) have "unchanged s (cq_user r) (cy_from s (fl_user (cy_flights s ! f))) (cq_start r)"
    by (intro quiet_unchanged) (auto simp: request_ok_def)
  then show "case FlightDone (cy_from s (fl_user (cy_flights s ! f))) (Inr bs) of FlightStarted \<Rightarrow> True
      | FlightLoaded k _ \<Rightarrow> unchanged s (cq_user r) k (cq_start r)
      | FlightDone k _ \<Rightarrow> cq_flight r = Some f \<longrightarrow> unchanged s (cq_user r) k (cq_start r)" by simp
qed

lemma flight_load_ok:
  assumes ok: "system_ok L s" and f: "f < length (cy_flights s)" "fl_stage (cy_flights s ! f) = FlightStarted"
  shows "loadUserBindings L fails (last (cy_dbs s)) (fl_user (cy_flights s ! f)) = Inr bs \<Longrightarrow>
      system_ok L (s\<lparr>cy_flights := (cy_flights s)[f := (cy_flights s ! f)\<lparr>fl_stage := FlightLoaded (length (cy_told s)) bs\<rparr>]\<rparr>)"
    and "system_ok L (s\<lparr>cy_flights := (cy_flights s)[f := (cy_flights s ! f)\<lparr>fl_stage := FlightDone (length (cy_told s)) (Inl e)\<rparr>]\<rparr>)"
proof -
  have old: "flight_ok L s (cy_flights s ! f)" using ok f by (simp add: system_ok_def)
  have len: "length (cy_dbs s) = Suc (length (cy_told s))" using ok by (simp add: system_ok_def shape_ok_def)
  have last: "last (cy_dbs s) = cy_dbs s ! length (cy_told s)" using len by (simp add: last_conv_nth flip: length_0_conv)
  have un: "unchanged s u (length (cy_told s)) (cq_start r)" if "r \<in> set (cy_requests s)" for r u
  proof -
    have "cq_start r \<le> length (cy_told s)" using ok that by (simp add: system_ok_def request_ok_def)
    then show ?thesis by (simp add: unchanged_def)
  qed
  show "system_ok L (s\<lparr>cy_flights := (cy_flights s)[f := (cy_flights s ! f)\<lparr>fl_stage := FlightLoaded (length (cy_told s)) bs\<rparr>]\<rparr>)"
    if "loadUserBindings L fails (last (cy_dbs s)) (fl_user (cy_flights s ! f)) = Inr bs"
  proof (rule flight_changed_ok [OF ok f(1) refl])
    have "loaded_at L s (fl_user (cy_flights s ! f)) (length (cy_told s)) bs"
      using that last unfolding loaded_at_def by auto
    with old show "flight_ok L s ((cy_flights s ! f)\<lparr>fl_stage := FlightLoaded (length (cy_told s)) bs\<rparr>)"
      by (simp add: flight_ok_def good_now)
  qed (simp add: un)
  show "system_ok L (s\<lparr>cy_flights := (cy_flights s)[f := (cy_flights s ! f)\<lparr>fl_stage := FlightDone (length (cy_told s)) (Inl e)\<rparr>]\<rparr>)"
    by (rule flight_changed_ok [OF ok f(1) refl]) (use old in \<open>simp_all add: flight_ok_def un\<close>)
qed

lemma Put_generation: "rc_generation (RBACCache_Put healthy now u bs g c) = rc_generation c"
  by (simp add: RBACCache_Put_def split: option.split)

lemma Put_entries:
  assumes "u \<noteq> []" "fmlookup (rc_entries (RBACCache_Put healthy now u bs (Some g) c)) v = Some e"
  shows "if rc_generation c = g \<and> healthy \<and> v = u then ce_bindings e = bs else fmlookup (rc_entries c) v = Some e"
  using assms
  by (auto simp: RBACCache_Put_def split: option.splits if_splits dest!: evictLocked_entries)

lemma flight_store_ok:
  assumes L: "uuid_lib_ok L" and ok: "system_ok L s"
    and f: "f < length (cy_flights s)" "cy_flights s ! f = fl" "fl_stage fl = FlightLoaded k bs"
  shows "system_ok L (s\<lparr>cy_flights := (cy_flights s)[f := fl\<lparr>fl_stage := FlightDone k (Inr bs)\<rparr>],
       cy_cache := RBACCache_Put healthy now (fl_user fl) bs (Some (fl_generation fl)) (cy_cache s),
       cy_from := (if rc_generation (cy_cache s) = fl_generation fl \<and> healthy
          then (cy_from s)(fl_user fl := k) else cy_from s)\<rparr>)"
proof -
  define stored where "stored = (rc_generation (cy_cache s) = fl_generation fl \<and> healthy)"
  define s1 where "s1 = s\<lparr>cy_cache := RBACCache_Put healthy now (fl_user fl) bs (Some (fl_generation fl)) (cy_cache s),
    cy_from := (if stored then (cy_from s)(fl_user fl := k) else cy_from s)\<rparr>"
  have t: "loaded_at L s1 = loaded_at L s" "good_from s1 = good_from s" "unchanged s1 = unchanged s"
    by (rule same_tables; simp add: s1_def)+
  have fok: "flight_ok L s fl" using ok f(1,2) by (auto simp: system_ok_def)
  then have name: "named L (fl_user fl)" and at: "loaded_at L s (fl_user fl) k bs"
    and good: "stored \<Longrightarrow> good_from s (fl_user fl) k"
    using f(3) by (auto simp: flight_ok_def stored_def)
  have "fl_user fl \<noteq> []" using name uuid_lib_okD(2) [OF L] unfolding named_def by metis
  note entries = Put_entries [OF this, of healthy now bs "fl_generation fl" "cy_cache s"]
  have "entries_ok L s1"
    unfolding entries_ok_def t
  proof (intro allI impI)
    fix u e
    assume "fmlookup (rc_entries (cy_cache s1)) u = Some e"
    then have "if stored \<and> u = fl_user fl then ce_bindings e = bs else fmlookup (rc_entries (cy_cache s)) u = Some e"
      using entries [of u e] by (simp add: s1_def stored_def)
    then show "named L u \<and> good_from s u (cy_from s1 u) \<and> loaded_at L s u (cy_from s1 u) (ce_bindings e)"
      using ok name at good unfolding system_ok_def entries_ok_def by (auto simp: s1_def split: if_splits)
  qed
  moreover have "shape_ok L s1 = shape_ok L s" "flight_ok L s1 = flight_ok L s" "request_ok L s1 = request_ok L s"
    by (rule parts_cong; simp add: s1_def Put_generation)+
  moreover have "pair_ok s1 = pair_ok s" "answer_ok L s1 = answer_ok L s" by (rule answers_cong; simp add: s1_def)+
  ultimately have ok1: "system_ok L s1" using ok unfolding system_ok_def by (simp add: s1_def)
  have "system_ok L (s1\<lparr>cy_flights := (cy_flights s1)[f := (cy_flights s1 ! f)\<lparr>fl_stage := FlightDone k (Inr bs)\<rparr>]\<rparr>)"
  proof (rule flight_changed_ok [OF ok1 _ refl])
    show "f < length (cy_flights s1)" using f(1) by (simp add: s1_def)
    show "flight_ok L s1 ((cy_flights s1 ! f)\<lparr>fl_stage := FlightDone k (Inr bs)\<rparr>)"
      using fok at f(2) unfolding flight_ok_def t by (simp add: s1_def)
    fix r
    assume "r \<in> set (cy_requests s1)" "cq_quiet r" "cq_user r = fl_user (cy_flights s1 ! f)"
    moreover from this(1) have "request_ok L s r" "pair_ok s r f" using ok f(1) by (auto simp: system_ok_def s1_def)
    ultimately show "case FlightDone k (Inr bs) of FlightStarted \<Rightarrow> True
       | FlightLoaded k _ \<Rightarrow> unchanged s1 (cq_user r) k (cq_start r)
       | FlightDone k _ \<Rightarrow> cq_flight r = Some f \<longrightarrow> unchanged s1 (cq_user r) k (cq_start r)"
      using f(2,3) unfolding t by (auto simp: pair_ok_def request_ok_def s1_def)
  qed
  moreover have "s\<lparr>cy_flights := (cy_flights s)[f := fl\<lparr>fl_stage := FlightDone k (Inr bs)\<rparr>],
       cy_cache := RBACCache_Put healthy now (fl_user fl) bs (Some (fl_generation fl)) (cy_cache s),
       cy_from := (if rc_generation (cy_cache s) = fl_generation fl \<and> healthy
          then (cy_from s)(fl_user fl := k) else cy_from s)\<rparr>
      = s1\<lparr>cy_flights := (cy_flights s1)[f := (cy_flights s1 ! f)\<lparr>fl_stage := FlightDone k (Inr bs)\<rparr>]\<rparr>"
    by (rule CacheSystem.equality) (simp_all add: s1_def stored_def f(2))
  ultimately show ?thesis by simp
qed

lemma cache_step_ok:
  assumes "cache_step L s s'" "uuid_lib_ok L" "system_ok L s" "cy_invalidations s' < 2 ^ 64"
  shows "system_ok L s'"
  using assms(1)
proof cases
  case (commit db' told) then show ?thesis using commit_ok [OF assms(3)] by blast
next
  case (invalidate k) then show ?thesis using invalidate_ok [OF assms(3) _ _ assms(4)] by blast
next
  case hit then show ?thesis using hit_ok [OF assms(3)] by metis
next
  case miss then show ?thesis using miss_ok [OF assms(3)] by metis
next
  case expire then show ?thesis using housekeeping_ok(1) [OF assms(3)] by metis
next
  case touch then show ?thesis using housekeeping_ok(2) [OF assms(3)] by metis
next
  case coordinator then show ?thesis using housekeeping_ok(3) [OF assms(3)] by metis
next
  case generation then show ?thesis using generation_ok [OF assms(3)] by metis
next
  case join then show ?thesis using join_ok [OF assms(3)] by metis
next
  case lead then show ?thesis using lead_ok [OF assms(3)] by metis
next
  case flight_hit then show ?thesis using flight_hit_ok [OF assms(3)] by metis
next
  case flight_load then show ?thesis using flight_load_ok(1) [OF assms(3)] by metis
next
  case flight_fail then show ?thesis using flight_load_ok(2) [OF assms(3)] by metis
next
  case flight_store then show ?thesis using flight_store_ok [OF assms(2,3)] by metis
next
  case reply then show ?thesis using reply_ok [OF assms(3)] by metis
qed

lemma cache_step_grows: "cache_step L s s' \<Longrightarrow> cy_invalidations s \<le> cy_invalidations s'"
  by (auto elim!: cache_step.cases)

lemma cache_run_ok:
  assumes "cache_run L db c s" "uuid_lib_ok L" "rc_entries c = fmempty" "rc_generation c = 0"
    and "cy_invalidations s < 2 ^ 64"
  shows "system_ok L s"
  using assms
proof (induction rule: cache_run.induct)
  case start
  then show ?case by (simp add: system_ok_def shape_ok_def entries_ok_def cache_start_def)
next
  case (step s s')
  then have "cy_invalidations s < 2 ^ 64" using cache_step_grows by fastforce
  with step cache_step_ok show ?case by blast
qed

text \<open>Loads that see no relevant change agree.\<close>

lemma unchanged_load:
  assumes "shape_ok L s" "named L u" "n \<le> length (cy_told s)" "unchanged s u i n" "i \<le> n"
  shows "loadUserBindings L fails (cy_dbs s ! n) u = loadUserBindings L fails (cy_dbs s ! i) u"
  using assms(5,3,4)
proof (induction n rule: dec_induct)
  case (step n)
  then have "announces L (cy_dbs s ! n) (cy_dbs s ! Suc n) (cy_told s ! n)" "\<not> told_covers (cy_told s ! n) u"
    using assms(1) by (auto simp: shape_ok_def unchanged_def)
  then have "loadUserBindings L fails (cy_dbs s ! Suc n) u = loadUserBindings L fails (cy_dbs s ! n) u"
    using assms(2) by (auto simp: announces_def named_def)
  moreover have "unchanged s u i n" using step.prems by (simp add: unchanged_def)
  ultimately show ?case using step by simp
qed simp

lemma cache_run_bounded:
  assumes "cache_run L db c s" "cache_bounded c"
  shows "cache_bounded (cy_cache s)"
  using assms
proof (induction rule: cache_run.induct)
  case start
  then show ?case by (simp add: cache_start_def)
next
  case (step s s')
  then have ok: "cache_bounded (cy_cache s)" by simp
  have "cache_bounded (SetInvalidationCoordinator (cy_cache s))"
    using ok by (simp add: SetInvalidationCoordinator_def cache_bounded_def cache_agrees_def held_bindings_def over_bound_def)
  with step.hyps(2) ok show ?case
    by cases (auto intro: Put_bounded Invalidate_bounded expire_bounded touch_bounded)
qed

lemma New_bounded: "cache_bounded (NewRBACCacheWithOptions ttl capacity)"
  by (simp add: NewRBACCacheWithOptions_def Let_def cache_bounded_def cache_agrees_def held_bindings_def over_bound_def)

section \<open>A concrete run\<close>

text \<open>The binding of user 2 on cluster 21 is deleted and the cache is told; then user 2 makes a request.\<close>

definition sample_revoked_db :: RbacDb where
  "sample_revoked_db = fst (projr (DeleteClusterRoleBinding sample_rbac_lib (\<lambda>_. False) (uuid_text 102) sample_rbac_db))"

definition sample_remaining :: "RoleBinding list" where
  "sample_remaining = projr (loadUserBindings sample_rbac_lib (\<lambda>_. False) sample_revoked_db (uuid_text 2))"

definition sample_cache :: RBACCache where
  "sample_cache = NewRBACCacheWithOptions 0 0"

lemma sample_revocation:
  "DeleteClusterRoleBinding sample_rbac_lib (\<lambda>_. False) (uuid_text 102) sample_rbac_db
     = Inr (sample_revoked_db, InvalidateUser (uuid_text 2))"
  by code_simp

lemma sample_remaining_loaded:
  "loadUserBindings sample_rbac_lib (\<lambda>_. False) sample_revoked_db (uuid_text 2) = Inr sample_remaining"
  by code_simp

lemma sample_commit: "rbac_commit sample_rbac_lib sample_rbac_db sample_revoked_db (InvalidateUser (uuid_text 2))"
  by (rule rbac_commit.unbind_cluster [OF sample_revocation]) simp

lemma sample_ids_ok: "binding_ids_ok sample_rbac_db"
  by code_simp

lemma sample_announced: "announces sample_rbac_lib sample_rbac_db sample_revoked_db (InvalidateUser (uuid_text 2))"
  by (rule rbac_commit_announces [OF sample_commit sample_rbac_lib_ok sample_rbac_db_ok sample_ids_ok])

lemma sample_cache_run:
  "\<exists>s r. cache_run sample_rbac_lib sample_rbac_db sample_cache s \<and> cy_invalidations s = 1
     \<and> cy_dbs s = [sample_rbac_db, sample_revoked_db] \<and> cy_answers s = [(r, 1, sample_remaining)]
     \<and> cq_quiet r \<and> cq_start r = 1 \<and> cq_user r = uuid_text 2"
proof -
  let ?L = sample_rbac_lib and ?u = "uuid_text 2"
  have u: "?u \<noteq> []" "?u = rl_uuidString ?L 2"
    using uuid_lib_okD(2) [OF sample_rbac_lib_ok, of 2] by (simp_all add: sample_rbac_lib_def)
  have c: "rc_entries sample_cache = fmempty" by (simp add: sample_cache_def NewRBACCacheWithOptions_def Let_def)
  define s0 where "s0 = cache_start sample_rbac_db sample_cache"
  define s1 where "s1 = s0\<lparr>cy_dbs := cy_dbs s0 @ [sample_revoked_db], cy_told := cy_told s0 @ [InvalidateUser ?u],
       cy_pending := cy_pending s0 @ [length (cy_told s0)]\<rparr>"
  define s2 where "s2 = s1\<lparr>cy_pending := filter (\<lambda>j. j \<noteq> 0) (cy_pending s1),
       cy_cache := apply_invalidation (cy_told s1 ! 0) (cy_cache s1),
       cy_invalidations := cy_invalidations s1 + (if moves_generation (cy_told s1 ! 0) then 1 else 0)\<rparr>"
  define s3 where "s3 = s2\<lparr>cy_requests := new_request (rl_uuidString ?L 2) s2 # cy_requests s2\<rparr>"
  define r where "r = new_request (rl_uuidString ?L 2) s2"
  define g where "g = rc_generation (cy_cache s3)"
  define s4 where "s4 = s3\<lparr>cy_requests := [] @ r\<lparr>cq_generation := Some g\<rparr> # []\<rparr>"
  define s5 where "s5 = s4\<lparr>cy_requests := [] @ r\<lparr>cq_generation := Some g, cq_flight := Some (length (cy_flights s4))\<rparr> # [],
       cy_flights := cy_flights s4 @ [\<lparr>fl_user = cq_user r, fl_generation = g, fl_stage = FlightStarted\<rparr>]\<rparr>"
  define fl where "fl = \<lparr>fl_user = ?u, fl_generation = g, fl_stage = FlightStarted\<rparr>"
  define s6 where "s6 = s5\<lparr>cy_flights := (cy_flights s5)[0 := fl\<lparr>fl_stage := FlightLoaded (length (cy_told s5)) sample_remaining\<rparr>]\<rparr>"
  define s7 where "s7 = s6\<lparr>cy_flights := (cy_flights s6)[0 := fl\<lparr>fl_stage := FlightDone 1 (Inr sample_remaining)\<rparr>],
       cy_cache := RBACCache_Put True 0 ?u sample_remaining (Some g) (cy_cache s6),
       cy_from := (if rc_generation (cy_cache s6) = g \<and> True then (cy_from s6)(?u := 1) else cy_from s6)\<rparr>"
  define s8 where "s8 = s7\<lparr>cy_requests := [] @ [],
       cy_answers := (r\<lparr>cq_generation := Some g, cq_flight := Some 0\<rparr>, 1, sample_remaining) # cy_answers s7\<rparr>"
  note defs = s0_def s1_def s2_def s3_def s4_def s5_def s6_def s7_def s8_def r_def fl_def cache_start_def new_request_def
  have "cache_run ?L sample_rbac_db sample_cache s0" unfolding s0_def by (rule cache_run.start)
  moreover have "cache_step ?L s0 s1"
    unfolding s1_def by (rule cache_step.commit) (simp add: s0_def cache_start_def sample_announced)
  moreover have "cache_step ?L s1 s2" unfolding s2_def by (rule cache_step.invalidate) (simp add: s1_def s0_def cache_start_def)
  moreover have "cache_read True 0 (rl_uuidString ?L 2) (cy_cache s2) = ReadMiss"
    using u c by (simp add: defs apply_invalidation_def InvalidateRBACUserLocal_def cache_read_def)
  then have "cache_step ?L s2 s3" unfolding s3_def by (intro cache_step.miss [where healthy = True and now = 0 and i = 0]) simp
  moreover have "cache_step ?L s3 s4" unfolding s4_def g_def by (rule cache_step.generation) (simp_all add: defs)
  moreover have "cache_step ?L s4 s5"
    unfolding s5_def using cache_step.lead [of s4 "[]" "r\<lparr>cq_generation := Some g\<rparr>" "[]" g ?L] by (simp add: defs)
  moreover have "cache_step ?L s5 s6"
    unfolding s6_def using u sample_remaining_loaded
    by (intro cache_step.flight_load [where fails = "\<lambda>_. False"]) (simp_all add: defs)
  moreover have "cache_step ?L s6 s7"
  proof -
    let ?fl = "fl\<lparr>fl_stage := FlightLoaded 1 sample_remaining\<rparr>"
    have "s7 = s6\<lparr>cy_flights := (cy_flights s6)[0 := ?fl\<lparr>fl_stage := FlightDone 1 (Inr sample_remaining)\<rparr>],
       cy_cache := RBACCache_Put True 0 (fl_user ?fl) sample_remaining (Some (fl_generation ?fl)) (cy_cache s6),
       cy_from := (if rc_generation (cy_cache s6) = fl_generation ?fl \<and> True
          then (cy_from s6)(fl_user ?fl := 1) else cy_from s6)\<rparr>"
      by (simp add: s7_def fl_def)
    moreover have "cy_flights s6 = [?fl]" using u by (simp add: defs)
    ultimately show ?thesis using cache_step.flight_store [of 0 s6 ?fl 1 sample_remaining ?L True 0] by simp
  qed
  moreover have "cache_step ?L s7 s8"
    unfolding s8_def using u by (intro cache_step.reply [where f = 0]) (simp_all add: defs)
  ultimately have "cache_run ?L sample_rbac_db sample_cache s8" by (meson cache_run.step)
  moreover have "cy_invalidations s8 = 1" using u by (simp add: defs moves_generation_def)
  moreover have "cy_dbs s8 = [sample_rbac_db, sample_revoked_db]" by (simp add: defs)
  moreover have "cy_answers s8 = [(r\<lparr>cq_generation := Some g, cq_flight := Some 0\<rparr>, 1, sample_remaining)]"
    by (simp add: defs)
  moreover have "cq_quiet r" "cq_start r = 1" "cq_user r = ?u" using u by (simp_all add: defs)
  ultimately show ?thesis by (intro exI [of _ s8] exI [of _ "r\<lparr>cq_generation := Some g, cq_flight := Some 0\<rparr>"]) simp
qed

section \<open>Properties of the cache\<close>

text \<open>C9. A request sees every change announced before it started.  In any interleaving of commits,
  invalidations, requests and shared loads, starting with a new cache, a request that starts when no
  announcement for its user is outstanding is answered with bindings loaded from tables at least as
  recent as those current at its start.  In particular a revoked permission is gone, whatever was
  cached or being loaded when it was revoked.  Fewer than \<open>2 ^ 64\<close> announcements have been made, so
  the generation has not wrapped around.\<close>

theorem revocation_is_seen:
  assumes "uuid_lib_ok L" and "cache_run L db (NewRBACCacheWithOptions ttl capacity) s" and "cy_invalidations s < 2 ^ 64"
    and "(r, k, bs) \<in> set (cy_answers s)" and "cq_quiet r"
  shows "\<exists>m fails. cq_start r \<le> m \<and> m < length (cy_dbs s)
    \<and> loadUserBindings L fails (cy_dbs s ! m) (cq_user r) = Inr bs"
proof -
  have ok: "system_ok L s"
    by (rule cache_run_ok [OF assms(2,1) _ _ assms(3)]) (simp_all add: NewRBACCacheWithOptions_def Let_def)
  then have shape: "shape_ok L s" and ans: "answer_ok L s (r, k, bs)" using assms(4) by (auto simp: system_ok_def)
  from ans obtain fails where k: "k \<le> length (cy_told s)" "loadUserBindings L fails (cy_dbs s ! k) (cq_user r) = Inr bs"
    by (auto simp: answer_ok_def loaded_at_def)
  have r: "cq_start r \<le> length (cy_told s)" "named L (cq_user r)" "unchanged s (cq_user r) k (cq_start r)"
    using ans assms(5) by (simp_all add: answer_ok_def)
  have len: "length (cy_dbs s) = Suc (length (cy_told s))" using shape by (simp add: shape_ok_def)
  show ?thesis
  proof (cases "cq_start r \<le> k")
    case True
    with k len show ?thesis by (intro exI [of _ k] exI [of _ fails]) simp
  next
    case False
    then have "loadUserBindings L fails (cy_dbs s ! cq_start r) (cq_user r) = Inr bs"
      using unchanged_load [OF shape r(2,1,3)] k(2) by simp
    with r len show ?thesis by (intro exI [of _ "cq_start r"] exI [of _ fails]) simp
  qed
qed

theorem revocation_is_seen_witness:
  "\<exists>fails. loadUserBindings sample_rbac_lib fails sample_revoked_db (uuid_text 2) = Inr sample_remaining
     \<and> sample_remaining \<noteq> sample_bindings"
proof -
  obtain s r where s: "cache_run sample_rbac_lib sample_rbac_db (NewRBACCacheWithOptions 0 0) s" "cy_invalidations s = 1"
      "cy_dbs s = [sample_rbac_db, sample_revoked_db]" "cy_answers s = [(r, 1, sample_remaining)]"
      "cq_quiet r" "cq_start r = 1" "cq_user r = uuid_text 2"
    using sample_cache_run unfolding sample_cache_def by blast
  have "\<exists>m fails. cq_start r \<le> m \<and> m < length (cy_dbs s)
      \<and> loadUserBindings sample_rbac_lib fails (cy_dbs s ! m) (cq_user r) = Inr sample_remaining"
    by (rule revocation_is_seen [OF sample_rbac_lib_ok s(1) _ _ s(5)]) (simp_all add: s)
  then obtain m fails where m: "1 \<le> m" "m < 2"
      "loadUserBindings sample_rbac_lib fails ([sample_rbac_db, sample_revoked_db] ! m) (uuid_text 2) = Inr sample_remaining"
    using s by auto
  then have "m = 1" by simp
  with m(3) have "loadUserBindings sample_rbac_lib fails sample_revoked_db (uuid_text 2) = Inr sample_remaining" by simp
  moreover have "sample_remaining \<noteq> sample_bindings" by code_simp
  ultimately show ?thesis by blast
qed

text \<open>C10. Every accepted change of roles or bindings tells the cache about every user whose bindings it
  changes: for any other user the bindings load from the new tables exactly as from the old ones.  The
  requests name users by the text the cache uses, and the lookup before a deletion succeeds; the
  source looks up the user of a binding before it deletes the binding, and a lookup that fails leaves
  the cache untold.\<close>

theorem changes_are_announced:
  assumes "rbac_commit L db db' told" and "uuid_lib_ok L" and "rbac_db_ok db" and "binding_ids_ok db"
  shows "told_covers told (rl_uuidString L uid)
    \<or> loadUserBindings L fails db' (rl_uuidString L uid) = loadUserBindings L fails db (rl_uuidString L uid)"
  using rbac_commit_announces [OF assms] unfolding announces_def by blast

theorem changes_are_announced_witness:
  "told_covers (InvalidateUser (uuid_text 2)) (rl_uuidString sample_rbac_lib 2)
    \<or> loadUserBindings sample_rbac_lib (\<lambda>_. False) sample_revoked_db (rl_uuidString sample_rbac_lib 2)
      = loadUserBindings sample_rbac_lib (\<lambda>_. False) sample_rbac_db (rl_uuidString sample_rbac_lib 2)"
  by (rule changes_are_announced [OF sample_commit sample_rbac_lib_ok sample_rbac_db_ok sample_ids_ok])

text \<open>C13. The cache keeps its bounds in every interleaving: the map and the list of recent use hold the
  same users, the running count is the number of bindings held, there are at most as many users as
  the capacity, and at most as many bindings as the limit unless one user alone has more.\<close>

theorem cache_keeps_bounds:
  assumes "cache_run L db (NewRBACCacheWithOptions ttl capacity) s"
  shows "set (rc_lru (cy_cache s)) = fmdom' (rc_entries (cy_cache s)) \<and> distinct (rc_lru (cy_cache s))
    \<and> rc_bindingCount (cy_cache s) = held_bindings (cy_cache s)
    \<and> int (length (rc_lru (cy_cache s))) \<le> rc_capacity (cy_cache s)
    \<and> (rc_maxBindings (cy_cache s) \<le> 0 \<or> held_bindings (cy_cache s) \<le> rc_maxBindings (cy_cache s)
       \<or> length (rc_lru (cy_cache s)) \<le> 1)"
  using cache_run_bounded [OF assms New_bounded] by (auto simp: cache_bounded_def cache_agrees_def over_bound_def)

theorem cache_keeps_bounds_witness:
  "\<exists>(s :: CacheSystem) r. cy_answers s = [(r, 1, sample_remaining)]
     \<and> int (length (rc_lru (cy_cache s))) \<le> rc_capacity (cy_cache s)"
proof -
  obtain s r where s: "cache_run sample_rbac_lib sample_rbac_db (NewRBACCacheWithOptions 0 0) s"
      "cy_answers s = [(r, 1, sample_remaining)]"
    using sample_cache_run unfolding sample_cache_def by blast
  with cache_keeps_bounds [OF s(1)] show ?thesis by blast
qed

end
