(* ===== verification/Spec2Isabelle.thy ===== *)
theory Spec2Isabelle
  imports Rollout_System Rbac_Cache
begin

text \<open>
  A verification library for the delivery control plane and the access control of Astronomer, a
  manager of fleets of Kubernetes clusters written in Go.

  \<^bold>\<open>The program.\<close>  A \<^emph>\<open>bundle version\<close> is an immutable description of software to
  install; a \<^emph>\<open>target\<close> selects clusters by a \<^emph>\<open>placement\<close>; a \<^emph>\<open>rollout\<close> brings a
  bundle version to the selected clusters in \<^emph>\<open>cohorts\<close>.  The planner evaluates the placement,
  forms the cohorts and freezes everything in a plan, which it stores with one row per cluster.
  Workers claim a rollout with a lease and a fence, read its rows, let the scheduler decide on one
  step, and commit the step if nothing has changed.  Operators pause, resume, abort, retry and roll
  back, and approve gates.  Agents in the clusters report what they have deployed; a report moves
  the row of its cluster.  The state is in PostgreSQL, and triggers count the changes a worker has
  to notice in the \<^emph>\<open>runtime generation\<close> of a rollout.

  What a user may do follows from \<^emph>\<open>role bindings\<close>: global, on a cluster or on a project.  Handlers
  create, change and delete roles and bindings, and refuse to grant more than the caller holds.
  Requests are decided by an engine on the bindings of the user, which a cache keeps in memory and
  which the handlers invalidate.

  \<^bold>\<open>The theories and the source.\<close>
  \<^item> \<open>Prelude\<close>: Go's scalars, results, loops, strings and maps, and the lemmas on them.
  \<^item> \<open>Safeconv\<close>: \<open>pkg/safeconv\<close>, saturating conversions between integer types.
  \<^item> \<open>Sha256\<close>: the hash of the standard library, with test vectors of the standard.
  \<^item> \<open>Delivery_State\<close>: \<open>internal/delivery/state/state.go\<close> and the enumerations of
    \<open>internal/delivery/model\<close>: transition tables, fenced transitions, counters.
  \<^item> \<open>Model_Core\<close>, \<open>Model_Overrides\<close>, \<open>Model_Rollout\<close>: \<open>internal/delivery/model\<close>, the
    validators and canonical forms of sources, overrides, placements, strategies and conditions.
  \<^item> \<open>Placement_Eval\<close>: \<open>internal/delivery/placement/placement.go\<close>, the choice of clusters.
  \<^item> \<open>Rollout_Types\<close>, \<open>Cohorts\<close>, \<open>Rollout_Plan\<close>, \<open>Scheduler\<close>: \<open>types.go\<close>,
    \<open>cohorts.go\<close>, \<open>planner.go\<close> and \<open>scheduler.go\<close> of \<open>internal/delivery/rollout\<close>.
  \<^item> \<open>Maintenance\<close>: \<open>internal/maintenance/window.go\<close>, when a window is open.
  \<^item> \<open>Rollout_Db\<close>: the tables as lists of rows, the statements of
    \<open>internal/db/sqlc/delivery.sql.go\<close> as functions on them, the triggers of migration 36, and the
    planner's store \<open>postgres_store.go\<close>.
  \<^item> \<open>Rollout_Control\<close>: \<open>internal/delivery/asyncop/receipt.go\<close> and \<open>control.go\<close>:
    idempotency receipts, actions, approvals.
  \<^item> \<open>Rollout_Reconciler\<close>: \<open>postgres_reconciler.go\<close>, with the worker's cache of runtime rows,
    and the loop over the deployments of a report in \<open>internal/delivery/status/ingester.go\<close>.
  \<^item> \<open>Rollout_System\<close>: all of them on one database, with any interleaving of transactions.
  \<^item> \<open>Rbac_Engine\<close>: \<open>internal/rbac\<close>, rules, bindings, checks and scope collections.
  \<^item> \<open>Rbac_Grants\<close>: the tables of roles and bindings, their loading in
    \<open>internal/server/middleware/rbac_queries.go\<close>, and the guards and handlers of
    \<open>internal/handler/rbac*.go\<close> with the quotas of \<open>internal/quota\<close>.
  \<^item> \<open>Rbac_Cache\<close>: \<open>internal/server/middleware/rbac_cache.go\<close>, with readers and writers that
    interleave.

  \<^bold>\<open>What the lemmas show.\<close>
  \<^item> States: terminal states absorb, a stale fence changes nothing, granted fences increase,
    counters are a census of the rows.
  \<^item> Model: accepted paths stay inside their directory, accepted overrides are bounded, canonical
    forms do not depend on the order of the input.
  \<^item> Placement and cohorts: exactly the clusters the selector describes are chosen, hidden clusters
    leave no trace, the cohorts partition the selection within the configured sizes.
  \<^item> Plan: what the planner stores validates, creation is all or nothing for every failing call,
    a repeated request returns the original plan and another request under its key is refused.
  \<^item> Scheduler: budgets, gates, cohort order and content of the releases, rollback to the frozen
    previous version, legality of every decision, independence of the order of the rows, and that
    a decision that does nothing says what it waits for.
  \<^item> Maintenance: the gate is closed exactly when a window says so; the search for the closing
    time of a window ends.
  \<^item> System: the concurrency limit holds in the database after every commit of a worker; a
    superseded claim never commits; a frozen plan is found again, unchanged, after any run; fences
    never go back; an action runs once per idempotency key; an approval opens only the gate it
    names.  The last property is a limit of the code: a change of availability that the runtime
    generation does not count, which is why the first system property is about concurrency and not
    about \<open>max_unavailable\<close>.
  \<^item> Access control: no handler call lets a caller obtain or hand out a permission they do not hold;
    what the engine answers is what the tables say; collections of clusters, projects and namespaces
    agree with the single checks; a change of a binding or a role is announced to the cache, and a
    revocation is seen by every request that starts after its announcement; the cache keeps its
    bounds.  One property is a limit of the code: the native rules of a project role hold on every
    cluster and namespace.

  \<^bold>\<open>How it is built.\<close>  Code outside the repository is an argument: the record \<open>ext_lib\<close> has the
  functions of third-party packages, \<open>json_lib\<close>, \<open>decision_json\<close>, \<open>store_json\<close> and
  \<open>control_json\<close> the texts X the schedules and time zones.  A failing
  database call is an argument too: \<open>fails\<close> says which calls fail.  The locale \<open>db_relation\<close> of
  \<open>Rollout_System\<close> collects what every statement respects and carries it to every transaction and
  every run; it is interpreted for the uniqueness of keys, for what is never lost, and for the
  meaning of the runtime generation.

  \<^bold>\<open>Bounds and fuel.\<close>  Trimming a string takes as many rounds as it has bytes, since each round
  removes at least one.  The loops over rows, clusters and windows are structural.  The limits of
  the code (10,000 clusters of a rollout, 1,024 cache entries, 16 MiB of a stored plan, 128 bytes
  of a key) are kept as numbers.

  \<^bold>\<open>Not modelled.\<close>
  \<^item> Inside a transaction: a transaction is one step, so the interleavings that the isolation level
    of PostgreSQL permits between the statements of two transactions are not covered, nor is the
    case that a commit reports an error and still takes effect.
  \<^item> The queries that collect a planning snapshot, and the parts of a status report about sessions,
    inventory, the agent's own version and the acknowledgment of snapshots.
  \<^item> Columns no modelled statement reads, metrics, logs and messages of errors.
  \<^item> The resolution of sources, rendering, the agent, the tunnel, routing and the decoding of requests,
    the handlers of other resources, authentication, the other features of the server and the frontend: they work with the network,
    with other services or with tables of their own.
\<close>

end
